(* ===== verification/RVVM_Prelude.thy ===== *)
theory RVVM_Prelude
  imports Main "HOL-Library.Word"
begin

text \<open>
  Shared vocabulary of the RVVM development: the names of the C integer types as word types,
  the fact collections that the component theories extend, and generic lemmas on words, bits
  and function updates that the component proofs use.
\<close>

unbundle bit_operations_syntax

type_synonym u8 = "8 word"
type_synonym u16 = "16 word"
type_synonym u32 = "32 word"
type_synonym u64 = "64 word"
type_synonym u128 = "128 word"

named_theorems bit_ops_bits \<open>what each bit operation does to a single bit\<close>
named_theorems hart_frame \<open>fields an operation leaves alone\<close>
named_theorems hart_defs \<open>definitions of the straight-line hart operations\<close>

section \<open>Bits of words\<close>

lemma word_eq_bits:
  fixes a b :: "'a::len word"
  assumes "\<And>n. n < LENGTH('a) \<Longrightarrow> bit a n \<longleftrightarrow> bit b n"
  shows "a = b"
  using assms by (rule bit_word_eqI)

lemma bit_word_high [simp]: "LENGTH('a) \<le> n \<Longrightarrow> \<not> bit (w :: 'a::len word) n"
  using bit_imp_le_length by force

lemma unat_of_nat_small: "n < 2 ^ LENGTH('a) \<Longrightarrow> unat (of_nat n :: 'a::len word) = n"
  by (simp add: unsigned_of_nat take_bit_nat_eq_self)

lemma unat_ucast_small: "unat w < 2 ^ LENGTH('b) \<Longrightarrow> unat (ucast (w :: 'a::len word) :: 'b::len word) = unat w"
  by (simp add: unsigned_ucast_eq unsigned_take_bit_eq take_bit_nat_eq_self)

end
