(* ===== verification/RVVM_Utils.thy ===== *)
theory RVVM_Utils
  imports RVVM_Prelude "HOL-Library.Sublist"
begin

text \<open>
  String helpers of src/rvvm/src/utils.c: number formatting and parsing, comparison, search and
  bounded copy.  A C string is the list of its characters up to the terminating NUL; the
  destination of a bounded write is given by its size, and the result is the string it holds.
\<close>

section \<open>Numbers\<close>

definition digit_symbol :: "u32 \<Rightarrow> char" where
  "digit_symbol val =
     (if val < 10 then char_of (48 + unat val)
      else if val < 36 then char_of (97 + unat val - 10)
      else CHR ''?'')"

definition digit_value :: "char \<Rightarrow> u32" where
  "digit_value digit =
     (let d = of_char digit :: nat
      in if 48 \<le> d \<and> d \<le> 57 then of_nat (d - 48)
         else if 65 \<le> d \<and> d \<le> 90 then of_nat (d - 65 + 10)
         else if 97 \<le> d \<and> d \<le> 122 then of_nat (d - 97 + 10)
         else - 1)"

text \<open>
  The digit loop of \<open>uint_to_str_base\<close> fills the buffer from the least significant digit; it
  gives up when the buffer has no room for another digit and the terminator.
\<close>

lemma unat_div_base_less: "\<lbrakk>val \<noteq> 0; 2 \<le> base\<rbrakk> \<Longrightarrow> unat (val div base) < unat (val :: u64)"
  by (simp add: unat_div word_le_nat_alt unat_gt_0)

function uint_to_str_loop :: "nat \<Rightarrow> u64 \<Rightarrow> u64 \<Rightarrow> string \<Rightarrow> string option" where
  "uint_to_str_loop sz base val str =
     (if length str + 1 \<ge> sz then None
      else (let str = str @ [digit_symbol (ucast (val mod base))]; val = val div base
            in if val \<noteq> 0 \<and> 2 \<le> base then uint_to_str_loop sz base val str else Some str))"
  by pat_completeness auto
termination
proof (relation "measure (\<lambda>(sz, base, val, str). unat val)", goal_cases)
  case 1 show ?case by simp
next
  case (2 sz base val str x xa)
  then have "val \<noteq> 0" "2 \<le> base" by auto
  then show ?case using 2 unat_div_base_less by simp
qed

declare uint_to_str_loop.simps [simp del]

definition uint_to_str_base :: "nat \<Rightarrow> u64 \<Rightarrow> u8 \<Rightarrow> string \<times> nat" where
  "uint_to_str_base sz val base =
     (if 2 \<le> base \<and> base \<le> 36
      then (case uint_to_str_loop sz (ucast base) val [] of
              None \<Rightarrow> ([], 0)
            | Some str \<Rightarrow> (rev str, length str))
      else ([], 0))"

text \<open>The digit loop of \<open>str_to_uint_base\<close>: the value and the number of digits read.\<close>

primrec str_to_uint_loop :: "u32 \<Rightarrow> string \<Rightarrow> u64 \<Rightarrow> nat \<Rightarrow> u64 \<times> nat" where
  "str_to_uint_loop base [] val n = (val, n)"
| "str_to_uint_loop base (c # cs) val n =
     (if digit_value c < base
      then str_to_uint_loop base cs (val * ucast base + ucast (digit_value c)) (Suc n)
      else (val, n))"

definition str_head :: "string \<Rightarrow> char" where
  "str_head s = (case s of [] \<Rightarrow> char_of (0 :: nat) | c # _ \<Rightarrow> c)"

definition str_to_uint_base :: "string \<Rightarrow> u8 \<Rightarrow> u64 \<times> nat" where
  "str_to_uint_base str base0 =
     (let (base, skip) =
        (if base0 = 0 then
           if str_head str = CHR ''0'' then
             (let c = str_head (tl str)
              in if c = CHR ''o'' \<or> c = CHR ''O'' then (8, 2)
                 else if c = CHR ''x'' \<or> c = CHR ''X'' then (16, 2)
                 else if c = CHR ''b'' \<or> c = CHR ''B'' then (2, 2)
                 else (8, 0))
           else (10, 0)
         else (base0, 0 :: nat))
      in if 2 \<le> base \<and> base \<le> 36 then
           (let (val, n) = str_to_uint_loop (ucast base) (drop skip str) 0 0
            in (val, if n = 0 then 0 else skip + n))
         else (0, 0))"

definition int_to_str_base :: "nat \<Rightarrow> u64 \<Rightarrow> u8 \<Rightarrow> string \<times> nat" where
  "int_to_str_base sz val base =
     (let sign = (if val <s 0 then 1 else 0);
          usize = (if sz \<noteq> 0 then sz - sign else 0);
          (str, len) = uint_to_str_base usize (if sign \<noteq> 0 then - val else val) base
      in (if sign \<noteq> 0 then (if usize \<noteq> 0 then CHR ''-'' # str else []) else str, len + sign))"

definition str_to_int_base :: "string \<Rightarrow> u8 \<Rightarrow> u64 \<times> nat" where
  "str_to_int_base str base =
     (let neg = (str_head str = CHR ''-'');
          (val, len) = str_to_uint_base (if neg then tl str else str) base
      in (if neg then - val else val, if neg \<and> len \<noteq> 0 then len + 1 else len))"

section \<open>Comparison, search, copy\<close>

fun rvvm_strcmp :: "string \<Rightarrow> string \<Rightarrow> bool" where
  "rvvm_strcmp (a # s1) (b # s2) = (if a = b then rvvm_strcmp s1 s2 else False)"
| "rvvm_strcmp s1 s2 = (s1 = s2)"

fun str_match :: "string \<Rightarrow> string \<Rightarrow> bool" where
  "str_match (t # tmp) (p # pat) = (if t = p then str_match tmp pat else False)"
| "str_match tmp pat = (pat = [])"

primrec rvvm_strfind :: "string \<Rightarrow> string \<Rightarrow> string option" where
  "rvvm_strfind [] pattern = None"
| "rvvm_strfind (c # string) pattern =
     (if str_match (c # string) pattern then Some (c # string) else rvvm_strfind string pattern)"

definition rvvm_strlcpy :: "string \<Rightarrow> nat \<Rightarrow> string" where
  "rvvm_strlcpy src sz = take (sz - 1) src"

section \<open>Correctness\<close>

lemma str_match_prefix: "str_match s p \<longleftrightarrow> prefix p s"
  by (induction s p rule: str_match.induct) auto

lemma rvvm_strcmp_eq: "rvvm_strcmp s1 s2 \<longleftrightarrow> s1 = s2"
  by (induction s1 s2 rule: rvvm_strcmp.induct) auto

lemma digit_value_symbol:
  assumes "d < 36" shows "digit_value (digit_symbol d) = d"
proof -
  have "unat d < 36" using assms by (simp add: word_less_nat_alt)
  then have d: "d = of_nat (unat d)" "unat d < 36" by simp_all
  show ?thesis
  proof (cases "d < 10")
    case True
    then have "unat d < 10" by (simp add: word_less_nat_alt)
    with True show ?thesis by (simp add: digit_symbol_def digit_value_def)
  next
    case False
    then have "\<not> unat d < 10" by (simp add: word_less_nat_alt)
    with False assms d show ?thesis
      by (simp add: digit_symbol_def digit_value_def del: word_unat_eq_iff)
  qed
qed

lemma mod_base_digit:
  assumes "2 \<le> b" "b \<le> (36 :: u64)"
  shows "digit_value (digit_symbol (ucast (v mod b))) = ucast (v mod b)" (is ?A)
    and "(ucast (v mod b) :: u32) < ucast b" (is ?B)
    and "ucast (ucast (v mod b) :: u32) = v mod b" (is ?C)
    and "ucast (ucast b :: u32) = b" (is ?D)
proof -
  have b: "2 \<le> unat b" "unat b \<le> 36" using assms by (simp_all add: word_le_nat_alt)
  then have m: "unat (v mod b) < unat b" by (simp add: unat_mod)
  have "unat (v mod b) < 2 ^ LENGTH(32)" "unat b < 2 ^ LENGTH(32)" using m b by simp_all
  then have u: "unat (ucast (v mod b) :: u32) = unat (v mod b)" "unat (ucast b :: u32) = unat b"
    by (simp_all only: unat_ucast_small)
  have "(ucast (v mod b) :: u32) < 36" using u m b by (simp add: word_less_nat_alt)
  then show ?A by (rule digit_value_symbol)
  show ?B using u m by (simp add: word_less_nat_alt)
  have "unat (ucast (v mod b) :: u32) < 2 ^ LENGTH(64)" "unat (ucast b :: u32) < 2 ^ LENGTH(64)"
    using u m b by simp_all
  then show ?C ?D using u by (simp_all only: word_unat_eq_iff unat_ucast_small)
qed

lemma str_to_uint_loop_digit:
  assumes "2 \<le> b" "b \<le> (36 :: u64)"
  shows "str_to_uint_loop (ucast b) (digit_symbol (ucast (v mod b)) # rest) acc n =
    str_to_uint_loop (ucast b) rest (acc * b + v mod b) (Suc n)"
  by (simp only: str_to_uint_loop.simps mod_base_digit [OF assms] if_True)

lemma str_to_uint_loop_digits:
  "\<lbrakk>uint_to_str_loop sz b val str = Some out; 2 \<le> b; b \<le> 36\<rbrakk> \<Longrightarrow>
    \<exists>ds. out = str @ ds \<and> ds \<noteq> [] \<and> (\<forall>rest acc n.
      str_to_uint_loop (ucast b) (rev ds @ rest) acc n =
      str_to_uint_loop (ucast b) rest (acc * b ^ length ds + val) (n + length ds))"
proof (induction sz b val str rule: uint_to_str_loop.induct)
  case (1 sz b val str)
  let ?d = "digit_symbol (ucast (val mod b))"
  note digit = str_to_uint_loop_digit [OF 1(3) 1(4)]
  have room: "\<not> sz \<le> length str + 1" using 1(2) by (subst (asm) uint_to_str_loop.simps) (auto split: if_splits)
  show ?case
  proof (cases "val div b = 0")
    case True
    then have "out = str @ [?d]" using 1(2) room by (subst (asm) uint_to_str_loop.simps) auto
    moreover have "val mod b = val" using True div_mult_mod_eq [of val b] by simp
    ultimately show ?thesis using digit [of val] by (intro exI [of _ "[?d]"]) simp
  next
    case False
    then have rec: "uint_to_str_loop sz b (val div b) (str @ [?d]) = Some out"
      using 1(2) 1(3) room by (subst (asm) uint_to_str_loop.simps) auto
    have "\<exists>ds. out = (str @ [?d]) @ ds \<and> ds \<noteq> [] \<and> (\<forall>rest acc n.
      str_to_uint_loop (ucast b) (rev ds @ rest) acc n =
      str_to_uint_loop (ucast b) rest (acc * b ^ length ds + val div b) (n + length ds))"
      by (rule 1(1)) (use room False 1(3,4) rec in auto)
    then obtain ds where ds: "out = str @ ?d # ds"
      "\<And>rest acc n. str_to_uint_loop (ucast b) (rev ds @ rest) acc n =
         str_to_uint_loop (ucast b) rest (acc * b ^ length ds + val div b) (n + length ds)"
      by auto
    have "(acc * b ^ length ds + val div b) * b + val mod b = acc * b ^ length (?d # ds) + val" for acc
      using div_mult_mod_eq [of val b] by (simp add: algebra_simps)
    with ds digit [of val] show ?thesis by (intro exI [of _ "?d # ds"]) simp
  qed
qed

lemma str_to_uint_to_str_room:
  assumes "uint_to_str_base sz val base = (str, len)" "len \<noteq> 0"
  shows "str_to_uint_base str base = (val, len)"
proof -
  let ?b = "ucast base :: u64"
  have base: "2 \<le> base" "base \<le> 36" using assms by (auto simp: uint_to_str_base_def split: if_splits)
  then have n: "2 \<le> unat base" "unat base \<le> 36" by (simp_all add: word_le_nat_alt)
  then have "unat base < 2 ^ LENGTH(64)" by simp
  then have "unat ?b = unat base" by (rule unat_ucast_small)
  then have b: "2 \<le> ?b" "?b \<le> 36" using n by (simp_all add: word_le_nat_alt)
  obtain out where out: "uint_to_str_loop sz ?b val [] = Some out" "str = rev out" "len = length out"
    using assms base by (auto simp: uint_to_str_base_def split: option.splits)
  then obtain ds where ds: "out = ds" "\<And>rest acc n. str_to_uint_loop (ucast ?b) (rev ds @ rest) acc n =
      str_to_uint_loop (ucast ?b) rest (acc * ?b ^ length ds + val) (n + length ds)"
    using str_to_uint_loop_digits [OF out(1) b] by auto
  have "ucast ?b = (ucast base :: u32)" by (rule bit_word_eqI) (auto simp: bit_ucast_iff)
  then have "str_to_uint_loop (ucast base) str 0 0 = (val, len)" using ds(2) [of "[]"] ds(1) out by simp
  moreover have "base \<noteq> 0" using base by auto
  ultimately show ?thesis using base assms(2) by (simp add: str_to_uint_base_def)
qed

lemma uint_to_str_loop_room:
  "\<lbrakk>unat val < 2 ^ k; 2 \<le> b; b \<le> 36; length str + max 1 k + 1 \<le> sz\<rbrakk> \<Longrightarrow> uint_to_str_loop sz b val str \<noteq> None"
proof (induction k arbitrary: val str)
  case 0
  then have "val div b = 0" by (simp add: unat_eq_0)
  then show ?case using 0 by (subst uint_to_str_loop.simps) auto
next
  case (Suc k)
  have b: "2 \<le> unat b" using Suc.prems by (simp add: word_le_nat_alt)
  have "unat (val div b) \<le> unat val div 2" using b by (simp add: unat_div div_le_mono2)
  also have "\<dots> < 2 ^ k" using Suc.prems(1) by simp
  finally have less: "unat (val div b) < 2 ^ k" .
  show ?case
  proof (cases "val div b = 0")
    case True then show ?thesis using Suc.prems by (subst uint_to_str_loop.simps) auto
  next
    case False
    then have "k \<noteq> 0" using less by (intro notI) (simp add: unat_eq_0)
    then have "uint_to_str_loop sz b (val div b) (str @ [digit_symbol (ucast (val mod b))]) \<noteq> None"
      using Suc.prems less by (intro Suc.IH) auto
    then show ?thesis using False Suc.prems by (subst uint_to_str_loop.simps) auto
  qed
qed

lemma uint_to_str_base_room:
  assumes "2 \<le> base" "base \<le> 36" "66 \<le> sz"
  shows "snd (uint_to_str_base sz val base) \<noteq> 0"
proof -
  let ?b = "ucast base :: u64"
  have n: "2 \<le> unat base" "unat base \<le> 36" using assms by (simp_all add: word_le_nat_alt)
  then have "unat base < 2 ^ LENGTH(64)" by simp
  then have "unat ?b = unat base" by (rule unat_ucast_small)
  then have b: "2 \<le> ?b" "?b \<le> 36" using n by (simp_all add: word_le_nat_alt)
  have "unat val < 2 ^ 64" using unsigned_less [of val] by simp
  then have "uint_to_str_loop sz ?b val [] \<noteq> None" using b assms by (intro uint_to_str_loop_room [where k = 64]) auto
  then obtain out where out: "uint_to_str_loop sz ?b val [] = Some out" by auto
  then have "out \<noteq> []" using str_to_uint_loop_digits [OF out b] by auto
  then show ?thesis using assms out by (simp add: uint_to_str_base_def)
qed

theorem uint_str_round_trip:
  assumes "2 \<le> base" "base \<le> 36" "66 \<le> sz"
  shows "str_to_uint_base (fst (uint_to_str_base sz val base)) base = (val, snd (uint_to_str_base sz val base))"
  using str_to_uint_to_str_room [of sz val base] uint_to_str_base_room [OF assms]
  by (metis prod.collapse)

theorem rvvm_strfind_first:
  "rvvm_strfind s p = Some t \<longleftrightarrow>
     (\<exists>pre. s = pre @ t \<and> t \<noteq> [] \<and> prefix p t \<and> (\<forall>q r. s = q @ r \<and> length q < length pre \<longrightarrow> \<not> prefix p r))"
proof (induction s)
  case (Cons c s)
  show ?case
  proof (cases "prefix p (c # s)")
    case True
    have "(\<exists>pre. c # s = pre @ t \<and> t \<noteq> [] \<and> prefix p t \<and>
        (\<forall>q r. c # s = q @ r \<and> length q < length pre \<longrightarrow> \<not> prefix p r)) \<longleftrightarrow> t = c # s" (is "?L \<longleftrightarrow> _")
    proof
      assume ?L
      then obtain pre where pre: "c # s = pre @ t"
        "\<forall>q r. c # s = q @ r \<and> length q < length pre \<longrightarrow> \<not> prefix p r" by blast
      then have "pre = []" using True by (metis append_Nil length_greater_0_conv list.size(3))
      then show "t = c # s" using pre by simp
    qed (use True in auto)
    then show ?thesis using True by (auto simp: str_match_prefix)
  next
    case False
    have step: "(\<forall>q r. c # s = q @ r \<and> length q < length (d # pre) \<longrightarrow> \<not> prefix p r) \<longleftrightarrow>
        (\<forall>q r. s = q @ r \<and> length q < length pre \<longrightarrow> \<not> prefix p r)" for d pre
    proof
      assume *: "\<forall>q r. c # s = q @ r \<and> length q < length (d # pre) \<longrightarrow> \<not> prefix p r"
      show "\<forall>q r. s = q @ r \<and> length q < length pre \<longrightarrow> \<not> prefix p r"
        using * by (metis append_Cons length_Cons Suc_less_eq)
    next
      assume *: "\<forall>q r. s = q @ r \<and> length q < length pre \<longrightarrow> \<not> prefix p r"
      show "\<forall>q r. c # s = q @ r \<and> length q < length (d # pre) \<longrightarrow> \<not> prefix p r"
      proof (intro allI impI)
        fix q r assume q: "c # s = q @ r \<and> length q < length (d # pre)"
        then show "\<not> prefix p r" using * False by (cases q) auto
      qed
    qed
    have "(\<exists>pre. c # s = pre @ t \<and> t \<noteq> [] \<and> prefix p t \<and> (\<forall>q r. c # s = q @ r \<and> length q < length pre \<longrightarrow> \<not> prefix p r))
       \<longleftrightarrow> (\<exists>pre. s = pre @ t \<and> t \<noteq> [] \<and> prefix p t \<and> (\<forall>q r. s = q @ r \<and> length q < length pre \<longrightarrow> \<not> prefix p r))" (is "?L \<longleftrightarrow> ?R")
    proof
      assume ?L
      then obtain pre where pre: "c # s = pre @ t" "t \<noteq> []" "prefix p t"
        "\<forall>q r. c # s = q @ r \<and> length q < length pre \<longrightarrow> \<not> prefix p r" by blast
      then obtain pre' where "pre = c # pre'" using False by (cases pre) auto
      with pre(4) have "\<forall>q r. s = q @ r \<and> length q < length pre' \<longrightarrow> \<not> prefix p r"
        by (simp only: step)
      with pre \<open>pre = c # pre'\<close> show ?R by (intro exI [of _ pre']) simp
    next
      assume ?R
      then obtain pre where "s = pre @ t" "t \<noteq> []" "prefix p t"
        "\<forall>q r. s = q @ r \<and> length q < length pre \<longrightarrow> \<not> prefix p r" by blast
      with step [of c pre] show ?L by (intro exI [of _ "c # pre"]) simp
    qed
    then show ?thesis using False Cons by (simp add: str_match_prefix)
  qed
qed auto

end
