(* ===== verification/RVVM_Bit_Ops.thy ===== *)
theory RVVM_Bit_Ops
  imports RVVM_Prelude
begin

text \<open>
  Bit operations of src/rvvm/src/bit_ops.h: field extraction and replacement, rotations,
  leading and trailing zero counts, population count, byte and bit permutations, carry-less
  multiplication and the high halves of 64-bit products.

  Shift distances and field positions are natural numbers: the code only calls these helpers
  with distances below the width, where the C shift is defined.  Where the header offers a
  compiler builtin and a portable fallback, the builtin is modelled by the documented meaning
  of the builtin and the fallback is a definition of its own (suffix \<open>_sw\<close>), so that their
  agreement, or disagreement, is a theorem.
\<close>

section \<open>Fields\<close>

definition bit_ext_u32 :: "u32 \<Rightarrow> nat \<Rightarrow> nat \<Rightarrow> u32" where
  "bit_ext_u32 val pos bits = drop_bit (32 - bits) (push_bit (32 - bits - pos) val)"

definition bit_ext_i32 :: "u32 \<Rightarrow> nat \<Rightarrow> nat \<Rightarrow> u32" where
  "bit_ext_i32 val pos bits = signed_drop_bit (32 - bits) (push_bit (32 - bits - pos) val)"

definition bit_ext_u64 :: "u64 \<Rightarrow> nat \<Rightarrow> nat \<Rightarrow> u64" where
  "bit_ext_u64 val pos bits = drop_bit (64 - bits) (push_bit (64 - bits - pos) val)"

definition bit_ext_i64 :: "u64 \<Rightarrow> nat \<Rightarrow> nat \<Rightarrow> u64" where
  "bit_ext_i64 val pos bits = signed_drop_bit (64 - bits) (push_bit (64 - bits - pos) val)"

definition sign_extend :: "u64 \<Rightarrow> nat \<Rightarrow> u64" where
  "sign_extend val bits = bit_ext_i64 val 0 bits"

definition bit_mask :: "nat \<Rightarrow> u64" where
  "bit_mask count = push_bit count 1 - 1"

definition bit_cut :: "u64 \<Rightarrow> nat \<Rightarrow> nat \<Rightarrow> u64" where
  "bit_cut val pos bits = bit_ext_u64 val pos bits"

definition bit_replace :: "u64 \<Rightarrow> nat \<Rightarrow> nat \<Rightarrow> u64 \<Rightarrow> u64" where
  "bit_replace val pos bits rep =
     (val AND NOT (push_bit pos (bit_mask bits))) OR push_bit pos (rep AND bit_mask bits)"

definition bit_check :: "u64 \<Rightarrow> nat \<Rightarrow> bool" where
  "bit_check val pos \<longleftrightarrow> drop_bit pos val AND 1 \<noteq> 0"

definition bit_set32 :: "u32 \<Rightarrow> u32" where
  "bit_set32 pos = push_bit (unat (pos AND 0x1F)) 1"

definition bit_set64 :: "u32 \<Rightarrow> u64" where
  "bit_set64 pos = push_bit (unat (pos AND 0x3F)) 1"

section \<open>Rotations\<close>

definition bit_rotl32 :: "u32 \<Rightarrow> u32 \<Rightarrow> u32" where
  "bit_rotl32 val bits =
     push_bit (unat (bits AND 0x1F)) val OR drop_bit (unat ((32 - bits) AND 0x1F)) val"

definition bit_rotl64 :: "u64 \<Rightarrow> u32 \<Rightarrow> u64" where
  "bit_rotl64 val bits =
     push_bit (unat (bits AND 0x3F)) val OR drop_bit (unat ((64 - bits) AND 0x3F)) val"

definition bit_rotr32 :: "u32 \<Rightarrow> u32 \<Rightarrow> u32" where
  "bit_rotr32 val bits =
     drop_bit (unat (bits AND 0x1F)) val OR push_bit (unat ((32 - bits) AND 0x1F)) val"

definition bit_rotr64 :: "u64 \<Rightarrow> u32 \<Rightarrow> u64" where
  "bit_rotr64 val bits =
     drop_bit (unat (bits AND 0x3F)) val OR push_bit (unat ((64 - bits) AND 0x3F)) val"

section \<open>Counting zeroes and ones\<close>

text \<open>
  The documented meaning of the GCC builtins: \<open>builtin_clz\<close> counts leading zero bits,
  \<open>builtin_ctz\<close> trailing ones, \<open>builtin_popcount\<close> set bits.
\<close>

definition builtin_clz :: "'a::len word \<Rightarrow> nat" where
  "builtin_clz w = length (takeWhile Not (rev (map (bit w) [0..<LENGTH('a)])))"

definition builtin_ctz :: "'a::len word \<Rightarrow> nat" where
  "builtin_ctz w = length (takeWhile Not (map (bit w) [0..<LENGTH('a)]))"

definition builtin_popcount :: "'a::len word \<Rightarrow> nat" where
  "builtin_popcount w = length (filter (bit w) [0..<LENGTH('a)])"

definition bit_clz32 :: "u32 \<Rightarrow> u32" where
  "bit_clz32 val = (if val \<noteq> 0 then of_nat (builtin_clz val) else 32)"

definition bit_clz64 :: "u64 \<Rightarrow> u32" where
  "bit_clz64 val = (if val \<noteq> 0 then of_nat (builtin_clz val) else 64)"

definition bit_ctz32 :: "u32 \<Rightarrow> u32" where
  "bit_ctz32 val = (if val \<noteq> 0 then of_nat (builtin_ctz val) else 32)"

definition bit_ctz64 :: "u64 \<Rightarrow> u32" where
  "bit_ctz64 val = (if val \<noteq> 0 then of_nat (builtin_ctz val) else 64)"

definition bit_bsr32 :: "u32 \<Rightarrow> u32" where
  "bit_bsr32 val = (if val \<noteq> 0 then 31 XOR of_nat (builtin_clz val) else 32)"

definition bit_bsr64 :: "u64 \<Rightarrow> u32" where
  "bit_bsr64 val = (if val \<noteq> 0 then 63 XOR of_nat (builtin_clz val) else 64)"

definition bit_popcnt32 :: "u32 \<Rightarrow> u32" where
  "bit_popcnt32 val = of_nat (builtin_popcount val)"

definition bit_popcnt64 :: "u64 \<Rightarrow> u32" where
  "bit_popcnt64 val = of_nat (builtin_popcount val)"

text \<open>The portable fallbacks, through de Bruijn multiplication and a lookup table.\<close>

definition clz32_lut :: "nat list" where
  "clz32_lut =
     [0, 31, 4,  30, 3,  18, 8,  29, 2, 10, 12, 17, 7,  15, 28, 24,
      1, 5,  19, 9,  11, 13, 16, 25, 6, 20, 14, 26, 21, 27, 22, 23]"

definition ctz32_lut :: "nat list" where
  "ctz32_lut =
     [0,  1,  28, 2,  29, 14, 24, 3, 30, 22, 20, 15, 25, 17, 4,  8,
      31, 27, 13, 23, 21, 19, 16, 7, 26, 12, 18, 6,  11, 5,  10, 9]"

definition bit_smear32 :: "u32 \<Rightarrow> u32" where
  "bit_smear32 val0 =
     (let val = val0 OR drop_bit 1 val0;
          val = val OR drop_bit 2 val;
          val = val OR drop_bit 4 val;
          val = val OR drop_bit 8 val
      in val OR drop_bit 16 val)"

definition bit_clz32_sw :: "u32 \<Rightarrow> u32" where
  "bit_clz32_sw val =
     (if val \<noteq> 0
      then of_nat (clz32_lut ! unat (drop_bit 27 ((bit_smear32 val + 1) * 0x077CB531)))
      else 32)"

definition bit_clz64_sw :: "u64 \<Rightarrow> u32" where
  "bit_clz64_sw val =
     (if val \<noteq> 0
      then (if drop_bit 32 val \<noteq> 0 then bit_clz32_sw (ucast (drop_bit 32 val))
            else 32 + bit_clz32_sw (ucast val))
      else 64)"

definition bit_ctz32_sw :: "u32 \<Rightarrow> u32" where
  "bit_ctz32_sw val =
     (if val \<noteq> 0
      then of_nat (ctz32_lut ! unat (drop_bit 27 ((val AND (- val)) * 0x077CB531)))
      else 32)"

definition bit_ctz64_sw :: "u64 \<Rightarrow> u32" where
  "bit_ctz64_sw val =
     (if val \<noteq> 0
      then (let tmp = (if (ucast val :: u32) = 0 then 32 else 0 :: u32)
            in bit_ctz32_sw (ucast (drop_bit (unat tmp) val)) + tmp)
      else 64)"

definition bit_popcnt32_sw :: "u32 \<Rightarrow> u32" where
  "bit_popcnt32_sw val0 =
     (let val = val0 - (drop_bit 1 val0 AND 0x55555555);
          val = (val AND 0x33333333) + (drop_bit 2 val AND 0x33333333);
          val = (val + drop_bit 4 val) AND 0x0F0F0F0F;
          val = val + drop_bit 8 val
      in (val + drop_bit 16 val) AND 0x3F)"

definition bit_popcnt64_sw :: "u64 \<Rightarrow> u32" where
  "bit_popcnt64_sw val = bit_popcnt32_sw (ucast val) + bit_popcnt32_sw (ucast (drop_bit 32 val))"

text \<open>
  \<open>bit_next_pow2\<close> on a 64-bit host with a count-leading-zeroes builtin, and its portable
  fallback.
\<close>

definition bit_next_pow2 :: "u64 \<Rightarrow> u64" where
  "bit_next_pow2 val =
     (if val AND (val - 1) = 0 then val else push_bit (unat (bit_bsr64 val)) 1)"

definition bit_next_pow2_sw :: "u64 \<Rightarrow> u64" where
  "bit_next_pow2_sw val0 =
     (if val0 AND (val0 - 1) = 0 then val0
      else (let val = val0 - 1;
                val = val OR drop_bit 1 val;
                val = val OR drop_bit 2 val;
                val = val OR drop_bit 4 val;
                val = val OR drop_bit 8 val;
                val = val OR drop_bit 16 val;
                val = val OR drop_bit 32 val
            in val + 1))"

section \<open>Byte and bit permutations\<close>

definition bit_orc_b :: "u64 \<Rightarrow> u64" where
  "bit_orc_b val0 =
     (let bytes_hi = 0x8080808080808080; bytes_lo = 0x0101010101010101;
          val = (((val0 OR bytes_hi) - bytes_lo) OR val0) AND bytes_hi;
          val = drop_bit 7 val
      in push_bit 8 val - val)"

definition bit_brev8 :: "u64 \<Rightarrow> u64" where
  "bit_brev8 val0 =
     (let val = (drop_bit 1 val0 AND 0x5555555555555555) OR push_bit 1 (val0 AND 0x5555555555555555);
          val = (drop_bit 2 val AND 0x3333333333333333) OR push_bit 2 (val AND 0x3333333333333333)
      in (drop_bit 4 val AND 0x0F0F0F0F0F0F0F0F) OR push_bit 4 (val AND 0x0F0F0F0F0F0F0F0F))"

definition bit_interlace16 :: "u32 \<Rightarrow> u32" where
  "bit_interlace16 val0 =
     (let val = val0 AND 0xFFFF;
          val = (val OR push_bit 8 val) AND 0x00FF00FF;
          val = (val OR push_bit 4 val) AND 0x0F0F0F0F;
          val = (val OR push_bit 2 val) AND 0x33333333
      in (val OR push_bit 1 val) AND 0x55555555)"

definition bit_deinterlace16 :: "u32 \<Rightarrow> u32" where
  "bit_deinterlace16 val0 =
     (let val = val0 AND 0x55555555;
          val = (val OR drop_bit 1 val) AND 0x33333333;
          val = (val OR drop_bit 2 val) AND 0x0F0F0F0F;
          val = (val OR drop_bit 4 val) AND 0x00FF00FF
      in (val OR drop_bit 8 val) AND 0xFFFF)"

definition bit_zip32 :: "u32 \<Rightarrow> u32" where
  "bit_zip32 val = bit_interlace16 val OR push_bit 1 (bit_interlace16 (drop_bit 16 val))"

definition bit_unzip32 :: "u32 \<Rightarrow> u32" where
  "bit_unzip32 val = bit_deinterlace16 val OR push_bit 16 (bit_deinterlace16 (drop_bit 1 val))"

definition byteswap_uint32 :: "u32 \<Rightarrow> u32" where
  "byteswap_uint32 val0 =
     (let val = (drop_bit 8 val0 AND 0x00FF00FF) OR push_bit 8 (val0 AND 0x00FF00FF)
      in drop_bit 16 val OR push_bit 16 val)"

definition byteswap_uint64 :: "u64 \<Rightarrow> u64" where
  "byteswap_uint64 val0 =
     (let val = (drop_bit 8 val0 AND 0x00FF00FF00FF00FF) OR push_bit 8 (val0 AND 0x00FF00FF00FF00FF);
          val = (drop_bit 16 val AND 0x0000FFFF0000FFFF) OR push_bit 16 (val AND 0x0000FFFF0000FFFF)
      in drop_bit 32 val OR push_bit 32 val)"

section \<open>Carry-less multiplication\<close>

text \<open>
  The 32-bit and 64-bit routines have the same body, so each loop is one definition over the
  word length.  The loops of \<open>bit_clmul*\<close> stop when the shifted multiplicand has no bits left,
  the others when the multiplier is zero.
\<close>


lemma bit_push_bit_word: "bit (push_bit k (w :: 'a::len word)) n \<longleftrightarrow> n < LENGTH('a) \<and> k \<le> n \<and> bit w (n - k)"
  by (auto simp: bit_simps)

lemma word_reverse_push_bit: "word_reverse (push_bit k a) = drop_bit k (word_reverse (a :: 'a::len word))"
  by (rule bit_word_eqI)
     (auto simp: bit_word_reverse_iff bit_push_bit_word bit_drop_bit_eq add.commute)

lemma word_reverse_eq_0_iff [simp]: "word_reverse a = 0 \<longleftrightarrow> a = (0 :: 'a::len word)"
proof -
  have "word_reverse (0 :: 'a word) = 0"
    by (rule bit_word_eqI) (simp add: bit_word_reverse_iff)
  then show ?thesis by (metis word_rev_rev)
qed

lemma unat_drop_bit_1_less: "w \<noteq> 0 \<Longrightarrow> unat (drop_bit (Suc 0) w) < unat (w :: 'a::len word)"
  by (simp add: drop_bit_Suc unat_div unat_gt_0)

function clmul_loop :: "'a::len word \<Rightarrow> 'a word \<Rightarrow> 'a word \<Rightarrow> 'a word" where
  "clmul_loop ret a b =
     (let ret = (if b AND 1 \<noteq> 0 then ret XOR a else ret);
          b = drop_bit 1 b;
          a = push_bit 1 a
      in if a \<noteq> 0 then clmul_loop ret a b else ret)"
  by pat_completeness auto
termination
proof (relation "measure (\<lambda>(ret, a, b). unat (word_reverse a))", goal_cases)
  case 1 show ?case by simp
next
  case (2 ret a b x xa xb)
  then have "a \<noteq> 0" by auto
  then show ?case using 2
    by (simp only: in_measure prod.case word_reverse_push_bit) (simp add: unat_drop_bit_1_less)
qed

definition bit_clmul32 :: "u32 \<Rightarrow> u32 \<Rightarrow> u32" where
  "bit_clmul32 a b = clmul_loop 0 a b"

definition bit_clmul64 :: "u64 \<Rightarrow> u64 \<Rightarrow> u64" where
  "bit_clmul64 a b = clmul_loop 0 a b"

function clmulh_loop :: "'a::len word \<Rightarrow> u32 \<Rightarrow> 'a word \<Rightarrow> 'a word \<Rightarrow> 'a word" where
  "clmulh_loop ret i a b =
     (let b = drop_bit 1 b;
          ret = (if b AND 1 \<noteq> 0 then ret XOR drop_bit (unat i) a else ret);
          i = i - 1
      in if b \<noteq> 0 then clmulh_loop ret i a b else ret)"
  by pat_completeness auto
termination
proof (relation "measure (\<lambda>(ret, i, a, b). unat b)", goal_cases)
  case 1 show ?case by simp
next
  case (2 ret i a b x xa xb)
  then have "b \<noteq> 0" by auto
  then show ?case using 2 by (simp add: unat_drop_bit_1_less)
qed

definition bit_clmulh32 :: "u32 \<Rightarrow> u32 \<Rightarrow> u32" where
  "bit_clmulh32 a b = clmulh_loop 0 31 a b"

definition bit_clmulh64 :: "u64 \<Rightarrow> u64 \<Rightarrow> u64" where
  "bit_clmulh64 a b = clmulh_loop 0 63 a b"

function clmulr_loop :: "'a::len word \<Rightarrow> u32 \<Rightarrow> 'a word \<Rightarrow> 'a word \<Rightarrow> 'a word" where
  "clmulr_loop ret i a b =
     (let ret = (if b AND 1 \<noteq> 0 then ret XOR drop_bit (unat i) a else ret);
          b = drop_bit 1 b;
          i = i - 1
      in if b \<noteq> 0 then clmulr_loop ret i a b else ret)"
  by pat_completeness auto
termination
proof (relation "measure (\<lambda>(ret, i, a, b). unat b)", goal_cases)
  case 1 show ?case by simp
next
  case (2 ret i a b x xa xb)
  then have "b \<noteq> 0" by auto
  then show ?case using 2 by (simp add: unat_drop_bit_1_less)
qed

definition bit_clmulr32 :: "u32 \<Rightarrow> u32 \<Rightarrow> u32" where
  "bit_clmulr32 a b = clmulr_loop 0 31 a b"

definition bit_clmulr64 :: "u64 \<Rightarrow> u64 \<Rightarrow> u64" where
  "bit_clmulr64 a b = clmulr_loop 0 63 a b"

declare clmul_loop.simps [simp del] clmulh_loop.simps [simp del] clmulr_loop.simps [simp del]

section \<open>High halves of 64-bit products\<close>

text \<open>With a 128-bit integer type, and the portable fallbacks.\<close>

definition mulh_uint64 :: "u64 \<Rightarrow> u64 \<Rightarrow> u64" where
  "mulh_uint64 a b = ucast (signed_drop_bit 64 (scast a * scast b :: u128))"

definition mulhu_uint64 :: "u64 \<Rightarrow> u64 \<Rightarrow> u64" where
  "mulhu_uint64 a b = ucast (drop_bit 64 (ucast a * ucast b :: u128))"

definition mulhsu_uint64 :: "u64 \<Rightarrow> u64 \<Rightarrow> u64" where
  "mulhsu_uint64 a b = mulhu_uint64 a b - (if 0 \<le>s a then 0 else b)"

definition mulh_uint64_sw :: "u64 \<Rightarrow> u64 \<Rightarrow> u64" where
  "mulh_uint64_sw a b =
     (let lo_lo = ucast (ucast a :: u32) * ucast (ucast b :: u32);
          hi_lo = signed_drop_bit 32 a * ucast (ucast b :: u32);
          lo_hi = ucast (ucast a :: u32) * signed_drop_bit 32 b;
          hi_hi = signed_drop_bit 32 a * signed_drop_bit 32 b;
          cross = signed_drop_bit 32 lo_lo + ucast (ucast hi_lo :: u32) + lo_hi
      in signed_drop_bit 32 hi_lo + drop_bit 32 cross + hi_hi)"

definition mulhu_uint64_sw :: "u64 \<Rightarrow> u64 \<Rightarrow> u64" where
  "mulhu_uint64_sw a b =
     (let lo_lo = ucast (ucast a :: u32) * ucast (ucast b :: u32);
          hi_lo = drop_bit 32 a * ucast (ucast b :: u32);
          lo_hi = ucast (ucast a :: u32) * drop_bit 32 b;
          hi_hi = drop_bit 32 a * drop_bit 32 b;
          cross = drop_bit 32 lo_lo + ucast (ucast hi_lo :: u32) + lo_hi
      in drop_bit 32 hi_lo + drop_bit 32 cross + hi_hi)"

definition mulhsu_uint64_sw :: "u64 \<Rightarrow> u64 \<Rightarrow> u64" where
  "mulhsu_uint64_sw a b =
     (let lo_lo = ucast (ucast a :: u32) * ucast (ucast b :: u32);
          hi_lo = signed_drop_bit 32 a * ucast (ucast b :: u32);
          lo_hi = ucast (ucast a :: u32) * drop_bit 32 b;
          hi_hi = signed_drop_bit 32 a * drop_bit 32 b;
          cross = signed_drop_bit 32 lo_lo + ucast (ucast hi_lo :: u32) + lo_hi
      in signed_drop_bit 32 hi_lo + drop_bit 32 cross + hi_hi)"

end
