(* ===== verification/RVVM_Mem_Ops.thy ===== *)
theory RVVM_Mem_Ops
  imports RVVM_Prelude
begin

text \<open>
  Explicit memory intrinsics of src/rvvm/src/mem_ops.h on a byte-addressed host memory.  The
  memory is a function from 64-bit host addresses to bytes, so an access wraps around at the
  end of the address space as pointer arithmetic on \<open>size_t\<close> does.  The aligned and the
  misaligned accessors (suffix \<open>_m\<close>) differ in the machine instructions they become on the
  host, not in the bytes they touch; on a little-endian host both copy the bytes of the value
  in order.
\<close>

type_synonym host_mem = "u64 \<Rightarrow> u8"

section \<open>Byte strings\<close>

text \<open>The value of a little-endian byte string, and the first \<open>n\<close> bytes of a value.\<close>

primrec le_val :: "u8 list \<Rightarrow> 'a::len word" where
  "le_val [] = 0"
| "le_val (b # bs) = ucast b OR push_bit 8 (le_val bs)"

definition le_bytes :: "nat \<Rightarrow> 'a::len word \<Rightarrow> u8 list" where
  "le_bytes n v = map (\<lambda>i. ucast (drop_bit (8 * i) v)) [0..<n]"

definition read_bytes :: "host_mem \<Rightarrow> u64 \<Rightarrow> nat \<Rightarrow> u8 list" where
  "read_bytes m addr n = map (\<lambda>i. m (addr + of_nat i)) [0..<n]"

definition write_bytes :: "host_mem \<Rightarrow> u64 \<Rightarrow> u8 list \<Rightarrow> host_mem" where
  "write_bytes m addr bs =
     (\<lambda>a. if unat (a - addr) < length bs then bs ! unat (a - addr) else m a)"

section \<open>Little-endian accessors\<close>

definition read_uint64_le_m :: "host_mem \<Rightarrow> u64 \<Rightarrow> u64" where
  "read_uint64_le_m m addr = le_val (read_bytes m addr 8)"

definition write_uint64_le_m :: "host_mem \<Rightarrow> u64 \<Rightarrow> u64 \<Rightarrow> host_mem" where
  "write_uint64_le_m m addr val = write_bytes m addr (le_bytes 8 val)"

definition read_uint32_le_m :: "host_mem \<Rightarrow> u64 \<Rightarrow> u32" where
  "read_uint32_le_m m addr = le_val (read_bytes m addr 4)"

definition write_uint32_le_m :: "host_mem \<Rightarrow> u64 \<Rightarrow> u32 \<Rightarrow> host_mem" where
  "write_uint32_le_m m addr val = write_bytes m addr (le_bytes 4 val)"

definition read_uint16_le_m :: "host_mem \<Rightarrow> u64 \<Rightarrow> u16" where
  "read_uint16_le_m m addr = le_val (read_bytes m addr 2)"

definition write_uint16_le_m :: "host_mem \<Rightarrow> u64 \<Rightarrow> u16 \<Rightarrow> host_mem" where
  "write_uint16_le_m m addr val = write_bytes m addr (le_bytes 2 val)"

section \<open>Big-endian accessors\<close>

definition read_uint64_be_m :: "host_mem \<Rightarrow> u64 \<Rightarrow> u64" where
  "read_uint64_be_m m addr = le_val (rev (read_bytes m addr 8))"

definition write_uint64_be_m :: "host_mem \<Rightarrow> u64 \<Rightarrow> u64 \<Rightarrow> host_mem" where
  "write_uint64_be_m m addr val = write_bytes m addr (rev (le_bytes 8 val))"

definition read_uint32_be_m :: "host_mem \<Rightarrow> u64 \<Rightarrow> u32" where
  "read_uint32_be_m m addr = le_val (rev (read_bytes m addr 4))"

definition write_uint32_be_m :: "host_mem \<Rightarrow> u64 \<Rightarrow> u32 \<Rightarrow> host_mem" where
  "write_uint32_be_m m addr val = write_bytes m addr (rev (le_bytes 4 val))"

definition read_uint16_be_m :: "host_mem \<Rightarrow> u64 \<Rightarrow> u16" where
  "read_uint16_be_m m addr = le_val (rev (read_bytes m addr 2))"

definition write_uint16_be_m :: "host_mem \<Rightarrow> u64 \<Rightarrow> u16 \<Rightarrow> host_mem" where
  "write_uint16_be_m m addr val = write_bytes m addr (rev (le_bytes 2 val))"

section \<open>Aligned accessors\<close>

definition read_uint64_le :: "host_mem \<Rightarrow> u64 \<Rightarrow> u64" where
  "read_uint64_le m addr = le_val (read_bytes m addr 8)"

definition write_uint64_le :: "host_mem \<Rightarrow> u64 \<Rightarrow> u64 \<Rightarrow> host_mem" where
  "write_uint64_le m addr val = write_bytes m addr (le_bytes 8 val)"

definition read_uint32_le :: "host_mem \<Rightarrow> u64 \<Rightarrow> u32" where
  "read_uint32_le m addr = le_val (read_bytes m addr 4)"

definition write_uint32_le :: "host_mem \<Rightarrow> u64 \<Rightarrow> u32 \<Rightarrow> host_mem" where
  "write_uint32_le m addr val = write_bytes m addr (le_bytes 4 val)"

definition read_uint16_le :: "host_mem \<Rightarrow> u64 \<Rightarrow> u16" where
  "read_uint16_le m addr = le_val (read_bytes m addr 2)"

definition write_uint16_le :: "host_mem \<Rightarrow> u64 \<Rightarrow> u16 \<Rightarrow> host_mem" where
  "write_uint16_le m addr val = write_bytes m addr (le_bytes 2 val)"

definition read_uint8 :: "host_mem \<Rightarrow> u64 \<Rightarrow> u8" where
  "read_uint8 m addr = m addr"

definition write_uint8 :: "host_mem \<Rightarrow> u64 \<Rightarrow> u8 \<Rightarrow> host_mem" where
  "write_uint8 m addr val = m(addr := val)"

lemmas mem_accessors =
  read_uint64_le_m_def write_uint64_le_m_def read_uint32_le_m_def write_uint32_le_m_def
  read_uint16_le_m_def write_uint16_le_m_def read_uint64_be_m_def write_uint64_be_m_def
  read_uint32_be_m_def write_uint32_be_m_def read_uint16_be_m_def write_uint16_be_m_def
  read_uint64_le_def write_uint64_le_def read_uint32_le_def write_uint32_le_def
  read_uint16_le_def write_uint16_le_def

section \<open>Byte strings and values\<close>

lemma length_le_bytes [simp]: "length (le_bytes n v) = n"
  by (simp add: le_bytes_def)

lemma length_read_bytes [simp]: "length (read_bytes m a n) = n"
  by (simp add: read_bytes_def)

lemma nth_read_bytes [simp]: "i < n \<Longrightarrow> read_bytes m a n ! i = m (a + of_nat i)"
  by (simp add: read_bytes_def)

lemma nth_le_bytes [simp]: "i < n \<Longrightarrow> le_bytes n v ! i = ucast (drop_bit (8 * i) v)"
  by (simp add: le_bytes_def)

lemma bit_le_val:
  "bit (le_val bs :: 'a::len word) n \<longleftrightarrow>
     n < LENGTH('a) \<and> n < 8 * length bs \<and> bit (bs ! (n div 8)) (n mod 8)"
proof (induction bs arbitrary: n)
  case (Cons b bs)
  show ?case
  proof (cases "n < 8")
    case True then show ?thesis by (auto simp: bit_simps)
  next
    case False
    then obtain k where n: "n = k + 8" by (metis add.commute le_Suc_ex not_less)
    have "bit (le_val (b # bs) :: 'a word) n \<longleftrightarrow> n < LENGTH('a) \<and> bit (le_val bs :: 'a word) k"
      using bit_imp_le_length [of b n] by (auto simp: n bit_or_iff bit_push_bit_iff bit_ucast_iff)
    moreover have "(k + 8) div 8 = Suc (k div 8)" by simp
    ultimately show ?thesis by (auto simp: n Cons simp del: div_add_self2 le_val.simps)
  qed
qed simp

lemma le_val_le_bytes:
  assumes "LENGTH('a) \<le> 8 * n"
  shows "le_val (le_bytes n (v :: 'a::len word)) = v"
proof (rule bit_word_eqI)
  fix k assume k: "k < LENGTH('a)"
  with assms have "k div 8 < n" by auto
  then show "bit (le_val (le_bytes n v) :: 'a word) k = bit v k"
    using assms k by (auto simp: bit_le_val bit_simps)
qed

lemma le_bytes_le_val:
  assumes "8 * length bs \<le> LENGTH('a)"
  shows "le_bytes (length bs) (le_val bs :: 'a::len word) = bs"
proof (rule nth_equalityI)
  fix i assume "i < length (le_bytes (length bs) (le_val bs :: 'a word))"
  then have i: "i < length bs" by simp
  show "le_bytes (length bs) (le_val bs :: 'a word) ! i = bs ! i"
  proof (rule bit_word_eqI)
    fix k assume "k < LENGTH(8)"
    then have "k < 8" by simp
    then show "bit (le_bytes (length bs) (le_val bs :: 'a word) ! i) k = bit (bs ! i) k"
      using i assms by (auto simp: bit_simps bit_le_val)
  qed
qed simp

section \<open>Reading what was written\<close>

lemma read_write_bytes [simp]:
  assumes "length bs < 2 ^ 64"
  shows "read_bytes (write_bytes m a bs) a (length bs) = bs"
proof (rule nth_equalityI)
  fix i assume "i < length (read_bytes (write_bytes m a bs) a (length bs))"
  then have i: "i < length bs" by simp
  then have "i < 2 ^ LENGTH(64)" using assms by simp
  then have "unat (a + of_nat i - a) = i" by (simp only: add_diff_cancel_left' unat_of_nat_small)
  then show "read_bytes (write_bytes m a bs) a (length bs) ! i = bs ! i"
    using i by (simp only: nth_read_bytes write_bytes_def if_True)
qed simp

lemma read_write_bytes_le [simp]:
  "n < 2 ^ 64 \<Longrightarrow> read_bytes (write_bytes m a (le_bytes n v)) a n = le_bytes n v"
  using read_write_bytes [of "le_bytes n v" m a] by (simp only: length_le_bytes)

lemma write_bytes_other: "length bs \<le> unat (x - a) \<Longrightarrow> write_bytes m a bs x = m x"
  by (simp add: write_bytes_def)

lemma read_write_bytes_other:
  assumes "\<And>i. i < n \<Longrightarrow> length bs \<le> unat (a + of_nat i - b)"
  shows "read_bytes (write_bytes m b bs) a n = read_bytes m a n"
  using assms by (simp only: read_bytes_def write_bytes_other map_eq_conv set_upt atLeastLessThan_iff)
    (simp add: write_bytes_other)

lemma write_bytes_Nil [simp]: "write_bytes m a [] = m"
  by (simp add: write_bytes_def)

lemma write_read_bytes [simp]: "write_bytes m a (read_bytes m a n) = m"
proof (rule ext)
  fix x
  show "write_bytes m a (read_bytes m a n) x = m x"
    by (cases "unat (x - a) < n") (simp_all add: write_bytes_def)
qed

lemma read_bytes_cong: "(\<And>i. i < n \<Longrightarrow> m (a + of_nat i) = m' (a + of_nat i)) \<Longrightarrow> read_bytes m a n = read_bytes m' a n"
  by (simp add: read_bytes_def)

theorem read_write_uint64_le: "read_uint64_le (write_uint64_le m a v) a = v"
  by (simp add: mem_accessors le_val_le_bytes)

theorem read_write_uint32_le: "read_uint32_le (write_uint32_le m a v) a = v"
  by (simp add: mem_accessors le_val_le_bytes)

theorem read_write_uint16_le: "read_uint16_le (write_uint16_le m a v) a = v"
  by (simp add: mem_accessors le_val_le_bytes)

theorem read_write_uint64_be: "read_uint64_be_m (write_uint64_be_m m a v) a = v"
  using read_write_bytes [of "rev (le_bytes 8 v)" m a] by (simp add: mem_accessors le_val_le_bytes)

end
