(* ===== verification/RVVM_State.thy ===== *)
theory RVVM_State
  imports RVVM_Bit_Ops RVVM_Mem_Ops
begin

text \<open>
  The structures of src/rvvm/src/rvvm.h: the TLB entry, the RAM region, the AIA register file,
  the control and status registers, the hart and the parts of the machine the hart reads.

  The modelled build has both register widths (\<open>rvvm_uxlen_t\<close> is \<open>uint64_t\<close>), a 64-bit
  little-endian host, no JIT and no FPU.  C arrays with a constant size are functions from
  indices.  Next to the fields of the C structure the hart record carries what the code reads
  from its surroundings: the host memory the pointers point into, the value the next
  \<open>rvtimer_get\<close> returns, the bytes the next \<open>rvvm_randombytes\<close> returns, the state of the MMIO
  devices (the type parameter) and whether \<open>rvvm_fatal\<close> aborted the process.
\<close>

section \<open>Structures\<close>

record tlb_entry =
  tlb_ptr :: u64
  tlb_r :: u64
  tlb_w :: u64
  tlb_e :: u64

record rvvm_ram =
  ram_addr :: u64
  ram_size :: u64
  ram_data :: u64

record aia_regfile =
  eidelivery :: u32
  eithreshold :: u32
  eip :: "nat \<Rightarrow> u32"
  eie :: "nat \<Rightarrow> u32"

record riscv_csrs =
  csr_status :: u64
  csr_ie :: u64
  csr_ip :: u64
  csr_isa :: u64
  csr_edeleg :: "nat \<Rightarrow> u64"
  csr_ideleg :: "nat \<Rightarrow> u64"
  csr_tvec :: "nat \<Rightarrow> u64"
  csr_scratch :: "nat \<Rightarrow> u64"
  csr_epc :: "nat \<Rightarrow> u64"
  csr_cause :: "nat \<Rightarrow> u64"
  csr_tval :: "nat \<Rightarrow> u64"
  csr_iselect :: "nat \<Rightarrow> u64"
  csr_counteren :: "nat \<Rightarrow> u64"
  csr_envcfg :: "nat \<Rightarrow> u64"
  csr_mseccfg :: u64
  csr_hartid :: u32

record 'd rvvm_hart =
  running :: bool
  registers :: "nat \<Rightarrow> u64"
  tlb :: "nat \<Rightarrow> tlb_entry"
  mem :: rvvm_ram
  root_page_table :: u64
  mmu_mode :: u8
  priv_mode :: nat
  rv64 :: bool
  trap :: bool
  trap_pc :: u64
  userland :: bool
  lrsc :: bool
  lrsc_addr :: u64
  lrsc_cas :: u64
  csr :: riscv_csrs
  aia :: "(bool \<Rightarrow> aia_regfile) option"
  mtimecmp :: u64
  stimecmp :: u64
  pending_irqs :: u32
  pending_events :: u32
  preempt_ms :: u32
  wfi_waiters :: u32
  host :: host_mem
  timer :: u64
  entropy :: u16
  devices :: 'd
  fatal :: bool

text \<open>
  An MMIO device as the bus sees it: its region, the operation sizes it accepts, the optional
  direct mapping and the optional handlers.  A handler receives the data buffer, the offset
  into the region, the operation size and the hart, and returns whether it succeeded, the
  buffer and the hart.
\<close>

type_synonym 'd mmio_handler = "u8 list \<Rightarrow> u64 \<Rightarrow> u8 \<Rightarrow> 'd rvvm_hart \<Rightarrow> bool \<times> u8 list \<times> 'd rvvm_hart"

record 'd mmio_dev =
  mmio_addr :: u64
  mmio_size :: u64
  mmio_mapping :: u64
  mmio_min_op_size :: u8
  mmio_max_op_size :: u8
  mmio_read :: "'d mmio_handler option"
  mmio_write :: "'d mmio_handler option"

text \<open>
  What the hart reads of its machine: the memory and the width the hart starts with, the device
  list, the answer of \<open>gdbstub_halt\<close> when a stub is attached, the command line switch
  \<open>sv57\<close>, the version string the build defines, the timer frequency, and what happens to the hart while
  \<open>condvar_wait_ns\<close> blocks it.
\<close>

record 'd rvvm_machine =
  m_mem :: rvvm_ram
  m_rv64 :: bool
  m_mmio_devs :: "'d mmio_dev list"
  m_gdbstub_halt :: "('d rvvm_hart \<Rightarrow> bool) option"
  m_arg_sv57 :: bool
  m_version :: string
  m_timer_freq :: u64
  m_condvar_wait :: "u64 \<Rightarrow> 'd rvvm_hart \<Rightarrow> 'd rvvm_hart"

section \<open>Constants\<close>

abbreviation (input) RISCV_REG_ZERO :: nat where "RISCV_REG_ZERO \<equiv> 0"
abbreviation (input) RISCV_REG_X1 :: nat where "RISCV_REG_X1 \<equiv> 1"
abbreviation (input) RISCV_REG_X2 :: nat where "RISCV_REG_X2 \<equiv> 2"
abbreviation (input) RISCV_REG_PC :: nat where "RISCV_REG_PC \<equiv> 32"

abbreviation (input) RISCV_PRIV_USER :: nat where "RISCV_PRIV_USER \<equiv> 0"
abbreviation (input) RISCV_PRIV_SUPERVISOR :: nat where "RISCV_PRIV_SUPERVISOR \<equiv> 1"
abbreviation (input) RISCV_PRIV_HYPERVISOR :: nat where "RISCV_PRIV_HYPERVISOR \<equiv> 2"
abbreviation (input) RISCV_PRIV_MACHINE :: nat where "RISCV_PRIV_MACHINE \<equiv> 3"

abbreviation (input) RISCV_INTERRUPT_STIMER :: nat where "RISCV_INTERRUPT_STIMER \<equiv> 5"
abbreviation (input) RISCV_INTERRUPT_MTIMER :: nat where "RISCV_INTERRUPT_MTIMER \<equiv> 7"
abbreviation (input) RISCV_INTERRUPT_SEXTERNAL :: nat where "RISCV_INTERRUPT_SEXTERNAL \<equiv> 9"
abbreviation (input) RISCV_INTERRUPT_MEXTERNAL :: nat where "RISCV_INTERRUPT_MEXTERNAL \<equiv> 11"

abbreviation (input) RISCV_TRAP_INSN_MISALIGN :: nat where "RISCV_TRAP_INSN_MISALIGN \<equiv> 0"
abbreviation (input) RISCV_TRAP_INSN_FETCH :: nat where "RISCV_TRAP_INSN_FETCH \<equiv> 1"
abbreviation (input) RISCV_TRAP_ILL_INSN :: nat where "RISCV_TRAP_ILL_INSN \<equiv> 2"
abbreviation (input) RISCV_TRAP_BREAKPOINT :: nat where "RISCV_TRAP_BREAKPOINT \<equiv> 3"
abbreviation (input) RISCV_TRAP_LOAD_MISALIGN :: nat where "RISCV_TRAP_LOAD_MISALIGN \<equiv> 4"
abbreviation (input) RISCV_TRAP_LOAD_FAULT :: nat where "RISCV_TRAP_LOAD_FAULT \<equiv> 5"
abbreviation (input) RISCV_TRAP_STORE_MISALIGN :: nat where "RISCV_TRAP_STORE_MISALIGN \<equiv> 6"
abbreviation (input) RISCV_TRAP_STORE_FAULT :: nat where "RISCV_TRAP_STORE_FAULT \<equiv> 7"
abbreviation (input) RISCV_TRAP_ECALL_UMODE :: nat where "RISCV_TRAP_ECALL_UMODE \<equiv> 8"
abbreviation (input) RISCV_TRAP_INSN_PAGEFAULT :: nat where "RISCV_TRAP_INSN_PAGEFAULT \<equiv> 12"
abbreviation (input) RISCV_TRAP_LOAD_PAGEFAULT :: nat where "RISCV_TRAP_LOAD_PAGEFAULT \<equiv> 13"
abbreviation (input) RISCV_TRAP_STORE_PAGEFAULT :: nat where "RISCV_TRAP_STORE_PAGEFAULT \<equiv> 15"

abbreviation (input) CSR_STATUS_MPRV :: u64 where "CSR_STATUS_MPRV \<equiv> 0x20000"
abbreviation (input) CSR_STATUS_SUM :: u64 where "CSR_STATUS_SUM \<equiv> 0x40000"
abbreviation (input) CSR_STATUS_MXR :: u64 where "CSR_STATUS_MXR \<equiv> 0x80000"
abbreviation (input) CSR_STATUS_TVM :: u64 where "CSR_STATUS_TVM \<equiv> 0x100000"
abbreviation (input) CSR_STATUS_TW :: u64 where "CSR_STATUS_TW \<equiv> 0x200000"
abbreviation (input) CSR_STATUS_TSR :: u64 where "CSR_STATUS_TSR \<equiv> 0x400000"

abbreviation (input) CSR_MISA_RV32 :: u64 where "CSR_MISA_RV32 \<equiv> 0x40000000"
abbreviation (input) CSR_MISA_RV64 :: u64 where "CSR_MISA_RV64 \<equiv> 0x8000000000000000"

section \<open>Field access\<close>

text \<open>Writing a register, and updating the control and status registers inside the hart.\<close>

definition set_reg :: "nat \<Rightarrow> u64 \<Rightarrow> 'd rvvm_hart \<Rightarrow> 'd rvvm_hart" where
  "set_reg reg val vm = vm\<lparr>registers := (registers vm)(reg := val)\<rparr>"

definition csr_upd :: "(riscv_csrs \<Rightarrow> riscv_csrs) \<Rightarrow> 'd rvvm_hart \<Rightarrow> 'd rvvm_hart" where
  "csr_upd f vm = vm\<lparr>csr := f (csr vm)\<rparr>"

definition set_status :: "u64 \<Rightarrow> 'd rvvm_hart \<Rightarrow> 'd rvvm_hart" where
  "set_status v vm = vm\<lparr>csr := (csr vm)\<lparr>csr_status := v\<rparr>\<rparr>"

abbreviation status :: "'d rvvm_hart \<Rightarrow> u64" where
  "status vm \<equiv> csr_status (csr vm)"

declare set_reg_def [simp] csr_upd_def [simp] set_status_def [simp]

section \<open>Restarting the dispatch loop and the translation cache\<close>

definition riscv_restart_dispatch :: "'d rvvm_hart \<Rightarrow> 'd rvvm_hart" where
  "riscv_restart_dispatch vm = vm\<lparr>running := False\<rparr>"

abbreviation (input) RVVM_TLB_MASK :: u64 where "RVVM_TLB_MASK \<equiv> 0xFF"

definition tlb_index :: "u64 \<Rightarrow> nat" where
  "tlb_index vpn = unat (vpn AND RVVM_TLB_MASK)"

definition tlb_zero :: tlb_entry where
  "tlb_zero = \<lparr>tlb_ptr = 0, tlb_r = 0, tlb_w = 0, tlb_e = 0\<rparr>"

definition riscv_tlb_flush :: "'d rvvm_hart \<Rightarrow> 'd rvvm_hart" where
  "riscv_tlb_flush vm =
     riscv_restart_dispatch
       (vm\<lparr>tlb := (\<lambda>_. tlb_zero)(0 := tlb_zero\<lparr>tlb_r := - 1, tlb_w := - 1, tlb_e := - 1\<rparr>)\<rparr>)"

definition riscv_tlb_flush_page :: "u64 \<Rightarrow> 'd rvvm_hart \<Rightarrow> 'd rvvm_hart" where
  "riscv_tlb_flush_page addr vm =
     (let vpn = drop_bit 12 addr;
          ent = tlb vm (tlb_index vpn);
          ent' = ent\<lparr>tlb_r := (if tlb_r ent = vpn then vpn - 1 else tlb_r ent),
                     tlb_w := (if tlb_w ent = vpn then vpn - 1 else tlb_w ent),
                     tlb_e := (if tlb_e ent = vpn then vpn - 1 else tlb_e ent)\<rparr>;
          vm = vm\<lparr>tlb := (tlb vm)(tlb_index vpn := ent')\<rparr>
      in if tlb_e ent = vpn then riscv_restart_dispatch vm else vm)"

abbreviation (input) RISCV_MMU_READ :: u8 where "RISCV_MMU_READ \<equiv> 2"
abbreviation (input) RISCV_MMU_WRITE :: u8 where "RISCV_MMU_WRITE \<equiv> 4"
abbreviation (input) RISCV_MMU_EXEC :: u8 where "RISCV_MMU_EXEC \<equiv> 8"

definition riscv_tlb_put :: "u64 \<Rightarrow> u64 \<Rightarrow> u8 \<Rightarrow> 'd rvvm_hart \<Rightarrow> 'd rvvm_hart" where
  "riscv_tlb_put vaddr ptr access vm =
     (let vpn = drop_bit 12 vaddr;
          ent = tlb vm (tlb_index vpn);
          keep = (\<lambda>v. if v \<noteq> vpn then vpn - 1 else v);
          ent' = (if access = RISCV_MMU_READ
                    then ent\<lparr>tlb_r := vpn, tlb_w := keep (tlb_w ent), tlb_e := keep (tlb_e ent)\<rparr>
                  else if access = RISCV_MMU_WRITE
                    then ent\<lparr>tlb_r := vpn, tlb_w := vpn, tlb_e := keep (tlb_e ent)\<rparr>
                  else if access = RISCV_MMU_EXEC
                    then ent\<lparr>tlb_r := keep (tlb_r ent), tlb_w := vpn - 1, tlb_e := vpn\<rparr>
                  else ent);
          vm = (if access \<in> {RISCV_MMU_READ, RISCV_MMU_WRITE, RISCV_MMU_EXEC} then vm
                else vm\<lparr>fatal := True\<rparr>)
      in vm\<lparr>tlb := (tlb vm)(tlb_index vpn := ent'\<lparr>tlb_ptr := ptr - vaddr\<rparr>)\<rparr>)"

end
