(* ===== verification/RVVM_Timer.thy ===== *)
theory RVVM_Timer
  imports RVVM_State
begin

text \<open>
  Timer comparators and frequency conversion of src/rvvm/src/rvtimer.h and rvtimer.c, on a host
  with 128-bit integers.  A comparator is its time stamp; the timer is its current value.
\<close>

definition rvtimer_convert_freq :: "u64 \<Rightarrow> u64 \<Rightarrow> u64 \<Rightarrow> u64" where
  "rvtimer_convert_freq clk src_freq dst_freq =
     (let mul128 = ucast clk * ucast dst_freq :: u128
      in if drop_bit 64 mul128 = 0 then ucast mul128 div src_freq
         else (let clk_div = clk div src_freq;
                   clk_rem = clk - clk_div * src_freq
               in clk_div * dst_freq + clk_rem * dst_freq div src_freq))"

definition rvtimecmp_pending :: "u64 \<Rightarrow> u64 \<Rightarrow> bool" where
  "rvtimecmp_pending tm cmp \<longleftrightarrow> cmp \<le> tm"

definition rvtimecmp_delay :: "u64 \<Rightarrow> u64 \<Rightarrow> u64" where
  "rvtimecmp_delay tm cmp = (if tm < cmp then cmp - tm else 0)"

definition rvtimecmp_delay_ns :: "u64 \<Rightarrow> u64 \<Rightarrow> u64 \<Rightarrow> u64" where
  "rvtimecmp_delay_ns freq tm cmp = rvtimer_convert_freq (rvtimecmp_delay tm cmp) freq 1000000000"

lemma unat_lt: "unat (a :: u64) < 2 ^ 64"
  using unsigned_less [of a, where 'a = nat] by simp

lemma unat_mult_u128: "unat (ucast (a :: u64) * ucast (b :: u64) :: u128) = unat a * unat b"
proof -
  have "unat a * unat b < 2 ^ 64 * 2 ^ 64"
    using unsigned_less [of a] unsigned_less [of b] by (intro mult_strict_mono') simp_all
  then have "unat a * unat b < 2 ^ LENGTH(128)" by simp
  moreover have "unat (ucast a :: u128) = unat a" "unat (ucast b :: u128) = unat b"
    using unat_lt [of a] unat_lt [of b] by (auto intro!: unat_ucast_small)
  ultimately show ?thesis by (simp only: unat_word_ariths mod_less)
qed

lemma unat_mult_small:
  "unat a * unat b < 2 ^ LENGTH('a) \<Longrightarrow> unat (a * b :: 'a::len word) = unat a * unat b"
  by (simp only: unat_word_ariths mod_less)

lemma unat_plus_small:
  "unat a + unat b < 2 ^ LENGTH('a) \<Longrightarrow> unat (a + b :: 'a::len word) = unat a + unat b"
  by (simp only: unat_word_ariths mod_less)

lemma scale_split:
  fixes c s d :: nat
  assumes "0 < s"
  shows "c div s * d + (c - c div s * s) * d div s = c * d div s"
proof -
  have c: "c - c div s * s = c mod s" by (simp add: minus_div_mult_eq_mod)
  have "c * d = (c mod s) * d + (c div s * d) * s"
    using div_mult_mod_eq [of c s] by (metis add.commute distrib_right mult.assoc mult.commute)
  then have "c * d div s = (c mod s) * d div s + c div s * d" using assms by simp
  then show ?thesis by (simp add: c)
qed

lemma rvtimer_convert_freq_exact:
  assumes "src_freq \<noteq> 0" and fits: "unat clk * unat dst_freq div unat src_freq < 2 ^ 64"
    and freqs: "unat src_freq * unat dst_freq < 2 ^ 64"
  shows "unat (rvtimer_convert_freq clk src_freq dst_freq) = unat clk * unat dst_freq div unat src_freq"
proof -
  let ?m = "ucast clk * ucast dst_freq :: u128"
  have len64: "LENGTH(64) = 64" by simp
  let ?c = "unat clk" and ?s = "unat src_freq" and ?d = "unat dst_freq"
  have s: "0 < ?s" using assms(1) by (simp add: unat_gt_0)
  have m: "unat ?m = ?c * ?d" by (rule unat_mult_u128)
  show ?thesis
  proof (cases "drop_bit 64 ?m = 0")
    case True
    then have "unat (drop_bit 64 ?m) = 0" by simp
    then have "?c * ?d div 2 ^ 64 = 0" by (simp only: drop_bit_eq_div unat_div m) simp
    then have "?c * ?d < 2 ^ LENGTH(64)" by (simp add: div_eq_0_iff)
    then have "unat (ucast ?m :: u64) = ?c * ?d" using m by (simp add: unat_ucast_small)
    then show ?thesis using True by (simp add: rvtimer_convert_freq_def unat_div)
  next
    case False
    have dm: "?c div ?s * ?s \<le> ?c" by (rule div_times_less_eq_dividend)
    have "unat (clk div src_freq * src_freq) = ?c div ?s * ?s"
      using le_less_trans [OF dm unat_lt] by (subst unat_mult_small) (simp_all add: unat_div)
    then have rem: "unat (clk - clk div src_freq * src_freq) = ?c - ?c div ?s * ?s"
      using dm by (subst unat_sub) (simp_all add: word_le_nat_alt)
    have "?c - ?c div ?s * ?s < ?s" using s by (simp add: minus_div_mult_eq_mod)
    then have le: "(?c - ?c div ?s * ?s) * ?d \<le> ?s * ?d" by (intro mult_le_mono1) simp
    have rd: "unat ((clk - clk div src_freq * src_freq) * dst_freq) = (?c - ?c div ?s * ?s) * ?d"
      using le_less_trans [OF le freqs] by (subst unat_mult_small) (simp_all only: rem len64)
    have "?c div ?s * ?d \<le> ?c * ?d div ?s" using scale_split [OF s, of ?c ?d] by simp
    then have cd: "unat (clk div src_freq * dst_freq) = ?c div ?s * ?d"
      using fits by (subst unat_mult_small) (simp_all add: unat_div)
    show ?thesis
      using False fits scale_split [OF s, of ?c ?d]
      by (simp add: rvtimer_convert_freq_def Let_def unat_plus_small cd rd unat_div)
  qed
qed

end
