(* ===== verification/RVVM_Bit_Lemmas.thy ===== *)
theory RVVM_Bit_Lemmas
  imports RVVM_Bit_Ops
begin

text \<open>
  What the bit operations of src/rvvm/src/bit_ops.h compute: the single bits of the field
  operations and permutations, the agreement of the portable fallbacks with the compiler
  builtins, the carry-less products against a sum of shifted multiplicands, and the high
  halves of products against integer multiplication.
\<close>

section \<open>Fields\<close>

lemma bit_ext_u32_bits [bit_ops_bits]:
  "0 < bits \<Longrightarrow> pos + bits \<le> 32 \<Longrightarrow> bit (bit_ext_u32 v pos bits) n \<longleftrightarrow> n < bits \<and> bit v (pos + n)"
  by (auto simp: bit_ext_u32_def bit_simps add.commute dest: bit_imp_le_length)

lemma bit_ext_u64_bits [bit_ops_bits]:
  "0 < bits \<Longrightarrow> pos + bits \<le> 64 \<Longrightarrow> bit (bit_ext_u64 v pos bits) n \<longleftrightarrow> n < bits \<and> bit v (pos + n)"
  by (auto simp: bit_ext_u64_def bit_simps add.commute dest: bit_imp_le_length)

lemma bit_ext_i32_bits [bit_ops_bits]:
  "0 < bits \<Longrightarrow> pos + bits \<le> 32 \<Longrightarrow>
   bit (bit_ext_i32 v pos bits) n \<longleftrightarrow> n < 32 \<and> bit v (pos + min n (bits - 1))"
  by (auto simp: bit_ext_i32_def bit_simps min_def add.commute dest: bit_imp_le_length)

lemma bit_ext_i64_bits [bit_ops_bits]:
  "0 < bits \<Longrightarrow> pos + bits \<le> 64 \<Longrightarrow>
   bit (bit_ext_i64 v pos bits) n \<longleftrightarrow> n < 64 \<and> bit v (pos + min n (bits - 1))"
  by (auto simp: bit_ext_i64_def bit_simps min_def add.commute dest: bit_imp_le_length)

lemma bit_mask_eq: "bit_mask n = mask n"
  by (simp add: bit_mask_def mask_eq_exp_minus_1 push_bit_of_1)

lemma bit_replace_bits [bit_ops_bits]:
  "bit (bit_replace v pos bits rep) n \<longleftrightarrow>
     n < 64 \<and> (if pos \<le> n \<and> n < pos + bits then bit rep (n - pos) else bit v n)"
  by (auto simp: bit_replace_def bit_mask_eq bit_simps)

section \<open>Counting zeroes\<close>

lemma bit_check_eq: "bit_check v n \<longleftrightarrow> bit v n"
  by (simp add: bit_check_def and_one_eq bit_iff_odd_drop_bit odd_iff_mod_2_eq_one)

lemma length_takeWhile_nth:
  assumes "n < length xs" "\<And>i. i < n \<Longrightarrow> P (xs ! i)" "\<not> P (xs ! n)"
  shows "length (takeWhile P xs) = n"
proof -
  have "takeWhile P xs = take n xs"
    using assms by (intro takeWhile_eq_take_P_nth) auto
  with assms(1) show ?thesis by simp
qed

lemma builtin_clz_msb:
  fixes w :: "'a::len word"
  assumes "bit w k" "\<And>j. k < j \<Longrightarrow> \<not> bit w j"
  shows "builtin_clz w = LENGTH('a) - Suc k"
proof -
  have k: "k < LENGTH('a)" using assms(1) by (rule bit_imp_le_length)
  show ?thesis unfolding builtin_clz_def
    by (rule length_takeWhile_nth) (use k assms in \<open>auto simp: rev_nth\<close>)
qed

lemma builtin_ctz_lsb:
  fixes w :: "'a::len word"
  assumes "bit w k" "\<And>j. j < k \<Longrightarrow> \<not> bit w j"
  shows "builtin_ctz w = k"
proof -
  have k: "k < LENGTH('a)" using assms(1) by (rule bit_imp_le_length)
  show ?thesis unfolding builtin_ctz_def
    by (rule length_takeWhile_nth) (use k assms in auto)
qed

lemma word_msb_exists:
  fixes w :: "'a::len word"
  assumes "w \<noteq> 0"
  obtains k where "k < LENGTH('a)" "bit w k" "\<And>j. k < j \<Longrightarrow> \<not> bit w j"
proof -
  let ?S = "{n. bit w n}"
  have fin: "finite ?S" by (rule finite_subset [of _ "{..<LENGTH('a)}"]) (auto dest: bit_imp_le_length)
  have ne: "?S \<noteq> {}" using assms bit_word_eqI [of w 0] by auto
  have "bit w (Max ?S)" using Max_in [OF fin ne] by simp
  moreover have "\<not> bit w j" if "Max ?S < j" for j
    using that Max_ge [OF fin, of j] leD by fastforce
  ultimately show ?thesis using that bit_imp_le_length by blast
qed

lemma word_lsb_exists:
  fixes w :: "'a::len word"
  assumes "w \<noteq> 0"
  obtains k where "k < LENGTH('a)" "bit w k" "\<And>j. j < k \<Longrightarrow> \<not> bit w j"
proof -
  have "\<exists>n. bit w n" using assms bit_word_eqI [of w 0] by auto
  then have "bit w (LEAST n. bit w n)" by (rule LeastI_ex)
  moreover have "\<not> bit w j" if "j < (LEAST n. bit w n)" for j using that by (rule not_less_Least)
  ultimately show ?thesis using that bit_imp_le_length by blast
qed

lemma smear_step:
  fixes v v0 :: "'a::len word"
  assumes "\<And>n. bit v n \<longleftrightarrow> (\<exists>i<d. bit v0 (n + i))"
  shows "bit (v OR drop_bit d v) n \<longleftrightarrow> (\<exists>i<2*d. bit v0 (n + i))"
proof -
  have "bit (v OR drop_bit d v) n \<longleftrightarrow> (\<exists>i<d. bit v0 (n + i)) \<or> (\<exists>i<d. bit v0 (d + n + i))"
    by (simp add: bit_or_iff bit_drop_bit_eq assms)
  also have "(\<exists>i<d. bit v0 (d + n + i)) \<longleftrightarrow> (\<exists>i. d \<le> i \<and> i < 2*d \<and> bit v0 (n + i))"
  proof
    assume "\<exists>i<d. bit v0 (d + n + i)"
    then obtain i where "i < d" "bit v0 (d + n + i)" by blast
    then show "\<exists>i. d \<le> i \<and> i < 2*d \<and> bit v0 (n + i)"
      by (intro exI [of _ "d + i"]) (simp add: ac_simps)
  next
    assume "\<exists>i. d \<le> i \<and> i < 2*d \<and> bit v0 (n + i)"
    then obtain i where "d \<le> i" "i < 2*d" "bit v0 (n + i)" by blast
    then show "\<exists>i<d. bit v0 (d + n + i)"
      by (intro exI [of _ "i - d"]) (simp add: ac_simps)
  qed
  also have "((\<exists>i<d. bit v0 (n + i)) \<or> (\<exists>i. d \<le> i \<and> i < 2*d \<and> bit v0 (n + i))) \<longleftrightarrow> (\<exists>i<2*d. bit v0 (n + i))"
    by (metis leI mult_2 trans_less_add1)
  finally show ?thesis .
qed

lemma bit_smear32_bits: "bit (bit_smear32 v) n \<longleftrightarrow> (\<exists>i<32. bit v (n + i))"
proof -
  define v1 where "v1 = v OR drop_bit 1 v"
  define v2 where "v2 = v1 OR drop_bit 2 v1"
  define v4 where "v4 = v2 OR drop_bit 4 v2"
  define v8 where "v8 = v4 OR drop_bit 8 v4"
  have 0: "bit v n \<longleftrightarrow> (\<exists>i<1. bit v (n + i))" for n by simp
  have 1: "bit v1 n \<longleftrightarrow> (\<exists>i<2. bit v (n + i))" for n
    unfolding v1_def using smear_step [OF 0] by simp
  have 2: "bit v2 n \<longleftrightarrow> (\<exists>i<4. bit v (n + i))" for n
    unfolding v2_def using smear_step [OF 1] by simp
  have 4: "bit v4 n \<longleftrightarrow> (\<exists>i<8. bit v (n + i))" for n
    unfolding v4_def using smear_step [OF 2] by simp
  have 8: "bit v8 n \<longleftrightarrow> (\<exists>i<16. bit v (n + i))" for n
    unfolding v8_def using smear_step [OF 4] by simp
  have "bit (v8 OR drop_bit 16 v8) n \<longleftrightarrow> (\<exists>i<32. bit v (n + i))"
    using smear_step [OF 8] by simp
  then show ?thesis
    by (simp add: bit_smear32_def Let_def v1_def v2_def v4_def v8_def)
qed

lemma bit_smear32_msb:
  assumes "bit v k" "\<And>j. k < j \<Longrightarrow> \<not> bit v j"
  shows "bit_smear32 v = mask (Suc k)"
proof (rule bit_word_eqI)
  fix n assume "n < LENGTH(32)"
  have k: "k < 32" using assms(1) bit_imp_le_length by force
  have "(\<exists>i<32. bit v (n + i)) \<longleftrightarrow> n \<le> k"
  proof
    assume "\<exists>i<32. bit v (n + i)"
    then show "n \<le> k" using assms(2) by (meson leI le_add1 less_le_trans)
  next
    assume "n \<le> k"
    then show "\<exists>i<32. bit v (n + i)" using assms(1) k by (intro exI [of _ "k - n"]) auto
  qed
  then show "bit (bit_smear32 v) n = bit (mask (Suc k) :: u32) n"
    using \<open>n < LENGTH(32)\<close> by (simp add: bit_smear32_bits bit_mask_iff less_Suc_eq_le)
qed

lemma clz32_lut_debruijn:
  "k < 32 \<Longrightarrow> clz32_lut ! unat (drop_bit 27 (push_bit (Suc k) 1 * 0x077CB531 :: u32)) = 31 - k"
proof -
  have "list_all (\<lambda>k. clz32_lut ! unat (drop_bit 27 (push_bit (Suc k) 1 * 0x077CB531 :: u32)) = 31 - k) [0..<32]"
    by code_simp
  then show "k < 32 \<Longrightarrow> ?thesis" by (simp add: list_all_iff)
qed

lemma ctz32_lut_debruijn:
  "k < 32 \<Longrightarrow> ctz32_lut ! unat (drop_bit 27 (push_bit k 1 * 0x077CB531 :: u32)) = k"
proof -
  have "list_all (\<lambda>k. ctz32_lut ! unat (drop_bit 27 (push_bit k 1 * 0x077CB531 :: u32)) = k) [0..<32]"
    by code_simp
  then show "k < 32 \<Longrightarrow> ?thesis" by (simp add: list_all_iff)
qed


lemma mask_Suc_plus_1: "mask (Suc k) + 1 = (push_bit (Suc k) 1 :: 'a::len word)"
  by (simp add: mask_eq_exp_minus_1 push_bit_of_1)

theorem bit_clz32_sw_eq: "bit_clz32_sw val = bit_clz32 val"
proof (cases "val = 0")
  case True then show ?thesis by (simp add: bit_clz32_sw_def bit_clz32_def)
next
  case False
  then obtain k where k: "k < 32" "bit val k" "\<And>j. k < j \<Longrightarrow> \<not> bit val j"
    by (rule word_msb_exists) simp
  then have "builtin_clz val = 31 - k" using builtin_clz_msb [of val k] by simp
  moreover have "bit_smear32 val = mask (Suc k)" using k by (intro bit_smear32_msb)
  ultimately show ?thesis
    using False clz32_lut_debruijn [OF k(1)]
    by (simp only: bit_clz32_sw_def bit_clz32_def mask_Suc_plus_1)
qed

lemma odd_and_minus: "odd y \<Longrightarrow> y AND - y = (1 :: 'a::len word)"
proof -
  assume "odd y"
  have ym1: "bit (y - 1) n \<longleftrightarrow> 0 < n \<and> bit y n" for n
  proof -
    have "y - 1 = 2 * (y div 2)" using \<open>odd y\<close> div_mult_mod_eq [of y 2]
      by (metis add_diff_cancel_right' mult.commute odd_iff_mod_2_eq_one)
    also have "\<dots> = unset_bit 0 y" by (simp add: unset_bit_0)
    finally show ?thesis by (auto simp: bit_unset_bit_iff)
  qed
  show ?thesis
  proof (rule bit_word_eqI)
    fix n assume n: "n < LENGTH('a)"
    have "bit (- y) n \<longleftrightarrow> \<not> bit (y - 1) n"
      using n by (simp add: minus_eq_not_minus_1 bit_not_iff)
    then show "bit (y AND - y) n = bit (1 :: 'a word) n"
      using \<open>odd y\<close> by (auto simp: bit_and_iff ym1 bit_1_iff bit_0)
  qed
qed

lemma and_minus_lsb:
  fixes w :: "'a::len word"
  assumes "bit w k" "\<And>j. j < k \<Longrightarrow> \<not> bit w j"
  shows "w AND - w = push_bit k 1"
proof -
  define y where "y = drop_bit k w"
  have "take_bit k w = 0" using assms(2) by (intro bit_word_eqI) (auto simp: bit_take_bit_iff)
  then have w: "w = push_bit k y"
    unfolding y_def using bits_ident [of k w] by simp
  have "odd y" using assms(1) by (simp add: y_def bit_iff_odd_drop_bit)
  have "- w = push_bit k (- y)" by (simp add: w push_bit_eq_mult)
  then have "w AND - w = push_bit k (y AND - y)" by (simp add: w)
  with odd_and_minus [OF \<open>odd y\<close>] show ?thesis by simp
qed

theorem bit_ctz32_sw_eq: "bit_ctz32_sw val = bit_ctz32 val"
proof (cases "val = 0")
  case True then show ?thesis by (simp add: bit_ctz32_sw_def bit_ctz32_def)
next
  case False
  then obtain k where k: "k < 32" "bit val k" "\<And>j. j < k \<Longrightarrow> \<not> bit val j"
    by (rule word_lsb_exists) simp
  then have "builtin_ctz val = k" by (intro builtin_ctz_lsb)
  moreover have "val AND - val = push_bit k 1" using k by (intro and_minus_lsb)
  ultimately show ?thesis
    using False ctz32_lut_debruijn [OF k(1)] by (simp add: bit_ctz32_sw_def bit_ctz32_def)
qed

lemma bit_clz32_msb:
  assumes "bit w k" "\<And>j. k < j \<Longrightarrow> \<not> bit w j"
  shows "bit_clz32 w = of_nat (31 - k)"
proof -
  have "w \<noteq> 0" using assms(1) by auto
  then show ?thesis using builtin_clz_msb [of w k] assms by (simp add: bit_clz32_def)
qed

lemma bit_clz64_msb:
  assumes "bit w k" "\<And>j. k < j \<Longrightarrow> \<not> bit w j"
  shows "bit_clz64 w = of_nat (63 - k)"
proof -
  have "w \<noteq> 0" using assms(1) by auto
  then show ?thesis using builtin_clz_msb [of w k] assms by (simp add: bit_clz64_def)
qed

lemma bit_ctz32_lsb:
  assumes "bit w k" "\<And>j. j < k \<Longrightarrow> \<not> bit w j"
  shows "bit_ctz32 w = of_nat k"
proof -
  have "w \<noteq> 0" using assms(1) by auto
  then show ?thesis using builtin_ctz_lsb [of w k] assms by (simp add: bit_ctz32_def)
qed

lemma bit_ctz64_lsb:
  assumes "bit w k" "\<And>j. j < k \<Longrightarrow> \<not> bit w j"
  shows "bit_ctz64 w = of_nat k"
proof -
  have "w \<noteq> 0" using assms(1) by auto
  then show ?thesis using builtin_ctz_lsb [of w k] assms by (simp add: bit_ctz64_def)
qed

theorem bit_clz64_sw_eq: "bit_clz64_sw val = bit_clz64 val"
proof (cases "val = 0")
  case True then show ?thesis by (simp add: bit_clz64_sw_def bit_clz64_def)
next
  case False
  then obtain k where k: "k < 64" "bit val k" "\<And>j. k < j \<Longrightarrow> \<not> bit val j"
    by (rule word_msb_exists) simp
  have clz: "bit_clz64 val = of_nat (63 - k)" using k by (intro bit_clz64_msb)
  show ?thesis
  proof (cases "32 \<le> k")
    case True
    have b: "bit (ucast (drop_bit 32 val) :: u32) (k - 32)"
      "\<And>j. k - 32 < j \<Longrightarrow> \<not> bit (ucast (drop_bit 32 val) :: u32) j"
      using k True by (auto simp: bit_simps)
    have "31 - (k - 32) = 63 - k" using True by simp
    with bit_clz32_msb [OF b] have "bit_clz32 (ucast (drop_bit 32 val)) = of_nat (63 - k)" by (simp only:)
    moreover have "drop_bit 32 val \<noteq> 0" using b(1) by auto
    ultimately show ?thesis
      using False clz by (simp only: bit_clz64_sw_def bit_clz32_sw_eq) simp
  next
    case F: False
    have z: "drop_bit 32 val = 0" using k F by (intro bit_word_eqI) (auto simp: bit_simps)
    have b: "bit (ucast val :: u32) k" "\<And>j. k < j \<Longrightarrow> \<not> bit (ucast val :: u32) j"
      using k F by (auto simp: bit_simps)
    have "63 - k = 32 + (31 - k)" using F by simp
    then have "of_nat (63 - k) = (32 + of_nat (31 - k) :: u32)" by (simp only: of_nat_add of_nat_numeral)
    with z show ?thesis
      using False clz bit_clz32_msb [OF b] by (simp only: bit_clz64_sw_def bit_clz32_sw_eq) simp
  qed
qed

theorem bit_ctz64_sw_eq: "bit_ctz64_sw val = bit_ctz64 val"
proof (cases "val = 0")
  case True then show ?thesis by (simp add: bit_ctz64_sw_def bit_ctz64_def)
next
  case False
  then obtain k where k: "k < 64" "bit val k" "\<And>j. j < k \<Longrightarrow> \<not> bit val j"
    by (rule word_lsb_exists) simp
  have ctz: "bit_ctz64 val = of_nat k" using k by (intro bit_ctz64_lsb)
  show ?thesis
  proof (cases "32 \<le> k")
    case True
    have z: "(ucast val :: u32) = 0" using k True by (intro bit_word_eqI) (auto simp: bit_simps)
    have b: "bit (ucast (drop_bit 32 val) :: u32) (k - 32)"
      "\<And>j. j < k - 32 \<Longrightarrow> \<not> bit (ucast (drop_bit 32 val) :: u32) j"
      using k True by (auto simp: bit_simps)
    have "k = (k - 32) + 32" using True by simp
    then have "of_nat (k - 32) + 32 = (of_nat k :: u32)" by (metis of_nat_add of_nat_numeral)
    with z show ?thesis
      using False ctz bit_ctz32_lsb [OF b] by (simp only: bit_ctz64_sw_def bit_ctz32_sw_eq Let_def) simp
  next
    case F: False
    have b: "bit (ucast val :: u32) k" "\<And>j. j < k \<Longrightarrow> \<not> bit (ucast val :: u32) j"
      using k F by (auto simp: bit_simps)
    moreover have "(ucast val :: u32) \<noteq> 0" using b(1) by auto
    ultimately show ?thesis
      using False ctz bit_ctz32_lsb [OF b] by (simp only: bit_ctz64_sw_def bit_ctz32_sw_eq Let_def) simp
  qed
qed

lemma bit_bsr64_msb:
  assumes "bit w k" "\<And>j. k < j \<Longrightarrow> \<not> bit w j"
  shows "bit_bsr64 w = of_nat k"
proof -
  have k: "k < 64" using assms(1) bit_imp_le_length by force
  have "list_all (\<lambda>k. 63 XOR of_nat (63 - k) = (of_nat k :: u32)) [0..<64]" by code_simp
  then have "63 XOR of_nat (63 - k) = (of_nat k :: u32)" using k by (simp add: list_all_iff)
  moreover have "w \<noteq> 0" using assms(1) by auto
  moreover have "builtin_clz w = 63 - k" using builtin_clz_msb [of w k] assms by simp
  ultimately show ?thesis by (simp add: bit_bsr64_def)
qed

lemma bit_clz32_xor_31_msb:
  assumes "bit w k" "\<And>j. k < j \<Longrightarrow> \<not> bit w j"
  shows "bit_clz32 w XOR 31 = of_nat k"
proof -
  have k: "k < 32" using assms(1) bit_imp_le_length by force
  have "list_all (\<lambda>k. of_nat (31 - k) XOR 31 = (of_nat k :: u32)) [0..<32]" by code_simp
  then show ?thesis using k bit_clz32_msb [OF assms] by (simp add: list_all_iff)
qed

theorem bit_next_pow2_rounds_down:
  assumes "val AND (val - 1) \<noteq> 0"
  shows "bit_next_pow2 val < val"
proof -
  have "val \<noteq> 0" using assms by auto
  then obtain k where k: "k < 64" "bit val k" "\<And>j. k < j \<Longrightarrow> \<not> bit val j"
    by (rule word_msb_exists) simp
  have "bit_bsr64 val = of_nat k" using k by (intro bit_bsr64_msb)
  then have p: "bit_next_pow2 val = 2 ^ k"
    using assms k(1) by (simp add: bit_next_pow2_def push_bit_of_1 unat_of_nat)
  have "val \<noteq> 2 ^ k"
  proof
    assume "val = 2 ^ k"
    then have "val AND (val - 1) = 0"
      by (intro bit_word_eqI) (auto simp: bit_and_iff bit_exp_iff bit_mask_iff simp flip: mask_eq_exp_minus_1)
    with assms show False by simp
  qed
  moreover have "2 ^ k \<le> val"
  proof -
    have "val AND 2 ^ k = 2 ^ k" using k(2)
      by (intro bit_word_eqI) (auto simp: bit_and_iff bit_exp_iff)
    then show ?thesis by (metis word_and_le2)
  qed
  ultimately show ?thesis using p by simp
qed

section \<open>Carry-less products\<close>

primrec clmul_ref :: "nat \<Rightarrow> 'a::len word \<Rightarrow> 'b::len word \<Rightarrow> 'a word" where
  "clmul_ref 0 a b = 0"
| "clmul_ref (Suc k) a b = clmul_ref k a b XOR (if bit b k then push_bit k a else 0)"

lemma and_1_drop_bit: "(drop_bit k b AND 1 \<noteq> 0) = bit (b :: 'a::len word) k"
  by (simp add: and_one_eq bit_iff_odd_drop_bit odd_iff_mod_2_eq_one)

lemma clmul_ref_stable:
  assumes "k \<le> m" "\<And>i. k \<le> i \<Longrightarrow> bit b i \<Longrightarrow> push_bit i a = 0"
  shows "clmul_ref m a b = clmul_ref k a b"
  using assms by (induction m) (auto simp: le_Suc_eq)

lemma push_bit_zero_mono: "push_bit k (a :: 'a::len word) = 0 \<Longrightarrow> k \<le> i \<Longrightarrow> push_bit i a = 0"
  by (metis le_add_diff_inverse2 push_bit_of_0 push_bit_push_bit)

lemma clmul_loop_ref:
  fixes a b :: "'a::len word"
  shows "k < LENGTH('a) \<Longrightarrow> clmul_loop (clmul_ref k a b) (push_bit k a) (drop_bit k b) = clmul_ref LENGTH('a) a b"
proof (induction "LENGTH('a) - k" arbitrary: k rule: less_induct)
  case less
  have ret: "(if drop_bit k b AND 1 \<noteq> 0 then clmul_ref k a b XOR push_bit k a else clmul_ref k a b)
      = clmul_ref (Suc k) a b"
    by (auto simp: and_1_drop_bit)
  have sh: "push_bit 1 (push_bit k a) = push_bit (Suc k) a" "drop_bit 1 (drop_bit k b) = drop_bit (Suc k) b"
    by (simp_all only: push_bit_push_bit drop_bit_drop_bit plus_1_eq_Suc add.commute [of k])
  show ?case
  proof (cases "push_bit (Suc k) a = 0")
    case True
    have "push_bit i a = 0" if "Suc k \<le> i" for i
      using True that by (rule push_bit_zero_mono)
    then have "clmul_ref LENGTH('a) a b = clmul_ref (Suc k) a b"
      using less.prems by (intro clmul_ref_stable) simp_all
    then show ?thesis
      using True by (subst clmul_loop.simps) (simp only: Let_def ret sh, simp)
  next
    case False
    then have "Suc k < LENGTH('a)"
      using less.prems by (metis Suc_lessI push_bit_word_beyond order_refl)
    then show ?thesis
      using False less by (subst clmul_loop.simps) (simp only: Let_def ret sh, simp)
  qed
qed

theorem clmul_loop_correct: "clmul_loop 0 a b = clmul_ref LENGTH('a) a (b :: 'a::len word)"
  using clmul_loop_ref [of 0 a b] by simp

primrec clmulh_ref :: "nat \<Rightarrow> nat \<Rightarrow> 'a::len word \<Rightarrow> 'a word \<Rightarrow> 'a word" where
  "clmulh_ref w 0 a b = 0"
| "clmulh_ref w (Suc k) a b = clmulh_ref w k a b XOR (if bit b k then drop_bit (w - k) a else 0)"

lemma clmulh_ref_stable:
  assumes "k \<le> m" "\<And>i. k \<le> i \<Longrightarrow> \<not> bit b i"
  shows "clmulh_ref w m a b = clmulh_ref w k a b"
  using assms by (induction m) (auto simp: le_Suc_eq)

text \<open>\<open>clmulh_ref\<close> is the part of the double-width carry-less product above bit \<open>w\<close>.\<close>

lemma drop_push_ucast:
  fixes a :: "'a::len word"
  assumes "k \<le> w" "LENGTH('c) \<ge> 2 * LENGTH('a)" "k < LENGTH('a)" "w \<le> LENGTH('a)"
  shows "ucast (drop_bit w (push_bit k (ucast a :: 'c::len word))) = (drop_bit (w - k) a :: 'a word)"
  by (rule bit_word_eqI) (use assms in \<open>auto simp: bit_simps add.commute\<close>)

lemma clmulh_ref_slice:
  fixes a b :: "'a::len word"
  assumes "LENGTH('c) \<ge> 2 * LENGTH('a)" "w \<le> LENGTH('a)" "k \<le> LENGTH('a)" "k \<le> Suc w"
  shows "ucast (drop_bit w (clmul_ref k (ucast a :: 'c::len word) b)) = clmulh_ref w k a b"
  using assms(3,4)
proof (induction k)
  case 0 then show ?case by simp
next
  case (Suc k)
  have "ucast (drop_bit w (x XOR y)) = ucast (drop_bit w x) XOR (ucast (drop_bit w y) :: 'a word)" for x y :: "'c word"
    by (rule bit_word_eqI) (auto simp: bit_simps)
  with Suc assms(1,2) show ?case by (auto simp: drop_push_ucast)
qed

lemma drop_bit_eq_0D: "drop_bit k (b :: 'a::len word) = 0 \<Longrightarrow> k \<le> i \<Longrightarrow> \<not> bit b i"
  by (metis bit_0_eq bit_drop_bit_eq bot_apply comp_apply le_add_diff_inverse bot_bool_def)

lemma clmulr_loop_ref:
  fixes a b :: "'a::len word"
  assumes "LENGTH('a) \<le> 64"
  shows "k < LENGTH('a) \<Longrightarrow>
    clmulr_loop (clmulh_ref (LENGTH('a) - 1) k a b) (of_nat (LENGTH('a) - 1 - k)) a (drop_bit k b)
      = clmulh_ref (LENGTH('a) - 1) LENGTH('a) a b"
proof (induction "LENGTH('a) - k" arbitrary: k rule: less_induct)
  case less
  let ?w = "LENGTH('a) - 1"
  have un: "unat (of_nat (?w - k) :: u32) = ?w - k" using assms by (simp add: unat_of_nat)
  have ret: "(if drop_bit k b AND 1 \<noteq> 0 then clmulh_ref ?w k a b XOR drop_bit (?w - k) a else clmulh_ref ?w k a b)
      = clmulh_ref ?w (Suc k) a b"
    by (auto simp: and_1_drop_bit)
  have sh: "drop_bit 1 (drop_bit k b) = drop_bit (Suc k) b"
    by (simp only: drop_bit_drop_bit plus_1_eq_Suc add.commute [of k])
  show ?case
  proof (cases "drop_bit (Suc k) b = 0")
    case True
    then have "clmulh_ref ?w LENGTH('a) a b = clmulh_ref ?w (Suc k) a b"
      using less.prems drop_bit_eq_0D [OF True] by (intro clmulh_ref_stable) simp_all
    then show ?thesis
      using True by (subst clmulr_loop.simps) (simp only: Let_def ret sh un, simp)
  next
    case False
    then have k: "Suc k < LENGTH('a)"
      using less.prems by (metis Suc_lessI drop_bit_word_beyond order_refl)
    then have i: "of_nat (?w - k) - 1 = (of_nat (?w - Suc k) :: u32)"
      by (simp add: of_nat_diff)
    show ?thesis
      using False less k by (subst clmulr_loop.simps) (simp only: Let_def ret sh un i, simp)
  qed
qed

lemma clmulh_loop_ref:
  fixes a b :: "'a::len word"
  assumes "LENGTH('a) \<le> 64"
  shows "k < LENGTH('a) \<Longrightarrow>
    clmulh_loop (clmulh_ref LENGTH('a) (Suc k) a b) (of_nat (LENGTH('a) - Suc k)) a (drop_bit k b)
      = clmulh_ref LENGTH('a) LENGTH('a) a b"
proof (induction "LENGTH('a) - k" arbitrary: k rule: less_induct)
  case less
  let ?w = "LENGTH('a)"
  have un: "unat (of_nat (?w - Suc k) :: u32) = ?w - Suc k" using assms by (simp add: unat_of_nat)
  have ret: "(if drop_bit (Suc k) b AND 1 \<noteq> 0 then clmulh_ref ?w (Suc k) a b XOR drop_bit (?w - Suc k) a
      else clmulh_ref ?w (Suc k) a b) = clmulh_ref ?w (Suc (Suc k)) a b"
    by (simp only: and_1_drop_bit) simp
  have sh: "drop_bit 1 (drop_bit k b) = drop_bit (Suc k) b"
    by (simp only: drop_bit_drop_bit plus_1_eq_Suc add.commute [of k])
  show ?case
  proof (cases "drop_bit (Suc k) b = 0")
    case True
    have "clmulh_ref ?w m a b = clmulh_ref ?w (Suc k) a b" if "Suc k \<le> m" for m
      using that drop_bit_eq_0D [OF True] by (intro clmulh_ref_stable) simp_all
    then have "clmulh_ref ?w (Suc k) a b = clmulh_ref ?w ?w a b"
      using less.prems by (metis Suc_leI)
    then show ?thesis
      using True by (subst clmulh_loop.simps) (simp only: Let_def ret sh un, simp del: clmulh_ref.simps)
  next
    case False
    then have k: "Suc k < LENGTH('a)"
      using less.prems by (metis Suc_lessI drop_bit_word_beyond order_refl)
    then have i: "of_nat (?w - Suc k) - 1 = (of_nat (?w - Suc (Suc k)) :: u32)"
      by (simp add: of_nat_diff)
    show ?thesis
      using False less k by (subst clmulh_loop.simps) (simp only: Let_def ret sh un i, simp)
  qed
qed

theorem bit_clmul64_correct: "bit_clmul64 a b = ucast (clmul_ref 64 (ucast a :: u128) b)"
proof -
  have "ucast (clmul_ref k (ucast a :: u128) b) = clmul_ref k a b" for k
  proof (induction k)
    case (Suc k)
    have "ucast (x XOR y) = ucast x XOR (ucast y :: u64)" for x y :: u128
      by (rule bit_word_eqI) (auto simp: bit_simps)
    moreover have "ucast (push_bit k (ucast a :: u128)) = push_bit k a"
      by (rule bit_word_eqI) (auto simp: bit_simps)
    ultimately show ?case using Suc by simp
  qed simp
  then show ?thesis by (simp add: bit_clmul64_def clmul_loop_correct)
qed

theorem bit_clmulh64_correct: "bit_clmulh64 a b = ucast (drop_bit 64 (clmul_ref 64 (ucast a :: u128) b))"
proof -
  have "clmulh_ref 64 (Suc 0) a b = 0" by (simp add: drop_bit_word_beyond)
  then have "clmulh_loop 0 63 a b = clmulh_ref 64 64 a b"
    using clmulh_loop_ref [of 0 a b] by (simp del: clmulh_ref.simps)
  then show ?thesis
    using clmulh_ref_slice [where 'c = 128 and w = 64 and k = 64 and a = a and b = b]
    by (simp add: bit_clmulh64_def)
qed

theorem bit_clmulr64_correct: "bit_clmulr64 a b = ucast (drop_bit 63 (clmul_ref 64 (ucast a :: u128) b))"
  using clmulr_loop_ref [of 0 a b] clmulh_ref_slice [where 'c = 128 and w = 63 and k = 64 and a = a and b = b]
  by (simp add: bit_clmulr64_def)

section \<open>Permutations\<close>

lemma nat_less_32_cases:
  "n < 32 \<Longrightarrow> n \<in> {0,1,2,3,4,5,6,7,8,9,10,11,12,13,14,15,16,17,18,19,20,21,22,23,24,25,26,27,28,29,30,31::nat}"
  by (simp, presburger)

lemma nat_less_64_cases:
  "n < 64 \<Longrightarrow> n \<in> {0,1,2,3,4,5,6,7,8,9,10,11,12,13,14,15,16,17,18,19,20,21,22,23,24,25,26,27,28,29,30,31,32,33,34,35,36,37,38,39,40,41,42,43,44,45,46,47,48,49,50,51,52,53,54,55,56,57,58,59,60,61,62,63::nat}"
  by (simp, presburger)

lemmas bit_dec = bit_and_iff bit_or_iff bit_xor_iff bit_push_bit_word bit_drop_bit_eq comp_apply

lemma bit_interlace16_bits: "bit (bit_interlace16 v) n \<longleftrightarrow> even n \<and> n < 32 \<and> bit v (n div 2)"
proof (cases "n < 32")
  case True
  then show ?thesis
    unfolding bit_interlace16_def Let_def bit_dec
    by (elim nat_less_32_cases [THEN insertE] insertE emptyE) (simp_all flip: numeral_2_eq_2)
qed simp

lemma bit_deinterlace16_bits: "bit (bit_deinterlace16 v) n \<longleftrightarrow> n < 16 \<and> bit v (2 * n)"
proof (cases "n < 32")
  case True
  then show ?thesis
    unfolding bit_deinterlace16_def Let_def bit_dec
    by (elim nat_less_32_cases [THEN insertE] insertE emptyE) (simp_all flip: numeral_2_eq_2)
qed simp

theorem bit_zip32_bits: "bit (bit_zip32 v) n \<longleftrightarrow> n < 32 \<and> bit v (if even n then n div 2 else 16 + n div 2)"
  unfolding bit_zip32_def bit_dec bit_interlace16_bits by (auto elim!: oddE)

theorem bit_unzip32_bits: "bit (bit_unzip32 v) n \<longleftrightarrow> n < 32 \<and> bit v (if n < 16 then 2 * n else 2 * (n - 16) + 1)"
  unfolding bit_unzip32_def bit_dec bit_deinterlace16_bits by (auto simp: add.commute)

theorem unzip_zip32: "bit_unzip32 (bit_zip32 v) = v"
  by (rule bit_word_eqI) (auto simp: bit_zip32_bits bit_unzip32_bits)

theorem zip_unzip32: "bit_zip32 (bit_unzip32 v) = v"
  by (rule bit_word_eqI) (auto simp: bit_zip32_bits bit_unzip32_bits elim: oddE evenE)

lemma byteswap_uint32_bits: "bit (byteswap_uint32 v) n \<longleftrightarrow> n < 32 \<and> bit v (8 * (3 - n div 8) + n mod 8)"
proof (cases "n < 32")
  case True
  then show ?thesis
    unfolding byteswap_uint32_def Let_def bit_dec
    by (elim nat_less_32_cases [THEN insertE] insertE emptyE) (simp_all flip: numeral_2_eq_2)
qed simp

theorem byteswap_uint32_invol: "byteswap_uint32 (byteswap_uint32 v) = v"
  by (rule bit_word_eqI) (auto simp: byteswap_uint32_bits)


lemma byteswap_uint64_bits: "bit (byteswap_uint64 v) n \<longleftrightarrow> n < 64 \<and> bit v (8 * (7 - n div 8) + n mod 8)"
proof (cases "n < 64")
  case True
  then show ?thesis
    unfolding byteswap_uint64_def Let_def bit_dec
    by (elim nat_less_64_cases [THEN insertE] insertE emptyE) (simp_all flip: numeral_2_eq_2)
qed simp
theorem byteswap_uint64_invol: "byteswap_uint64 (byteswap_uint64 v) = v"
  by (rule bit_word_eqI) (auto simp: byteswap_uint64_bits)

theorem bit_brev8_bits: "bit (bit_brev8 v) n \<longleftrightarrow> n < 64 \<and> bit v (8 * (n div 8) + (7 - n mod 8))"
proof (cases "n < 64")
  case True
  then show ?thesis
    unfolding bit_brev8_def Let_def bit_dec
    by (elim nat_less_64_cases [THEN insertE] insertE emptyE) (simp_all flip: numeral_2_eq_2)
qed simp

section \<open>High halves of products\<close>

lemma uint_ucast_u128: "uint (ucast (a::u64) :: u128) = uint a"
  by (simp add: uint_up_ucast is_up)

lemma uint_ucast_mult: "uint (ucast (a::u64) * ucast (b::u64) :: u128) = uint a * uint b"
proof -
  have "uint a * uint b \<le> (2 ^ 64 - 1) * (2 ^ 64 - 1)"
    using uint_lt2p [of a] uint_lt2p [of b] by (intro mult_mono) auto
  then have "uint a * uint b < 2 ^ 128" by simp
  then show ?thesis
    by (simp only: uint_word_ariths uint_ucast_u128) (simp add: mod_pos_pos_trivial)
qed

theorem mulhu_uint64_uint: "uint (mulhu_uint64 a b) = uint a * uint b div 2 ^ 64"
proof -
  have "uint a * uint b < 2 ^ 64 * 2 ^ 64"
    using uint_lt2p [of a] uint_lt2p [of b] by (intro mult_strict_mono) auto
  then have "uint a * uint b div 2 ^ 64 < 2 ^ 64" "uint a * uint b < 2 ^ 128" "0 \<le> uint a * uint b div 2 ^ 64"
    by (simp_all add: pos_imp_zdiv_nonneg_iff)
  moreover have "uint (drop_bit 64 (ucast a * ucast b :: u128)) = uint a * uint b div 2 ^ 64"
    unfolding unsigned_drop_bit_eq uint_ucast_mult
    using calculation by (simp add: take_bit_int_eq_self drop_bit_eq_div)
  ultimately show ?thesis
    unfolding mulhu_uint64_def unsigned_ucast_eq by (simp only: len_of_numeral_defs) (simp add: take_bit_int_eq_self)
qed

lemma sint_scast_mult: "sint (scast (a::u64) * scast (b::u64) :: u128) = sint a * sint b"
proof -
  have a: "- (2 ^ 63) \<le> sint a" "sint a < 2 ^ 63" using sint_greater_eq [of a] sint_less [of a] by simp_all
  have b: "- (2 ^ 63) \<le> sint b" "sint b < 2 ^ 63" using sint_greater_eq [of b] sint_less [of b] by simp_all
  have "\<bar>sint a * sint b\<bar> \<le> 2 ^ 63 * 2 ^ 63"
    unfolding abs_mult using a b by (intro mult_mono) auto
  then have "- (2 ^ 127) \<le> sint a * sint b" "sint a * sint b < 2 ^ 127" by auto
  then have "signed_take_bit 127 (sint a * sint b) = sint a * sint b"
    by (simp add: signed_take_bit_int_eq_self)
  moreover have "sint (scast (a::u64) :: u128) = sint a" for a
    by (simp add: sint_up_scast is_up)
  ultimately show ?thesis by (simp add: sint_word_ariths)
qed

lemma sint_mult_bounds:
  "- (2 ^ 126) \<le> sint (a::u64) * sint (b::u64)" "sint a * sint b \<le> 2 ^ 126"
proof -
  have a: "- (2 ^ 63) \<le> sint a" "sint a < 2 ^ 63" using sint_greater_eq [of a] sint_less [of a] by simp_all
  have b: "- (2 ^ 63) \<le> sint b" "sint b < 2 ^ 63" using sint_greater_eq [of b] sint_less [of b] by simp_all
  have "\<bar>sint a * sint b\<bar> \<le> 2 ^ 63 * 2 ^ 63"
    unfolding abs_mult using a b by (intro mult_mono) auto
  then show "- (2 ^ 126) \<le> sint a * sint b" "sint a * sint b \<le> 2 ^ 126" by auto
qed

theorem mulh_uint64_sint: "sint (mulh_uint64 a b) = sint a * sint b div 2 ^ 64"
proof -
  have "mulh_uint64 a b = scast (signed_drop_bit 64 (scast a * scast b :: u128))"
    unfolding mulh_uint64_def by (rule bit_word_eqI) (auto simp: bit_simps)
  then have "sint (mulh_uint64 a b) = signed_take_bit 63 (sint a * sint b div 2 ^ 64)"
    by (simp add: signed_scast_eq sint_signed_drop_bit_eq sint_scast_mult drop_bit_eq_div)
  also have "\<dots> = sint a * sint b div 2 ^ 64"
  proof (rule signed_take_bit_int_eq_self)
    show "- (2 ^ 63) \<le> sint a * sint b div 2 ^ 64"
      using zdiv_mono1 [OF sint_mult_bounds(1) [of a b], of "2 ^ 64"] by simp
    show "sint a * sint b div 2 ^ 64 < 2 ^ 63"
      using zdiv_mono1 [OF sint_mult_bounds(2) [of a b], of "2 ^ 64"] by simp
  qed
  finally show ?thesis .
qed

lemma uint_eq_sint: "uint (a::u64) = sint a + (if 0 \<le>s a then 0 else 2 ^ 64)"
proof -
  have "sint a = signed_take_bit 63 (uint a)" by (simp add: sint_uint)
  moreover have "0 \<le>s a \<longleftrightarrow> 0 \<le> sint a" by (simp add: word_sle_eq)
  moreover have "uint a = take_bit 64 (sint a)" by (simp add: uint_sint)
  moreover have "- (2 ^ 63) \<le> sint a" "sint a < 2 ^ 63" using sint_greater_eq [of a] sint_less [of a] by simp_all
  moreover have "sint a mod 2 ^ 64 = sint a + 2 ^ 64" if "\<not> 0 \<le> sint a"
  proof -
    have "(sint a + 2 ^ 64) mod 2 ^ 64 = sint a + 2 ^ 64"
      using that calculation(4) by (intro mod_pos_pos_trivial) auto
    then show ?thesis by simp
  qed
  ultimately show ?thesis
    by (auto simp: take_bit_eq_mod mod_pos_pos_trivial)
qed

theorem mulhsu_uint64_sint: "sint (mulhsu_uint64 a b) = sint a * uint b div 2 ^ 64"
proof -
  let ?q = "sint a * uint b div 2 ^ 64"
  have a: "- (2 ^ 63) \<le> sint a" "sint a < 2 ^ 63" using sint_greater_eq [of a] sint_less [of a] by simp_all
  have b: "0 \<le> uint b" "uint b < 2 ^ 64" using uint_lt2p [of b] by simp_all
  have "uint a * uint b div 2 ^ 64 - (if 0 \<le>s a then 0 else uint b) = ?q"
    by (simp add: uint_eq_sint [of a] distrib_right)
  then have "mulhsu_uint64 a b = word_of_int ?q"
    by (metis (mono_tags, lifting) mulhsu_uint64_def mulhu_uint64_uint of_int_diff word_of_int_uint diff_zero of_int_uint)
  then have "sint (mulhsu_uint64 a b) = signed_take_bit 63 ?q" by (simp add: sint_sbintrunc')
  also have "\<dots> = ?q"
  proof (rule signed_take_bit_int_eq_self)
    have "- (2 ^ 63) * 2 ^ 64 \<le> sint a * uint b" using a b by (smt (verit) mult_mono' mult_minus_left mult_nonneg_nonneg mult_le_cancel_right)
    then show "- (2 ^ 63) \<le> ?q" using zdiv_mono1 [of "- (2 ^ 63) * 2 ^ 64" "sint a * uint b" "2 ^ 64"] by simp
    have "sint a * uint b < 2 ^ 63 * 2 ^ 64" using a b by (smt (verit) mult_strict_mono mult_nonneg_nonneg mult_nonpos_nonneg)
    then have "sint a * uint b \<le> 2 ^ 63 * 2 ^ 64 - 1" by simp
    then show "?q < 2 ^ 63" using zdiv_mono1 [of "sint a * uint b" "2 ^ 63 * 2 ^ 64 - 1" "2 ^ 64"] by simp
  qed
  finally show ?thesis .
qed

theorem mulh_uint64_sw_wrong: "mulh_uint64_sw 0xFFFFFFFF 0xFFFFFFFF \<noteq> mulh_uint64 0xFFFFFFFF 0xFFFFFFFF"
  by (simp add: mulh_uint64_sw_def mulh_uint64_def Let_def)

lemma mul_high_split:
  fixes M ah al bh bl :: int
  assumes "0 < M"
  shows "(ah * M + al) * (bh * M + bl) div (M * M)
    = (ah * bl) div M + ((al * bl) div M + (ah * bl) mod M + al * bh) div M + ah * bh"
proof -
  have "(ah * M + al) * (bh * M + bl) = al * bl + (ah * bh * M + ah * bl + al * bh) * M"
    by (simp add: algebra_simps)
  then have "(ah * M + al) * (bh * M + bl) div M = al * bl div M + (ah * bh * M + ah * bl + al * bh)"
    using assms by simp
  also have "\<dots> = (al * bl div M + ah * bl mod M + al * bh) + (ah * bh + ah * bl div M) * M"
    using div_mult_mod_eq [of "ah * bl" M] by (simp add: algebra_simps)
  finally have "(ah * M + al) * (bh * M + bl) div M div M
      = (al * bl div M + ah * bl mod M + al * bh) div M + (ah * bh + ah * bl div M)"
    using assms by simp
  then show ?thesis using assms by (simp add: zdiv_zmult2_eq)
qed

lemma uint_lo32: "uint (ucast (ucast (a::u64) :: u32) :: u64) = uint a mod 2 ^ 32"
  by (simp only: unsigned_ucast_eq take_bit_eq_mod unsigned_take_bit_eq) (simp add: uint_mod_distrib)

lemma uint_hi32: "uint (drop_bit 32 (a::u64)) = uint a div 2 ^ 32"
  unfolding drop_bit_eq_div by (simp add: uint_div_distrib)

lemma uint_plus_no_wrap: "uint a + uint b < 2 ^ LENGTH('a) \<Longrightarrow> uint (a + b :: 'a::len word) = uint a + uint b"
  by (simp add: uint_word_ariths mod_pos_pos_trivial)

lemma uint_mult_no_wrap: "uint a * uint b < 2 ^ LENGTH('a) \<Longrightarrow> uint (a * b :: 'a::len word) = uint a * uint b"
  by (simp add: uint_word_ariths mod_pos_pos_trivial)

theorem mulhu_uint64_sw_eq: "mulhu_uint64_sw a b = mulhu_uint64 a b"
proof -
  define M where "M = (2 :: int) ^ 32"
  define ah al bh bl where "ah = uint a div M" "al = uint a mod M" "bh = uint b div M" "bl = uint b mod M"
  have M: "0 < M" "M * M = 2 ^ 64" by (simp_all add: M_def)
  have ua: "uint a = ah * M + al" "uint b = bh * M + bl" by (simp_all add: ah_al_bh_bl_def)
  have bounds: "0 \<le> ah" "ah \<le> M - 1" "0 \<le> al" "al \<le> M - 1" "0 \<le> bh" "bh \<le> M - 1" "0 \<le> bl" "bl \<le> M - 1"
    using uint_lt2p [of a] uint_lt2p [of b] unfolding ah_al_bh_bl_def M_def
    by (auto simp: pos_imp_zdiv_nonneg_iff)
  have p: "x * y \<le> (M - 1) * (M - 1)" "0 \<le> x * y" if "0 \<le> x" "x \<le> M - 1" "0 \<le> y" "y \<le> M - 1" for x y
    using that by (auto intro: mult_mono)
  have sq: "(M - 1) * (M - 1) < 2 ^ 64" by (simp add: M_def)
  define lo_lo :: u64 where "lo_lo = ucast (ucast a :: u32) * ucast (ucast b :: u32)"
  define hi_lo :: u64 where "hi_lo = drop_bit 32 a * ucast (ucast b :: u32)"
  define lo_hi :: u64 where "lo_hi = ucast (ucast a :: u32) * drop_bit 32 b"
  define hi_hi :: u64 where "hi_hi = drop_bit 32 a * drop_bit 32 b"
  define cross :: u64 where "cross = drop_bit 32 lo_lo + ucast (ucast hi_lo :: u32) + lo_hi"
  have parts: "uint (ucast (ucast a :: u32) :: u64) = al" "uint (ucast (ucast b :: u32) :: u64) = bl"
    "uint (drop_bit 32 a) = ah" "uint (drop_bit 32 b) = bh"
    by (simp_all only: uint_lo32 uint_hi32 ah_al_bh_bl_def M_def)
  have mul: "uint (x * y) = uint x * uint y"
    if "0 \<le> uint x" "uint x \<le> M - 1" "0 \<le> uint y" "uint y \<le> M - 1" for x y :: u64
    using le_less_trans [OF p(1) sq] that by (intro uint_mult_no_wrap) simp
  have u: "uint lo_lo = al * bl" "uint hi_lo = ah * bl" "uint lo_hi = al * bh" "uint hi_hi = ah * bh"
    unfolding lo_lo_def hi_lo_def lo_hi_def hi_hi_def
    by (simp_all only: mul parts bounds)
  have q: "0 \<le> x div M" "x div M \<le> M - 1" "0 \<le> y mod M" "y mod M \<le> M - 1" if "0 \<le> x" "x \<le> (M - 1) * (M - 1)" for x y
  proof -
    show "0 \<le> x div M" using that M by (simp add: pos_imp_zdiv_nonneg_iff)
    have "x div M \<le> (M - 1) * (M - 1) div M" using that M by (intro zdiv_mono1)
    then show "x div M \<le> M - 1" by (simp add: M_def)
    show "0 \<le> y mod M" using M by simp
    show "y mod M \<le> M - 1" using M by (simp add: pos_mod_bound zle_diff1_eq)
  qed
  have c: "(al * bl) div M + (ah * bl) mod M + al * bh \<le> (M - 1) + (M - 1) + (M - 1) * (M - 1)"
    using q(2) [OF p(2) p(1), of al bl] q(4) [of 0 "ah * bl"] p(1) [of al bh] bounds M by (intro add_mono) auto
  have sum: "(M - 1) + (M - 1) + (M - 1) * (M - 1) < 2 ^ 64" by (simp add: M_def)
  have uc: "uint cross = (al * bl) div M + (ah * bl) mod M + al * bh"
  proof -
    have 1: "uint (drop_bit 32 lo_lo) = (al * bl) div M" "uint (ucast (ucast hi_lo :: u32) :: u64) = (ah * bl) mod M"
      by (simp_all only: uint_hi32 uint_lo32 u M_def)
    have nn: "0 \<le> al * bh" using bounds by simp
    have "uint (drop_bit 32 lo_lo + ucast (ucast hi_lo :: u32)) = (al * bl) div M + (ah * bl) mod M"
      using c sum nn by (subst uint_plus_no_wrap; simp only: 1; simp)
    then show ?thesis unfolding cross_def using c sum by (subst uint_plus_no_wrap; simp only: u; simp)
  qed
  have r: "(ah * bl) div M + ((al * bl) div M + (ah * bl) mod M + al * bh) div M + ah * bh = uint (mulhu_uint64 a b)"
    unfolding mulhu_uint64_uint ua M(2) [symmetric] by (rule mul_high_split [OF M(1), symmetric])
  have pos: "0 \<le> ah * bh" "0 \<le> ((al * bl) div M + (ah * bl) mod M + al * bh) div M" "0 \<le> (ah * bl) div M"
    using bounds M by (auto simp: pos_imp_zdiv_nonneg_iff)
  have "uint (drop_bit 32 hi_lo + drop_bit 32 cross + hi_hi) = uint (mulhu_uint64 a b)"
  proof -
    have 1: "uint (drop_bit 32 hi_lo) = (ah * bl) div M"
      "uint (drop_bit 32 cross) = ((al * bl) div M + (ah * bl) mod M + al * bh) div M"
      by (simp_all only: uint_hi32 u uc M_def)
    have lt: "uint (mulhu_uint64 a b) < 2 ^ 64" using uint_lt2p [of "mulhu_uint64 a b"] by simp
    have "uint (drop_bit 32 hi_lo + drop_bit 32 cross)
        = (ah * bl) div M + ((al * bl) div M + (ah * bl) mod M + al * bh) div M"
      using r lt pos by (subst uint_plus_no_wrap; simp only: 1; simp)
    then show ?thesis using r lt pos by (subst uint_plus_no_wrap; simp only: u; simp)
  qed
  then show ?thesis
    unfolding mulhu_uint64_sw_def Let_def
    by (simp only: lo_lo_def hi_lo_def lo_hi_def hi_hi_def cross_def word_uint_eq_iff)
qed

end
