(* ===== verification/RVVM_Hart.thy ===== *)
theory RVVM_Hart
  imports RVVM_State
begin

text \<open>
  The hart of src/rvvm/src/riscv_hart.c and riscv_hart.h with the feature checks of riscv_csr.h:
  privilege and width switching, traps and their delegation, interrupts, the AIA register file,
  timer checks and events.  Atomic operations on fields that other threads share are single
  state updates.
\<close>

section \<open>Widths and privileges\<close>

definition riscv_update_xlen :: "'d rvvm_hart \<Rightarrow> 'd rvvm_hart" where
  "riscv_update_xlen vm =
     (let rv = (if priv_mode vm = RISCV_PRIV_MACHINE then csr_isa (csr vm) AND CSR_MISA_RV64 \<noteq> 0
                else if priv_mode vm = RISCV_PRIV_HYPERVISOR \<or> priv_mode vm = RISCV_PRIV_SUPERVISOR
                  then bit_check (status vm) 35
                else if priv_mode vm = RISCV_PRIV_USER then bit_check (status vm) 33
                else False)
      in if rv64 vm \<noteq> rv then riscv_restart_dispatch (vm\<lparr>rv64 := rv\<rparr>) else vm)"

definition riscv_switch_priv :: "nat \<Rightarrow> 'd rvvm_hart \<Rightarrow> 'd rvvm_hart" where
  "riscv_switch_priv priv vm =
     (if priv_mode vm \<noteq> priv then riscv_tlb_flush (riscv_update_xlen (vm\<lparr>priv_mode := priv\<rparr>))
      else vm)"

definition riscv_trap_priv_helper :: "nat \<Rightarrow> 'd rvvm_hart \<Rightarrow> 'd rvvm_hart" where
  "riscv_trap_priv_helper target_priv vm =
     (if target_priv = RISCV_PRIV_MACHINE then
        (let s = bit_replace (status vm) 11 2 (of_nat (priv_mode vm));
             s = bit_replace s 7 1 (bit_cut s 3 1)
         in set_status (bit_replace s 3 1 0) vm)
      else if target_priv = RISCV_PRIV_HYPERVISOR \<or> target_priv = RISCV_PRIV_SUPERVISOR then
        (let s = bit_replace (status vm) 8 1 (of_nat (priv_mode vm));
             s = bit_replace s 5 1 (bit_cut s 1 1)
         in set_status (bit_replace s 1 1 0) vm)
      else if target_priv = RISCV_PRIV_USER then
        (let s = bit_replace (status vm) 4 1 (bit_cut (status vm) 0 1)
         in set_status (bit_replace s 0 1 0) vm)
      else vm)"

section \<open>Traps\<close>

definition riscv_restart_at_pc :: "u64 \<Rightarrow> 'd rvvm_hart \<Rightarrow> 'd rvvm_hart" where
  "riscv_restart_at_pc pc vm = riscv_restart_dispatch (vm\<lparr>trap_pc := pc, trap := True\<rparr>)"

text \<open>The delegation loop of \<open>riscv_trap\<close>, from the given privilege mode downwards.\<close>

primrec riscv_trap_target :: "(nat \<Rightarrow> u64) \<Rightarrow> nat \<Rightarrow> nat \<Rightarrow> nat \<Rightarrow> nat" where
  "riscv_trap_target edeleg mode cause 0 = 0"
| "riscv_trap_target edeleg mode cause (Suc p) =
     (if Suc p > mode \<and> edeleg (Suc p) AND push_bit cause 1 \<noteq> 0
      then riscv_trap_target edeleg mode cause p else Suc p)"

definition riscv_trap :: "nat \<Rightarrow> u64 \<Rightarrow> 'd rvvm_hart \<Rightarrow> 'd rvvm_hart" where
  "riscv_trap cause tval vm =
     (if trap vm then vm
      else if userland vm then
        (let c = csr vm;
             vm = vm\<lparr>csr := c\<lparr>csr_cause := (csr_cause c)(RISCV_PRIV_USER := of_nat cause),
                              csr_tval := (csr_tval c)(RISCV_PRIV_USER := tval)\<rparr>,
                     trap_pc := registers vm RISCV_REG_PC\<rparr>
         in riscv_restart_at_pc (registers vm RISCV_REG_PC) vm)
      else
        (let priv = riscv_trap_target (csr_edeleg (csr vm)) (priv_mode vm) cause RISCV_PRIV_MACHINE;
             c = csr vm;
             vm = vm\<lparr>csr := c\<lparr>csr_epc := (csr_epc c)(priv := registers vm RISCV_REG_PC),
                              csr_cause := (csr_cause c)(priv := of_nat cause),
                              csr_tval := (csr_tval c)(priv := tval)\<rparr>\<rparr>;
             vm = riscv_trap_priv_helper priv vm;
             vm = riscv_switch_priv priv vm
         in riscv_restart_at_pc (csr_tvec (csr vm) priv AND NOT 3) vm))"

definition riscv_breakpoint :: "'d rvvm_machine \<Rightarrow> 'd rvvm_hart \<Rightarrow> 'd rvvm_hart" where
  "riscv_breakpoint M vm =
     (case m_gdbstub_halt M of
        Some halt \<Rightarrow>
          if halt vm then riscv_restart_at_pc (registers vm RISCV_REG_PC) vm
          else riscv_trap RISCV_TRAP_BREAKPOINT 0 vm
      | None \<Rightarrow> riscv_trap RISCV_TRAP_BREAKPOINT 0 vm)"

definition riscv_illegal_insn :: "u32 \<Rightarrow> 'd rvvm_hart \<Rightarrow> 'd rvvm_hart" where
  "riscv_illegal_insn insn vm = riscv_trap RISCV_TRAP_ILL_INSN (ucast insn) vm"

section \<open>Interrupts\<close>

text \<open>
  Waking the sleeping hart thread has no effect on the modelled state, so \<open>riscv_hart_notify\<close>
  is the restart of the dispatch loop.
\<close>

definition riscv_hart_notify :: "'d rvvm_hart \<Rightarrow> 'd rvvm_hart" where
  "riscv_hart_notify vm = riscv_restart_dispatch vm"

definition riscv_interrupt_set :: "nat \<Rightarrow> 'd rvvm_hart \<Rightarrow> bool \<times> 'd rvvm_hart" where
  "riscv_interrupt_set irq vm =
     (let mask = push_bit (irq mod 32) 1
      in (NOT (pending_irqs vm) AND mask \<noteq> 0, vm\<lparr>pending_irqs := pending_irqs vm OR mask\<rparr>))"

definition riscv_interrupt :: "nat \<Rightarrow> 'd rvvm_hart \<Rightarrow> 'd rvvm_hart" where
  "riscv_interrupt irq vm =
     (let (new, vm) = riscv_interrupt_set irq vm in if new then riscv_hart_notify vm else vm)"

definition riscv_interrupt_clear :: "nat \<Rightarrow> 'd rvvm_hart \<Rightarrow> 'd rvvm_hart" where
  "riscv_interrupt_clear irq vm = vm\<lparr>pending_irqs := pending_irqs vm AND NOT (push_bit irq 1)\<rparr>"

definition riscv_interrupts_raised :: "'d rvvm_hart \<Rightarrow> u32" where
  "riscv_interrupts_raised vm = pending_irqs vm"

definition riscv_interrupts_pending :: "'d rvvm_hart \<Rightarrow> u32" where
  "riscv_interrupts_pending vm =
     ucast ((ucast (riscv_interrupts_raised vm) OR csr_ip (csr vm)) AND csr_ie (csr vm))"

definition riscv_hart_check_interrupts :: "'d rvvm_hart \<Rightarrow> 'd rvvm_hart" where
  "riscv_hart_check_interrupts vm =
     (if riscv_interrupts_pending vm \<noteq> 0 then riscv_restart_dispatch vm else vm)"

definition riscv_hart_check_timer :: "'d rvvm_hart \<Rightarrow> 'd rvvm_hart" where
  "riscv_hart_check_timer vm =
     (if wfi_waiters vm = 0 then
        (let vm = (if mtimecmp vm \<le> timer vm
                   then (let (new, vm) = riscv_interrupt_set RISCV_INTERRUPT_MTIMER vm
                         in if new then riscv_restart_dispatch vm else vm)
                   else vm)
         in if stimecmp vm \<le> timer vm
            then (let (new, vm) = riscv_interrupt_set RISCV_INTERRUPT_STIMER vm
                  in if new then riscv_restart_dispatch vm else vm)
            else vm)
      else vm)"

abbreviation (input) HART_EVENT_PAUSE :: u32 where "HART_EVENT_PAUSE \<equiv> 1"
abbreviation (input) HART_EVENT_PREEMPT :: u32 where "HART_EVENT_PREEMPT \<equiv> 2"

definition riscv_hart_preempt :: "u32 \<Rightarrow> 'd rvvm_hart \<Rightarrow> 'd rvvm_hart" where
  "riscv_hart_preempt ms vm =
     (if ms \<noteq> 0
      then riscv_restart_dispatch
             (vm\<lparr>preempt_ms := ms, pending_events := pending_events vm OR HART_EVENT_PREEMPT\<rparr>)
      else vm)"

definition riscv_hart_queue_pause :: "'d rvvm_hart \<Rightarrow> 'd rvvm_hart" where
  "riscv_hart_queue_pause vm =
     riscv_hart_notify (vm\<lparr>pending_events := pending_events vm OR HART_EVENT_PAUSE\<rparr>)"

definition riscv_cause_irq_mask :: "'d rvvm_hart \<Rightarrow> u64" where
  "riscv_cause_irq_mask vm = (if rv64 vm then 0x8000000000000000 else 0x80000000)"

text \<open>
  The loop of \<open>riscv_handle_irqs\<close> that hands the pending interrupts down from M-mode: the mode
  it stops at and the interrupts left there.
\<close>

primrec riscv_irq_target :: "(nat \<Rightarrow> u64) \<Rightarrow> nat \<Rightarrow> u32 \<Rightarrow> nat \<times> u32" where
  "riscv_irq_target ideleg 0 pending = (0, 0)"
| "riscv_irq_target ideleg (Suc p) pending =
     (let irqs = pending AND ucast (NOT (ideleg (Suc p)));
          pending = pending AND ucast (ideleg (Suc p))
      in if irqs \<noteq> 0 then (Suc p, irqs) else riscv_irq_target ideleg p pending)"

definition riscv_handle_irqs :: "'d rvvm_hart \<Rightarrow> 'd rvvm_hart" where
  "riscv_handle_irqs vm =
     (let pending = riscv_interrupts_pending vm
      in if pending \<noteq> 0 then
           (let (priv, irqs) = riscv_irq_target (csr_ideleg (csr vm)) RISCV_PRIV_MACHINE pending
            in if priv_mode vm > priv then vm
               else if priv_mode vm = priv \<and> push_bit (priv_mode vm) 1 AND status vm = 0 then vm
               else
                 (let irq = bit_clz32 irqs XOR 31;
                      vm = riscv_trap_priv_helper priv vm;
                      vm = riscv_switch_priv priv vm;
                      c = csr vm;
                      vm = vm\<lparr>csr := c\<lparr>csr_epc := (csr_epc c)(priv := registers vm RISCV_REG_PC),
                             csr_cause := (csr_cause c)(priv := ucast irq OR riscv_cause_irq_mask vm),
                             csr_tval := (csr_tval c)(priv := 0)\<rparr>\<rparr>
                  in if csr_tvec (csr vm) priv AND 1 \<noteq> 0
                     then set_reg RISCV_REG_PC
                            ((csr_tvec (csr vm) priv AND NOT 3) + ucast (push_bit 2 irq)) vm
                     else set_reg RISCV_REG_PC (csr_tvec (csr vm) priv AND NOT 3) vm))
         else vm)"

section \<open>Advanced interrupt architecture\<close>

abbreviation (input) RVVM_AIA_IRQ_LIMIT :: u32 where "RVVM_AIA_IRQ_LIMIT \<equiv> 256"
abbreviation (input) RVVM_AIA_ARR_LEN :: nat where "RVVM_AIA_ARR_LEN \<equiv> 8"

definition riscv_hart_aia_init :: "'d rvvm_hart \<Rightarrow> 'd rvvm_hart" where
  "riscv_hart_aia_init vm =
     (case aia vm of
        None \<Rightarrow> vm\<lparr>aia := Some (\<lambda>_. \<lparr>eidelivery = 0, eithreshold = 0, eip = (\<lambda>_. 0), eie = (\<lambda>_. 0)\<rparr>)\<rparr>
      | Some _ \<Rightarrow> vm)"

definition aia_msip :: "bool \<Rightarrow> nat" where
  "aia_msip smode = (if smode then RISCV_INTERRUPT_SEXTERNAL else RISCV_INTERRUPT_MEXTERNAL)"

definition riscv_send_aia_irq :: "bool \<Rightarrow> u32 \<Rightarrow> 'd rvvm_hart \<Rightarrow> 'd rvvm_hart" where
  "riscv_send_aia_irq smode irq vm =
     (case aia vm of
        Some files \<Rightarrow>
          if irq \<noteq> 0 \<and> irq < RVVM_AIA_IRQ_LIMIT \<and> eidelivery (files smode) \<noteq> 0 then
            (let f = files smode;
                 thresh = eithreshold f - 1;
                 reg = unat (drop_bit 5 irq);
                 val = push_bit (unat (irq AND 0x1F)) 1;
                 prev = eip f reg;
                 vm = vm\<lparr>aia := Some (files(smode := f\<lparr>eip := (eip f)(reg := prev OR val)\<rparr>))\<rparr>
             in if irq < thresh \<and> val AND eie f reg \<noteq> 0 \<and> val AND prev = 0
                then riscv_interrupt (aia_msip smode) vm else vm)
          else vm
      | None \<Rightarrow> vm)"

fun riscv_aia_scan :: "bool \<Rightarrow> bool \<Rightarrow> bool \<Rightarrow> u32 \<Rightarrow> nat list \<Rightarrow> u32 \<Rightarrow> 'd rvvm_hart \<Rightarrow> u32 \<times> 'd rvvm_hart"
where
  "riscv_aia_scan smode update claim thresh [] ret vm = (ret, vm)"
| "riscv_aia_scan smode update claim thresh (i # is) ret vm =
     (case aia vm of
        None \<Rightarrow> (ret, vm)
      | Some files \<Rightarrow>
          (let f = files smode; bits = eip f i AND eie f i
           in if bits \<noteq> 0 then
                if ret \<noteq> 0 then (ret, riscv_interrupt (aia_msip smode) vm)
                else
                  (let b = bit_clz32 bits XOR 31;
                       irq = push_bit 5 (of_nat i) OR b;
                       mask = NOT (push_bit (unat b) 1)
                   in if irq < thresh then
                        (let bits = (if claim then bits AND mask else bits);
                             vm = (if claim
                                   then vm\<lparr>aia := Some (files(smode := f\<lparr>eip := (eip f)(i := eip f i AND mask)\<rparr>))\<rparr>
                                   else vm)
                         in if update
                            then if bits \<noteq> 0 then (irq, riscv_interrupt (aia_msip smode) vm)
                                 else riscv_aia_scan smode update claim thresh is irq vm
                            else (irq, vm))
                      else riscv_aia_scan smode update claim thresh is ret vm)
              else riscv_aia_scan smode update claim thresh is ret vm))"

definition riscv_update_aia_internal ::
  "bool \<Rightarrow> bool \<Rightarrow> bool \<Rightarrow> 'd rvvm_hart \<Rightarrow> u32 \<times> 'd rvvm_hart" where
  "riscv_update_aia_internal smode update claim vm =
     (case aia vm of
        None \<Rightarrow> (0, vm)
      | Some files \<Rightarrow>
          (let thresh = eithreshold (files smode) - 1;
               vm = (if update then riscv_interrupt_clear (aia_msip smode) vm else vm)
           in if eidelivery (files smode) \<noteq> 0
              then riscv_aia_scan smode update claim thresh [0..<RVVM_AIA_ARR_LEN] 0 vm
              else (0, vm)))"

definition riscv_update_aia_state :: "bool \<Rightarrow> 'd rvvm_hart \<Rightarrow> 'd rvvm_hart" where
  "riscv_update_aia_state smode vm = snd (riscv_update_aia_internal smode True False vm)"

definition riscv_get_aia_irq :: "bool \<Rightarrow> bool \<Rightarrow> 'd rvvm_hart \<Rightarrow> u32 \<times> 'd rvvm_hart" where
  "riscv_get_aia_irq smode claim vm = riscv_update_aia_internal smode True claim vm"

section \<open>Feature checks\<close>

definition riscv_csr_privilege :: "u32 \<Rightarrow> nat" where
  "riscv_csr_privilege csr_id = unat (bit_cut (ucast csr_id) 8 2)"

definition riscv_csr_readonly :: "u32 \<Rightarrow> bool" where
  "riscv_csr_readonly csr_id \<longleftrightarrow> bit_cut (ucast csr_id) 10 2 = 3"

definition riscv_csr_envcfg_enabled :: "u64 \<Rightarrow> 'd rvvm_hart \<Rightarrow> bool" where
  "riscv_csr_envcfg_enabled mask0 vm \<longleftrightarrow>
     (let mask = (if priv_mode vm < RISCV_PRIV_MACHINE
                  then mask0 AND csr_envcfg (csr vm) RISCV_PRIV_MACHINE else mask0);
          mask = (if priv_mode vm < RISCV_PRIV_SUPERVISOR
                  then mask AND csr_envcfg (csr vm) RISCV_PRIV_SUPERVISOR else mask)
      in mask \<noteq> 0)"

definition riscv_csr_counter_enabled :: "u32 \<Rightarrow> 'd rvvm_hart \<Rightarrow> bool" where
  "riscv_csr_counter_enabled counter vm \<longleftrightarrow>
     (let mask = bit_set32 counter;
          mask = (if priv_mode vm < RISCV_PRIV_MACHINE
                  then mask AND ucast (csr_counteren (csr vm) RISCV_PRIV_MACHINE) else mask);
          mask = (if priv_mode vm < RISCV_PRIV_SUPERVISOR
                  then mask AND ucast (csr_counteren (csr vm) RISCV_PRIV_SUPERVISOR) else mask)
      in mask \<noteq> 0)"

definition riscv_csr_seed_enabled :: "'d rvvm_hart \<Rightarrow> bool" where
  "riscv_csr_seed_enabled vm \<longleftrightarrow>
     (if priv_mode vm = RISCV_PRIV_USER then csr_mseccfg (csr vm) AND 0x100 \<noteq> 0
      else if priv_mode vm < RISCV_PRIV_MACHINE then csr_mseccfg (csr vm) AND 0x200 \<noteq> 0
      else True)"

definition riscv_csr_cbi_enabled :: "'d rvvm_hart \<Rightarrow> bool" where
  "riscv_csr_cbi_enabled vm \<longleftrightarrow> riscv_csr_envcfg_enabled 0x10 vm"

definition riscv_csr_cbcf_enabled :: "'d rvvm_hart \<Rightarrow> bool" where
  "riscv_csr_cbcf_enabled vm \<longleftrightarrow> riscv_csr_envcfg_enabled 0x40 vm"

definition riscv_csr_cbz_enabled :: "'d rvvm_hart \<Rightarrow> bool" where
  "riscv_csr_cbz_enabled vm \<longleftrightarrow> riscv_csr_envcfg_enabled 0x80 vm"

definition riscv_csr_sstc_enabled :: "'d rvvm_hart \<Rightarrow> bool" where
  "riscv_csr_sstc_enabled vm \<longleftrightarrow> riscv_csr_envcfg_enabled 0x8000000000000000 vm"

end
