(* ===== verification/RVVM_MMU.thy ===== *)
theory RVVM_MMU
  imports RVVM_Hart
begin

text \<open>
  The memory management unit of src/rvvm/src/riscv_mmu.c and riscv_mmu.h: page table walks,
  MMIO dispatch, the slow access path and the TLB-cached loads, stores and fetches.

  A host pointer an operation returns is null, an address of the host memory, or the data
  buffer the caller passed; buffers are byte lists, absent for a null pointer.  The page walk
  updates the accessed and dirty bits with a compare-and-swap on the entry it has just read:
  between these two steps no other hart writes the entry, so the swap succeeds.
\<close>

section \<open>Physical memory\<close>

definition riscv_init_ram :: "u64 \<Rightarrow> u64 \<Rightarrow> u64 option \<Rightarrow> rvvm_ram option" where
  "riscv_init_ram base_addr sz alloc =
     (if base_addr AND 0xFFF \<noteq> 0 \<or> sz AND 0xFFF \<noteq> 0 then None
      else case alloc of
        None \<Rightarrow> None
      | Some data \<Rightarrow> Some \<lparr>ram_addr = base_addr, ram_size = sz, ram_data = data\<rparr>)"

definition riscv_phys_access :: "u64 \<Rightarrow> 'd rvvm_hart \<Rightarrow> u64 option" where
  "riscv_phys_access paddr vm =
     (if ram_addr (mem vm) \<le> paddr \<and> paddr - ram_addr (mem vm) < ram_size (mem vm)
      then Some (ram_data (mem vm) + (paddr - ram_addr (mem vm))) else None)"

section \<open>Page table walk\<close>

abbreviation (input) RISCV_MMU_DEBUG_ACCESS :: u8 where "RISCV_MMU_DEBUG_ACCESS \<equiv> 14"

definition riscv_mmu_check_priv :: "nat \<Rightarrow> u8 \<Rightarrow> 'd rvvm_hart \<Rightarrow> bool" where
  "riscv_mmu_check_priv priv access vm =
     (if access = RISCV_MMU_DEBUG_ACCESS then True
      else if access = RISCV_MMU_EXEC then False
      else if priv \<noteq> RISCV_PRIV_SUPERVISOR \<or> status vm AND CSR_STATUS_SUM = 0 then False
      else True)"

text \<open>The loop over the levels of an SV32 page table, with the number of levels left.\<close>

primrec riscv_mmu_walk_sv32 ::
  "nat \<Rightarrow> u64 \<Rightarrow> nat \<Rightarrow> u64 \<Rightarrow> nat \<Rightarrow> u8 \<Rightarrow> 'd rvvm_hart \<Rightarrow> u64 option \<times> 'd rvvm_hart" where
  "riscv_mmu_walk_sv32 0 pagetable bit_off vaddr priv access vm = (None, vm)"
| "riscv_mmu_walk_sv32 (Suc n) pagetable bit_off vaddr priv access vm =
     (let pgt_off = push_bit 2 (drop_bit bit_off vaddr AND 0x3FF)
      in case riscv_phys_access (pagetable + pgt_off) vm of
           None \<Rightarrow> (None, vm)
         | Some pte_ptr \<Rightarrow>
             (let pte = read_uint32_le (host vm) pte_ptr
              in if pte AND 1 \<noteq> 0 then
                   if pte AND 0xA \<noteq> 0 then
                     if (pte AND 0x10 \<noteq> 0) = (priv \<noteq> 0) \<and> \<not> riscv_mmu_check_priv priv access vm
                     then (None, vm)
                     else if pte AND ucast access \<noteq> 0 then
                       (let vmask = bit_mask bit_off;
                            pmask = push_bit bit_off (bit_mask (34 - bit_off));
                            pte_shift = ucast (push_bit 2 pte) :: u64;
                            pte_ad = pte OR 0x40 OR push_bit 5 (ucast (access AND RISCV_MMU_WRITE))
                        in if pte_shift AND vmask AND NOT 0xFFF \<noteq> 0 then (None, vm)
                           else (Some ((pte_shift AND pmask) OR (vaddr AND vmask)),
                                 if pte \<noteq> pte_ad then vm\<lparr>host := write_uint32_le (host vm) pte_ptr pte_ad\<rparr>
                                 else vm))
                     else riscv_mmu_walk_sv32 n pagetable bit_off vaddr priv access vm
                   else if pte AND 4 = 0
                     then riscv_mmu_walk_sv32 n (ucast (push_bit 12 (drop_bit 10 pte))) (bit_off - 10)
                            vaddr priv access vm
                     else riscv_mmu_walk_sv32 n pagetable bit_off vaddr priv access vm
                 else riscv_mmu_walk_sv32 n pagetable bit_off vaddr priv access vm))"

definition riscv_mmu_translate_sv32 ::
  "u64 \<Rightarrow> nat \<Rightarrow> u8 \<Rightarrow> 'd rvvm_hart \<Rightarrow> u64 option \<times> 'd rvvm_hart" where
  "riscv_mmu_translate_sv32 vaddr priv access vm =
     riscv_mmu_walk_sv32 2 (root_page_table vm) 22 vaddr priv access vm"

primrec riscv_mmu_walk_rv64 ::
  "nat \<Rightarrow> u64 \<Rightarrow> nat \<Rightarrow> u64 \<Rightarrow> nat \<Rightarrow> u8 \<Rightarrow> 'd rvvm_hart \<Rightarrow> u64 option \<times> 'd rvvm_hart" where
  "riscv_mmu_walk_rv64 0 pagetable bit_off vaddr priv access vm = (None, vm)"
| "riscv_mmu_walk_rv64 (Suc n) pagetable bit_off vaddr priv access vm =
     (let pgt_off = push_bit 3 (drop_bit bit_off vaddr AND 0x1FF)
      in case riscv_phys_access (pagetable + pgt_off) vm of
           None \<Rightarrow> (None, vm)
         | Some pte_ptr \<Rightarrow>
             (let pte = read_uint64_le (host vm) pte_ptr
              in if pte AND 1 \<noteq> 0 then
                   if pte AND 0xA \<noteq> 0 then
                     if (pte AND 0x10 \<noteq> 0) = (priv \<noteq> 0) \<and> \<not> riscv_mmu_check_priv priv access vm
                     then (None, vm)
                     else if pte AND ucast access \<noteq> 0 then
                       (let vmask = bit_mask bit_off;
                            pmask = push_bit bit_off (bit_mask (56 - bit_off));
                            pte_shift = push_bit 2 pte;
                            pte_ad = pte OR 0x40 OR push_bit 5 (ucast (access AND RISCV_MMU_WRITE))
                        in if pte_shift AND vmask AND NOT 0xFFF \<noteq> 0 then (None, vm)
                           else (Some ((pte_shift AND pmask) OR (vaddr AND vmask)),
                                 if pte \<noteq> pte_ad then vm\<lparr>host := write_uint64_le (host vm) pte_ptr pte_ad\<rparr>
                                 else vm))
                     else riscv_mmu_walk_rv64 n pagetable bit_off vaddr priv access vm
                   else if pte AND 4 = 0
                     then riscv_mmu_walk_rv64 n (push_bit 12 (drop_bit 10 pte) AND 0xFFFFFFFFFFFFFF)
                            (bit_off - 9) vaddr priv access vm
                     else riscv_mmu_walk_rv64 n pagetable bit_off vaddr priv access vm
                 else riscv_mmu_walk_rv64 n pagetable bit_off vaddr priv access vm))"

definition riscv_mmu_translate_rv64 ::
  "nat \<Rightarrow> u64 \<Rightarrow> nat \<Rightarrow> u8 \<Rightarrow> 'd rvvm_hart \<Rightarrow> u64 option \<times> 'd rvvm_hart" where
  "riscv_mmu_translate_rv64 sv_levels vaddr priv access vm =
     (let bit_off = sv_levels * 9 + 12 - 9
      in if vaddr \<noteq> sign_extend vaddr (bit_off + 9) then (None, vm)
         else riscv_mmu_walk_rv64 sv_levels (root_page_table vm) bit_off vaddr priv access vm)"

abbreviation (input) CSR_SATP_MODE_BARE :: u8 where "CSR_SATP_MODE_BARE \<equiv> 0"
abbreviation (input) CSR_SATP_MODE_SV32 :: u8 where "CSR_SATP_MODE_SV32 \<equiv> 1"
abbreviation (input) CSR_SATP_MODE_SV39 :: u8 where "CSR_SATP_MODE_SV39 \<equiv> 8"
abbreviation (input) CSR_SATP_MODE_SV48 :: u8 where "CSR_SATP_MODE_SV48 \<equiv> 9"
abbreviation (input) CSR_SATP_MODE_SV57 :: u8 where "CSR_SATP_MODE_SV57 \<equiv> 10"

definition riscv_mmu_translate :: "u64 \<Rightarrow> u8 \<Rightarrow> 'd rvvm_hart \<Rightarrow> u64 option \<times> 'd rvvm_hart" where
  "riscv_mmu_translate vaddr access0 vm =
     (let priv = (if status vm AND CSR_STATUS_MPRV \<noteq> 0 \<and> access0 \<noteq> RISCV_MMU_EXEC
                  then unat (bit_cut (status vm) 11 2) else priv_mode vm);
          access = (if status vm AND CSR_STATUS_MXR \<noteq> 0 \<and> access0 = RISCV_MMU_READ
                    then access0 OR RISCV_MMU_EXEC else access0)
      in if priv < RISCV_PRIV_MACHINE then
           if mmu_mode vm = CSR_SATP_MODE_BARE then (Some vaddr, vm)
           else if mmu_mode vm = CSR_SATP_MODE_SV32 then riscv_mmu_translate_sv32 vaddr priv access vm
           else if mmu_mode vm = CSR_SATP_MODE_SV39 then riscv_mmu_translate_rv64 3 vaddr priv access vm
           else if mmu_mode vm = CSR_SATP_MODE_SV48 then riscv_mmu_translate_rv64 4 vaddr priv access vm
           else if mmu_mode vm = CSR_SATP_MODE_SV57 then riscv_mmu_translate_rv64 5 vaddr priv access vm
           else (None, vm)
         else (Some vaddr, vm))"

section \<open>MMIO\<close>

definition rvvm_mmio_none :: "u8 list \<Rightarrow> nat \<Rightarrow> u8 list" where
  "rvvm_mmio_none dest sz = replicate sz 0 @ drop sz dest"

text \<open>
  Copies into a buffer from an offset, as \<open>memcpy\<close> and the byte loop of
  \<open>atomic_memcpy_relaxed\<close> do.
\<close>

definition buf_write :: "u8 list \<Rightarrow> nat \<Rightarrow> u8 list \<Rightarrow> u8 list" where
  "buf_write buf off bs = take off buf @ bs @ drop (off + length bs) buf"

text \<open>
  The loop of \<open>riscv_mmio_unaligned_op\<close> that splits an access into aligned device operations.
  Every pass takes at least one byte when the device accepts operations of at least one byte,
  so the number of bytes is enough fuel.
\<close>

primrec riscv_mmio_unaligned_loop ::
  "nat \<Rightarrow> 'd mmio_dev \<Rightarrow> nat \<Rightarrow> u8 \<Rightarrow> u8 list \<Rightarrow> u8 list \<Rightarrow> u64 \<Rightarrow> nat \<Rightarrow> nat \<Rightarrow> nat \<Rightarrow> 'd rvvm_hart
     \<Rightarrow> bool \<times> u8 list \<times> 'd rvvm_hart" where
  "riscv_mmio_unaligned_loop 0 dev align access tmp data offset_align offset_diff offset_dest sz vm =
     (True, data, vm)"
| "riscv_mmio_unaligned_loop (Suc fuel) dev align access tmp data offset_align offset_diff offset_dest sz vm =
     (if sz = 0 then (True, data, vm)
      else
        (let size_dest = (if align - offset_diff > sz then sz else align - offset_diff);
             rd = (if access \<noteq> RISCV_MMU_WRITE \<or> offset_diff \<noteq> 0 \<or> size_dest \<noteq> align
                   then (case mmio_read dev of
                           None \<Rightarrow> (False, tmp, vm)
                         | Some f \<Rightarrow> (let (ok, bs, vm) = f (take align tmp) offset_align (of_nat align) vm
                                     in (ok, buf_write tmp 0 bs, vm)))
                   else (True, tmp, vm))
         in case rd of (ok, tmp, vm) \<Rightarrow>
              if \<not> ok then (False, data, vm)
              else if access = RISCV_MMU_WRITE then
                (let tmp = buf_write tmp offset_diff (take size_dest (drop offset_dest data))
                 in case mmio_write dev of
                      None \<Rightarrow> (False, data, vm)
                    | Some f \<Rightarrow>
                        (let (ok, bs, vm) = f (take align tmp) offset_align (of_nat align) vm
                         in if \<not> ok then (False, data, vm)
                            else riscv_mmio_unaligned_loop fuel dev align access (buf_write tmp 0 bs) data
                                   (offset_align + of_nat align) 0 (offset_dest + size_dest)
                                   (sz - size_dest) vm))
              else riscv_mmio_unaligned_loop fuel dev align access tmp
                     (buf_write data offset_dest (take size_dest (drop offset_diff tmp)))
                     (offset_align + of_nat align) 0 (offset_dest + size_dest) (sz - size_dest) vm))"

definition riscv_mmio_unaligned_op ::
  "'d mmio_dev \<Rightarrow> u8 list \<Rightarrow> u64 \<Rightarrow> u8 \<Rightarrow> u8 \<Rightarrow> 'd rvvm_hart \<Rightarrow> bool \<times> u8 list \<times> 'd rvvm_hart" where
  "riscv_mmio_unaligned_op dev data offset sz access vm =
     (let align = (if sz < mmio_min_op_size dev then mmio_min_op_size dev
                   else if sz > mmio_max_op_size dev then mmio_max_op_size dev else sz);
          offset_align = offset AND NOT (ucast align - 1);
          offset_diff = offset - offset_align
      in if align > 16 then (False, data, vm\<lparr>fatal := True\<rparr>)
         else riscv_mmio_unaligned_loop (unat sz) dev (unat align) access (replicate 16 0) data
                offset_align (unat offset_diff) 0 (unat sz) vm)"

primrec riscv_mmio_scan ::
  "'d mmio_dev list \<Rightarrow> u64 \<Rightarrow> u64 \<Rightarrow> u8 list \<Rightarrow> u8 \<Rightarrow> u8 \<Rightarrow> 'd rvvm_hart \<Rightarrow> bool \<times> u8 list \<times> 'd rvvm_hart"
where
  "riscv_mmio_scan [] vaddr paddr data sz access vm = (False, data, vm)"
| "riscv_mmio_scan (mmio # devs) vaddr paddr data sz access vm =
     (if mmio_addr mmio \<le> paddr \<and> paddr < mmio_addr mmio + mmio_size mmio then
        (let rwfunc = (if access = RISCV_MMU_WRITE then mmio_write mmio else mmio_read mmio);
             offset = paddr - mmio_addr mmio;
             res = (case rwfunc of
                      Some f \<Rightarrow>
                        if sz \<le> mmio_max_op_size mmio \<and> mmio_min_op_size mmio \<le> sz
                           \<and> offset AND (ucast sz - 1) = 0
                        then snd (f data offset sz vm)
                        else snd (riscv_mmio_unaligned_op mmio data offset sz access vm)
                    | None \<Rightarrow>
                        (if mmio_mapping mmio = 0 then rvvm_mmio_none data (unat sz) else data, vm));
             data = fst res; vm = snd res
         in if mmio_mapping mmio \<noteq> 0 then
              (let paddr_align = paddr AND NOT 0xFFF;
                   ptr = mmio_mapping mmio + offset;
                   vm = (if mmio_addr mmio \<le> paddr_align
                            \<and> paddr_align + 0x1000 \<le> mmio_addr mmio + mmio_size mmio
                         then riscv_tlb_put vaddr ptr access vm else vm)
               in if access = RISCV_MMU_WRITE
                  then (True, data, vm\<lparr>host := write_bytes (host vm) ptr (take (unat sz) data)\<rparr>)
                  else (True, buf_write data 0 (read_bytes (host vm) ptr (unat sz)), vm))
            else (True, data, vm))
      else riscv_mmio_scan devs vaddr paddr data sz access vm)"

section \<open>Slow access path\<close>

abbreviation (input) RISCV_MMU_ATTR_NO_TRAP :: u32 where "RISCV_MMU_ATTR_NO_TRAP \<equiv> 0x100"
abbreviation (input) RISCV_MMU_ATTR_NO_PROT :: u32 where "RISCV_MMU_ATTR_NO_PROT \<equiv> 0x200"
abbreviation (input) RISCV_MMU_ATTR_PHYS :: u32 where "RISCV_MMU_ATTR_PHYS \<equiv> 0x400"
abbreviation (input) RISCV_MMU_ATTR_PTR :: u32 where "RISCV_MMU_ATTR_PTR \<equiv> 0x800"

datatype hptr = PNull | PMem u64 | PBuf

definition riscv_block_in_page :: "u64 \<Rightarrow> u64 \<Rightarrow> bool" where
  "riscv_block_in_page addr sz \<longleftrightarrow> (addr AND 0xFFF) + sz \<le> 0x1000"

definition attr_access :: "u32 \<Rightarrow> u8" where
  "attr_access attr = ucast (attr AND 0xFF)"

definition riscv_mmu_misalign :: "u64 \<Rightarrow> u32 \<Rightarrow> 'd rvvm_hart \<Rightarrow> 'd rvvm_hart" where
  "riscv_mmu_misalign vaddr attr vm =
     (if attr AND RISCV_MMU_ATTR_NO_TRAP = 0
      then riscv_trap (if attr_access attr = RISCV_MMU_WRITE then RISCV_TRAP_STORE_MISALIGN
                       else if attr_access attr = RISCV_MMU_READ then RISCV_TRAP_LOAD_MISALIGN
                       else RISCV_TRAP_INSN_MISALIGN) vaddr vm
      else vm)"

definition riscv_mmu_phys_fault :: "u64 \<Rightarrow> u32 \<Rightarrow> 'd rvvm_hart \<Rightarrow> 'd rvvm_hart" where
  "riscv_mmu_phys_fault vaddr attr vm =
     (if attr AND RISCV_MMU_ATTR_NO_TRAP = 0
      then riscv_trap (if attr_access attr = RISCV_MMU_WRITE then RISCV_TRAP_STORE_FAULT
                       else if attr_access attr = RISCV_MMU_READ then RISCV_TRAP_LOAD_FAULT
                       else RISCV_TRAP_INSN_FETCH) vaddr vm
      else vm)"

definition riscv_mmu_pagefault :: "u64 \<Rightarrow> u32 \<Rightarrow> 'd rvvm_hart \<Rightarrow> 'd rvvm_hart" where
  "riscv_mmu_pagefault vaddr attr vm =
     (if attr AND RISCV_MMU_ATTR_NO_TRAP = 0
      then riscv_trap (if attr_access attr = RISCV_MMU_WRITE then RISCV_TRAP_STORE_PAGEFAULT
                       else if attr_access attr = RISCV_MMU_READ then RISCV_TRAP_LOAD_PAGEFAULT
                       else RISCV_TRAP_INSN_PAGEFAULT) vaddr vm
      else vm)"

definition buf_ptr :: "u8 list option \<Rightarrow> hptr" where
  "buf_ptr data = (case data of None \<Rightarrow> PNull | Some _ \<Rightarrow> PBuf)"

text \<open>The part of \<open>riscv_mmu_op_internal\<close> after the page-crossing case.\<close>

definition riscv_mmu_op_page ::
  "'d rvvm_machine \<Rightarrow> u64 \<Rightarrow> u8 list option \<Rightarrow> u32 \<Rightarrow> 'd rvvm_hart \<Rightarrow> hptr \<times> u8 list option \<times> 'd rvvm_hart"
where
  "riscv_mmu_op_page M vaddr data attr vm =
     (let access = attr_access attr;
          sz = drop_bit 16 attr;
          mmu_access = (if attr AND RISCV_MMU_ATTR_NO_PROT \<noteq> 0 then RISCV_MMU_DEBUG_ACCESS else access)
      in case riscv_mmu_translate vaddr mmu_access vm of
           (None, vm) \<Rightarrow> (PNull, data, riscv_mmu_pagefault vaddr attr vm)
         | (Some paddr, vm) \<Rightarrow>
             if attr AND RISCV_MMU_ATTR_PHYS \<noteq> 0
             then (buf_ptr data, map_option (\<lambda>_. le_bytes 8 paddr) data, vm)
             else (case riscv_phys_access paddr vm of
               Some ptr \<Rightarrow>
                 (let vm = riscv_tlb_put vaddr ptr access vm
                  in if attr AND RISCV_MMU_ATTR_PTR = 0 then
                       (case data of
                          None \<Rightarrow> (PMem ptr, data, vm)
                        | Some bs \<Rightarrow>
                            if access = RISCV_MMU_WRITE
                            then (PMem ptr, data, vm\<lparr>host := write_bytes (host vm) ptr (take (unat sz) bs)\<rparr>)
                            else (PMem ptr, Some (buf_write bs 0 (read_bytes (host vm) ptr (unat sz))), vm))
                     else (PMem ptr, data, vm))
             | None \<Rightarrow>
                 (let res = (case data of
                               None \<Rightarrow> (False, data, vm)
                             | Some bs \<Rightarrow>
                                 (let (found, bs, vm) =
                                        riscv_mmio_scan (m_mmio_devs M) vaddr paddr bs (ucast sz)
                                          (if attr AND RISCV_MMU_ATTR_PTR \<noteq> 0 then RISCV_MMU_READ else access) vm
                                  in (found, Some bs, vm)))
                  in case res of (found, data, vm) \<Rightarrow>
                       if found then (PBuf, data, vm)
                       else if paddr AND NOT 0xFFFFFFFFFFFFFF = 0
                         then (buf_ptr data, map_option (\<lambda>bs. rvvm_mmio_none bs (unat sz)) data, vm)
                       else (PNull, data, riscv_mmu_phys_fault vaddr attr vm))))"

definition mmu_attr :: "u32 \<Rightarrow> u8 \<Rightarrow> u8 \<Rightarrow> u32" where
  "mmu_attr attr sz access = push_bit 16 (ucast sz) OR (attr AND 0xFF00) OR ucast access"

text \<open>
  The split of an operation over two pages.  The source calls itself on the two parts, which
  both lie within a page for every size that fits the callers' \<open>uint8_t\<close>; here each part is
  the operation within a page.
\<close>

definition riscv_mmu_op_internal ::
  "'d rvvm_machine \<Rightarrow> u64 \<Rightarrow> u8 list option \<Rightarrow> u32 \<Rightarrow> 'd rvvm_hart \<Rightarrow> hptr \<times> u8 list option \<times> 'd rvvm_hart"
where
  "riscv_mmu_op_internal M vaddr data attr vm =
     (let access = attr_access attr; sz = drop_bit 16 attr
      in if \<not> riscv_block_in_page vaddr (ucast sz) then
           if attr AND RISCV_MMU_ATTR_PTR \<noteq> 0 then (PNull, data, riscv_mmu_misalign vaddr attr vm)
           else
             (let part_size = ucast (0x1000 - (vaddr AND 0xFFF)) :: u8
              in case riscv_mmu_op_page M vaddr data (mmu_attr attr part_size access) vm of
                   (p, data, vm) \<Rightarrow>
                     if p = PNull then (PNull, data, vm)
                     else
                       (case riscv_mmu_op_page M (vaddr + ucast part_size)
                               (map_option (drop (unat part_size)) data)
                               (mmu_attr attr (ucast sz - part_size) access) vm of
                          (p, rest, vm) \<Rightarrow>
                            (p, (case data of
                                   None \<Rightarrow> None
                                 | Some bs \<Rightarrow> map_option (\<lambda>r. take (unat part_size) bs @ r) rest), vm)))
         else riscv_mmu_op_page M vaddr data attr vm)"

definition riscv_mmu_op_helper ::
  "'d rvvm_machine \<Rightarrow> u64 \<Rightarrow> u8 list option \<Rightarrow> u32 \<Rightarrow> u8 \<Rightarrow> u8 \<Rightarrow> 'd rvvm_hart
     \<Rightarrow> hptr \<times> u8 list option \<times> 'd rvvm_hart" where
  "riscv_mmu_op_helper M vaddr data attr sz access vm =
     riscv_mmu_op_internal M vaddr data (mmu_attr attr sz access) vm"

definition riscv_mmu_op ::
  "'d rvvm_machine \<Rightarrow> u64 \<Rightarrow> u8 list \<Rightarrow> u8 \<Rightarrow> u8 \<Rightarrow> 'd rvvm_hart \<Rightarrow> bool \<times> u8 list \<times> 'd rvvm_hart" where
  "riscv_mmu_op M vaddr data sz access vm =
     (let (p, data', vm) = riscv_mmu_op_helper M vaddr (Some data) 0 sz access vm
      in (p \<noteq> PNull, case data' of None \<Rightarrow> data | Some bs \<Rightarrow> bs, vm))"

definition riscv_mmu_virt_translate ::
  "'d rvvm_machine \<Rightarrow> u64 \<Rightarrow> u8 \<Rightarrow> 'd rvvm_hart \<Rightarrow> u64 option \<times> 'd rvvm_hart" where
  "riscv_mmu_virt_translate M vaddr access vm =
     (case riscv_mmu_op_helper M vaddr (Some (replicate 8 0))
             (RISCV_MMU_ATTR_PHYS OR RISCV_MMU_ATTR_NO_TRAP) 0 access vm of
        (PNull, _, vm) \<Rightarrow> (None, vm)
      | (_, Some bs, vm) \<Rightarrow> (Some (le_val bs), vm)
      | (_, None, vm) \<Rightarrow> (None, vm))"

definition riscv_mmu_ptr_translate ::
  "'d rvvm_machine \<Rightarrow> u64 \<Rightarrow> u8 list option \<Rightarrow> u8 \<Rightarrow> u8 \<Rightarrow> 'd rvvm_hart
     \<Rightarrow> hptr \<times> u8 list option \<times> 'd rvvm_hart" where
  "riscv_mmu_ptr_translate M vaddr data sz access vm =
     riscv_mmu_op_helper M vaddr data RISCV_MMU_ATTR_PTR sz access vm"

definition riscv_rmw_mmio_commit ::
  "'d rvvm_machine \<Rightarrow> u64 \<Rightarrow> u8 list \<Rightarrow> u8 \<Rightarrow> 'd rvvm_hart \<Rightarrow> 'd rvvm_hart" where
  "riscv_rmw_mmio_commit M vaddr data sz vm =
     snd (snd (riscv_mmu_op_helper M vaddr (Some data) RISCV_MMU_ATTR_NO_TRAP sz RISCV_MMU_WRITE vm))"

section \<open>Cached access\<close>

definition tlb_at :: "u64 \<Rightarrow> 'd rvvm_hart \<Rightarrow> tlb_entry" where
  "tlb_at vaddr vm = tlb vm (tlb_index (drop_bit 12 vaddr))"

definition riscv_fetch_insn :: "'d rvvm_machine \<Rightarrow> u64 \<Rightarrow> 'd rvvm_hart \<Rightarrow> u32 option \<times> 'd rvvm_hart" where
  "riscv_fetch_insn M vaddr vm =
     (let slow = (case riscv_mmu_op M vaddr [0, 0] 2 RISCV_MMU_EXEC vm of
                    (ok, lo, vm) \<Rightarrow>
                      if \<not> ok then (None, vm)
                      else if lo ! 0 AND 3 = 3 then
                        (case riscv_mmu_op M (vaddr + 2) [0, 0] 2 RISCV_MMU_EXEC vm of
                           (ok, hi, vm) \<Rightarrow> if \<not> ok then (None, vm) else (Some (le_val (lo @ hi)), vm))
                      else (Some (le_val (lo @ [0, 0])), vm));
          ent = tlb_at vaddr vm
      in if tlb_e ent = drop_bit 12 vaddr then
           (let tmp = ucast (read_uint16_le_m (host vm) (tlb_ptr ent + vaddr)) :: u32
            in if tmp AND 3 = 3 then
                 (let ent = tlb_at (vaddr + 2) vm
                  in if tlb_e ent = drop_bit 12 (vaddr + 2)
                     then (Some (tmp OR push_bit 16 (ucast (read_uint16_le_m (host vm) (tlb_ptr ent + vaddr + 2)))), vm)
                     else slow)
               else (Some tmp, vm))
         else slow)"

definition riscv_virt_translate_e :: "'d rvvm_machine \<Rightarrow> u64 \<Rightarrow> 'd rvvm_hart \<Rightarrow> u64 option \<times> 'd rvvm_hart" where
  "riscv_virt_translate_e M vaddr vm =
     (let ent = tlb_at vaddr vm
      in if tlb_e ent = drop_bit 12 vaddr
         then (Some (tlb_ptr ent + vaddr - ram_data (mem vm) + ram_addr (mem vm)), vm)
         else riscv_mmu_virt_translate M vaddr RISCV_MMU_EXEC vm)"

definition riscv_ro_translate ::
  "'d rvvm_machine \<Rightarrow> u64 \<Rightarrow> u8 list option \<Rightarrow> u8 \<Rightarrow> 'd rvvm_hart \<Rightarrow> hptr \<times> u8 list option \<times> 'd rvvm_hart" where
  "riscv_ro_translate M vaddr buff sz vm =
     (let ent = tlb_at vaddr vm
      in if tlb_r ent = drop_bit 12 vaddr then (PMem (tlb_ptr ent + vaddr), buff, vm)
         else riscv_mmu_ptr_translate M vaddr buff sz RISCV_MMU_READ vm)"

definition riscv_rmw_translate ::
  "'d rvvm_machine \<Rightarrow> u64 \<Rightarrow> u8 list option \<Rightarrow> u8 \<Rightarrow> 'd rvvm_hart \<Rightarrow> hptr \<times> u8 list option \<times> 'd rvvm_hart" where
  "riscv_rmw_translate M vaddr buff sz vm =
     (let ent = tlb_at vaddr vm
      in if tlb_w ent = drop_bit 12 vaddr then (PMem (tlb_ptr ent + vaddr), buff, vm)
         else riscv_mmu_ptr_translate M vaddr buff sz RISCV_MMU_WRITE vm)"

text \<open>
  The shared body of the integer loads and stores: a TLB hit on an aligned address goes to the
  host memory, everything else through the slow path.
\<close>

definition riscv_load_bytes ::
  "nat \<Rightarrow> 'd rvvm_machine \<Rightarrow> u64 \<Rightarrow> 'd rvvm_hart \<Rightarrow> u8 list option \<times> 'd rvvm_hart" where
  "riscv_load_bytes n M vaddr vm =
     (let ent = tlb_at vaddr vm
      in if tlb_r ent = drop_bit 12 vaddr \<and> vaddr AND (of_nat n - 1) = 0
         then (Some (read_bytes (host vm) (tlb_ptr ent + vaddr) n), vm)
         else (let (ok, bs, vm) = riscv_mmu_op M vaddr (replicate n 0) (of_nat n) RISCV_MMU_READ vm
               in (if ok then Some bs else None, vm)))"

definition riscv_store_bytes ::
  "u8 list \<Rightarrow> 'd rvvm_machine \<Rightarrow> u64 \<Rightarrow> 'd rvvm_hart \<Rightarrow> 'd rvvm_hart" where
  "riscv_store_bytes bs M vaddr vm =
     (let ent = tlb_at vaddr vm
      in if tlb_w ent = drop_bit 12 vaddr \<and> vaddr AND (of_nat (length bs) - 1) = 0
         then vm\<lparr>host := write_bytes (host vm) (tlb_ptr ent + vaddr) bs\<rparr>
         else snd (snd (riscv_mmu_op M vaddr bs (of_nat (length bs)) RISCV_MMU_WRITE vm)))"

definition load_into :: "(u8 list \<Rightarrow> u64) \<Rightarrow> nat \<Rightarrow> u8 list option \<times> 'd rvvm_hart \<Rightarrow> 'd rvvm_hart" where
  "load_into f reg res = (case res of (Some bs, vm) \<Rightarrow> set_reg reg (f bs) vm | (None, vm) \<Rightarrow> vm)"

definition riscv_load_u64 :: "'d rvvm_machine \<Rightarrow> u64 \<Rightarrow> nat \<Rightarrow> 'd rvvm_hart \<Rightarrow> 'd rvvm_hart" where
  "riscv_load_u64 M vaddr reg vm = load_into le_val reg (riscv_load_bytes 8 M vaddr vm)"

definition riscv_load_u32 :: "'d rvvm_machine \<Rightarrow> u64 \<Rightarrow> nat \<Rightarrow> 'd rvvm_hart \<Rightarrow> 'd rvvm_hart" where
  "riscv_load_u32 M vaddr reg vm = load_into (\<lambda>bs. ucast (le_val bs :: u32)) reg (riscv_load_bytes 4 M vaddr vm)"

definition riscv_load_s32 :: "'d rvvm_machine \<Rightarrow> u64 \<Rightarrow> nat \<Rightarrow> 'd rvvm_hart \<Rightarrow> 'd rvvm_hart" where
  "riscv_load_s32 M vaddr reg vm = load_into (\<lambda>bs. scast (le_val bs :: u32)) reg (riscv_load_bytes 4 M vaddr vm)"

definition riscv_load_u16 :: "'d rvvm_machine \<Rightarrow> u64 \<Rightarrow> nat \<Rightarrow> 'd rvvm_hart \<Rightarrow> 'd rvvm_hart" where
  "riscv_load_u16 M vaddr reg vm = load_into (\<lambda>bs. ucast (le_val bs :: u16)) reg (riscv_load_bytes 2 M vaddr vm)"

definition riscv_load_s16 :: "'d rvvm_machine \<Rightarrow> u64 \<Rightarrow> nat \<Rightarrow> 'd rvvm_hart \<Rightarrow> 'd rvvm_hart" where
  "riscv_load_s16 M vaddr reg vm = load_into (\<lambda>bs. scast (le_val bs :: u16)) reg (riscv_load_bytes 2 M vaddr vm)"

definition riscv_load_u8 :: "'d rvvm_machine \<Rightarrow> u64 \<Rightarrow> nat \<Rightarrow> 'd rvvm_hart \<Rightarrow> 'd rvvm_hart" where
  "riscv_load_u8 M vaddr reg vm = load_into (\<lambda>bs. ucast (le_val bs :: u8)) reg (riscv_load_bytes 1 M vaddr vm)"

definition riscv_load_s8 :: "'d rvvm_machine \<Rightarrow> u64 \<Rightarrow> nat \<Rightarrow> 'd rvvm_hart \<Rightarrow> 'd rvvm_hart" where
  "riscv_load_s8 M vaddr reg vm = load_into (\<lambda>bs. scast (le_val bs :: u8)) reg (riscv_load_bytes 1 M vaddr vm)"

definition riscv_store_u64 :: "'d rvvm_machine \<Rightarrow> u64 \<Rightarrow> nat \<Rightarrow> 'd rvvm_hart \<Rightarrow> 'd rvvm_hart" where
  "riscv_store_u64 M vaddr reg vm = riscv_store_bytes (le_bytes 8 (registers vm reg)) M vaddr vm"

definition riscv_store_u32 :: "'d rvvm_machine \<Rightarrow> u64 \<Rightarrow> nat \<Rightarrow> 'd rvvm_hart \<Rightarrow> 'd rvvm_hart" where
  "riscv_store_u32 M vaddr reg vm = riscv_store_bytes (le_bytes 4 (registers vm reg)) M vaddr vm"

definition riscv_store_u16 :: "'d rvvm_machine \<Rightarrow> u64 \<Rightarrow> nat \<Rightarrow> 'd rvvm_hart \<Rightarrow> 'd rvvm_hart" where
  "riscv_store_u16 M vaddr reg vm = riscv_store_bytes (le_bytes 2 (registers vm reg)) M vaddr vm"

definition riscv_store_u8 :: "'d rvvm_machine \<Rightarrow> u64 \<Rightarrow> nat \<Rightarrow> 'd rvvm_hart \<Rightarrow> 'd rvvm_hart" where
  "riscv_store_u8 M vaddr reg vm = riscv_store_bytes (le_bytes 1 (registers vm reg)) M vaddr vm"

end
