(* ===== verification/RVVM_Common.thy ===== *)
theory RVVM_Common
  imports RVVM_MMU
begin

text \<open>
  Interpreter helpers of src/rvvm/src/cpu/riscv_common.h.  The interpreter is a template that is
  compiled once with \<open>RISCV64\<close> and once with \<open>RISCV32\<close>; here it is one set of definitions
  over the length of the type \<open>xlen_t\<close>, which a definition receives as a type argument.  A
  register read truncates the 64-bit register to \<open>xlen_t\<close>, a write sign-extends into it.
\<close>

definition is_rv64 :: "'x::len itself \<Rightarrow> bool" where
  "is_rv64 xl \<longleftrightarrow> LENGTH('x) = 64"

definition SHAMT_BITS :: "'x::len itself \<Rightarrow> nat" where
  "SHAMT_BITS xl = (if is_rv64 xl then 6 else 5)"

definition DIV_OVERFLOW_RS1 :: "'x::len word" where
  "DIV_OVERFLOW_RS1 = (if is_rv64 TYPE('x) then 0x8000000000000000 else 0x80000000)"

definition riscv_read_reg :: "nat \<Rightarrow> 'd rvvm_hart \<Rightarrow> 'x::len word" where
  "riscv_read_reg reg vm = ucast (registers vm reg)"

definition riscv_write_reg :: "nat \<Rightarrow> 'x::len word \<Rightarrow> 'd rvvm_hart \<Rightarrow> 'd rvvm_hart" where
  "riscv_write_reg reg val vm = set_reg reg (scast val) vm"

text \<open>Register numbers and other unsigned fields of an instruction word as indices.\<close>

definition insn_field :: "u32 \<Rightarrow> nat \<Rightarrow> nat \<Rightarrow> nat" where
  "insn_field insn pos bits = unat (bit_ext_u32 insn pos bits)"

abbreviation insn_rds :: "u32 \<Rightarrow> nat" where "insn_rds insn \<equiv> insn_field insn 7 5"
abbreviation insn_rs1 :: "u32 \<Rightarrow> nat" where "insn_rs1 insn \<equiv> insn_field insn 15 5"
abbreviation insn_rs2 :: "u32 \<Rightarrow> nat" where "insn_rs2 insn \<equiv> insn_field insn 20 5"
abbreviation insn_funct3 :: "u32 \<Rightarrow> nat" where "insn_funct3 insn \<equiv> insn_field insn 12 3"

end
