(* ===== verification/RVVM_Atomics.thy ===== *)
theory RVVM_Atomics
  imports RVVM_Common
begin

text \<open>
  Atomic instructions of src/rvvm/src/cpu/riscv_atomics.h: load-reserved and store-conditional,
  the read-modify-write operations and compare-and-swap on bytes, half words, words, double
  words and pairs.  The host's atomic operation on the translated pointer is one state update;
  on an MMIO address it works on the bounce buffer, which is written back afterwards.
\<close>

abbreviation (input) RISCV_AMO_LR :: nat where "RISCV_AMO_LR \<equiv> 0x02"
abbreviation (input) RISCV_AMO_SC :: nat where "RISCV_AMO_SC \<equiv> 0x03"
abbreviation (input) RISCV_AMO_CAS :: nat where "RISCV_AMO_CAS \<equiv> 0x05"
abbreviation (input) RISCV_AMO_SWAP :: nat where "RISCV_AMO_SWAP \<equiv> 0x01"
abbreviation (input) RISCV_AMO_ADD :: nat where "RISCV_AMO_ADD \<equiv> 0x00"
abbreviation (input) RISCV_AMO_AND :: nat where "RISCV_AMO_AND \<equiv> 0x0C"
abbreviation (input) RISCV_AMO_OR :: nat where "RISCV_AMO_OR \<equiv> 0x08"
abbreviation (input) RISCV_AMO_XOR :: nat where "RISCV_AMO_XOR \<equiv> 0x04"
abbreviation (input) RISCV_AMO_MAX :: nat where "RISCV_AMO_MAX \<equiv> 0x14"
abbreviation (input) RISCV_AMO_MIN :: nat where "RISCV_AMO_MIN \<equiv> 0x10"
abbreviation (input) RISCV_AMO_MAXU :: nat where "RISCV_AMO_MAXU \<equiv> 0x1C"
abbreviation (input) RISCV_AMO_MINU :: nat where "RISCV_AMO_MINU \<equiv> 0x18"

section \<open>The atomic step\<close>

text \<open>
  The value an operation leaves in memory, from the old value, the operand and, for
  compare-and-swap, the expected value.
\<close>

definition amo_result :: "nat \<Rightarrow> 'w::len word \<Rightarrow> 'w word \<Rightarrow> 'w word \<Rightarrow> 'w word" where
  "amo_result op old val expct =
     (if op = RISCV_AMO_CAS then if old = expct then val else old
      else if op = RISCV_AMO_SWAP then val
      else if op = RISCV_AMO_ADD then old + val
      else if op = RISCV_AMO_AND then old AND val
      else if op = RISCV_AMO_OR then old OR val
      else if op = RISCV_AMO_XOR then old XOR val
      else if op = RISCV_AMO_MAX then if old <s val then val else old
      else if op = RISCV_AMO_MIN then if val <s old then val else old
      else if op = RISCV_AMO_MAXU then if old < val then val else old
      else if op = RISCV_AMO_MINU then if val < old then val else old
      else old)"

definition ptr_read :: "hptr \<Rightarrow> u8 list \<Rightarrow> nat \<Rightarrow> 'd rvvm_hart \<Rightarrow> u8 list" where
  "ptr_read p buf n vm = (case p of PMem a \<Rightarrow> read_bytes (host vm) a n | _ \<Rightarrow> buf)"

definition ptr_write :: "hptr \<Rightarrow> u8 list \<Rightarrow> u8 list \<Rightarrow> 'd rvvm_hart \<Rightarrow> u8 list \<times> 'd rvvm_hart" where
  "ptr_write p buf bs vm =
     (case p of PMem a \<Rightarrow> (buf, vm\<lparr>host := write_bytes (host vm) a bs\<rparr>) | _ \<Rightarrow> (bs, vm))"

text \<open>
  The common tail of the read-modify-write cases: perform the operation, write the old value to
  the destination register, commit the buffer of an MMIO access.
\<close>

definition riscv_amo_rmw ::
  "'d rvvm_machine \<Rightarrow> nat \<Rightarrow> u64 \<Rightarrow> nat \<Rightarrow> hptr \<Rightarrow> u8 list \<Rightarrow> 'w::len word \<Rightarrow> 'd rvvm_hart \<Rightarrow> 'd rvvm_hart"
where
  "riscv_amo_rmw M op vaddr rds p buf val vm =
     (let n = LENGTH('w) div 8;
          old = le_val (ptr_read p buf n vm) :: 'w word;
          new = amo_result op old val (riscv_read_reg rds vm);
          (buf, vm) = ptr_write p buf (le_bytes n new) vm;
          vm = riscv_write_reg rds old vm
      in if p = PBuf then riscv_rmw_mmio_commit M vaddr buf (of_nat n) vm else vm)"

definition rmw_translate ::
  "'d rvvm_machine \<Rightarrow> u64 \<Rightarrow> nat \<Rightarrow> 'd rvvm_hart \<Rightarrow> hptr \<times> u8 list \<times> 'd rvvm_hart" where
  "rmw_translate M vaddr n vm =
     (let (p, buf, vm) = riscv_rmw_translate M vaddr (Some (replicate n 0)) (of_nat n) vm
      in (p, case buf of None \<Rightarrow> replicate n 0 | Some bs \<Rightarrow> bs, vm))"

definition ro_translate ::
  "'d rvvm_machine \<Rightarrow> u64 \<Rightarrow> nat \<Rightarrow> 'd rvvm_hart \<Rightarrow> hptr \<times> u8 list \<times> 'd rvvm_hart" where
  "ro_translate M vaddr n vm =
     (let (p, buf, vm) = riscv_ro_translate M vaddr (Some (replicate n 0)) (of_nat n) vm
      in (p, case buf of None \<Rightarrow> replicate n 0 | Some bs \<Rightarrow> bs, vm))"

section \<open>Instructions\<close>

definition riscv_emulate_atomic_b ::
  "'x::len itself \<Rightarrow> 'd rvvm_machine \<Rightarrow> u32 \<Rightarrow> 'd rvvm_hart \<Rightarrow> 'd rvvm_hart" where
  "riscv_emulate_atomic_b xl M insn vm =
     (let op = unat (drop_bit 27 insn);
          rds = insn_rds insn;
          vaddr = ucast (riscv_read_reg (insn_rs1 insn) vm :: 'x word);
          val = ucast (riscv_read_reg (insn_rs2 insn) vm :: 'x word) :: u8
      in if push_bit op 1 AND (0x11111133 :: u32) = 0 then riscv_illegal_insn insn vm
         else (case rmw_translate M vaddr 1 vm of
                 (p, buf, vm) \<Rightarrow> if p = PNull then vm else riscv_amo_rmw M op vaddr rds p buf val vm))"

definition riscv_emulate_atomic_h ::
  "'x::len itself \<Rightarrow> 'd rvvm_machine \<Rightarrow> u32 \<Rightarrow> 'd rvvm_hart \<Rightarrow> 'd rvvm_hart" where
  "riscv_emulate_atomic_h xl M insn vm =
     (let op = unat (drop_bit 27 insn);
          rds = insn_rds insn;
          vaddr = ucast (riscv_read_reg (insn_rs1 insn) vm :: 'x word);
          val = ucast (riscv_read_reg (insn_rs2 insn) vm :: 'x word) :: u16
      in if push_bit op 1 AND (0x11111133 :: u32) = 0 then riscv_illegal_insn insn vm
         else if vaddr AND 1 \<noteq> 0 then riscv_trap RISCV_TRAP_STORE_MISALIGN vaddr vm
         else (case rmw_translate M vaddr 2 vm of
                 (p, buf, vm) \<Rightarrow> if p = PNull then vm else riscv_amo_rmw M op vaddr rds p buf val vm))"

text \<open>
  The load-reserved and store-conditional cases of the word and the double word instruction: a
  reservation remembers the address and the value that was loaded, and a store-conditional is a
  compare-and-swap against that value.
\<close>

definition riscv_amo_lr :: "'w::len itself \<Rightarrow> u64 \<Rightarrow> nat \<Rightarrow> hptr \<Rightarrow> u8 list \<Rightarrow> 'd rvvm_hart \<Rightarrow> 'd rvvm_hart" where
  "riscv_amo_lr wt vaddr rds p buf vm =
     (let v = le_val (ptr_read p buf (LENGTH('w) div 8) vm) :: 'w word
      in riscv_write_reg rds v (vm\<lparr>lrsc := True, lrsc_addr := vaddr, lrsc_cas := ucast v\<rparr>))"

definition riscv_amo_sc ::
  "'d rvvm_machine \<Rightarrow> u64 \<Rightarrow> nat \<Rightarrow> hptr \<Rightarrow> u8 list \<Rightarrow> 'w::len word \<Rightarrow> 'd rvvm_hart \<Rightarrow> 'd rvvm_hart" where
  "riscv_amo_sc M vaddr rds p buf val vm =
     (let n = LENGTH('w) div 8
      in if lrsc vm \<and> lrsc_addr vm = vaddr
            \<and> (le_val (ptr_read p buf n vm) :: 'w word) = ucast (lrsc_cas vm)
         then (let (buf, vm) = ptr_write p buf (le_bytes n val) vm;
                   vm = (set_reg rds 0 vm)\<lparr>lrsc := False\<rparr>
               in if p = PBuf then riscv_rmw_mmio_commit M vaddr buf (of_nat n) vm else vm)
         else (set_reg rds 1 vm)\<lparr>lrsc := False\<rparr>)"

definition riscv_emulate_atomic_w ::
  "'x::len itself \<Rightarrow> 'd rvvm_machine \<Rightarrow> u32 \<Rightarrow> 'd rvvm_hart \<Rightarrow> 'd rvvm_hart" where
  "riscv_emulate_atomic_w xl M insn vm =
     (let op = unat (drop_bit 27 insn);
          rds = insn_rds insn;
          vaddr = ucast (riscv_read_reg (insn_rs1 insn) vm :: 'x word);
          val = ucast (riscv_read_reg (insn_rs2 insn) vm :: 'x word) :: u32
      in if push_bit op 1 AND (0x1111113F :: u32) = 0 then riscv_illegal_insn insn vm
         else if vaddr AND 3 \<noteq> 0 then
           riscv_trap (if op = RISCV_AMO_LR then RISCV_TRAP_LOAD_MISALIGN else RISCV_TRAP_STORE_MISALIGN)
             vaddr vm
         else (case (if op = RISCV_AMO_LR then ro_translate M vaddr 4 vm else rmw_translate M vaddr 4 vm) of
                 (p, buf, vm) \<Rightarrow>
                   if p = PNull then vm
                   else if op = RISCV_AMO_LR then riscv_amo_lr TYPE(32) vaddr rds p buf vm
                   else if op = RISCV_AMO_SC then riscv_amo_sc M vaddr rds p buf val vm
                   else riscv_amo_rmw M op vaddr rds p buf val vm))"

definition riscv_emulate_atomic_d ::
  "'x::len itself \<Rightarrow> 'd rvvm_machine \<Rightarrow> u32 \<Rightarrow> 'd rvvm_hart \<Rightarrow> 'd rvvm_hart" where
  "riscv_emulate_atomic_d xl M insn vm =
     (let op = unat (drop_bit 27 insn);
          rds = insn_rds insn;
          vaddr = ucast (riscv_read_reg (insn_rs1 insn) vm :: 'x word);
          val = ucast (riscv_read_reg (insn_rs2 insn) vm :: 'x word) :: u64
      in if push_bit op 1 AND (0x1111113F :: u32) = 0 then riscv_illegal_insn insn vm
         else if vaddr AND 7 \<noteq> 0 then
           riscv_trap (if op = RISCV_AMO_LR then RISCV_TRAP_LOAD_MISALIGN else RISCV_TRAP_STORE_MISALIGN)
             vaddr vm
         else (case (if op = RISCV_AMO_LR then ro_translate M vaddr 8 vm else rmw_translate M vaddr 8 vm) of
                 (p, buf, vm) \<Rightarrow>
                   if p = PNull then vm
                   else if op = RISCV_AMO_LR then riscv_amo_lr TYPE(64) vaddr rds p buf vm
                   else if op = RISCV_AMO_SC then riscv_amo_sc M vaddr rds p buf val vm
                   else riscv_amo_rmw M op vaddr rds p buf val vm))"

text \<open>
  The pair compare-and-swap.  The two operand registers are concatenated with the even register
  in the low half; the RV32 code takes the same register for both halves of the new value.
\<close>

definition riscv_emulate_atomic_dwcas ::
  "'x::len itself \<Rightarrow> 'd rvvm_machine \<Rightarrow> u32 \<Rightarrow> 'd rvvm_hart \<Rightarrow> 'd rvvm_hart" where
  "riscv_emulate_atomic_dwcas xl M insn vm =
     (let op = unat (drop_bit 27 insn);
          rds = insn_rds insn; rs2 = insn_rs2 insn;
          vaddr = ucast (riscv_read_reg (insn_rs1 insn) vm :: 'x word) :: u64;
          h = LENGTH('x) div 8; n = 2 * h
      in if op \<noteq> RISCV_AMO_CAS \<or> odd rds \<or> odd rs2 then riscv_illegal_insn insn vm
         else if vaddr AND (of_nat n - 1) \<noteq> 0 then riscv_trap RISCV_TRAP_STORE_MISALIGN vaddr vm
         else (case rmw_translate M vaddr n vm of
                 (p, buf, vm) \<Rightarrow>
                   if p = PNull then vm
                   else
                     (let expct = (if rds \<noteq> 0
                                   then le_bytes h (riscv_read_reg rds vm :: 'x word)
                                        @ le_bytes h (riscv_read_reg (rds + 1) vm :: 'x word)
                                   else replicate n 0);
                          rs2h = (if is_rv64 xl then rs2 + 1 else rs2);
                          val = (if rs2 \<noteq> 0
                                 then le_bytes h (riscv_read_reg rs2 vm :: 'x word)
                                      @ le_bytes h (riscv_read_reg rs2h vm :: 'x word)
                                 else replicate n 0);
                          old = ptr_read p buf n vm;
                          (buf, vm) = (if old = expct then ptr_write p buf val vm else (buf, vm));
                          vm = (if rds \<noteq> 0
                                then riscv_write_reg (rds + 1) (le_val (drop h old) :: 'x word)
                                       (riscv_write_reg rds (le_val (take h old) :: 'x word) vm)
                                else vm)
                      in if p = PBuf then riscv_rmw_mmio_commit M vaddr buf (of_nat n) vm else vm)))"

definition riscv_emulate_a_opc_amo ::
  "'x::len itself \<Rightarrow> 'd rvvm_machine \<Rightarrow> u32 \<Rightarrow> 'd rvvm_hart \<Rightarrow> 'd rvvm_hart" where
  "riscv_emulate_a_opc_amo xl M insn vm =
     (let w = insn_funct3 insn
      in if w = 0 then riscv_emulate_atomic_b xl M insn vm
         else if w = 1 then riscv_emulate_atomic_h xl M insn vm
         else if w = 2 then riscv_emulate_atomic_w xl M insn vm
         else if w = 3 then
           if is_rv64 xl then riscv_emulate_atomic_d xl M insn vm
           else riscv_emulate_atomic_dwcas xl M insn vm
         else if w = 4 \<and> is_rv64 xl then riscv_emulate_atomic_dwcas xl M insn vm
         else riscv_illegal_insn insn vm)"

end
