(* ===== verification/RVVM_CSR.thy ===== *)
theory RVVM_CSR
  imports RVVM_MMU RVVM_Utils
begin

text \<open>
  Control and status registers of src/rvvm/src/riscv_csr.c.  An access receives the operand in
  \<open>dest\<close> and returns whether the register exists and may be accessed, the value for the
  destination register, and the hart.  The registers of the floating-point unit belong to a
  build with \<open>USE_FPU\<close> and are absent here.
\<close>

datatype csr_kind = CSR_SWAP | CSR_SETBITS | CSR_CLEARBITS

type_synonym 'd csr_result = "bool \<times> u64 \<times> 'd rvvm_hart"

section \<open>Identification\<close>

definition rvvm_mimpid :: "string \<Rightarrow> u32" where
  "rvvm_mimpid ver =
     (case rvvm_strfind ver ''-'' of
        Some dash \<Rightarrow>
          (let commit_hex = ucast (push_bit 4 (fst (str_to_uint_base (tl dash) 16)))
           in if rvvm_strfind ver ''dirty'' \<noteq> None then commit_hex OR 0xD else commit_hex)
      | None \<Rightarrow> 0)"

primrec misa_letters :: "string \<Rightarrow> u64 \<Rightarrow> u64" where
  "misa_letters [] ret = ret"
| "misa_letters (c # str) ret =
     (if c = CHR ''_'' then ret
      else misa_letters str
             (if 97 \<le> (of_char c :: nat) \<and> (of_char c :: nat) \<le> 122
              then ret OR push_bit (of_char c - 97) 1 else ret))"

definition riscv_mkmisa :: "string \<Rightarrow> u64" where
  "riscv_mkmisa str =
     (if rvvm_strfind str ''rv64'' \<noteq> None then misa_letters (drop 4 str) CSR_MISA_RV64
      else if rvvm_strfind str ''rv32'' \<noteq> None then misa_letters (drop 4 str) CSR_MISA_RV32
      else misa_letters str 0)"

section \<open>Access helpers\<close>

definition riscv_is_csr_write :: "u64 \<Rightarrow> csr_kind \<Rightarrow> bool" where
  "riscv_is_csr_write dest op \<longleftrightarrow> dest \<noteq> 0 \<or> op = CSR_SWAP"

text \<open>The helpers return the new register value and the new \<open>dest\<close>.\<close>

definition riscv_csr_helper_masked :: "bool \<Rightarrow> u64 \<Rightarrow> u64 \<Rightarrow> u64 \<Rightarrow> csr_kind \<Rightarrow> u64 \<times> u64" where
  "riscv_csr_helper_masked rv val dest mask0 op =
     (let msk = (if rv then mask0 else mask0 AND 0xFFFFFFFF)
      in (case op of
            CSR_SWAP \<Rightarrow> (val AND NOT msk) OR (dest AND msk)
          | CSR_SETBITS \<Rightarrow> val OR (dest AND msk)
          | CSR_CLEARBITS \<Rightarrow> val AND NOT (dest AND msk),
          val AND msk))"

definition riscv_csr_helper :: "bool \<Rightarrow> u64 \<Rightarrow> u64 \<Rightarrow> csr_kind \<Rightarrow> u64 \<times> u64" where
  "riscv_csr_helper rv val dest op =
     (if rv
      then (case op of
              CSR_SWAP \<Rightarrow> dest
            | CSR_SETBITS \<Rightarrow> val OR dest
            | CSR_CLEARBITS \<Rightarrow> val AND NOT dest, val)
      else riscv_csr_helper_masked rv val dest (- 1) op)"

definition riscv_csr_helper_l :: "bool \<Rightarrow> u64 \<Rightarrow> u64 \<Rightarrow> u64 \<Rightarrow> csr_kind \<Rightarrow> u64 \<times> u64" where
  "riscv_csr_helper_l rv val dest msk op =
     (let (tmp, dest) = riscv_csr_helper_masked rv val dest msk op
      in (if rv then tmp else bit_replace val 0 32 tmp, dest))"

definition riscv_csr_helper_h :: "bool \<Rightarrow> u64 \<Rightarrow> u64 \<Rightarrow> u64 \<Rightarrow> csr_kind \<Rightarrow> (u64 \<times> u64) option" where
  "riscv_csr_helper_h rv val dest msk op =
     (if \<not> rv
      then (let (tmp, dest) = riscv_csr_helper_masked rv (drop_bit 32 val) dest (drop_bit 32 msk) op
            in Some (bit_replace val 32 32 tmp, dest))
      else None)"

text \<open>Accesses to a plain field of the register file, through the helper of its kind.\<close>

definition csr_field :: "(riscv_csrs \<Rightarrow> u64) \<Rightarrow> (u64 \<Rightarrow> riscv_csrs \<Rightarrow> riscv_csrs) \<Rightarrow> u64 \<Rightarrow> csr_kind
    \<Rightarrow> 'd rvvm_hart \<Rightarrow> 'd csr_result" where
  "csr_field get put dest op vm =
     (let (v, d) = riscv_csr_helper (rv64 vm) (get (csr vm)) dest op in (True, d, csr_upd (put v) vm))"

definition csr_field_masked :: "(riscv_csrs \<Rightarrow> u64) \<Rightarrow> (u64 \<Rightarrow> riscv_csrs \<Rightarrow> riscv_csrs) \<Rightarrow> u64 \<Rightarrow> u64
    \<Rightarrow> csr_kind \<Rightarrow> 'd rvvm_hart \<Rightarrow> 'd csr_result" where
  "csr_field_masked get put msk dest op vm =
     (let (v, d) = riscv_csr_helper_masked (rv64 vm) (get (csr vm)) dest msk op
      in (True, d, csr_upd (put v) vm))"

definition csr_field_l :: "(riscv_csrs \<Rightarrow> u64) \<Rightarrow> (u64 \<Rightarrow> riscv_csrs \<Rightarrow> riscv_csrs) \<Rightarrow> u64 \<Rightarrow> u64
    \<Rightarrow> csr_kind \<Rightarrow> 'd rvvm_hart \<Rightarrow> 'd csr_result" where
  "csr_field_l get put msk dest op vm =
     (let (v, d) = riscv_csr_helper_l (rv64 vm) (get (csr vm)) dest msk op
      in (True, d, csr_upd (put v) vm))"

definition csr_field_h :: "(riscv_csrs \<Rightarrow> u64) \<Rightarrow> (u64 \<Rightarrow> riscv_csrs \<Rightarrow> riscv_csrs) \<Rightarrow> u64 \<Rightarrow> u64
    \<Rightarrow> csr_kind \<Rightarrow> 'd rvvm_hart \<Rightarrow> 'd csr_result" where
  "csr_field_h get put msk dest op vm =
     (case riscv_csr_helper_h (rv64 vm) (get (csr vm)) dest msk op of
        Some (v, d) \<Rightarrow> (True, d, csr_upd (put v) vm)
      | None \<Rightarrow> (False, dest, vm))"

definition riscv_csr_const :: "u64 \<Rightarrow> 'd rvvm_hart \<Rightarrow> 'd csr_result" where
  "riscv_csr_const val vm = (True, val, vm)"

definition riscv_csr_zero :: "'d rvvm_hart \<Rightarrow> 'd csr_result" where
  "riscv_csr_zero vm = riscv_csr_const 0 vm"

definition riscv_csr_zero_h :: "u64 \<Rightarrow> 'd rvvm_hart \<Rightarrow> 'd csr_result" where
  "riscv_csr_zero_h dest vm = (if \<not> rv64 vm then riscv_csr_const 0 vm else (False, dest, vm))"

section \<open>Registers with behaviour of their own\<close>

definition riscv_csr_counter :: "u64 \<Rightarrow> u32 \<Rightarrow> 'd rvvm_hart \<Rightarrow> 'd csr_result" where
  "riscv_csr_counter dest counter vm =
     (if riscv_csr_counter_enabled counter vm then riscv_csr_const (timer vm) vm
      else (False, dest, vm))"

definition riscv_csr_counter_h :: "u64 \<Rightarrow> u32 \<Rightarrow> 'd rvvm_hart \<Rightarrow> 'd csr_result" where
  "riscv_csr_counter_h dest counter vm =
     (if \<not> rv64 vm \<and> riscv_csr_counter_enabled counter vm
      then riscv_csr_const (drop_bit 32 (timer vm)) vm
      else (False, dest, vm))"

definition riscv_csr_seed :: "u64 \<Rightarrow> 'd rvvm_hart \<Rightarrow> 'd csr_result" where
  "riscv_csr_seed dest vm =
     (if riscv_csr_seed_enabled vm then riscv_csr_const (ucast (entropy vm)) vm
      else (False, dest, vm))"

definition riscv_csr_misa :: "'d rvvm_machine \<Rightarrow> u64 \<Rightarrow> csr_kind \<Rightarrow> 'd rvvm_hart \<Rightarrow> 'd csr_result" where
  "riscv_csr_misa M dest op vm =
     (let isa = csr_isa (csr vm);
          (misa, dest) = riscv_csr_helper (rv64 vm) (isa OR riscv_mkmisa ''imacbsu'') dest op
      in if isa AND CSR_MISA_RV64 \<noteq> 0 \<and> misa AND CSR_MISA_RV32 \<noteq> 0
         then (True, dest, riscv_update_xlen (csr_upd (csr_isa_update (\<lambda>_. CSR_MISA_RV32)) vm))
         else if isa AND CSR_MISA_RV32 \<noteq> 0 \<and> misa AND drop_bit 32 CSR_MISA_RV64 \<noteq> 0 \<and> m_rv64 M
         then (True, dest, riscv_update_xlen (csr_upd (csr_isa_update (\<lambda>_. CSR_MISA_RV64)) vm))
         else (True, dest, vm))"

definition riscv_csr_sd_bit :: "'d rvvm_hart \<Rightarrow> u64" where
  "riscv_csr_sd_bit vm = (if rv64 vm then 0x8000000000000000 else 0x80000000)"

definition riscv_csr_status_xl_valid :: "u64 \<Rightarrow> bool" where
  "riscv_csr_status_xl_valid xl \<longleftrightarrow> xl = 1 \<or> xl = 2"

text \<open>The validation of the WARL fields of a changed status register.\<close>

definition riscv_csr_status_warl :: "bool \<Rightarrow> u64 \<Rightarrow> u64" where
  "riscv_csr_status_warl mrv64 s0 =
     (let s = (if mrv64 then
                 (let s = (if riscv_csr_status_xl_valid (bit_cut s0 32 2) then s0
                           else bit_replace s0 32 2 2)
                  in if riscv_csr_status_xl_valid (bit_cut s 34 2) then s
                     else bit_replace s 34 2 2)
               else s0);
          s = (if bit_cut s 11 2 = 2 then bit_replace s 11 2 0 else s);
          s = bit_replace s 13 2 0
      in bit_replace s 9 2 0)"

definition riscv_csr_status ::
  "'d rvvm_machine \<Rightarrow> u64 \<Rightarrow> u64 \<Rightarrow> csr_kind \<Rightarrow> 'd rvvm_hart \<Rightarrow> 'd csr_result" where
  "riscv_csr_status M msk dest op vm =
     (let old_status = status vm;
          fs = bit_cut old_status 13 2;
          vs = bit_cut old_status 9 2;
          xs = max fs vs;
          (s, dest) = riscv_csr_helper_masked (rv64 vm) (bit_replace old_status 15 2 xs) dest msk op;
          dest = (if xs = 3 then dest OR riscv_csr_sd_bit vm else dest)
      in if s \<noteq> old_status then
           (let s = riscv_csr_status_warl (m_rv64 M) s;
                vm = (if (s AND 0xA) AND NOT (old_status AND 0xA) \<noteq> 0
                      then riscv_hart_check_interrupts vm else vm)
            in (True, dest, set_status s vm))
         else (True, dest, vm))"

definition riscv_csr_ie :: "u64 \<Rightarrow> u64 \<Rightarrow> csr_kind \<Rightarrow> 'd rvvm_hart \<Rightarrow> 'd csr_result" where
  "riscv_csr_ie msk dest op vm =
     (let (v, d) = riscv_csr_helper_masked (rv64 vm) (csr_ie (csr vm)) dest msk op
      in (True, d, riscv_hart_check_interrupts (csr_upd (csr_ie_update (\<lambda>_. v)) vm)))"

definition riscv_csr_ip :: "u64 \<Rightarrow> u64 \<Rightarrow> csr_kind \<Rightarrow> 'd rvvm_hart \<Rightarrow> 'd csr_result" where
  "riscv_csr_ip msk dest op vm =
     (let (v, d) = riscv_csr_helper_masked (rv64 vm) (csr_ip (csr vm)) dest msk op;
          vm = csr_upd (csr_ip_update (\<lambda>_. v)) vm
      in (True, d OR (ucast (riscv_interrupts_raised vm) AND msk), riscv_hart_check_interrupts vm))"

definition riscv_csr_topi :: "u64 \<Rightarrow> u64 \<Rightarrow> 'd rvvm_hart \<Rightarrow> 'd csr_result" where
  "riscv_csr_topi msk dest vm =
     (if aia vm \<noteq> None then
        (let pending = riscv_interrupts_pending vm AND ucast msk;
             irq = (if pending \<noteq> 0 then bit_clz32 pending XOR 31 else 0)
         in (True, ucast ((if irq \<noteq> 0 then 1 else 0) OR push_bit 16 irq), vm))
      else (False, dest, vm))"

definition riscv_csr_topei :: "nat \<Rightarrow> u64 \<Rightarrow> csr_kind \<Rightarrow> 'd rvvm_hart \<Rightarrow> 'd csr_result" where
  "riscv_csr_topei priv dest op vm =
     (if aia vm \<noteq> None then
        (let (irq, vm) = riscv_get_aia_irq (priv = RISCV_PRIV_SUPERVISOR) (riscv_is_csr_write dest op) vm
         in (True, ucast (irq OR push_bit 16 irq), vm))
      else (False, dest, vm))"

definition riscv_csr_stimecmp_set :: "u64 \<Rightarrow> 'd rvvm_hart \<Rightarrow> 'd rvvm_hart" where
  "riscv_csr_stimecmp_set v vm =
     (let vm = vm\<lparr>stimecmp := v\<rparr>
      in if stimecmp vm \<le> timer vm then riscv_interrupt RISCV_INTERRUPT_STIMER vm
         else riscv_interrupt_clear RISCV_INTERRUPT_STIMER vm)"

definition riscv_csr_stimecmp :: "u64 \<Rightarrow> csr_kind \<Rightarrow> 'd rvvm_hart \<Rightarrow> 'd csr_result" where
  "riscv_csr_stimecmp dest op vm =
     (if riscv_csr_sstc_enabled vm then
        (let (v, d) = riscv_csr_helper_l (rv64 vm) (stimecmp vm) dest (- 1) op
         in (True, d, riscv_csr_stimecmp_set v vm))
      else (False, dest, vm))"

definition riscv_csr_stimecmph :: "u64 \<Rightarrow> csr_kind \<Rightarrow> 'd rvvm_hart \<Rightarrow> 'd csr_result" where
  "riscv_csr_stimecmph dest op vm =
     (if \<not> rv64 vm \<and> riscv_csr_sstc_enabled vm then
        (case riscv_csr_helper_h (rv64 vm) (stimecmp vm) dest (- 1) op of
           Some (v, d) \<Rightarrow> (True, d, riscv_csr_stimecmp_set v vm)
         | None \<Rightarrow> (True, dest, riscv_csr_stimecmp_set (stimecmp vm) vm))
      else (False, dest, vm))"

text \<open>
  The tail of \<open>riscv_csr_satp\<close>: the page table is already switched, the mode follows only when
  translation is turned on or off.
\<close>

definition riscv_csr_satp_mode :: "u8 \<Rightarrow> 'd rvvm_hart \<Rightarrow> 'd rvvm_hart" where
  "riscv_csr_satp_mode new_mode vm =
     (if (mmu_mode vm \<noteq> 0) \<noteq> (new_mode \<noteq> 0) then (riscv_tlb_flush vm)\<lparr>mmu_mode := new_mode\<rparr> else vm)"

definition riscv_csr_satp :: "'d rvvm_machine \<Rightarrow> u64 \<Rightarrow> csr_kind \<Rightarrow> 'd rvvm_hart \<Rightarrow> 'd csr_result" where
  "riscv_csr_satp M dest op vm =
     (if status vm AND CSR_STATUS_TVM \<noteq> 0 \<and> priv_mode vm < RISCV_PRIV_MACHINE then (False, dest, vm)
      else if rv64 vm then
        (let (satp, dest) = riscv_csr_helper (rv64 vm)
               (push_bit 60 (ucast (mmu_mode vm)) OR drop_bit 12 (root_page_table vm)) dest op;
             new_mode = ucast (bit_cut satp 60 4) :: u8
         in if new_mode \<noteq> CSR_SATP_MODE_BARE
               \<and> (new_mode < CSR_SATP_MODE_SV39 \<or> new_mode > CSR_SATP_MODE_SV57)
            then (True, dest, vm)
            else if new_mode = CSR_SATP_MODE_SV57 \<and> \<not> m_arg_sv57 M then (True, dest, vm)
            else (True, dest, riscv_csr_satp_mode new_mode
                    (vm\<lparr>root_page_table := push_bit 12 (satp AND bit_mask 44)\<rparr>)))
      else
        (let (satp, dest) = riscv_csr_helper (rv64 vm)
               (push_bit 31 (ucast (mmu_mode vm)) OR drop_bit 12 (root_page_table vm)) dest op;
             new_mode = ucast (bit_cut satp 31 1) :: u8
         in (True, dest, riscv_csr_satp_mode new_mode
               (vm\<lparr>root_page_table := push_bit 12 (satp AND bit_mask 22)\<rparr>))))"

section \<open>AIA registers\<close>

definition riscv_csr_atomic_helper :: "u32 \<Rightarrow> u64 \<Rightarrow> csr_kind \<Rightarrow> bool \<times> u32 \<times> u64" where
  "riscv_csr_atomic_helper val dest op =
     (case op of
        CSR_SWAP \<Rightarrow> (True, ucast dest, ucast val)
      | CSR_SETBITS \<Rightarrow>
          if dest \<noteq> 0 then (True, val OR ucast dest, ucast val) else (False, val, ucast val)
      | CSR_CLEARBITS \<Rightarrow>
          if dest \<noteq> 0 then (True, val AND ucast (NOT dest), ucast val) else (False, val, ucast val))"

definition riscv_csr_aia_helper :: "bool \<Rightarrow> (aia_regfile \<Rightarrow> u32) \<Rightarrow> (u32 \<Rightarrow> aia_regfile \<Rightarrow> aia_regfile)
    \<Rightarrow> u64 \<Rightarrow> csr_kind \<Rightarrow> 'd rvvm_hart \<Rightarrow> 'd csr_result" where
  "riscv_csr_aia_helper smode get put dest op vm =
     (case aia vm of
        Some files \<Rightarrow>
          (let (wr, v, d) = riscv_csr_atomic_helper (get (files smode)) dest op;
               vm = vm\<lparr>aia := Some (files(smode := put v (files smode)))\<rparr>
           in (True, d, if wr then riscv_update_aia_state smode vm else vm))
      | None \<Rightarrow> (False, dest, vm))"

definition riscv_csr_aia_pair_helper ::
  "bool \<Rightarrow> nat \<Rightarrow> (nat \<Rightarrow> aia_regfile \<Rightarrow> u32) \<Rightarrow> (nat \<Rightarrow> u32 \<Rightarrow> aia_regfile \<Rightarrow> aia_regfile)
    \<Rightarrow> u64 \<Rightarrow> csr_kind \<Rightarrow> 'd rvvm_hart \<Rightarrow> 'd csr_result" where
  "riscv_csr_aia_pair_helper smode reg get put dest op vm =
     (if rv64 vm \<and> odd reg then (False, dest, vm)
      else if reg < RVVM_AIA_ARR_LEN then
        (let top = drop_bit 32 dest;
             (_, dest, vm) = riscv_csr_aia_helper smode (get reg) (put reg) dest op vm
         in if rv64 vm \<and> reg + 1 < RVVM_AIA_ARR_LEN
            then (let (_, top, vm) = riscv_csr_aia_helper smode (get (reg + 1)) (put (reg + 1)) top op vm
                  in (True, dest OR push_bit 32 top, vm))
            else (True, dest, vm))
      else (False, dest, vm))"

definition riscv_csr_indirect :: "nat \<Rightarrow> u32 \<Rightarrow> u64 \<Rightarrow> csr_kind \<Rightarrow> 'd rvvm_hart \<Rightarrow> 'd csr_result" where
  "riscv_csr_indirect priv csri dest op vm =
     (let smode = (priv = RISCV_PRIV_SUPERVISOR)
      in if aia vm = None then (False, dest, vm)
         else if csri = 0x70 then
           riscv_csr_aia_helper smode eidelivery (\<lambda>v. eidelivery_update (\<lambda>_. v)) (dest AND 1) op vm
         else if csri = 0x72 then
           riscv_csr_aia_helper smode eithreshold (\<lambda>v. eithreshold_update (\<lambda>_. v)) dest op vm
         else if 0x30 \<le> csri \<and> csri \<le> 0x3F then riscv_csr_zero vm
         else if 0x80 \<le> csri \<and> csri \<le> 0xBF then
           riscv_csr_aia_pair_helper smode (unat (csri - 0x80)) (\<lambda>i f. eip f i)
             (\<lambda>i v. eip_update (\<lambda>a. a(i := v))) dest op vm
         else if 0xC0 \<le> csri \<and> csri \<le> 0xFF then
           riscv_csr_aia_pair_helper smode (unat (csri - 0xC0)) (\<lambda>i f. eie f i)
             (\<lambda>i v. eie_update (\<lambda>a. a(i := v))) dest op vm
         else (False, dest, vm))"

section \<open>Dispatch\<close>

text \<open>
  The switch of \<open>riscv_csr_op_internal\<close> in its four groups of cases; a group without a case for
  the number has no result.
\<close>

definition riscv_csr_op_user ::
  "'d rvvm_machine \<Rightarrow> u32 \<Rightarrow> u64 \<Rightarrow> csr_kind \<Rightarrow> 'd rvvm_hart \<Rightarrow> 'd csr_result option" where
  "riscv_csr_op_user M csr_id dest op vm =
     (if csr_id = 0x015 then Some (riscv_csr_seed dest vm)
      else if csr_id = 0xC00 \<or> csr_id = 0xC01 \<or> csr_id = 0xC02 then Some (riscv_csr_counter dest (csr_id - 0xC00) vm)
      else if csr_id = 0xC80 \<or> csr_id = 0xC81 \<or> csr_id = 0xC82 then Some (riscv_csr_counter_h dest (csr_id - 0xC80) vm)
      else None)"

definition riscv_csr_op_supervisor ::
  "'d rvvm_machine \<Rightarrow> u32 \<Rightarrow> u64 \<Rightarrow> csr_kind \<Rightarrow> 'd rvvm_hart \<Rightarrow> 'd csr_result option" where
  "riscv_csr_op_supervisor M csr_id dest op vm =
     (if csr_id = 0x100 then Some (riscv_csr_status M 0x3000DE722 dest op vm)
      else if csr_id = 0x104 then Some (riscv_csr_ie 0x222 dest op vm)
      else if csr_id = 0x114 then Some (riscv_csr_zero_h dest vm)
      else if csr_id = 0x105 then Some (csr_field (\<lambda>c. csr_tvec c RISCV_PRIV_SUPERVISOR) (\<lambda>v. csr_tvec_update (\<lambda>a. a(RISCV_PRIV_SUPERVISOR := v))) dest op vm)
      else if csr_id = 0x106 then Some (csr_field_masked (\<lambda>c. csr_counteren c RISCV_PRIV_SUPERVISOR) (\<lambda>v. csr_counteren_update (\<lambda>a. a(RISCV_PRIV_SUPERVISOR := v))) 7 dest op vm)
      else if csr_id = 0x10A then Some (csr_field_l (\<lambda>c. csr_envcfg c RISCV_PRIV_SUPERVISOR) (\<lambda>v. csr_envcfg_update (\<lambda>a. a(RISCV_PRIV_SUPERVISOR := v))) 0xD0 dest op vm)
      else if csr_id = 0x120 then Some (riscv_csr_zero vm)
      else if csr_id = 0x150 then Some (csr_field (\<lambda>c. csr_iselect c RISCV_PRIV_SUPERVISOR) (\<lambda>v. csr_iselect_update (\<lambda>a. a(RISCV_PRIV_SUPERVISOR := v))) dest op vm)
      else if csr_id = 0x151 then Some (riscv_csr_indirect RISCV_PRIV_SUPERVISOR (ucast (csr_iselect (csr vm) RISCV_PRIV_SUPERVISOR)) dest op vm)
      else if csr_id = 0x140 then Some (csr_field (\<lambda>c. csr_scratch c RISCV_PRIV_SUPERVISOR) (\<lambda>v. csr_scratch_update (\<lambda>a. a(RISCV_PRIV_SUPERVISOR := v))) dest op vm)
      else if csr_id = 0x141 then Some (csr_field (\<lambda>c. csr_epc c RISCV_PRIV_SUPERVISOR) (\<lambda>v. csr_epc_update (\<lambda>a. a(RISCV_PRIV_SUPERVISOR := v))) dest op vm)
      else if csr_id = 0x142 then Some (csr_field (\<lambda>c. csr_cause c RISCV_PRIV_SUPERVISOR) (\<lambda>v. csr_cause_update (\<lambda>a. a(RISCV_PRIV_SUPERVISOR := v))) dest op vm)
      else if csr_id = 0x143 then Some (csr_field (\<lambda>c. csr_tval c RISCV_PRIV_SUPERVISOR) (\<lambda>v. csr_tval_update (\<lambda>a. a(RISCV_PRIV_SUPERVISOR := v))) dest op vm)
      else if csr_id = 0x144 then Some (riscv_csr_ip 0x222 dest op vm)
      else if csr_id = 0x154 then Some (riscv_csr_zero_h dest vm)
      else if csr_id = 0x15C then Some (riscv_csr_topei RISCV_PRIV_SUPERVISOR dest op vm)
      else if csr_id = 0xDB0 then Some (riscv_csr_topi 0x222 dest vm)
      else if csr_id = 0x14D then Some (riscv_csr_stimecmp dest op vm)
      else if csr_id = 0x15D then Some (riscv_csr_stimecmph dest op vm)
      else if csr_id = 0x180 then Some (riscv_csr_satp M dest op vm)
      else None)"

definition riscv_csr_op_machine ::
  "'d rvvm_machine \<Rightarrow> u32 \<Rightarrow> u64 \<Rightarrow> csr_kind \<Rightarrow> 'd rvvm_hart \<Rightarrow> 'd csr_result option" where
  "riscv_csr_op_machine M csr_id dest op vm =
     (if csr_id = 0xF11 then Some (riscv_csr_zero vm)
      else if csr_id = 0xF12 then Some (riscv_csr_const 0x5256564D vm)
      else if csr_id = 0xF13 then Some (riscv_csr_const (ucast (rvvm_mimpid (m_version M))) vm)
      else if csr_id = 0xF14 then Some (riscv_csr_const (ucast (csr_hartid (csr vm))) vm)
      else if csr_id = 0x300 then Some (riscv_csr_status M 0xF007FFFAA dest op vm)
      else if csr_id = 0x310 then Some (riscv_csr_zero vm)
      else if csr_id = 0x301 then Some (riscv_csr_misa M dest op vm)
      else if csr_id = 0x302 then Some (csr_field_masked (\<lambda>c. csr_edeleg c RISCV_PRIV_MACHINE) (\<lambda>v. csr_edeleg_update (\<lambda>a. a(RISCV_PRIV_MACHINE := v))) 0xB109 dest op vm)
      else if csr_id = 0x303 then Some (csr_field_masked (\<lambda>c. csr_ideleg c RISCV_PRIV_MACHINE) (\<lambda>v. csr_ideleg_update (\<lambda>a. a(RISCV_PRIV_MACHINE := v))) 0x222 dest op vm)
      else if csr_id = 0x313 then Some (riscv_csr_zero_h dest vm)
      else if csr_id = 0x304 then Some (riscv_csr_ie 0xAAA dest op vm)
      else if csr_id = 0x314 then Some (riscv_csr_zero_h dest vm)
      else if csr_id = 0x305 then Some (csr_field (\<lambda>c. csr_tvec c RISCV_PRIV_MACHINE) (\<lambda>v. csr_tvec_update (\<lambda>a. a(RISCV_PRIV_MACHINE := v))) dest op vm)
      else if csr_id = 0x306 then Some (csr_field_masked (\<lambda>c. csr_counteren c RISCV_PRIV_MACHINE) (\<lambda>v. csr_counteren_update (\<lambda>a. a(RISCV_PRIV_MACHINE := v))) 7 dest op vm)
      else if csr_id = 0x340 then Some (csr_field (\<lambda>c. csr_scratch c RISCV_PRIV_MACHINE) (\<lambda>v. csr_scratch_update (\<lambda>a. a(RISCV_PRIV_MACHINE := v))) dest op vm)
      else if csr_id = 0x341 then Some (csr_field (\<lambda>c. csr_epc c RISCV_PRIV_MACHINE) (\<lambda>v. csr_epc_update (\<lambda>a. a(RISCV_PRIV_MACHINE := v))) dest op vm)
      else if csr_id = 0x342 then Some (csr_field (\<lambda>c. csr_cause c RISCV_PRIV_MACHINE) (\<lambda>v. csr_cause_update (\<lambda>a. a(RISCV_PRIV_MACHINE := v))) dest op vm)
      else if csr_id = 0x343 then Some (csr_field (\<lambda>c. csr_tval c RISCV_PRIV_MACHINE) (\<lambda>v. csr_tval_update (\<lambda>a. a(RISCV_PRIV_MACHINE := v))) dest op vm)
      else if csr_id = 0x344 then Some (riscv_csr_ip 0xAAA dest op vm)
      else if csr_id = 0x354 then Some (riscv_csr_zero_h dest vm)
      else if csr_id = 0x35C then Some (riscv_csr_topei RISCV_PRIV_MACHINE dest op vm)
      else if csr_id = 0xFB0 then Some (riscv_csr_topi 0xAAA dest vm)
      else if csr_id = 0x30A then Some (csr_field_l (\<lambda>c. csr_envcfg c RISCV_PRIV_MACHINE) (\<lambda>v. csr_envcfg_update (\<lambda>a. a(RISCV_PRIV_MACHINE := v))) 0x80000000000000D0 dest op vm)
      else if csr_id = 0x31A then Some (csr_field_h (\<lambda>c. csr_envcfg c RISCV_PRIV_MACHINE) (\<lambda>v. csr_envcfg_update (\<lambda>a. a(RISCV_PRIV_MACHINE := v))) 0x80000000000000D0 dest op vm)
      else if csr_id = 0x747 then Some (csr_field_l csr_mseccfg (\<lambda>v. csr_mseccfg_update (\<lambda>_. v)) 0x300 dest op vm)
      else if csr_id = 0x757 then Some (csr_field_h csr_mseccfg (\<lambda>v. csr_mseccfg_update (\<lambda>_. v)) 0x300 dest op vm)
      else None)"

definition riscv_csr_op_counters ::
  "'d rvvm_machine \<Rightarrow> u32 \<Rightarrow> u64 \<Rightarrow> csr_kind \<Rightarrow> 'd rvvm_hart \<Rightarrow> 'd csr_result option" where
  "riscv_csr_op_counters M csr_id dest op vm =
     (if 0x3A0 \<le> csr_id \<and> csr_id \<le> 0x3A3 then Some (riscv_csr_zero vm)
      else if 0x3B0 \<le> csr_id \<and> csr_id \<le> 0x3BF then Some (riscv_csr_zero vm)
      else if csr_id = 0xB00 \<or> (0xB02 \<le> csr_id \<and> csr_id \<le> 0xB1F) then Some (riscv_csr_zero vm)
      else if csr_id = 0xB80 \<or> (0xB82 \<le> csr_id \<and> csr_id \<le> 0xB9F) then Some (riscv_csr_zero_h dest vm)
      else if csr_id = 0x320 then Some (riscv_csr_zero vm)
      else if csr_id = 0x350 then Some (csr_field (\<lambda>c. csr_iselect c RISCV_PRIV_MACHINE) (\<lambda>v. csr_iselect_update (\<lambda>a. a(RISCV_PRIV_MACHINE := v))) dest op vm)
      else if csr_id = 0x351 then Some (riscv_csr_indirect RISCV_PRIV_MACHINE (ucast (csr_iselect (csr vm) RISCV_PRIV_MACHINE)) dest op vm)
      else None)"

definition riscv_csr_op_internal ::
  "'d rvvm_machine \<Rightarrow> u32 \<Rightarrow> u64 \<Rightarrow> csr_kind \<Rightarrow> 'd rvvm_hart \<Rightarrow> 'd csr_result" where
  "riscv_csr_op_internal M csr_id dest op vm =
     (case riscv_csr_op_user M csr_id dest op vm of Some r \<Rightarrow> r
      | None \<Rightarrow> (case riscv_csr_op_supervisor M csr_id dest op vm of Some r \<Rightarrow> r
      | None \<Rightarrow> (case riscv_csr_op_machine M csr_id dest op vm of Some r \<Rightarrow> r
      | None \<Rightarrow> (case riscv_csr_op_counters M csr_id dest op vm of Some r \<Rightarrow> r
      | None \<Rightarrow> (False, dest, vm)))))"

definition riscv_csr_op ::
  "'d rvvm_machine \<Rightarrow> u32 \<Rightarrow> u64 \<Rightarrow> csr_kind \<Rightarrow> 'd rvvm_hart \<Rightarrow> 'd csr_result" where
  "riscv_csr_op M csr_id dest op vm =
     (if riscv_csr_readonly csr_id \<and> (op = CSR_SWAP \<or> dest \<noteq> 0) then (False, dest, vm)
      else if riscv_csr_privilege csr_id > priv_mode vm then (False, dest, vm)
      else
        (let (ret, dest, vm) = riscv_csr_op_internal M csr_id dest op vm
         in (ret, if rv64 vm then dest else scast (ucast dest :: u32), vm)))"

definition riscv_csr_init :: "'d rvvm_hart \<Rightarrow> 'd rvvm_hart" where
  "riscv_csr_init vm =
     (let c = csr vm;
          c = c\<lparr>csr_edeleg := (csr_edeleg c)(RISCV_PRIV_HYPERVISOR := 0xFFFFFFFF),
                csr_ideleg := (csr_ideleg c)(RISCV_PRIV_HYPERVISOR := 0xFFFFFFFF)\<rparr>
      in if rv64 vm then vm\<lparr>csr := c\<lparr>csr_status := 0xA00000000, csr_isa := CSR_MISA_RV64\<rparr>\<rparr>
         else vm\<lparr>csr := c\<lparr>csr_isa := CSR_MISA_RV32\<rparr>\<rparr>)"

text \<open>
  \<open>riscv_hart_init\<close> fills a zeroed structure.  The host memory, the clock, the entropy and the
  devices are there before the hart.
\<close>

definition riscv_hart_init ::
  "'d rvvm_machine \<Rightarrow> host_mem \<Rightarrow> u64 \<Rightarrow> u16 \<Rightarrow> 'd \<Rightarrow> 'd rvvm_hart" where
  "riscv_hart_init M hst tm ent dev =
     (let vm = \<lparr>running = False, registers = (\<lambda>_. 0), tlb = (\<lambda>_. tlb_zero), mem = m_mem M,
                root_page_table = 0, mmu_mode = 0, priv_mode = RISCV_PRIV_MACHINE, rv64 = m_rv64 M,
                trap = False, trap_pc = 0, userland = False, lrsc = False, lrsc_addr = 0, lrsc_cas = 0,
                csr = \<lparr>csr_status = 0, csr_ie = 0, csr_ip = 0, csr_isa = 0, csr_edeleg = (\<lambda>_. 0),
                       csr_ideleg = (\<lambda>_. 0), csr_tvec = (\<lambda>_. 0), csr_scratch = (\<lambda>_. 0),
                       csr_epc = (\<lambda>_. 0), csr_cause = (\<lambda>_. 0), csr_tval = (\<lambda>_. 0),
                       csr_iselect = (\<lambda>_. 0), csr_counteren = (\<lambda>_. 0), csr_envcfg = (\<lambda>_. 0),
                       csr_mseccfg = 0, csr_hartid = 0\<rparr>,
                aia = None, mtimecmp = 0, stimecmp = 0, pending_irqs = 0, pending_events = 0,
                preempt_ms = 0, wfi_waiters = 0, host = hst, timer = tm, entropy = ent, devices = dev,
                fatal = False\<rparr>;
          vm = riscv_csr_init vm
      in riscv_tlb_flush (vm\<lparr>mtimecmp := - 1, stimecmp := - 1\<rparr>))"

end
