(* ===== verification/RVVM_Priv.thy ===== *)
theory RVVM_Priv
  imports RVVM_CSR RVVM_Common RVVM_Timer "HOL-Library.While_Combinator"
begin

text \<open>
  Privileged instructions of src/rvvm/src/riscv_priv.c: environment calls, returns from traps,
  wait for interrupt, address translation fences, CSR access and cache block operations.

  The wait loop runs until something clears the \<open>running\<close> flag, which may never happen, so the
  instructions of the SYSTEM opcode return an optional hart; no hart means that the wait does
  not end.  Yielding the host thread and memory fences leave the modelled state alone.
\<close>

abbreviation (input) RISCV_INSN_ECALL :: u32 where "RISCV_INSN_ECALL \<equiv> 0x00000073"
abbreviation (input) RISCV_INSN_EBREAK :: u32 where "RISCV_INSN_EBREAK \<equiv> 0x00100073"
abbreviation (input) RISCV_INSN_SRET :: u32 where "RISCV_INSN_SRET \<equiv> 0x10200073"
abbreviation (input) RISCV_INSN_MRET :: u32 where "RISCV_INSN_MRET \<equiv> 0x30200073"
abbreviation (input) RISCV_INSN_WFI :: u32 where "RISCV_INSN_WFI \<equiv> 0x10500073"
abbreviation (input) RISCV_INSN_WRS_NT :: u32 where "RISCV_INSN_WRS_NT \<equiv> 0x00D00073"
abbreviation (input) RISCV_INSN_WRS_ST :: u32 where "RISCV_INSN_WRS_ST \<equiv> 0x01D00073"
abbreviation (input) RISCV_SFENCE_MASK :: u32 where "RISCV_SFENCE_MASK \<equiv> 0xFE007FFF"
abbreviation (input) RISCV_SFENCE_VMA :: u32 where "RISCV_SFENCE_VMA \<equiv> 0x12000073"

definition riscv_mstatus_allowed :: "u64 \<Rightarrow> 'd rvvm_hart \<Rightarrow> bool" where
  "riscv_mstatus_allowed flag vm \<longleftrightarrow>
     priv_mode vm \<ge> RISCV_PRIV_SUPERVISOR \<and> status vm AND flag = 0 \<or> priv_mode vm = RISCV_PRIV_MACHINE"

section \<open>Returns from traps\<close>

definition riscv_sret :: "'d rvvm_hart \<Rightarrow> 'd rvvm_hart" where
  "riscv_sret vm =
     (let next_priv = unat (bit_ext_u32 (ucast (status vm)) 8 1);
          s = bit_replace (status vm) 8 1 0;
          s = bit_replace s 1 1 (ucast (bit_ext_u32 (ucast s) 5 1));
          vm = set_status s vm;
          vm = set_reg RISCV_REG_PC (csr_epc (csr vm) RISCV_PRIV_SUPERVISOR - 4) vm
      in riscv_hart_check_interrupts (riscv_switch_priv next_priv vm))"

definition riscv_mret :: "'d rvvm_hart \<Rightarrow> 'd rvvm_hart" where
  "riscv_mret vm =
     (let next_priv = unat (bit_ext_u32 (ucast (status vm)) 11 2);
          s = (if next_priv < RISCV_PRIV_MACHINE then status vm AND NOT CSR_STATUS_MPRV else status vm);
          s = bit_replace s 11 2 0;
          s = bit_replace s 3 1 (ucast (bit_ext_u32 (ucast s) 7 1));
          vm = set_status s vm;
          vm = set_reg RISCV_REG_PC (csr_epc (csr vm) RISCV_PRIV_MACHINE - 4) vm
      in riscv_hart_check_interrupts (riscv_switch_priv next_priv vm))"

section \<open>Waiting\<close>

text \<open>One pass of the wait loop: the delay until the next enabled timer, the wait, the timer check.\<close>

definition riscv_wfi_delay :: "u64 \<Rightarrow> 'd rvvm_hart \<Rightarrow> u64" where
  "riscv_wfi_delay freq vm =
     (let delay = (if csr_ie (csr vm) AND push_bit RISCV_INTERRUPT_MTIMER 1 \<noteq> 0
                   then rvtimecmp_delay_ns freq (timer vm) (mtimecmp vm) else - 1)
      in if csr_ie (csr vm) AND push_bit RISCV_INTERRUPT_STIMER 1 \<noteq> 0
         then min delay (rvtimecmp_delay_ns freq (timer vm) (stimecmp vm)) else delay)"

definition riscv_wfi_pass :: "'d rvvm_machine \<Rightarrow> 'd rvvm_hart \<Rightarrow> 'd rvvm_hart" where
  "riscv_wfi_pass M vm =
     riscv_hart_check_timer (m_condvar_wait M (riscv_wfi_delay (m_timer_freq M) vm) vm)"

definition riscv_wfi :: "'d rvvm_machine \<Rightarrow> 'd rvvm_hart \<Rightarrow> 'd rvvm_hart option" where
  "riscv_wfi M vm =
     (if riscv_interrupts_pending vm = 0 then while_option running (riscv_wfi_pass M) vm else Some vm)"

section \<open>SYSTEM\<close>

text \<open>The CSR instructions: the operand, the operation and the write-back or the trap.\<close>

definition riscv_csr_insn ::
  "'d rvvm_machine \<Rightarrow> u32 \<Rightarrow> u64 \<Rightarrow> csr_kind \<Rightarrow> 'd rvvm_hart \<Rightarrow> 'd rvvm_hart" where
  "riscv_csr_insn M insn val op vm =
     (case riscv_csr_op M (drop_bit 20 insn) val op vm of
        (ok, val, vm) \<Rightarrow> if ok then set_reg (insn_rds insn) val vm else riscv_illegal_insn insn vm)"

definition riscv_emulate_opc_system_funct3 ::
  "'d rvvm_machine \<Rightarrow> u32 \<Rightarrow> 'd rvvm_hart \<Rightarrow> 'd rvvm_hart" where
  "riscv_emulate_opc_system_funct3 M insn vm =
     (let rs1 = insn_rs1 insn; funct3 = insn_funct3 insn; uimm = ucast (bit_ext_u32 insn 15 5) :: u64
      in if funct3 = 0 \<and> insn AND RISCV_SFENCE_MASK = RISCV_SFENCE_VMA
            \<and> riscv_mstatus_allowed CSR_STATUS_TVM vm
         then if rs1 \<noteq> 0 then riscv_tlb_flush_page (registers vm rs1) vm else riscv_tlb_flush vm
         else if funct3 = 1 then riscv_csr_insn M insn (registers vm rs1) CSR_SWAP vm
         else if funct3 = 2 then riscv_csr_insn M insn (registers vm rs1) CSR_SETBITS vm
         else if funct3 = 3 then riscv_csr_insn M insn (registers vm rs1) CSR_CLEARBITS vm
         else if funct3 = 4 \<and> insn AND 0xB0000000 = 0x80000000 then vm
         else if funct3 = 5 then riscv_csr_insn M insn uimm CSR_SWAP vm
         else if funct3 = 6 then riscv_csr_insn M insn uimm CSR_SETBITS vm
         else if funct3 = 7 then riscv_csr_insn M insn uimm CSR_CLEARBITS vm
         else riscv_illegal_insn insn vm)"

definition riscv_emulate_opc_system ::
  "'d rvvm_machine \<Rightarrow> u32 \<Rightarrow> 'd rvvm_hart \<Rightarrow> 'd rvvm_hart option" where
  "riscv_emulate_opc_system M insn vm =
     (if insn = RISCV_INSN_ECALL then Some (riscv_trap (RISCV_TRAP_ECALL_UMODE + priv_mode vm) 0 vm)
      else if insn = RISCV_INSN_EBREAK then Some (riscv_breakpoint M vm)
      else if insn = RISCV_INSN_SRET \<and> riscv_mstatus_allowed CSR_STATUS_TSR vm then Some (riscv_sret vm)
      else if insn = RISCV_INSN_MRET \<and> priv_mode vm = RISCV_PRIV_MACHINE then Some (riscv_mret vm)
      else if insn = RISCV_INSN_WFI \<and> riscv_mstatus_allowed CSR_STATUS_TW vm then riscv_wfi M vm
      else if insn = RISCV_INSN_WRS_NT \<or> insn = RISCV_INSN_WRS_ST then Some vm
      else Some (riscv_emulate_opc_system_funct3 M insn vm))"

section \<open>MISC-MEM\<close>

definition riscv_cbo_zero :: "'d rvvm_machine \<Rightarrow> u64 \<Rightarrow> 'd rvvm_hart \<Rightarrow> 'd rvvm_hart" where
  "riscv_cbo_zero M vaddr vm =
     (case riscv_rmw_translate M (vaddr AND NOT 63) None 64 vm of
        (PMem ptr, _, vm) \<Rightarrow> vm\<lparr>host := write_bytes (host vm) ptr (replicate 64 0)\<rparr>
      | (_, _, vm) \<Rightarrow> vm)"

definition riscv_emulate_opc_misc_mem :: "'d rvvm_machine \<Rightarrow> u32 \<Rightarrow> 'd rvvm_hart \<Rightarrow> 'd rvvm_hart" where
  "riscv_emulate_opc_misc_mem M insn vm =
     (let funct3 = insn_funct3 insn; rds = insn_rds insn; cbo = drop_bit 20 insn
      in if funct3 = 0 \<or> funct3 = 1 then vm
         else if funct3 = 2 \<and> cbo = 0 \<and> rds = 0 \<and> riscv_csr_cbi_enabled vm then vm
         else if funct3 = 2 \<and> (cbo = 1 \<or> cbo = 2) \<and> rds = 0 \<and> riscv_csr_cbcf_enabled vm then vm
         else if funct3 = 2 \<and> cbo = 4 \<and> rds = 0 \<and> riscv_csr_cbz_enabled vm
           then riscv_cbo_zero M (registers vm (insn_rs1 insn)) vm
         else riscv_illegal_insn insn vm)"

end
