(* ===== verification/RVVM_Base.thy ===== *)
theory RVVM_Base
  imports RVVM_Atomics RVVM_Priv
begin

text \<open>
  The base integer instructions of src/rvvm/src/cpu/riscv_base.h with multiplication, division,
  bit manipulation and conditional zeroing.  Each switch that only computes a register value is
  a function from the operands to an optional result; no result is an illegal instruction.
  JIT tracing and voluntary preemption are empty in the modelled build.
\<close>

section \<open>Width-dependent helpers\<close>

definition bit_clz_x :: "'x::len word \<Rightarrow> 'x word" where
  "bit_clz_x v = (if is_rv64 TYPE('x) then ucast (bit_clz64 (ucast v)) else ucast (bit_clz32 (ucast v)))"

definition bit_ctz_x :: "'x::len word \<Rightarrow> 'x word" where
  "bit_ctz_x v = (if is_rv64 TYPE('x) then ucast (bit_ctz64 (ucast v)) else ucast (bit_ctz32 (ucast v)))"

definition bit_popcnt_x :: "'x::len word \<Rightarrow> 'x word" where
  "bit_popcnt_x v = (if is_rv64 TYPE('x) then ucast (bit_popcnt64 (ucast v)) else ucast (bit_popcnt32 (ucast v)))"

definition bit_rotl_x :: "'x::len word \<Rightarrow> u32 \<Rightarrow> 'x word" where
  "bit_rotl_x v n = (if is_rv64 TYPE('x) then ucast (bit_rotl64 (ucast v) n) else ucast (bit_rotl32 (ucast v) n))"

definition bit_rotr_x :: "'x::len word \<Rightarrow> u32 \<Rightarrow> 'x word" where
  "bit_rotr_x v n = (if is_rv64 TYPE('x) then ucast (bit_rotr64 (ucast v) n) else ucast (bit_rotr32 (ucast v) n))"

definition bit_clmul_x :: "'x::len word \<Rightarrow> 'x word \<Rightarrow> 'x word" where
  "bit_clmul_x a b = (if is_rv64 TYPE('x) then ucast (bit_clmul64 (ucast a) (ucast b))
                      else ucast (bit_clmul32 (ucast a) (ucast b)))"

definition bit_clmulh_x :: "'x::len word \<Rightarrow> 'x word \<Rightarrow> 'x word" where
  "bit_clmulh_x a b = (if is_rv64 TYPE('x) then ucast (bit_clmulh64 (ucast a) (ucast b))
                       else ucast (bit_clmulh32 (ucast a) (ucast b)))"

definition bit_clmulr_x :: "'x::len word \<Rightarrow> 'x word \<Rightarrow> 'x word" where
  "bit_clmulr_x a b = (if is_rv64 TYPE('x) then ucast (bit_clmulr64 (ucast a) (ucast b))
                       else ucast (bit_clmulr32 (ucast a) (ucast b)))"

definition mulh_x :: "'x::len word \<Rightarrow> 'x word \<Rightarrow> 'x word" where
  "mulh_x a b = (if is_rv64 TYPE('x) then ucast (mulh_uint64 (ucast a) (ucast b))
                 else ucast (signed_drop_bit 32 (scast a * scast b :: u64)))"

definition mulhsu_x :: "'x::len word \<Rightarrow> 'x word \<Rightarrow> 'x word" where
  "mulhsu_x a b = (if is_rv64 TYPE('x) then ucast (mulhsu_uint64 (ucast a) (ucast b))
                   else ucast (drop_bit 32 (scast a * ucast b :: u64)))"

definition mulhu_x :: "'x::len word \<Rightarrow> 'x word \<Rightarrow> 'x word" where
  "mulhu_x a b = (if is_rv64 TYPE('x) then ucast (mulhu_uint64 (ucast a) (ucast b))
                  else ucast (drop_bit 32 (ucast a * ucast b :: u64)))"

text \<open>Division and remainder of C, which round towards zero.\<close>

definition c_div :: "int \<Rightarrow> int \<Rightarrow> int" where
  "c_div a b = sgn a * sgn b * (\<bar>a\<bar> div \<bar>b\<bar>)"

definition c_rem :: "int \<Rightarrow> int \<Rightarrow> int" where
  "c_rem a b = a - c_div a b * b"

definition riscv_div :: "'x::len word \<Rightarrow> 'x word \<Rightarrow> 'x word \<Rightarrow> 'x word" where
  "riscv_div overflow reg1 reg2 =
     (if reg1 = overflow \<and> reg2 = - 1 then overflow
      else if reg2 \<noteq> 0 then word_of_int (c_div (sint reg1) (sint reg2))
      else - 1)"

definition riscv_rem :: "'x::len word \<Rightarrow> 'x word \<Rightarrow> 'x word \<Rightarrow> 'x word" where
  "riscv_rem overflow reg1 reg2 =
     (if reg1 = overflow \<and> reg2 = - 1 then 0
      else if reg2 \<noteq> 0 then word_of_int (c_rem (sint reg1) (sint reg2))
      else reg1)"

definition riscv_divu :: "'x::len word \<Rightarrow> 'x word \<Rightarrow> 'x word" where
  "riscv_divu reg1 reg2 = (if reg2 \<noteq> 0 then reg1 div reg2 else - 1)"

definition riscv_remu :: "'x::len word \<Rightarrow> 'x word \<Rightarrow> 'x word" where
  "riscv_remu reg1 reg2 = (if reg2 \<noteq> 0 then reg1 mod reg2 else reg1)"

section \<open>Decoding\<close>

definition decode_i_shamt :: "'x::len itself \<Rightarrow> u32 \<Rightarrow> u32" where
  "decode_i_shamt xl insn = (if is_rv64 xl then bit_ext_u32 insn 20 6 else bit_ext_u32 insn 20 5)"

definition decode_i_shift_funct7 :: "'x::len itself \<Rightarrow> u32 \<Rightarrow> u32" where
  "decode_i_shift_funct7 xl insn =
     (if is_rv64 xl then push_bit 1 (drop_bit 26 insn) else drop_bit 25 insn)"

definition decode_i_branch_off :: "u32 \<Rightarrow> u32" where
  "decode_i_branch_off insn =
     push_bit 12 (signed_drop_bit 31 insn) OR (drop_bit 7 insn AND 0x1E)
     OR push_bit 4 (insn AND 0x80) OR (drop_bit 20 insn AND 0x7E0)"

definition decode_i_jal_off :: "u32 \<Rightarrow> u32" where
  "decode_i_jal_off insn =
     push_bit 20 (signed_drop_bit 31 insn) OR (insn AND 0xFF000)
     OR (drop_bit 9 insn AND 0x800) OR (drop_bit 20 insn AND 0x7FE)"

definition decode_i_store_off :: "u32 \<Rightarrow> u32" where
  "decode_i_store_off insn = push_bit 5 (signed_drop_bit 25 insn) OR bit_ext_u32 insn 7 5"

section \<open>Crossbar permutations\<close>

definition riscv_bit_xperm4 :: "u64 \<Rightarrow> u64 \<Rightarrow> u64" where
  "riscv_bit_xperm4 val lut =
     foldl (\<lambda>ret i. ret OR push_bit i (bit_ext_u64 val (unat (push_bit 2 (drop_bit i lut AND 0xF))) 4))
       0 (map ((*) 4) [0..<16])"

definition riscv_bit_xperm8 :: "u64 \<Rightarrow> u64 \<Rightarrow> u64" where
  "riscv_bit_xperm8 val lut =
     foldl (\<lambda>ret i. let idx = ucast (drop_bit i lut) :: u32
                    in if idx AND 0xF8 = 0
                       then ret OR push_bit i (bit_ext_u64 val (unat (push_bit 3 (idx AND 7))) 8)
                       else ret)
       0 (map ((*) 4) [0..<16])"

section \<open>Loads and stores\<close>

definition riscv_emulate_i_opc_load ::
  "'x::len itself \<Rightarrow> 'd rvvm_machine \<Rightarrow> u32 \<Rightarrow> 'd rvvm_hart \<Rightarrow> 'd rvvm_hart" where
  "riscv_emulate_i_opc_load xl M insn vm =
     (let rds = insn_rds insn;
          off = scast (bit_ext_i32 insn 20 12) :: 'x word;
          addr = ucast (riscv_read_reg (insn_rs1 insn) vm + off);
          w = insn_funct3 insn
      in if w = 0 then riscv_load_s8 M addr rds vm
         else if w = 1 then riscv_load_s16 M addr rds vm
         else if w = 2 then riscv_load_s32 M addr rds vm
         else if w = 3 \<and> is_rv64 xl then riscv_load_u64 M addr rds vm
         else if w = 4 then riscv_load_u8 M addr rds vm
         else if w = 5 then riscv_load_u16 M addr rds vm
         else if w = 6 \<and> is_rv64 xl then riscv_load_u32 M addr rds vm
         else riscv_illegal_insn insn vm)"

definition riscv_emulate_i_opc_store ::
  "'x::len itself \<Rightarrow> 'd rvvm_machine \<Rightarrow> u32 \<Rightarrow> 'd rvvm_hart \<Rightarrow> 'd rvvm_hart" where
  "riscv_emulate_i_opc_store xl M insn vm =
     (let rs2 = insn_rs2 insn;
          off = scast (decode_i_store_off insn) :: 'x word;
          addr = ucast (riscv_read_reg (insn_rs1 insn) vm + off);
          w = insn_funct3 insn
      in if w = 0 then riscv_store_u8 M addr rs2 vm
         else if w = 1 then riscv_store_u16 M addr rs2 vm
         else if w = 2 then riscv_store_u32 M addr rs2 vm
         else if w = 3 \<and> is_rv64 xl then riscv_store_u64 M addr rs2 vm
         else riscv_illegal_insn insn vm)"

section \<open>Register-immediate operations\<close>

text \<open>Writing an optional result to the destination register.\<close>

definition write_result :: "u32 \<Rightarrow> nat \<Rightarrow> 'x::len word option \<Rightarrow> 'd rvvm_hart \<Rightarrow> 'd rvvm_hart" where
  "write_result insn rds res vm =
     (case res of Some v \<Rightarrow> riscv_write_reg rds v vm | None \<Rightarrow> riscv_illegal_insn insn vm)"

definition riscv_imm_shl :: "u32 \<Rightarrow> 'x::len word \<Rightarrow> 'x word option" where
  "riscv_imm_shl insn src =
     (let shamt = decode_i_shamt TYPE('x) insn; n = unat shamt; f = decode_i_shift_funct7 TYPE('x) insn
      in if f = 0x00 then Some (push_bit n src)
         else if f = 0x04 \<and> \<not> is_rv64 TYPE('x) \<and> shamt = 0x0F then Some (ucast (bit_zip32 (ucast src)))
         else if f = 0x14 then Some (src OR push_bit n 1)
         else if f = 0x24 then Some (src AND NOT (push_bit n 1))
         else if f = 0x34 then Some (src XOR push_bit n 1)
         else if f = 0x30 \<and> shamt = 0x00 then Some (bit_clz_x src)
         else if f = 0x30 \<and> shamt = 0x01 then Some (bit_ctz_x src)
         else if f = 0x30 \<and> shamt = 0x02 then Some (bit_popcnt_x src)
         else if f = 0x30 \<and> shamt = 0x04 then Some (scast (ucast src :: u8))
         else if f = 0x30 \<and> shamt = 0x05 then Some (scast (ucast src :: u16))
         else None)"

definition riscv_imm_shr :: "u32 \<Rightarrow> 'x::len word \<Rightarrow> 'x word option" where
  "riscv_imm_shr insn src =
     (let shamt = decode_i_shamt TYPE('x) insn; n = unat shamt; f = decode_i_shift_funct7 TYPE('x) insn
      in if f = 0x00 then Some (drop_bit n src)
         else if f = 0x20 then Some (signed_drop_bit n src)
         else if f = 0x04 \<and> \<not> is_rv64 TYPE('x) \<and> shamt = 0x0F then Some (ucast (bit_unzip32 (ucast src)))
         else if f = 0x14 \<and> shamt = 0x07 then Some (ucast (bit_orc_b (ucast src)))
         else if f = 0x24 then Some (drop_bit n src AND 1)
         else if f = 0x34 \<and> shamt = 0x07 then Some (ucast (bit_brev8 (ucast src)))
         else if f = 0x34 \<and> is_rv64 TYPE('x) \<and> shamt = 0x38 then Some (ucast (byteswap_uint64 (ucast src)))
         else if f = 0x34 \<and> \<not> is_rv64 TYPE('x) \<and> shamt = 0x18 then Some (ucast (byteswap_uint32 (ucast src)))
         else if f = 0x30 then Some (bit_rotr_x src shamt)
         else None)"

definition riscv_imm_result :: "u32 \<Rightarrow> 'x::len word \<Rightarrow> 'x word option" where
  "riscv_imm_result insn src =
     (let imm = scast (bit_ext_i32 insn 20 12) :: 'x word; f = insn_funct3 insn
      in if f = 0 then Some (src + imm)
         else if f = 1 then riscv_imm_shl insn src
         else if f = 2 then Some (if src <s imm then 1 else 0)
         else if f = 3 then Some (if src < imm then 1 else 0)
         else if f = 4 then Some (src XOR imm)
         else if f = 5 then riscv_imm_shr insn src
         else if f = 6 then Some (src OR imm)
         else Some (src AND imm))"

definition riscv_emulate_i_opc_imm ::
  "'x::len itself \<Rightarrow> u32 \<Rightarrow> 'd rvvm_hart \<Rightarrow> 'd rvvm_hart" where
  "riscv_emulate_i_opc_imm xl insn vm =
     write_result insn (insn_rds insn)
       (riscv_imm_result insn (riscv_read_reg (insn_rs1 insn) vm :: 'x word)) vm"

definition riscv_imm32_result :: "u32 \<Rightarrow> u32 \<Rightarrow> 'x::len word option" where
  "riscv_imm32_result insn src =
     (let f = insn AND 0xFE007000; shamt = bit_ext_u32 insn 20 5; n = unat shamt
      in if insn_funct3 insn = 0 then Some (scast (src + bit_ext_i32 insn 20 12))
         else if f = 0x00001000 then Some (scast (push_bit n src))
         else if f = 0x08001000 \<or> f = 0x0A001000
           then Some (push_bit (unat (bit_ext_u32 insn 20 6)) (ucast src))
         else if f = 0x60001000 \<and> shamt = 0 then Some (ucast (bit_clz32 src))
         else if f = 0x60001000 \<and> shamt = 1 then Some (ucast (bit_ctz32 src))
         else if f = 0x60001000 \<and> shamt = 2 then Some (ucast (bit_popcnt32 src))
         else if f = 0x00005000 then Some (scast (drop_bit n src))
         else if f = 0x40005000 then Some (scast (signed_drop_bit n src))
         else if f = 0x60005000 then Some (scast (bit_rotr32 src shamt))
         else None)"

definition riscv_emulate_i_opc_imm32 ::
  "'x::len itself \<Rightarrow> u32 \<Rightarrow> 'd rvvm_hart \<Rightarrow> 'd rvvm_hart" where
  "riscv_emulate_i_opc_imm32 xl insn vm =
     write_result insn (insn_rds insn)
       (riscv_imm32_result insn (ucast (riscv_read_reg (insn_rs1 insn) vm :: 'x word)) :: 'x word option) vm"

definition riscv_emulate_i_auipc :: "'x::len itself \<Rightarrow> u32 \<Rightarrow> 'd rvvm_hart \<Rightarrow> 'd rvvm_hart" where
  "riscv_emulate_i_auipc xl insn vm =
     riscv_write_reg (insn_rds insn)
       (riscv_read_reg RISCV_REG_PC vm + scast (insn AND 0xFFFFF000) :: 'x word) vm"

definition riscv_emulate_i_lui :: "'x::len itself \<Rightarrow> u32 \<Rightarrow> 'd rvvm_hart \<Rightarrow> 'd rvvm_hart" where
  "riscv_emulate_i_lui xl insn vm =
     riscv_write_reg (insn_rds insn) (scast (insn AND 0xFFFFF000) :: 'x word) vm"

section \<open>Register-register operations\<close>

definition shamt_of :: "'x::len word \<Rightarrow> nat" where
  "shamt_of reg2 = unat (reg2 AND ucast (bit_mask (SHAMT_BITS TYPE('x))))"

text \<open>
  The switch of \<open>riscv_emulate_i_opc_op\<close> in its groups of cases: the base operations,
  multiplication and division, and the bit manipulation extensions.
\<close>

definition riscv_op_base :: "u32 \<Rightarrow> 'x::len word \<Rightarrow> 'x word \<Rightarrow> 'x word option" where
  "riscv_op_base f reg1 reg2 =
     (if f = 0x00000000 then Some (reg1 + reg2)
      else if f = 0x40000000 then Some (reg1 - reg2)
      else if f = 0x00001000 then Some (push_bit (shamt_of reg2) reg1)
      else if f = 0x00002000 then Some (if reg1 <s reg2 then 1 else 0)
      else if f = 0x00003000 then Some (if reg1 < reg2 then 1 else 0)
      else if f = 0x00004000 then Some (reg1 XOR reg2)
      else if f = 0x00005000 then Some (drop_bit (shamt_of reg2) reg1)
      else if f = 0x40005000 then Some (signed_drop_bit (shamt_of reg2) reg1)
      else if f = 0x00006000 then Some (reg1 OR reg2)
      else if f = 0x00007000 then Some (reg1 AND reg2)
      else None)"

definition riscv_op_muldiv :: "u32 \<Rightarrow> 'x::len word \<Rightarrow> 'x word \<Rightarrow> 'x word option" where
  "riscv_op_muldiv f reg1 reg2 =
     (if f = 0x02000000 then Some (reg1 * reg2)
      else if f = 0x02001000 then Some (mulh_x reg1 reg2)
      else if f = 0x02002000 then Some (mulhsu_x reg1 reg2)
      else if f = 0x02003000 then Some (mulhu_x reg1 reg2)
      else if f = 0x02004000 then Some (riscv_div DIV_OVERFLOW_RS1 reg1 reg2)
      else if f = 0x02005000 then Some (riscv_divu reg1 reg2)
      else if f = 0x02006000 then Some (riscv_rem DIV_OVERFLOW_RS1 reg1 reg2)
      else if f = 0x02007000 then Some (riscv_remu reg1 reg2)
      else None)"

definition riscv_op_bitmanip :: "u32 \<Rightarrow> 'x::len word \<Rightarrow> 'x word \<Rightarrow> 'x word option" where
  "riscv_op_bitmanip f reg1 reg2 =
     (if f = 0x08004000 then
        Some (if is_rv64 TYPE('x) then ucast (ucast reg1 :: u32) OR push_bit 32 reg2
              else ucast (ucast reg1 :: u16) OR push_bit 16 reg2)
      else if f = 0x08007000 then Some (ucast (ucast reg1 :: u8) OR push_bit 8 (ucast (ucast reg2 :: u8)))
      else if f = 0x0A001000 then Some (bit_clmul_x reg1 reg2)
      else if f = 0x0A002000 then Some (bit_clmulr_x reg1 reg2)
      else if f = 0x0A003000 then Some (bit_clmulh_x reg1 reg2)
      else if f = 0x0A004000 then Some (if reg1 <s reg2 then reg1 else reg2)
      else if f = 0x0A005000 then Some (if reg1 < reg2 then reg1 else reg2)
      else if f = 0x0A006000 then Some (if reg2 <s reg1 then reg1 else reg2)
      else if f = 0x0A007000 then Some (if reg2 < reg1 then reg1 else reg2)
      else if f = 0x40004000 then Some (reg1 XOR NOT reg2)
      else if f = 0x40006000 then Some (reg1 OR NOT reg2)
      else if f = 0x40007000 then Some (reg1 AND NOT reg2)
      else if f = 0x60001000 then Some (bit_rotl_x reg1 (of_nat (shamt_of reg2)))
      else if f = 0x60005000 then Some (bit_rotr_x reg1 (of_nat (shamt_of reg2)))
      else if f = 0x0E005000 then Some (if reg2 \<noteq> 0 then reg1 else 0)
      else if f = 0x0E007000 then Some (if reg2 \<noteq> 0 then 0 else reg1)
      else if f = 0x20002000 then Some (reg2 + push_bit 1 reg1)
      else if f = 0x20004000 then Some (reg2 + push_bit 2 reg1)
      else if f = 0x20006000 then Some (reg2 + push_bit 3 reg1)
      else if f = 0x28002000 then Some (ucast (riscv_bit_xperm4 (ucast reg1) (ucast reg2)))
      else if f = 0x28004000 then Some (ucast (riscv_bit_xperm8 (ucast reg1) (ucast reg2)))
      else if f = 0x28001000 then Some (reg1 OR push_bit (shamt_of reg2) 1)
      else if f = 0x48001000 then Some (reg1 AND NOT (push_bit (shamt_of reg2) 1))
      else if f = 0x48005000 then Some (drop_bit (shamt_of reg2) reg1 AND 1)
      else if f = 0x68001000 then Some (reg1 XOR push_bit (shamt_of reg2) 1)
      else None)"

definition riscv_op_result :: "u32 \<Rightarrow> 'x::len word \<Rightarrow> 'x word \<Rightarrow> 'x word option" where
  "riscv_op_result f reg1 reg2 =
     (case riscv_op_base f reg1 reg2 of Some v \<Rightarrow> Some v
      | None \<Rightarrow> (case riscv_op_muldiv f reg1 reg2 of Some v \<Rightarrow> Some v
      | None \<Rightarrow> riscv_op_bitmanip f reg1 reg2))"

definition riscv_emulate_i_opc_op ::
  "'x::len itself \<Rightarrow> u32 \<Rightarrow> 'd rvvm_hart \<Rightarrow> 'd rvvm_hart" where
  "riscv_emulate_i_opc_op xl insn vm =
     write_result insn (insn_rds insn)
       (riscv_op_result (insn AND 0xFE007000) (riscv_read_reg (insn_rs1 insn) vm)
         (riscv_read_reg (insn_rs2 insn) vm) :: 'x word option) vm"

definition riscv_op32_result :: "u32 \<Rightarrow> u32 \<Rightarrow> u32 \<Rightarrow> 'x::len word \<Rightarrow> 'x word option" where
  "riscv_op32_result f reg1 reg2 full2 =
     (let n = unat (reg2 AND 0x1F)
      in if f = 0x00000000 then Some (scast (reg1 + reg2))
         else if f = 0x40000000 then Some (scast (reg1 - reg2))
         else if f = 0x00001000 then Some (scast (push_bit n reg1))
         else if f = 0x00005000 then Some (scast (drop_bit n reg1))
         else if f = 0x40005000 then Some (scast (signed_drop_bit n reg1))
         else if f = 0x02000000 then Some (scast (reg1 * reg2))
         else if f = 0x02004000 then Some (scast (riscv_div 0x80000000 reg1 reg2))
         else if f = 0x02005000 then Some (scast (riscv_divu reg1 reg2))
         else if f = 0x02006000 then Some (scast (riscv_rem 0x80000000 reg1 reg2))
         else if f = 0x02007000 then Some (scast (riscv_remu reg1 reg2))
         else if f = 0x08004000 then Some (scast (ucast (ucast reg1 :: u16) OR push_bit 16 reg2))
         else if f = 0x60001000 then Some (scast (bit_rotl32 reg1 (reg2 AND ucast (bit_mask (SHAMT_BITS TYPE('x))))))
         else if f = 0x60005000 then Some (scast (bit_rotr32 reg1 (reg2 AND ucast (bit_mask (SHAMT_BITS TYPE('x))))))
         else if f = 0x08000000 then Some (full2 + ucast reg1)
         else if f = 0x20002000 then Some (full2 + push_bit 1 (ucast reg1))
         else if f = 0x20004000 then Some (full2 + push_bit 2 (ucast reg1))
         else if f = 0x20006000 then Some (full2 + push_bit 3 (ucast reg1))
         else None)"

definition riscv_emulate_i_opc_op32 ::
  "'x::len itself \<Rightarrow> u32 \<Rightarrow> 'd rvvm_hart \<Rightarrow> 'd rvvm_hart" where
  "riscv_emulate_i_opc_op32 xl insn vm =
     (let full1 = riscv_read_reg (insn_rs1 insn) vm :: 'x word;
          full2 = riscv_read_reg (insn_rs2 insn) vm :: 'x word
      in write_result insn (insn_rds insn)
           (riscv_op32_result (insn AND 0xFE007000) (ucast full1) (ucast full2) full2) vm)"

section \<open>Control transfer\<close>

definition riscv_branch_taken :: "nat \<Rightarrow> 'x::len word \<Rightarrow> 'x word \<Rightarrow> bool option" where
  "riscv_branch_taken f reg1 reg2 =
     (if f = 0 then Some (reg1 = reg2)
      else if f = 1 then Some (reg1 \<noteq> reg2)
      else if f = 4 then Some (reg1 <s reg2)
      else if f = 5 then Some (reg2 \<le>s reg1)
      else if f = 6 then Some (reg1 < reg2)
      else if f = 7 then Some (reg2 \<le> reg1)
      else None)"

definition riscv_emulate_i_opc_branch ::
  "'x::len itself \<Rightarrow> u32 \<Rightarrow> 'd rvvm_hart \<Rightarrow> 'd rvvm_hart" where
  "riscv_emulate_i_opc_branch xl insn vm =
     (let off = scast (decode_i_branch_off insn) :: 'x word
      in case riscv_branch_taken (insn_funct3 insn) (riscv_read_reg (insn_rs1 insn) vm :: 'x word)
                (riscv_read_reg (insn_rs2 insn) vm) of
           Some taken \<Rightarrow>
             if taken then riscv_write_reg RISCV_REG_PC (riscv_read_reg RISCV_REG_PC vm + off - 4) vm else vm
         | None \<Rightarrow> riscv_illegal_insn insn vm)"

definition riscv_emulate_i_jalr :: "'x::len itself \<Rightarrow> u32 \<Rightarrow> 'd rvvm_hart \<Rightarrow> 'd rvvm_hart" where
  "riscv_emulate_i_jalr xl insn vm =
     (if insn_funct3 insn = 0 then
        (let off = scast (bit_ext_i32 insn 20 12) :: 'x word;
             pc = riscv_read_reg RISCV_REG_PC vm :: 'x word;
             jmp_addr = riscv_read_reg (insn_rs1 insn) vm;
             vm = riscv_write_reg (insn_rds insn) (pc + 4) vm
         in riscv_write_reg RISCV_REG_PC (((jmp_addr + off) AND NOT 1) - 4) vm)
      else riscv_illegal_insn insn vm)"

definition riscv_emulate_i_jal :: "'x::len itself \<Rightarrow> u32 \<Rightarrow> 'd rvvm_hart \<Rightarrow> 'd rvvm_hart" where
  "riscv_emulate_i_jal xl insn vm =
     (let off = scast (decode_i_jal_off insn) :: 'x word;
          pc = riscv_read_reg RISCV_REG_PC vm;
          vm = riscv_write_reg (insn_rds insn) (pc + 4) vm
      in riscv_write_reg RISCV_REG_PC (pc + off - 4) vm)"

section \<open>Dispatch on the opcode\<close>

definition riscv_emulate_i ::
  "'x::len itself \<Rightarrow> 'd rvvm_machine \<Rightarrow> u32 \<Rightarrow> 'd rvvm_hart \<Rightarrow> 'd rvvm_hart option" where
  "riscv_emulate_i xl M insn vm =
     (let opc = insn AND 0x7C
      in if opc = 0x00 then Some (riscv_emulate_i_opc_load xl M insn vm)
         else if opc = 0x0C then Some (riscv_emulate_opc_misc_mem M insn vm)
         else if opc = 0x10 then Some (riscv_emulate_i_opc_imm xl insn vm)
         else if opc = 0x14 then Some (riscv_emulate_i_auipc xl insn vm)
         else if opc = 0x18 \<and> is_rv64 xl then Some (riscv_emulate_i_opc_imm32 xl insn vm)
         else if opc = 0x20 then Some (riscv_emulate_i_opc_store xl M insn vm)
         else if opc = 0x2C then Some (riscv_emulate_a_opc_amo xl M insn vm)
         else if opc = 0x30 then Some (riscv_emulate_i_opc_op xl insn vm)
         else if opc = 0x34 then Some (riscv_emulate_i_lui xl insn vm)
         else if opc = 0x38 \<and> is_rv64 xl then Some (riscv_emulate_i_opc_op32 xl insn vm)
         else if opc = 0x60 then Some (riscv_emulate_i_opc_branch xl insn vm)
         else if opc = 0x64 then Some (riscv_emulate_i_jalr xl insn vm)
         else if opc = 0x6C then Some (riscv_emulate_i_jal xl insn vm)
         else if opc = 0x70 then riscv_emulate_opc_system M insn vm
         else Some (riscv_illegal_insn insn vm))"

end
