(* ===== verification/RVVM_Compressed.thy ===== *)
theory RVVM_Compressed
  imports RVVM_Base
begin

text \<open>
  The compressed instructions of src/rvvm/src/cpu/riscv_compressed.h, and
  \<open>riscv_emulate_insn\<close>, which executes one instruction of either size and advances the program
  counter.  The floating-point loads and stores belong to a build with \<open>USE_FPU\<close>.
\<close>

section \<open>Immediates\<close>

definition decode_c_addi4spn_imm :: "u32 \<Rightarrow> u32" where
  "decode_c_addi4spn_imm insn =
     (drop_bit 1 insn AND 0x3C0) OR (drop_bit 2 insn AND 0x8) OR (drop_bit 4 insn AND 0x4)
     OR (drop_bit 7 insn AND 0x30)"

definition decode_c_jal_imm :: "u32 \<Rightarrow> u64" where
  "decode_c_jal_imm insn =
     (let imm = (drop_bit 1 insn AND 0xB40) OR (drop_bit 2 insn AND 0xE) OR (drop_bit 7 insn AND 0x10)
                OR (push_bit 1 insn AND 0x80) OR (push_bit 2 insn AND 0x400) OR (push_bit 3 insn AND 0x20)
      in sign_extend (ucast imm) 12)"

definition decode_c_ld_off :: "u32 \<Rightarrow> u32" where
  "decode_c_ld_off insn = (push_bit 1 insn AND 0xC0) OR (drop_bit 7 insn AND 0x38)"

definition decode_c_lw_off :: "u32 \<Rightarrow> u32" where
  "decode_c_lw_off insn =
     (push_bit 1 insn AND 0x40) OR (drop_bit 4 insn AND 0x4) OR (drop_bit 7 insn AND 0x38)"

definition decode_c_ldsp_off :: "u32 \<Rightarrow> u32" where
  "decode_c_ldsp_off insn =
     (drop_bit 2 insn AND 0x18) OR (drop_bit 7 insn AND 0x20) OR (push_bit 4 insn AND 0x1C0)"

definition decode_c_lwsp_off :: "u32 \<Rightarrow> u32" where
  "decode_c_lwsp_off insn =
     (drop_bit 2 insn AND 0x1C) OR (drop_bit 7 insn AND 0x20) OR (push_bit 4 insn AND 0xC0)"

definition decode_c_sdsp_off :: "u32 \<Rightarrow> u32" where
  "decode_c_sdsp_off insn = (drop_bit 1 insn AND 0x1C0) OR (drop_bit 7 insn AND 0x38)"

definition decode_c_swsp_off :: "u32 \<Rightarrow> u32" where
  "decode_c_swsp_off insn = (drop_bit 1 insn AND 0xC0) OR (drop_bit 7 insn AND 0x3C)"

definition decode_c_alu_imm :: "u32 \<Rightarrow> u32" where
  "decode_c_alu_imm insn =
     signed_drop_bit 26 (drop_bit 1 (push_bit 25 insn) OR push_bit 31 (drop_bit 12 insn))"

definition decode_c_addi16sp_off :: "u32 \<Rightarrow> u64" where
  "decode_c_addi16sp_off insn =
     (let imm = (drop_bit 2 insn AND 0x10) OR (push_bit 3 insn AND 0x20) OR (push_bit 1 insn AND 0x40)
                OR (push_bit 4 insn AND 0x180) OR (drop_bit 3 insn AND 0x200)
      in sign_extend (ucast imm) 10)"

definition decode_c_lui_imm :: "u32 \<Rightarrow> u32" where
  "decode_c_lui_imm insn =
     signed_drop_bit 14 (push_bit 24 (insn AND 0x7C) OR push_bit 31 (drop_bit 12 insn))"

definition decode_c_branch_imm :: "u32 \<Rightarrow> u64" where
  "decode_c_branch_imm insn =
     (let imm = (drop_bit 2 insn AND 0x6) OR (drop_bit 7 insn AND 0x18) OR (push_bit 3 insn AND 0x20)
                OR (push_bit 1 insn AND 0xC0) OR (drop_bit 4 insn AND 0x100)
      in sign_extend (ucast imm) 9)"

definition decode_c_shamt :: "'x::len itself \<Rightarrow> u32 \<Rightarrow> u32" where
  "decode_c_shamt xl insn =
     (if is_rv64 xl then bit_ext_u32 insn 2 5 OR push_bit 5 (bit_ext_u32 insn 12 1)
      else bit_ext_u32 insn 2 5)"

section \<open>Quadrant 0\<close>

definition c_addr :: "nat \<Rightarrow> 'x::len itself \<Rightarrow> u32 \<Rightarrow> 'd rvvm_hart \<Rightarrow> u64" where
  "c_addr rs1 xl off vm = ucast (riscv_read_reg rs1 vm + ucast off :: 'x word)"

definition riscv_emulate_c_c0_zcb ::
  "'x::len itself \<Rightarrow> 'd rvvm_machine \<Rightarrow> u32 \<Rightarrow> 'd rvvm_hart \<Rightarrow> 'd rvvm_hart" where
  "riscv_emulate_c_c0_zcb xl M insn vm =
     (let rds = insn_field insn 2 3 + 8; rs1 = insn_field insn 7 3 + 8; f = insn_field insn 10 3;
          boff = drop_bit 4 (insn AND 0x20) OR drop_bit 6 (insn AND 0x40);
          hoff = drop_bit 4 (insn AND 0x20)
      in if f = 0 then riscv_load_u8 M (c_addr rs1 xl boff vm) rds vm
         else if f = 1 then
           if insn AND 0x40 \<noteq> 0 then riscv_load_s16 M (c_addr rs1 xl hoff vm) rds vm
           else riscv_load_u16 M (c_addr rs1 xl hoff vm) rds vm
         else if f = 2 then riscv_store_u8 M (c_addr rs1 xl boff vm) rds vm
         else if f = 3 \<and> insn AND 0x40 = 0 then riscv_store_u16 M (c_addr rs1 xl hoff vm) rds vm
         else riscv_illegal_insn insn vm)"

definition riscv_emulate_c_c0 ::
  "'x::len itself \<Rightarrow> 'd rvvm_machine \<Rightarrow> u32 \<Rightarrow> 'd rvvm_hart \<Rightarrow> 'd rvvm_hart" where
  "riscv_emulate_c_c0 xl M insn vm =
     (let rds = insn_field insn 2 3 + 8; rs1 = insn_field insn 7 3 + 8; f = insn_field insn 13 3
      in if f = 0 \<and> decode_c_addi4spn_imm insn \<noteq> 0 then
           riscv_write_reg rds (riscv_read_reg RISCV_REG_X2 vm + ucast (decode_c_addi4spn_imm insn) :: 'x word) vm
         else if f = 2 then riscv_load_s32 M (c_addr rs1 xl (decode_c_lw_off insn) vm) rds vm
         else if f = 3 \<and> is_rv64 xl then riscv_load_u64 M (c_addr rs1 xl (decode_c_ld_off insn) vm) rds vm
         else if f = 4 then riscv_emulate_c_c0_zcb xl M insn vm
         else if f = 6 then riscv_store_u32 M (c_addr rs1 xl (decode_c_lw_off insn) vm) rds vm
         else if f = 7 \<and> is_rv64 xl then riscv_store_u64 M (c_addr rs1 xl (decode_c_ld_off insn) vm) rds vm
         else riscv_illegal_insn insn vm)"

section \<open>Quadrant 1\<close>

text \<open>
  The second and third switch of \<open>riscv_emulate_c_c1\<close>: the register arithmetic.  The first
  switch leaves its reserved encodings to them.
\<close>

definition riscv_c1_alu_result :: "u32 \<Rightarrow> 'x::len word \<Rightarrow> 'x word \<Rightarrow> 'x word option" where
  "riscv_c1_alu_result insn reg1 reg2 =
     (let s = insn_field insn 10 2; n = unat (decode_c_shamt TYPE('x) insn); f = insn AND 0x1C60;
          g = insn_field insn 2 3
      in if s = 0 then Some (drop_bit n reg1)
         else if s = 1 then Some (signed_drop_bit n reg1)
         else if s = 2 then Some (reg1 AND scast (decode_c_alu_imm insn))
         else if f = 0x0C00 then Some (reg1 - reg2)
         else if f = 0x0C20 then Some (reg1 XOR reg2)
         else if f = 0x0C40 then Some (reg1 OR reg2)
         else if f = 0x0C60 then Some (reg1 AND reg2)
         else if f = 0x1C00 \<and> is_rv64 TYPE('x) then Some (scast (ucast (reg1 - reg2) :: u32))
         else if f = 0x1C20 \<and> is_rv64 TYPE('x) then Some (scast (ucast (reg1 + reg2) :: u32))
         else if f = 0x1C40 then Some (reg1 * reg2)
         else if f = 0x1C60 \<and> g = 0 then Some (ucast (ucast reg1 :: u8))
         else if f = 0x1C60 \<and> g = 1 then Some (scast (ucast reg1 :: u8))
         else if f = 0x1C60 \<and> g = 2 then Some (ucast (ucast reg1 :: u16))
         else if f = 0x1C60 \<and> g = 3 then Some (scast (ucast reg1 :: u16))
         else if f = 0x1C60 \<and> g = 4 \<and> is_rv64 TYPE('x) then Some (ucast (ucast reg1 :: u32))
         else if f = 0x1C60 \<and> g = 5 then Some (NOT reg1)
         else None)"

definition riscv_emulate_c_c1_alu :: "'x::len itself \<Rightarrow> u32 \<Rightarrow> 'd rvvm_hart \<Rightarrow> 'd rvvm_hart" where
  "riscv_emulate_c_c1_alu xl insn vm =
     (let rds = insn_field insn 7 3 + 8; rs2 = insn_field insn 2 3 + 8
      in write_result insn rds
           (riscv_c1_alu_result insn (riscv_read_reg rds vm) (riscv_read_reg rs2 vm) :: 'x word option) vm)"

definition riscv_emulate_c_c1 :: "'x::len itself \<Rightarrow> u32 \<Rightarrow> 'd rvvm_hart \<Rightarrow> 'd rvvm_hart" where
  "riscv_emulate_c_c1 xl insn vm =
     (let f = insn_field insn 13 3; rds = insn_rds insn; rs1 = insn_field insn 7 3 + 8;
          imm = scast (decode_c_alu_imm insn) :: 'x word;
          pc = riscv_read_reg RISCV_REG_PC vm :: 'x word;
          joff = ucast (decode_c_jal_imm insn) :: 'x word;
          boff = ucast (decode_c_branch_imm insn) :: 'x word
      in if f = 0 then riscv_write_reg rds (riscv_read_reg rds vm + imm) vm
         else if f = 1 \<and> is_rv64 xl \<and> rds \<noteq> 0 then
           riscv_write_reg rds (scast (ucast (riscv_read_reg rds vm + imm) :: u32) :: 'x word) vm
         else if f = 1 \<and> \<not> is_rv64 xl then
           riscv_write_reg RISCV_REG_PC (pc + joff - 2) (riscv_write_reg RISCV_REG_X1 (pc + 2) vm)
         else if f = 2 then riscv_write_reg rds imm vm
         else if f = 3 \<and> insn AND 0x107C \<noteq> 0 then
           if rds = RISCV_REG_X2
           then riscv_write_reg RISCV_REG_X2
                  (riscv_read_reg RISCV_REG_X2 vm + ucast (decode_c_addi16sp_off insn) :: 'x word) vm
           else riscv_write_reg rds (scast (decode_c_lui_imm insn) :: 'x word) vm
         else if f = 3 \<and> odd rds \<and> rds < 16 then vm
         else if f = 5 then riscv_write_reg RISCV_REG_PC (pc + joff - 2) vm
         else if f = 6 then
           if (riscv_read_reg rs1 vm :: 'x word) \<noteq> 0 then vm
           else riscv_write_reg RISCV_REG_PC (pc + boff - 2) vm
         else if f = 7 then
           if (riscv_read_reg rs1 vm :: 'x word) = 0 then vm
           else riscv_write_reg RISCV_REG_PC (pc + boff - 2) vm
         else riscv_emulate_c_c1_alu xl insn vm)"

section \<open>Quadrant 2\<close>

definition riscv_emulate_c_c2 ::
  "'x::len itself \<Rightarrow> 'd rvvm_machine \<Rightarrow> u32 \<Rightarrow> 'd rvvm_hart \<Rightarrow> 'd rvvm_hart" where
  "riscv_emulate_c_c2 xl M insn vm =
     (let rds = insn_rds insn; rs2 = insn_field insn 2 5; f = insn_field insn 12 4
      in if f = 0 \<or> f = 1 then
           riscv_write_reg rds
             (push_bit (unat (decode_c_shamt xl insn)) (riscv_read_reg rds vm) :: 'x word) vm
         else if (f = 4 \<or> f = 5) \<and> rds \<noteq> 0 then
           riscv_load_s32 M (c_addr RISCV_REG_X2 xl (decode_c_lwsp_off insn) vm) rds vm
         else if (f = 6 \<or> f = 7) \<and> is_rv64 xl \<and> rds \<noteq> 0 then
           riscv_load_u64 M (c_addr RISCV_REG_X2 xl (decode_c_ldsp_off insn) vm) rds vm
         else if f = 8 \<and> rs2 \<noteq> 0 then riscv_write_reg rds (riscv_read_reg rs2 vm :: 'x word) vm
         else if f = 8 \<and> rds \<noteq> 0 then
           riscv_write_reg RISCV_REG_PC (riscv_read_reg rds vm - 2 :: 'x word) vm
         else if f = 9 \<and> rs2 \<noteq> 0 then
           riscv_write_reg rds (riscv_read_reg rds vm + riscv_read_reg rs2 vm :: 'x word) vm
         else if f = 9 \<and> rds \<noteq> 0 then
           (let vm = riscv_write_reg RISCV_REG_X1 (riscv_read_reg RISCV_REG_PC vm + 2 :: 'x word) vm
            in riscv_write_reg RISCV_REG_PC (riscv_read_reg rds vm - 2 :: 'x word) vm)
         else if f = 9 then riscv_breakpoint M vm
         else if f = 12 \<or> f = 13 then
           riscv_store_u32 M (c_addr RISCV_REG_X2 xl (decode_c_swsp_off insn) vm) rs2 vm
         else if (f = 14 \<or> f = 15) \<and> is_rv64 xl then
           riscv_store_u64 M (c_addr RISCV_REG_X2 xl (decode_c_sdsp_off insn) vm) rs2 vm
         else riscv_illegal_insn insn vm)"

section \<open>One instruction\<close>

definition advance_pc :: "u64 \<Rightarrow> 'd rvvm_hart \<Rightarrow> 'd rvvm_hart" where
  "advance_pc n vm = set_reg RISCV_REG_PC (registers vm RISCV_REG_PC + n) vm"

definition riscv_emulate_insn ::
  "'x::len itself \<Rightarrow> 'd rvvm_machine \<Rightarrow> u32 \<Rightarrow> 'd rvvm_hart \<Rightarrow> 'd rvvm_hart option" where
  "riscv_emulate_insn xl M insn vm =
     (let op = insn AND 3
      in if op = 0 then Some (advance_pc 2 (riscv_emulate_c_c0 xl M insn vm))
         else if op = 1 then Some (advance_pc 2 (riscv_emulate_c_c1 xl insn vm))
         else if op = 2 then Some (advance_pc 2 (riscv_emulate_c_c2 xl M insn vm))
         else map_option (advance_pc 4) (riscv_emulate_i xl M insn vm))"

end
