(* ===== verification/RVVM_Interp.thy ===== *)
theory RVVM_Interp
  imports RVVM_Compressed
begin

text \<open>
  The dispatch loop of src/rvvm/src/cpu/riscv_interpreter.h and the hart loop of riscv_hart.c.
  Both loops end only when another thread or the executed code asks for it, so they are partial:
  no result means that the loop does not end.  Next to the loops, \<open>hart_step\<close> is the transition
  relation of a hart thread with one instruction per step, interleaved with the operations other
  threads perform on the hart.
\<close>

section \<open>Dispatch loop\<close>

text \<open>
  One pass of the loop.  The pointer and the page of the current code are the local variables
  \<open>insn_ptr\<close> and \<open>insn_page\<close>; the result says whether the loop goes on.
\<close>

definition riscv_interp_fetch ::
  "'x::len itself \<Rightarrow> 'd rvvm_machine \<Rightarrow> u64 \<Rightarrow> 'x word \<Rightarrow> 'd rvvm_hart
     \<Rightarrow> u32 option \<times> u64 \<times> 'x word \<times> 'd rvvm_hart" where
  "riscv_interp_fetch xl M insn_ptr insn_page vm =
     (let insn_addr = ucast (registers vm RISCV_REG_PC) :: 'x word
      in if insn_addr - insn_page \<le> 0xFFC
         then (Some (read_uint32_le_m (host vm) (insn_ptr + ucast insn_addr)), insn_ptr, insn_page, vm)
         else (case riscv_fetch_insn M (ucast insn_addr) vm of
                 (Some insn, vm) \<Rightarrow>
                   (let vpn = ucast (drop_bit 12 (registers vm RISCV_REG_PC)) :: 'x word;
                        ent = tlb vm (tlb_index (ucast vpn))
                    in (Some insn, tlb_ptr ent, ucast (push_bit 12 (tlb_e ent)), vm))
               | (None, vm) \<Rightarrow> (None, insn_ptr, insn_page, vm)))"

definition riscv_interp_pass ::
  "'x::len itself \<Rightarrow> 'd rvvm_machine \<Rightarrow> u64 \<Rightarrow> 'x word \<Rightarrow> 'd rvvm_hart
     \<Rightarrow> (bool \<times> u64 \<times> 'x word \<times> 'd rvvm_hart) option" where
  "riscv_interp_pass xl M insn_ptr insn_page vm =
     (case riscv_interp_fetch xl M insn_ptr insn_page vm of
        (None, insn_ptr, insn_page, vm) \<Rightarrow> Some (False, insn_ptr, insn_page, vm)
      | (Some insn, insn_ptr, insn_page, vm) \<Rightarrow>
          (case riscv_emulate_insn xl M insn (set_reg RISCV_REG_ZERO 0 vm) of
             None \<Rightarrow> None
           | Some vm \<Rightarrow> Some (running vm, insn_ptr, insn_page, vm)))"

partial_function (option) riscv_interp_loop ::
  "'x::len itself \<Rightarrow> 'd rvvm_machine \<Rightarrow> u64 \<Rightarrow> 'x word \<Rightarrow> 'd rvvm_hart \<Rightarrow> 'd rvvm_hart option" where
  "riscv_interp_loop xl M insn_ptr insn_page vm =
     (case riscv_interp_pass xl M insn_ptr insn_page vm of
        None \<Rightarrow> None
      | Some (go, insn_ptr, insn_page, vm) \<Rightarrow>
          if go then riscv_interp_loop xl M insn_ptr insn_page vm else Some vm)"

definition riscv_run_interpreter ::
  "'x::len itself \<Rightarrow> 'd rvvm_machine \<Rightarrow> 'd rvvm_hart \<Rightarrow> 'd rvvm_hart option" where
  "riscv_run_interpreter xl M vm =
     riscv_interp_loop xl M 0 (ucast (registers vm RISCV_REG_PC + 0x1000) :: 'x word) vm"

definition riscv_run_till_event :: "'d rvvm_machine \<Rightarrow> 'd rvvm_hart \<Rightarrow> 'd rvvm_hart option" where
  "riscv_run_till_event M vm =
     (if rv64 vm then riscv_run_interpreter TYPE(64) M vm else riscv_run_interpreter TYPE(32) M vm)"

section \<open>Hart loop\<close>

text \<open>
  The start of a pass of \<open>riscv_hart_run\<close>: allow the hart to run, take the pending events, and
  either leave the loop or handle interrupts.  The end of a pass completes a trap.
\<close>

definition riscv_hart_run_begin :: "'d rvvm_hart \<Rightarrow> bool \<times> 'd rvvm_hart" where
  "riscv_hart_run_begin vm =
     (let events = pending_events vm;
          vm = vm\<lparr>running := True, pending_events := 0\<rparr>
      in if events AND HART_EVENT_PAUSE \<noteq> 0 then (False, vm)
         else (let vm = (if events AND HART_EVENT_PREEMPT \<noteq> 0 then vm\<lparr>preempt_ms := 0\<rparr> else vm)
               in (True, riscv_handle_irqs vm)))"

definition riscv_hart_run_end :: "'d rvvm_hart \<Rightarrow> 'd rvvm_hart" where
  "riscv_hart_run_end vm =
     (if trap vm then (set_reg RISCV_REG_PC (trap_pc vm) vm)\<lparr>trap := False\<rparr> else vm)"

partial_function (option) riscv_hart_run :: "'d rvvm_machine \<Rightarrow> 'd rvvm_hart \<Rightarrow> 'd rvvm_hart option" where
  "riscv_hart_run M vm =
     (case riscv_hart_run_begin vm of
        (go, vm) \<Rightarrow>
          if go then (case riscv_run_till_event M vm of
                        None \<Rightarrow> None
                      | Some vm \<Rightarrow> riscv_hart_run M (riscv_hart_run_end vm))
          else Some vm)"

definition riscv_hart_run_userland :: "'d rvvm_machine \<Rightarrow> 'd rvvm_hart \<Rightarrow> (u64 \<times> 'd rvvm_hart) option" where
  "riscv_hart_run_userland M vm =
     (case riscv_run_till_event M (vm\<lparr>userland := True, running := True\<rparr>) of
        None \<Rightarrow> None
      | Some vm \<Rightarrow> (let vm = riscv_hart_run_end vm in Some (csr_cause (csr vm) RISCV_PRIV_USER, vm)))"

section \<open>Transition relation\<close>

datatype hart_phase = Idle | Run64 u64 u64 | Run32 u64 u32 | Paused

text \<open>
  What other threads do to a hart: raise and clear interrupts, send message signalled interrupts,
  request a pause or a preemption, check the timer; time passes and the entropy source moves on.
\<close>

inductive env_step :: "'d rvvm_hart \<Rightarrow> 'd rvvm_hart \<Rightarrow> bool" where
  env_irq: "env_step vm (riscv_interrupt irq vm)"
| env_irq_clear: "env_step vm (riscv_interrupt_clear irq vm)"
| env_aia: "env_step vm (riscv_send_aia_irq smode irq vm)"
| env_timer: "env_step vm (riscv_hart_check_timer vm)"
| env_pause: "env_step vm (riscv_hart_queue_pause vm)"
| env_preempt: "env_step vm (riscv_hart_preempt ms vm)"
| env_clock: "env_step vm (vm\<lparr>timer := t\<rparr>)"
| env_mtimecmp: "env_step vm (vm\<lparr>mtimecmp := t\<rparr>)"
| env_entropy: "env_step vm (vm\<lparr>entropy := e\<rparr>)"

inductive hart_step :: "'d rvvm_machine \<Rightarrow> hart_phase \<times> 'd rvvm_hart \<Rightarrow> hart_phase \<times> 'd rvvm_hart \<Rightarrow> bool"
  for M where
  step_pause:
    "riscv_hart_run_begin vm = (False, vm') \<Longrightarrow> hart_step M (Idle, vm) (Paused, vm')"
| step_begin64:
    "\<lbrakk>riscv_hart_run_begin vm = (True, vm'); rv64 vm'\<rbrakk> \<Longrightarrow>
       hart_step M (Idle, vm) (Run64 0 (registers vm' RISCV_REG_PC + 0x1000), vm')"
| step_begin32:
    "\<lbrakk>riscv_hart_run_begin vm = (True, vm'); \<not> rv64 vm'\<rbrakk> \<Longrightarrow>
       hart_step M (Idle, vm) (Run32 0 (ucast (registers vm' RISCV_REG_PC + 0x1000)), vm')"
| step_go64:
    "riscv_interp_pass TYPE(64) M ptr page vm = Some (True, ptr', page', vm') \<Longrightarrow>
       hart_step M (Run64 ptr page, vm) (Run64 ptr' page', vm')"
| step_stop64:
    "riscv_interp_pass TYPE(64) M ptr page vm = Some (False, ptr', page', vm') \<Longrightarrow>
       hart_step M (Run64 ptr page, vm) (Idle, riscv_hart_run_end vm')"
| step_go32:
    "riscv_interp_pass TYPE(32) M ptr page vm = Some (True, ptr', page', vm') \<Longrightarrow>
       hart_step M (Run32 ptr page, vm) (Run32 ptr' page', vm')"
| step_stop32:
    "riscv_interp_pass TYPE(32) M ptr page vm = Some (False, ptr', page', vm') \<Longrightarrow>
       hart_step M (Run32 ptr page, vm) (Idle, riscv_hart_run_end vm')"
| step_env:
    "env_step vm vm' \<Longrightarrow> hart_step M (ph, vm) (ph, vm')"

inductive_cases hart_stepE: "hart_step M s t"
inductive_cases env_stepE: "env_step vm vm'"

end
