(* ===== verification/RVVM_Hart_Lemmas.thy ===== *)
theory RVVM_Hart_Lemmas
  imports RVVM_Interp RVVM_Bit_Lemmas
begin

text \<open>
  Library lemmas of the hart: the fields of the status register, what each operation of
  src/rvvm/src/riscv_hart.c leaves alone, and the state a trap and the return from it leave.
\<close>

unbundle bit_operations_syntax

section \<open>Fields of the status register\<close>

lemma bit_ext_replace:
  assumes "0 < n" "pos + n \<le> 32"
  shows "bit_ext_u32 (ucast (bit_replace s pos n v)) pos n = take_bit n (ucast v)"
  using assms by (intro bit_word_eqI) (auto simp: bit_ops_bits bit_ucast_iff bit_take_bit_iff)

lemma bit_ext_replace_other:
  assumes "0 < n" "q + n \<le> 32" "q + n \<le> pos \<or> pos + m \<le> q"
  shows "bit_ext_u32 (ucast (bit_replace s pos m v)) q n = bit_ext_u32 (ucast s) q n"
  using assms by (intro bit_word_eqI) (auto simp: bit_ops_bits bit_ucast_iff)

lemma bit_cut_replace:
  assumes "0 < n" "pos + n \<le> 64"
  shows "bit_cut (bit_replace s pos n v) pos n = take_bit n v"
  using assms by (intro bit_word_eqI) (auto simp: bit_cut_def bit_ops_bits bit_take_bit_iff)

lemma bit_cut_replace_other:
  assumes "0 < n" "q + n \<le> 64" "q + n \<le> pos \<or> pos + m \<le> q"
  shows "bit_cut (bit_replace s pos m v) q n = bit_cut s q n"
  using assms by (intro bit_word_eqI) (auto simp: bit_cut_def bit_ops_bits)

lemma bit_of_bit_cut_1: "pos < 64 \<Longrightarrow> bit (bit_cut s pos (Suc 0)) n \<longleftrightarrow> n = 0 \<and> bit s pos"
  by (auto simp: bit_cut_def bit_ops_bits)

lemma bit_of_bit_ext_1: "pos < 32 \<Longrightarrow> bit (bit_ext_u32 s pos (Suc 0)) n \<longleftrightarrow> n = 0 \<and> bit s pos"
  by (auto simp: bit_ops_bits)

lemma take_bit_2_of_nat: "p < 4 \<Longrightarrow> unat (take_bit 2 (ucast (of_nat p :: u64)) :: u32) = p"
proof -
  assume "p < 4"
  then have "p \<in> {0,1,2,3}" by auto
  then show ?thesis by auto
qed

lemmas status_fields = bit_ext_replace bit_ext_replace_other bit_cut_replace bit_cut_replace_other
  bit_of_bit_cut_1 bit_of_bit_ext_1

section \<open>What the hart operations leave alone\<close>

lemma restart_dispatch_frame [simp]:
  "registers (riscv_restart_dispatch vm) = registers vm"
  "csr (riscv_restart_dispatch vm) = csr vm"
  "priv_mode (riscv_restart_dispatch vm) = priv_mode vm"
  "mem (riscv_restart_dispatch vm) = mem vm"
  "tlb (riscv_restart_dispatch vm) = tlb vm"
  "host (riscv_restart_dispatch vm) = host vm"
  "trap (riscv_restart_dispatch vm) = trap vm"
  "trap_pc (riscv_restart_dispatch vm) = trap_pc vm"
  "userland (riscv_restart_dispatch vm) = userland vm"
  "rv64 (riscv_restart_dispatch vm) = rv64 vm"
  "fatal (riscv_restart_dispatch vm) = fatal vm"
  "running (riscv_restart_dispatch vm) = False"
  "mmu_mode (riscv_restart_dispatch vm) = mmu_mode vm"
  "root_page_table (riscv_restart_dispatch vm) = root_page_table vm"
  by (simp_all add: riscv_restart_dispatch_def)

lemma tlb_flush_frame [simp]:
  "registers (riscv_tlb_flush vm) = registers vm"
  "csr (riscv_tlb_flush vm) = csr vm"
  "priv_mode (riscv_tlb_flush vm) = priv_mode vm"
  "mem (riscv_tlb_flush vm) = mem vm"
  "host (riscv_tlb_flush vm) = host vm"
  "trap (riscv_tlb_flush vm) = trap vm"
  "trap_pc (riscv_tlb_flush vm) = trap_pc vm"
  "userland (riscv_tlb_flush vm) = userland vm"
  "rv64 (riscv_tlb_flush vm) = rv64 vm"
  "fatal (riscv_tlb_flush vm) = fatal vm"
  "running (riscv_tlb_flush vm) = False"
  "mmu_mode (riscv_tlb_flush vm) = mmu_mode vm"
  "root_page_table (riscv_tlb_flush vm) = root_page_table vm"
  by (simp_all add: riscv_tlb_flush_def)

lemma update_xlen_frame [simp]:
  "registers (riscv_update_xlen vm) = registers vm"
  "csr (riscv_update_xlen vm) = csr vm"
  "priv_mode (riscv_update_xlen vm) = priv_mode vm"
  "mem (riscv_update_xlen vm) = mem vm"
  "tlb (riscv_update_xlen vm) = tlb vm"
  "host (riscv_update_xlen vm) = host vm"
  "trap (riscv_update_xlen vm) = trap vm"
  "trap_pc (riscv_update_xlen vm) = trap_pc vm"
  "userland (riscv_update_xlen vm) = userland vm"
  "fatal (riscv_update_xlen vm) = fatal vm"
  "mmu_mode (riscv_update_xlen vm) = mmu_mode vm"
  "root_page_table (riscv_update_xlen vm) = root_page_table vm"
  by (simp_all add: riscv_update_xlen_def Let_def)

lemma switch_priv_frame [simp]:
  "registers (riscv_switch_priv p vm) = registers vm"
  "csr (riscv_switch_priv p vm) = csr vm"
  "priv_mode (riscv_switch_priv p vm) = p"
  "mem (riscv_switch_priv p vm) = mem vm"
  "host (riscv_switch_priv p vm) = host vm"
  "trap (riscv_switch_priv p vm) = trap vm"
  "trap_pc (riscv_switch_priv p vm) = trap_pc vm"
  "userland (riscv_switch_priv p vm) = userland vm"
  "fatal (riscv_switch_priv p vm) = fatal vm"
  "mmu_mode (riscv_switch_priv p vm) = mmu_mode vm"
  "root_page_table (riscv_switch_priv p vm) = root_page_table vm"
  by (simp_all add: riscv_switch_priv_def)

lemma trap_priv_helper_frame [simp]:
  "registers (riscv_trap_priv_helper p vm) = registers vm"
  "csr_epc (csr (riscv_trap_priv_helper p vm)) = csr_epc (csr vm)"
  "csr_cause (csr (riscv_trap_priv_helper p vm)) = csr_cause (csr vm)"
  "csr_tval (csr (riscv_trap_priv_helper p vm)) = csr_tval (csr vm)"
  "csr_tvec (csr (riscv_trap_priv_helper p vm)) = csr_tvec (csr vm)"
  "csr_edeleg (csr (riscv_trap_priv_helper p vm)) = csr_edeleg (csr vm)"
  "csr_ideleg (csr (riscv_trap_priv_helper p vm)) = csr_ideleg (csr vm)"
  "csr_isa (csr (riscv_trap_priv_helper p vm)) = csr_isa (csr vm)"
  "priv_mode (riscv_trap_priv_helper p vm) = priv_mode vm"
  "mem (riscv_trap_priv_helper p vm) = mem vm"
  "tlb (riscv_trap_priv_helper p vm) = tlb vm"
  "host (riscv_trap_priv_helper p vm) = host vm"
  "trap (riscv_trap_priv_helper p vm) = trap vm"
  "trap_pc (riscv_trap_priv_helper p vm) = trap_pc vm"
  "userland (riscv_trap_priv_helper p vm) = userland vm"
  "fatal (riscv_trap_priv_helper p vm) = fatal vm"
  "rv64 (riscv_trap_priv_helper p vm) = rv64 vm"
  "mmu_mode (riscv_trap_priv_helper p vm) = mmu_mode vm"
  "root_page_table (riscv_trap_priv_helper p vm) = root_page_table vm"
  by (simp_all add: riscv_trap_priv_helper_def Let_def)

lemma check_interrupts_frame [simp]:
  "registers (riscv_hart_check_interrupts vm) = registers vm"
  "csr (riscv_hart_check_interrupts vm) = csr vm"
  "priv_mode (riscv_hart_check_interrupts vm) = priv_mode vm"
  "mem (riscv_hart_check_interrupts vm) = mem vm"
  "tlb (riscv_hart_check_interrupts vm) = tlb vm"
  "host (riscv_hart_check_interrupts vm) = host vm"
  "trap (riscv_hart_check_interrupts vm) = trap vm"
  "userland (riscv_hart_check_interrupts vm) = userland vm"
  "rv64 (riscv_hart_check_interrupts vm) = rv64 vm"
  "fatal (riscv_hart_check_interrupts vm) = fatal vm"
  "mmu_mode (riscv_hart_check_interrupts vm) = mmu_mode vm"
  "root_page_table (riscv_hart_check_interrupts vm) = root_page_table vm"
  by (simp_all add: riscv_hart_check_interrupts_def)

section \<open>Taking a trap\<close>

lemma riscv_trap_taken:
  assumes "\<not> trap vm" "\<not> userland vm"
    and p: "p = riscv_trap_target (csr_edeleg (csr vm)) (priv_mode vm) cause 3"
  shows "priv_mode (riscv_trap cause tval vm) = p"
    "trap (riscv_trap cause tval vm)"
    "trap_pc (riscv_trap cause tval vm) = csr_tvec (csr vm) p AND NOT 3"
    "csr_epc (csr (riscv_trap cause tval vm)) = (csr_epc (csr vm))(p := registers vm 32)"
    "csr_cause (csr (riscv_trap cause tval vm)) = (csr_cause (csr vm))(p := of_nat cause)"
    "csr_tval (csr (riscv_trap cause tval vm)) = (csr_tval (csr vm))(p := tval)"
    "status (riscv_trap cause tval vm) = status (riscv_trap_priv_helper p vm)"
    "registers (riscv_trap cause tval vm) = registers vm"
    "\<not> running (riscv_trap cause tval vm)"
    "userland (riscv_trap cause tval vm) = userland vm"
  using assms(1,2) unfolding riscv_trap_def Let_def p [symmetric] riscv_restart_at_pc_def
  by (simp_all add: riscv_trap_priv_helper_def Let_def)

lemma trap_mret:
  assumes "\<not> trap vm" "\<not> userland vm" "priv_mode vm \<le> 3"
    and "riscv_trap_target (csr_edeleg (csr vm)) (priv_mode vm) cause 3 = 3"
    and handler_def: "handler = riscv_hart_run_end (riscv_trap cause tval vm)"
  shows "priv_mode handler = 3" "registers handler 32 = csr_tvec (csr vm) 3 AND NOT 3"
    "\<not> bit (status handler) 3"
    "priv_mode (riscv_mret handler) = priv_mode vm"
    "registers (advance_pc 4 (riscv_mret handler)) 32 = registers vm 32"
    "bit (status (riscv_mret handler)) 3 = bit (status vm) 3"
proof -
  note t = riscv_trap_taken [OF assms(1,2) assms(4) [symmetric], of tval]
  have h: "priv_mode handler = 3" "status handler = status (riscv_trap_priv_helper 3 vm)"
    "csr_epc (csr handler) 3 = registers vm 32"
    by (simp_all add: handler_def riscv_hart_run_end_def t)
  show "priv_mode handler = 3" "registers handler 32 = csr_tvec (csr vm) 3 AND NOT 3"
    by (simp_all add: handler_def riscv_hart_run_end_def t)
  show "\<not> bit (status handler) 3"
    by (simp add: h riscv_trap_priv_helper_def Let_def bit_ops_bits)
  have mpp: "unat (bit_ext_u32 (ucast (status handler)) 11 2) = priv_mode vm"
    using assms(3) by (simp add: h riscv_trap_priv_helper_def Let_def status_fields take_bit_2_of_nat)
  show "priv_mode (riscv_mret handler) = priv_mode vm"
    by (simp add: riscv_mret_def Let_def mpp)
  show "registers (advance_pc 4 (riscv_mret handler)) 32 = registers vm 32"
    by (simp add: riscv_mret_def Let_def advance_pc_def h)
  have "bit (status handler) 7 = bit (status vm) 3"
    by (simp add: h riscv_trap_priv_helper_def Let_def bit_ops_bits status_fields)
  then show "bit (status (riscv_mret handler)) 3 = bit (status vm) 3"
    by (simp add: riscv_mret_def Let_def bit_ops_bits status_fields bit_ucast_iff bit_simps)
qed

lemma trap_sret:
  assumes "\<not> trap vm" "\<not> userland vm" "priv_mode vm \<le> 1"
    and "riscv_trap_target (csr_edeleg (csr vm)) (priv_mode vm) cause 3 = 1"
    and handler_def: "handler = riscv_hart_run_end (riscv_trap cause tval vm)"
  shows "priv_mode handler = 1" "registers handler 32 = csr_tvec (csr vm) 1 AND NOT 3"
    "\<not> bit (status handler) 1"
    "priv_mode (riscv_sret handler) = priv_mode vm"
    "registers (advance_pc 4 (riscv_sret handler)) 32 = registers vm 32"
    "bit (status (riscv_sret handler)) 1 = bit (status vm) 1"
proof -
  note t = riscv_trap_taken [OF assms(1,2) assms(4) [symmetric], of tval]
  have h: "priv_mode handler = 1" "status handler = status (riscv_trap_priv_helper 1 vm)"
    "csr_epc (csr handler) 1 = registers vm 32"
    by (simp_all add: handler_def riscv_hart_run_end_def t)
  show "priv_mode handler = 1" "registers handler 32 = csr_tvec (csr vm) 1 AND NOT 3"
    by (simp_all add: handler_def riscv_hart_run_end_def t)
  show "\<not> bit (status handler) 1"
    by (simp add: h riscv_trap_priv_helper_def Let_def bit_ops_bits)
  have "priv_mode vm = 0 \<or> priv_mode vm = 1" using assms(3) by auto
  then have spp: "unat (bit_ext_u32 (ucast (status handler)) 8 (Suc 0)) = priv_mode vm"
    by (auto simp: h riscv_trap_priv_helper_def Let_def status_fields take_bit_eq_mod)
  show "priv_mode (riscv_sret handler) = priv_mode vm"
    by (simp add: riscv_sret_def Let_def spp)
  show "registers (advance_pc 4 (riscv_sret handler)) 32 = registers vm 32"
    using h by (simp add: riscv_sret_def Let_def advance_pc_def)
  have "bit (status handler) 5 = bit (status vm) 1"
    by (simp add: h riscv_trap_priv_helper_def Let_def bit_ops_bits status_fields)
  then show "bit (status (riscv_sret handler)) 1 = bit (status vm) 1"
    by (simp add: riscv_sret_def Let_def bit_ops_bits status_fields bit_ucast_iff bit_simps)
qed

end
