(* ===== verification/RVVM_Pages.thy ===== *)
theory RVVM_Pages
  imports RVVM_Interp RVVM_Bit_Lemmas
begin

text \<open>
  Arithmetic of 4 KiB pages: page numbers, page offsets and translations that keep the offset.
\<close>

unbundle bit_operations_syntax

section \<open>Pages\<close>

abbreviation page_of :: "u64 \<Rightarrow> u64" where "page_of a \<equiv> drop_bit 12 a"

lemma mask_12: "(0xFFF :: 'a::len word) = mask 12" by (simp add: mask_eq_exp_minus_1)
lemma mask_8: "(0xFF :: 'a::len word) = mask 8" by (simp add: mask_eq_exp_minus_1)

lemma word_split_page: "(a :: 'a::len word) = (a AND NOT (mask n)) + (a AND mask n)"
proof -
  have "(a AND NOT (mask n)) + (a AND mask n) = (a AND NOT (mask n)) OR (a AND mask n)"
    by (rule disjunctive_add) (auto simp: bit_simps)
  also have "\<dots> = a" by (rule bit_word_eqI) (auto simp: bit_simps)
  finally show ?thesis by simp
qed

lemma page_eq_iff: "drop_bit n a = drop_bit n b \<longleftrightarrow> a AND NOT (mask n) = b AND NOT (mask n :: 'a::len word)"
proof
  assume "drop_bit n a = drop_bit n b"
  then have *: "bit a (n + k) = bit b (n + k)" for k by (metis bit_drop_bit_eq comp_apply)
  show "a AND NOT (mask n) = b AND NOT (mask n)"
  proof (rule bit_word_eqI)
    fix k assume "k < LENGTH('a)"
    show "bit (a AND NOT (mask n)) k = bit (b AND NOT (mask n)) k"
      using * [of "k - n"] by (cases "n \<le> k") (simp_all add: bit_simps)
  qed
next
  assume "a AND NOT (mask n) = b AND NOT (mask n)"
  then have *: "bit (a AND NOT (mask n)) k = bit (b AND NOT (mask n)) k" for k by simp
  show "drop_bit n a = drop_bit n b"
  proof (rule bit_word_eqI)
    fix k assume "k < LENGTH('a)"
    show "bit (drop_bit n a) k = bit (drop_bit n b) k"
      using * [of "n + k"] bit_imp_le_length [of a "n + k"] bit_imp_le_length [of b "n + k"]
      by (auto simp: bit_simps)
  qed
qed

lemma same_page_shift:
  fixes a b b' :: "'a::len word"
  assumes low: "a AND mask n = b AND mask n" and page: "drop_bit n b' = drop_bit n b"
  shows "drop_bit n (a + (b' - b)) = drop_bit n a" "(a + (b' - b)) AND mask n = b' AND mask n"
proof -
  have "a + (b' - b) = (a AND NOT (mask n)) + (b' AND mask n)"
  proof -
    have "b' - b = (b' AND mask n) - (b AND mask n)"
      using word_split_page [of b n] word_split_page [of b' n] page [unfolded page_eq_iff]
      by (metis add_diff_cancel_left)
    then show ?thesis
      using word_split_page [of a n] low by (metis add.assoc add_diff_cancel_left' add_diff_eq)
  qed
  also have "\<dots> = (a AND NOT (mask n)) OR (b' AND mask n)"
    by (rule disjunctive_add) (auto simp: bit_simps)
  finally have eq: "a + (b' - b) = (a AND NOT (mask n)) OR (b' AND mask n)" .
  show "drop_bit n (a + (b' - b)) = drop_bit n a"
    unfolding eq page_eq_iff by (rule bit_word_eqI) (auto simp: bit_simps)
  show "(a + (b' - b)) AND mask n = b' AND mask n"
    unfolding eq by (rule bit_word_eqI) (auto simp: bit_simps)
qed

lemma page_less_closed:
  fixes x x' sz :: u64
  assumes "x < sz" "page_of x' = page_of x" "sz AND 0xFFF = 0"
  shows "x' < sz"
proof -
  have "unat sz mod 4096 = 0"
  proof -
    have "sz mod 4096 = 0"
      using assms(3) by (simp only: mask_12 take_bit_eq_mask [symmetric] take_bit_eq_mod) simp
    then have "unat (sz mod 4096) = 0" by simp
    then show ?thesis by (simp only: unat_mod) simp
  qed
  then obtain k where k: "unat sz = 4096 * k" by (auto simp: mod_eq_0_iff_dvd elim: dvdE)
  have "unat x div 4096 = unat x' div 4096"
    using arg_cong [OF assms(2), of unat] by (simp add: drop_bit_eq_div unat_div)
  moreover have "unat x div 4096 < k" using assms(1) k by (simp add: word_less_nat_alt)
  ultimately have "unat x' < unat sz" using k by simp
  then show ?thesis by (simp add: word_less_nat_alt)
qed

lemma aligned_sub_low:
  fixes a b :: "'a::len word"
  assumes "b AND mask n = 0"
  shows "(a - b) AND mask n = a AND mask n"
  using assms mask_eqs(4) [where a = a and b = b and n = n] by simp

lemma aligned_sub_page:
  fixes a a' b :: "'a::len word"
  assumes "b AND mask n = 0" "drop_bit n a' = drop_bit n a"
  shows "drop_bit n (a' - b) = drop_bit n (a - b)"
  using same_page_shift(1) [OF aligned_sub_low [OF assms(1), of a] assms(2)] by simp

end
