(* ===== verification/RVVM_Safety.thy ===== *)
theory RVVM_Safety
  imports RVVM_Hart_Lemmas RVVM_Pages
begin

text \<open>
  Isolation of the guest.  \<open>host_guest\<close> is the host memory a machine gives its guest: the RAM and
  the direct mappings of its devices.  \<open>hart_good\<close> is the invariant of a hart: every cached
  translation points into that memory, nothing else of the host memory changed, and the
  privilege state is one the architecture has.  The lemmas show that the operations of
  src/rvvm/src/riscv_hart.c keep it.
\<close>

unbundle bit_operations_syntax

section \<open>Guest-owned host memory\<close>

definition ram_host :: "rvvm_ram \<Rightarrow> u64 \<Rightarrow> bool" where
  "ram_host r a \<longleftrightarrow> a - ram_data r < ram_size r"

definition host_guest :: "'d rvvm_machine \<Rightarrow> u64 \<Rightarrow> bool" where
  "host_guest M a \<longleftrightarrow> ram_host (m_mem M) a \<or>
     (\<exists>dev \<in> set (m_mmio_devs M). mmio_mapping dev \<noteq> 0 \<and> a - mmio_mapping dev < mmio_size dev)"

definition page_guest :: "'d rvvm_machine \<Rightarrow> u64 \<Rightarrow> u64 \<Rightarrow> bool" where
  "page_guest M vaddr ptr \<longleftrightarrow> (\<forall>v. page_of v = page_of vaddr \<longrightarrow> host_guest M (ptr - vaddr + v))"

definition tlb_safe :: "'d rvvm_machine \<Rightarrow> (nat \<Rightarrow> tlb_entry) \<Rightarrow> bool" where
  "tlb_safe M t \<longleftrightarrow> (\<forall>v. let e = t (tlb_index (page_of v)) in
     tlb_r e = page_of v \<or> tlb_w e = page_of v \<or> tlb_e e = page_of v \<longrightarrow> host_guest M (tlb_ptr e + v))"

definition csr_inv :: "riscv_csrs \<Rightarrow> bool" where
  "csr_inv c \<longleftrightarrow> bit_cut (csr_status c) 11 2 \<noteq> 2
     \<and> csr_edeleg c 2 = 0xFFFFFFFF \<and> csr_ideleg c 2 = 0xFFFFFFFF \<and> csr_edeleg c 1 = 0 \<and> csr_ideleg c 1 = 0"

definition hart_good :: "'d rvvm_machine \<Rightarrow> host_mem \<Rightarrow> 'd rvvm_hart \<Rightarrow> bool" where
  "hart_good M h0 vm \<longleftrightarrow> mem vm = m_mem M \<and> tlb_safe M (tlb vm)
     \<and> (\<forall>a. \<not> host_guest M a \<longrightarrow> host vm a = h0 a) \<and> \<not> fatal vm
     \<and> priv_mode vm \<in> {0, 1, 3} \<and> csr_inv (csr vm) \<and> root_page_table vm AND 0xFFF = 0"

lemma hart_good_frame [simp]:
  "hart_good M h0 (vm\<lparr>running := b\<rparr>) = hart_good M h0 vm"
  "hart_good M h0 (vm\<lparr>registers := r\<rparr>) = hart_good M h0 vm"
  "hart_good M h0 (vm\<lparr>mmu_mode := u\<rparr>) = hart_good M h0 vm"
  "hart_good M h0 (vm\<lparr>rv64 := b\<rparr>) = hart_good M h0 vm"
  "hart_good M h0 (vm\<lparr>trap := b\<rparr>) = hart_good M h0 vm"
  "hart_good M h0 (vm\<lparr>trap_pc := w\<rparr>) = hart_good M h0 vm"
  "hart_good M h0 (vm\<lparr>userland := b\<rparr>) = hart_good M h0 vm"
  "hart_good M h0 (vm\<lparr>lrsc := b\<rparr>) = hart_good M h0 vm"
  "hart_good M h0 (vm\<lparr>lrsc_addr := w\<rparr>) = hart_good M h0 vm"
  "hart_good M h0 (vm\<lparr>lrsc_cas := w\<rparr>) = hart_good M h0 vm"
  "hart_good M h0 (vm\<lparr>aia := ai\<rparr>) = hart_good M h0 vm"
  "hart_good M h0 (vm\<lparr>mtimecmp := w\<rparr>) = hart_good M h0 vm"
  "hart_good M h0 (vm\<lparr>stimecmp := w\<rparr>) = hart_good M h0 vm"
  "hart_good M h0 (vm\<lparr>pending_irqs := i\<rparr>) = hart_good M h0 vm"
  "hart_good M h0 (vm\<lparr>pending_events := i\<rparr>) = hart_good M h0 vm"
  "hart_good M h0 (vm\<lparr>preempt_ms := i\<rparr>) = hart_good M h0 vm"
  "hart_good M h0 (vm\<lparr>wfi_waiters := i\<rparr>) = hart_good M h0 vm"
  "hart_good M h0 (vm\<lparr>timer := w\<rparr>) = hart_good M h0 vm"
  "hart_good M h0 (vm\<lparr>entropy := en\<rparr>) = hart_good M h0 vm"
  "hart_good M h0 (vm\<lparr>devices := d\<rparr>) = hart_good M h0 vm"
  by (simp_all add: hart_good_def)

lemma hart_good_csr: "hart_good M h0 vm \<Longrightarrow> csr_inv c \<Longrightarrow> hart_good M h0 (vm\<lparr>csr := c\<rparr>)"
  by (simp add: hart_good_def)

lemma hart_good_inv [dest]:
  assumes "hart_good M h0 vm"
  shows "mem vm = m_mem M" "csr_inv (csr vm)" "priv_mode vm \<in> {0, 1, 3}" "tlb_safe M (tlb vm)"
  using assms by (simp_all add: hart_good_def)

section \<open>Translation cache\<close>

lemma tlb_index_pred: "tlb_index (v - 1) \<noteq> tlb_index v"
proof
  assume "tlb_index (v - 1) = tlb_index v"
  then have "(v - 1) AND 255 = v AND 255" by (simp only: tlb_index_def word_unat_eq_iff)
  then have "even ((v - 1) AND 255) = even (v AND 255)" by (rule arg_cong)
  then show False by (simp only: even_and_iff) simp
qed

lemma tlb_safe_flush: "tlb_safe M (tlb (riscv_tlb_flush vm))"
proof -
  have z: "tlb_index 0 = 0" "tlb_index (- 1) \<noteq> 0"
    by (simp_all add: tlb_index_def)
  show ?thesis using z
    by (auto simp: tlb_safe_def riscv_tlb_flush_def riscv_restart_dispatch_def tlb_zero_def Let_def)
qed

lemma good_restart [simp]: "hart_good M h0 (riscv_restart_dispatch vm) = hart_good M h0 vm"
  by (simp add: riscv_restart_dispatch_def)

lemma good_tlb_flush: "hart_good M h0 vm \<Longrightarrow> hart_good M h0 (riscv_tlb_flush vm)"
  using tlb_safe_flush [of M vm] by (simp add: hart_good_def)

definition tlb_hit :: "tlb_entry \<Rightarrow> u64 \<Rightarrow> bool" where
  "tlb_hit e vpn \<longleftrightarrow> tlb_r e = vpn \<or> tlb_w e = vpn \<or> tlb_e e = vpn"

lemma tlb_safe_iff:
  "tlb_safe M t \<longleftrightarrow> (\<forall>v. tlb_hit (t (tlb_index (page_of v))) (page_of v) \<longrightarrow>
     host_guest M (tlb_ptr (t (tlb_index (page_of v))) + v))"
  by (simp add: tlb_safe_def tlb_hit_def Let_def)

lemma tlb_safe_upd:
  assumes "tlb_safe M t"
    and "\<And>v. \<lbrakk>tlb_index (page_of v) = i; tlb_hit e (page_of v)\<rbrakk> \<Longrightarrow> host_guest M (tlb_ptr e + v)"
  shows "tlb_safe M (t(i := e))"
  using assms by (simp add: tlb_safe_iff)

lemma good_tlb_upd:
  assumes "hart_good M h0 vm" "\<And>v. \<lbrakk>tlb_index (page_of v) = i; tlb_hit e (page_of v)\<rbrakk> \<Longrightarrow> host_guest M (tlb_ptr e + v)"
  shows "hart_good M h0 (vm\<lparr>tlb := (tlb vm)(i := e)\<rparr>)"
  using assms tlb_safe_upd [of M "tlb vm" i e] by (simp add: hart_good_def)

lemma tlb_hit_pred:
  assumes "tlb_index vpn' = tlb_index vpn" "tlb_hit e vpn'"
    and "tlb_r e \<in> {vpn - 1, r}" "tlb_w e \<in> {vpn - 1, w}" "tlb_e e \<in> {vpn - 1, x}"
  shows "vpn' \<in> {r, w, x}"
  using assms tlb_index_pred [of vpn] unfolding tlb_hit_def by (elim disjE; simp; metis)

lemma good_tlb_flush_page:
  assumes "hart_good M h0 vm"
  shows "hart_good M h0 (riscv_tlb_flush_page a vm)"
proof -
  let ?ent = "tlb vm (tlb_index (page_of a))"
  let ?e = "?ent\<lparr>tlb_r := (if tlb_r ?ent = page_of a then page_of a - 1 else tlb_r ?ent),
                 tlb_w := (if tlb_w ?ent = page_of a then page_of a - 1 else tlb_w ?ent),
                 tlb_e := (if tlb_e ?ent = page_of a then page_of a - 1 else tlb_e ?ent)\<rparr>"
  have safe: "tlb_safe M (tlb vm)" using assms by (simp add: hart_good_def)
  have "hart_good M h0 (vm\<lparr>tlb := (tlb vm)(tlb_index (page_of a) := ?e)\<rparr>)"
  proof (rule good_tlb_upd [OF assms])
    fix v assume v: "tlb_index (page_of v) = tlb_index (page_of a)" "tlb_hit ?e (page_of v)"
    have "page_of v \<in> {tlb_r ?ent, tlb_w ?ent, tlb_e ?ent}"
      by (rule tlb_hit_pred [OF v]) simp_all
    then have "tlb_hit ?ent (page_of v)" by (auto simp: tlb_hit_def)
    with safe v(1) show "host_guest M (tlb_ptr ?e + v)" by (simp add: tlb_safe_iff) metis
  qed
  then show ?thesis by (simp only: riscv_tlb_flush_page_def Let_def good_restart split: if_split) simp
qed

lemma good_tlb_put:
  assumes "hart_good M h0 vm" "access \<in> {2, 4, 8}" "page_guest M vaddr ptr"
  shows "hart_good M h0 (riscv_tlb_put vaddr ptr access vm)"
proof -
  let ?i = "tlb_index (page_of vaddr)"
  let ?vm = "riscv_tlb_put vaddr ptr access vm"
  let ?e = "tlb ?vm ?i"
  have f: "tlb_ptr ?e = ptr - vaddr" "tlb_r ?e \<in> {page_of vaddr - 1, page_of vaddr}"
      "tlb_w ?e \<in> {page_of vaddr - 1, page_of vaddr}" "tlb_e ?e \<in> {page_of vaddr - 1, page_of vaddr}"
    using assms(2) by (auto simp: riscv_tlb_put_def Let_def)
  have vm: "?vm = vm\<lparr>tlb := (tlb vm)(?i := ?e)\<rparr>"
    using assms(2) by (auto simp: riscv_tlb_put_def Let_def)
  show ?thesis
  proof (subst vm, rule good_tlb_upd [OF assms(1)])
    fix v assume "tlb_index (page_of v) = ?i" "tlb_hit ?e (page_of v)"
    then have "page_of v \<in> {page_of vaddr, page_of vaddr, page_of vaddr}"
      by (rule tlb_hit_pred) (rule f)+
    then show "host_guest M (tlb_ptr ?e + v)" using assms(3) f(1) by (simp add: page_guest_def)
  qed
qed

section \<open>Privileges and traps\<close>

lemma good_update_xlen: "hart_good M h0 vm \<Longrightarrow> hart_good M h0 (riscv_update_xlen vm)"
  by (simp add: riscv_update_xlen_def Let_def)

lemma good_switch_priv:
  "\<lbrakk>hart_good M h0 vm; p \<in> {0, 1, 3}\<rbrakk> \<Longrightarrow> hart_good M h0 (riscv_switch_priv p vm)"
proof -
  assume "hart_good M h0 vm" "p \<in> {0, 1, 3}"
  then have "hart_good M h0 (vm\<lparr>priv_mode := p\<rparr>)" by (simp add: hart_good_def)
  with \<open>hart_good M h0 vm\<close> show ?thesis
    by (simp add: riscv_switch_priv_def good_tlb_flush good_update_xlen)
qed

lemma csr_inv_status: "csr_inv c \<Longrightarrow> bit_cut s 11 2 \<noteq> 2 \<Longrightarrow> csr_inv (c\<lparr>csr_status := s\<rparr>)"
  by (simp add: csr_inv_def)

lemma good_trap_priv_helper:
  assumes "hart_good M h0 vm"
  shows "hart_good M h0 (riscv_trap_priv_helper p vm)"
proof -
  have pm: "priv_mode vm \<in> {0, 1, 3}" and c: "csr_inv (csr vm)" using assms by (auto simp: hart_good_def)
  have mpp: "bit_cut (status vm) 11 2 \<noteq> 2" using c by (simp add: csr_inv_def)
  have "bit_cut (status (riscv_trap_priv_helper p vm)) 11 2 \<noteq> 2"
    using pm mpp by (auto simp: riscv_trap_priv_helper_def Let_def status_fields take_bit_eq_mod)
  then have "csr_inv (csr (riscv_trap_priv_helper p vm))" using c by (simp add: csr_inv_def)
  then show ?thesis using assms by (simp add: hart_good_def)
qed


lemma bit_all_ones: "cause < 32 \<Longrightarrow> (0xFFFFFFFF :: u64) AND push_bit cause 1 \<noteq> 0"
proof
  assume "cause < 32" "(0xFFFFFFFF :: u64) AND push_bit cause 1 = 0"
  moreover have "(0xFFFFFFFF :: u64) = mask 32" by (simp add: mask_eq_exp_minus_1)
  ultimately have "bit (mask 32 AND push_bit cause 1 :: u64) cause = False" by simp
  with \<open>cause < 32\<close> show False by (simp add: bit_simps)
qed

lemma trap_target_cases:
  assumes "csr_inv c" "mode \<in> {0, 1, 3}" "cause < 32"
  shows "riscv_trap_target (csr_edeleg c) mode cause 3 \<in> {1, 3}"
    "mode \<le> riscv_trap_target (csr_edeleg c) mode cause 3"
  using assms bit_all_ones [OF assms(3)]
  by (auto simp: csr_inv_def numeral_3_eq_3 numeral_2_eq_2)

lemma good_trap:
  assumes "hart_good M h0 vm" "cause < 32"
  shows "hart_good M h0 (riscv_trap cause tval vm)"
proof -
  have inv: "csr_inv (csr vm)" "priv_mode vm \<in> {0, 1, 3}" using assms(1) by (auto simp: hart_good_def)
  have t: "riscv_trap_target (csr_edeleg (csr vm)) (priv_mode vm) cause 3 \<in> {0, 1, 3}"
    using trap_target_cases(1) [OF inv assms(2)] by auto
  show ?thesis unfolding riscv_trap_def Let_def riscv_restart_at_pc_def
    using assms(1) inv
    by (auto intro!: good_switch_priv good_trap_priv_helper hart_good_csr t simp: csr_inv_def simp del: insert_iff)
qed
end
