(* ===== verification/RVVM_MMU_Safety.thy ===== *)
theory RVVM_MMU_Safety
  imports RVVM_Safety
begin

text \<open>
  Isolation of the memory accesses of src/rvvm/src/riscv_mmu.c and riscv_mmu.h.  The locale
  \<open>mmio_device\<close> is what the bus relies on of a device, \<open>mmio_bus\<close> what the hart relies on of
  its machine.  Under these contracts a page walk keeps page offsets, every pointer a
  translation returns or caches stays in the memory of the guest, and every access keeps
  \<open>hart_good\<close>.
\<close>

unbundle bit_operations_syntax

section \<open>Writes into pages\<close>

lemma page_of_small: "unat w < 4096 \<Longrightarrow> page_of w = 0"
proof -
  assume "unat w < 4096"
  then have "unat (page_of w) = 0" by (simp add: drop_bit_eq_div unat_div)
  then show ?thesis by (simp only: unat_eq_0)
qed

lemma block_page:
  assumes "unat (vaddr AND 0xFFF) + n \<le> 4096" "i < n"
  shows "page_of (vaddr + of_nat i) = page_of vaddr"
proof -
  let ?lo = "vaddr AND mask 12"
  have lo: "unat ?lo + n \<le> 4096" using assms(1) by (simp only: mask_12)
  have "i < 2 ^ 64" using assms lo by simp
  then have i: "unat (of_nat i :: u64) = i" by (simp add: unat_of_nat_small)
  have sum: "unat (?lo + of_nat i) = unat ?lo + i"
    using lo assms(2) i by (subst unat_plus_small) simp_all
  have "page_of (?lo + of_nat i) = page_of ?lo"
    using page_of_small [of ?lo] page_of_small [of "?lo + of_nat i"] lo assms(2) sum by simp
  moreover have "vaddr AND mask 12 = ?lo AND mask 12" by (simp add: and.assoc)
  ultimately show ?thesis using same_page_shift(1) [of vaddr 12 ?lo "?lo + of_nat i"] by simp
qed

lemma page_guestD:
  "\<lbrakk>page_guest M vaddr ptr; page_of v = page_of vaddr\<rbrakk> \<Longrightarrow> host_guest M (ptr - vaddr + v)"
  by (simp add: page_guest_def)

lemma page_guest_block:
  assumes "page_guest M vaddr ptr" "unat (vaddr AND 0xFFF) + n \<le> 4096" "i < n"
  shows "host_guest M (ptr + of_nat i)"
  using page_guestD [OF assms(1) block_page [OF assms(2,3)]] by simp

lemma good_host_write:
  assumes "hart_good M h0 vm" "\<And>i. i < length bs \<Longrightarrow> host_guest M (p + of_nat i)"
  shows "hart_good M h0 (vm\<lparr>host := write_bytes (host vm) p bs\<rparr>)"
proof -
  have "write_bytes (host vm) p bs a = host vm a" if "\<not> host_guest M a" for a
  proof (rule write_bytes_other, rule ccontr)
    assume "\<not> length bs \<le> unat (a - p)"
    then have "host_guest M (p + of_nat (unat (a - p)))" by (intro assms(2)) simp
    with that show False by simp
  qed
  with assms(1) show ?thesis by (simp add: hart_good_def)
qed

lemma good_page_write:
  assumes "hart_good M h0 vm" "page_guest M vaddr p" "unat (vaddr AND 0xFFF) + n \<le> 4096" "length bs \<le> n"
  shows "hart_good M h0 (vm\<lparr>host := write_bytes (host vm) p bs\<rparr>)"
  using assms by (intro good_host_write) (auto intro: page_guest_block)

lemma page_guest_region:
  assumes "\<And>y. y < sz \<Longrightarrow> host_guest M (d + y)" "sz AND 0xFFF = 0" "x < sz" "x AND 0xFFF = vaddr AND 0xFFF"
  shows "page_guest M vaddr (d + x)"
  unfolding page_guest_def
proof (intro allI impI)
  fix v assume "page_of v = page_of vaddr"
  then have "page_of (x + (v - vaddr)) = page_of x"
    using same_page_shift(1) [of x 12 vaddr v] assms(4) by (simp add: mask_12)
  then have "x + (v - vaddr) < sz" using page_less_closed assms(2,3) by blast
  then have "host_guest M (d + (x + (v - vaddr)))" by (rule assms(1))
  then show "host_guest M (d + x - vaddr + v)" by (simp add: algebra_simps)
qed

lemma host_guest_ram: "y < ram_size (m_mem M) \<Longrightarrow> host_guest M (ram_data (m_mem M) + y)"
  by (simp add: host_guest_def ram_host_def)

lemma host_guest_mapping:
  "\<lbrakk>dev \<in> set (m_mmio_devs M); mmio_mapping dev \<noteq> 0; y < mmio_size dev\<rbrakk> \<Longrightarrow> host_guest M (mmio_mapping dev + y)"
  by (auto simp: host_guest_def)

lemma page_guest_tlb:
  assumes "hart_good M h0 vm" "tlb_hit (tlb_at vaddr vm) (page_of vaddr)"
  shows "page_guest M vaddr (tlb_ptr (tlb_at vaddr vm) + vaddr)"
  unfolding page_guest_def
proof (intro allI impI)
  fix v assume v: "page_of v = page_of vaddr"
  have "tlb_safe M (tlb vm)" using assms(1) by (simp add: hart_good_def)
  then have "host_guest M (tlb_ptr (tlb_at vaddr vm) + v)"
    using assms(2) v unfolding tlb_safe_iff tlb_at_def by metis
  then show "host_guest M (tlb_ptr (tlb_at vaddr vm) + vaddr - vaddr + v)" by simp
qed

section \<open>Machines whose bus keeps the isolation\<close>

definition handler_ok :: "'d rvvm_machine \<Rightarrow> 'd mmio_dev \<Rightarrow> 'd mmio_handler \<Rightarrow> bool" where
  "handler_ok M dev f \<longleftrightarrow> (\<forall>h0 bs offset sz vm. hart_good M h0 vm \<longrightarrow>
     hart_good M h0 (snd (snd (f bs offset sz vm))) \<and>
     (mmio_min_op_size dev \<le> sz \<and> sz \<le> mmio_max_op_size dev \<and> unat sz \<le> length bs
        \<longrightarrow> length (fst (snd (f bs offset sz vm))) = length bs))"

locale mmio_device =
  fixes M :: "'d rvvm_machine" and dev :: "'d mmio_dev"
  assumes min_op: "0 < mmio_min_op_size dev" "mmio_min_op_size dev \<le> 16"
    and min_max: "mmio_min_op_size dev \<le> mmio_max_op_size dev"
    and mapped: "mmio_mapping dev \<noteq> 0 \<Longrightarrow> mmio_addr dev AND 0xFFF = 0 \<and> mmio_size dev AND 0xFFF = 0"
    and read_ok: "mmio_read dev = Some f \<Longrightarrow> handler_ok M dev f"
    and write_ok: "mmio_write dev = Some f \<Longrightarrow> handler_ok M dev f"
begin

lemma read_good:
  "\<lbrakk>mmio_read dev = Some f; hart_good M h0 vm; f bs off sz vm = (ok, bs', vm')\<rbrakk> \<Longrightarrow> hart_good M h0 vm'"
  using read_ok unfolding handler_ok_def by (metis snd_conv)

lemma write_good:
  "\<lbrakk>mmio_write dev = Some f; hart_good M h0 vm; f bs off sz vm = (ok, bs', vm')\<rbrakk> \<Longrightarrow> hart_good M h0 vm'"
  using write_ok unfolding handler_ok_def by (metis snd_conv)

lemma unaligned_loop_good:
  "hart_good M h0 vm \<Longrightarrow> hart_good M h0 (snd (snd
     (riscv_mmio_unaligned_loop fuel dev align access tmp data offset_align offset_diff offset_dest sz vm)))"
proof (induction fuel arbitrary: access tmp data offset_align offset_diff offset_dest sz vm)
  case (Suc fuel)
  define sd where "sd = (if sz < align - offset_diff then sz else align - offset_diff)"
  define rd where "rd = (if access \<noteq> RISCV_MMU_WRITE \<or> offset_diff \<noteq> 0 \<or> sd \<noteq> align
      then (case mmio_read dev of None \<Rightarrow> (False, tmp, vm)
            | Some f \<Rightarrow> (let (ok, bs, vm) = f (take align tmp) offset_align (of_nat align) vm
                        in (ok, buf_write tmp 0 bs, vm)))
      else (True, tmp, vm))"
  obtain ok tmp' vm' where rd: "rd = (ok, tmp', vm')" by (cases rd)
  have good: "hart_good M h0 vm'"
    using rd Suc.prems unfolding rd_def by (auto split: if_splits option.splits prod.splits dest: read_good)
  show ?case
    unfolding riscv_mmio_unaligned_loop.simps Let_def
    unfolding sd_def [symmetric] unfolding rd_def [unfolded Let_def, symmetric]
    using Suc.prems good by (auto simp: rd split: option.split prod.split intro: Suc.IH dest: write_good)
qed simp

lemma unaligned_op_good:
  assumes "hart_good M h0 vm" "sz \<le> 16"
  shows "hart_good M h0 (snd (snd (riscv_mmio_unaligned_op dev data offset sz access vm)))"
proof -
  have "\<not> (16 :: u8) < (if sz < mmio_min_op_size dev then mmio_min_op_size dev
      else if mmio_max_op_size dev < sz then mmio_max_op_size dev else sz)"
    using assms(2) min_op(2) by auto
  then show ?thesis using unaligned_loop_good [OF assms(1)]
    by (simp add: riscv_mmio_unaligned_op_def Let_def)
qed
end

lemma sub_less_of_range:
  fixes a p s :: u64
  assumes "a \<le> p" "p < a + s"
  shows "p - a < s"
  using assms by uint_arith

lemma low_of_walk:
  fixes x y v :: u64
  assumes "12 \<le> n"
  shows "((x AND push_bit n y) OR (v AND mask n)) AND 0xFFF = v AND 0xFFF"
  using assms unfolding mask_12 by (intro bit_word_eqI) (auto simp: bit_simps)

lemma aligned_add_low:
  fixes a b :: "'a::len word"
  assumes "a AND mask n = 0"
  shows "(a + b) AND mask n = b AND mask n"
  using assms mask_eqs(1) [where a = a and b = b and n = n] by simp

lemma low_of_entry:
  fixes pt v :: u64
  assumes "pt AND 0xFFF = 0" "unat v + k \<le> 4096"
  shows "unat ((pt + v) AND 0xFFF) + k \<le> 4096"
proof -
  have "(pt + v) AND 0xFFF = v AND 0xFFF" using assms(1) unfolding mask_12 by (rule aligned_add_low)
  moreover have "unat (v AND 0xFFF) \<le> unat v" by (simp add: word_le_nat_alt [symmetric] word_and_le2)
  ultimately show ?thesis using assms(2) by simp
qed

lemma low_of_pte64: "pt AND 0xFFF = 0 \<Longrightarrow> unat ((pt + push_bit 3 (w AND 0x1FF)) AND 0xFFF :: u64) + 8 \<le> 4096"
proof (erule low_of_entry)
  have "unat (w AND 0x1FF) \<le> 511" using word_and_le1 [of w "0x1FF"] by (simp add: word_le_nat_alt)
  then show "unat (push_bit 3 (w AND 0x1FF)) + 8 \<le> 4096" by (simp add: push_bit_eq_mult unat_mult_small)
qed

lemma low_of_pte32: "pt AND 0xFFF = 0 \<Longrightarrow> unat ((pt + push_bit 2 (w AND 0x3FF)) AND 0xFFF :: u64) + 4 \<le> 4096"
proof (erule low_of_entry)
  have "unat (w AND 0x3FF) \<le> 1023" using word_and_le1 [of w "0x3FF"] by (simp add: word_le_nat_alt)
  then show "unat (push_bit 2 (w AND 0x3FF)) + 4 \<le> 4096" by (simp add: push_bit_eq_mult unat_mult_small)
qed

lemma table_aligned:
  "(push_bit 12 x AND y) AND (0xFFF :: u64) = 0" "ucast (push_bit 12 (z :: u32)) AND (0xFFF :: u64) = 0"
  unfolding mask_12 by (intro bit_word_eqI; auto simp: bit_simps)+

section \<open>Machines\<close>

locale mmio_bus =
  fixes M :: "'d rvvm_machine"
  assumes ram_aligned: "ram_addr (m_mem M) AND 0xFFF = 0" "ram_size (m_mem M) AND 0xFFF = 0"
    and devs: "\<forall>dev \<in> set (m_mmio_devs M). mmio_device M dev"
    and wait_good: "hart_good M h0 vm \<Longrightarrow> hart_good M h0 (m_condvar_wait M ns vm)"
begin

lemma phys_page_guest:
  assumes "hart_good M h0 vm" "riscv_phys_access paddr vm = Some ptr" "paddr AND 0xFFF = vaddr AND 0xFFF"
  shows "page_guest M vaddr ptr"
proof -
  have m: "mem vm = m_mem M" using assms(1) by (simp add: hart_good_def)
  have ptr: "ptr = ram_data (m_mem M) + (paddr - ram_addr (m_mem M))"
      and less: "paddr - ram_addr (m_mem M) < ram_size (m_mem M)"
    using assms(2) by (auto simp: riscv_phys_access_def m split: if_splits)
  have "(paddr - ram_addr (m_mem M)) AND 0xFFF = vaddr AND 0xFFF"
    using aligned_sub_low ram_aligned(1) assms(3) unfolding mask_12 by metis
  then show ?thesis unfolding ptr
    using page_guest_region [OF host_guest_ram ram_aligned(2) less] by blast
qed

lemma walk_rv64_good:
  "\<lbrakk>hart_good M h0 vm; pagetable AND 0xFFF = 0; n = 0 \<or> 12 + 9 * (n - 1) \<le> bit_off;
    riscv_mmu_walk_rv64 n pagetable bit_off vaddr priv access vm = (r, vm')\<rbrakk>
     \<Longrightarrow> hart_good M h0 vm' \<and> (\<forall>p. r = Some p \<longrightarrow> p AND 0xFFF = vaddr AND 0xFFF)"
proof (induction n arbitrary: pagetable bit_off vm)
  case (Suc n)
  let ?a = "pagetable + push_bit 3 (drop_bit bit_off vaddr AND 0x1FF)"
  have off: "12 \<le> bit_off" "n = 0 \<or> 12 + 9 * (n - 1) \<le> bit_off" "n = 0 \<or> 12 + 9 * (n - 1) \<le> bit_off - 9"
    using Suc.prems(3) by auto
  show ?case
  proof (cases "riscv_phys_access ?a vm")
    case None
    then show ?thesis using Suc.prems by (auto simp: Let_def)
  next
    case (Some ptr)
    have "page_guest M ?a ptr" using phys_page_guest [OF Suc.prems(1) Some refl] .
    then have w: "hart_good M h0 (vm\<lparr>host := write_uint64_le (host vm) ptr v\<rparr>)" for v
      unfolding write_uint64_le_def using Suc.prems(1) low_of_pte64 [OF Suc.prems(2)]
      by (intro good_page_write [where vaddr = ?a and n = 8]) simp_all
    show ?thesis
      using Suc.prems(4) Some Suc.prems(1) w low_of_walk [OF off(1)]
        Suc.IH [OF Suc.prems(1,2) off(2)] Suc.IH [OF Suc.prems(1) table_aligned(1) off(3)]
      by (auto simp: Let_def bit_mask_eq split: if_splits)
  qed
qed simp

lemma walk_sv32_good:
  "\<lbrakk>hart_good M h0 vm; pagetable AND 0xFFF = 0; n = 0 \<or> 12 + 10 * (n - 1) \<le> bit_off;
    riscv_mmu_walk_sv32 n pagetable bit_off vaddr priv access vm = (r, vm')\<rbrakk>
     \<Longrightarrow> hart_good M h0 vm' \<and> (\<forall>p. r = Some p \<longrightarrow> p AND 0xFFF = vaddr AND 0xFFF)"
proof (induction n arbitrary: pagetable bit_off vm)
  case (Suc n)
  let ?a = "pagetable + push_bit 2 (drop_bit bit_off vaddr AND 0x3FF)"
  have off: "12 \<le> bit_off" "n = 0 \<or> 12 + 10 * (n - 1) \<le> bit_off" "n = 0 \<or> 12 + 10 * (n - 1) \<le> bit_off - 10"
    using Suc.prems(3) by auto
  show ?case
  proof (cases "riscv_phys_access ?a vm")
    case None
    then show ?thesis using Suc.prems by (auto simp: Let_def)
  next
    case (Some ptr)
    have "page_guest M ?a ptr" using phys_page_guest [OF Suc.prems(1) Some refl] .
    then have w: "hart_good M h0 (vm\<lparr>host := write_uint32_le (host vm) ptr v\<rparr>)" for v
      unfolding write_uint32_le_def using Suc.prems(1) low_of_pte32 [OF Suc.prems(2)]
      by (intro good_page_write [where vaddr = ?a and n = 4]) simp_all
    show ?thesis
      using Suc.prems(4) Some Suc.prems(1) w low_of_walk [OF off(1)]
        Suc.IH [OF Suc.prems(1,2) off(2)] Suc.IH [OF Suc.prems(1) table_aligned(2) off(3)]
      by (auto simp: Let_def bit_mask_eq split: if_splits)
  qed
qed simp

lemma translate_good:
  assumes "hart_good M h0 vm" "riscv_mmu_translate vaddr access vm = (r, vm')"
  shows "hart_good M h0 vm'" "r = Some p \<Longrightarrow> p AND 0xFFF = vaddr AND 0xFFF"
proof -
  have root: "root_page_table vm AND 0xFFF = 0" using assms(1) by (simp add: hart_good_def)
  have rv64: "hart_good M h0 vm' \<and> (\<forall>p. r = Some p \<longrightarrow> p AND 0xFFF = vaddr AND 0xFFF)"
    if "riscv_mmu_translate_rv64 k vaddr priv acc vm = (r, vm')" "0 < k" for k priv acc
    using that assms(1) walk_rv64_good [OF assms(1) root, of k "k * 9 + 12 - 9" vaddr priv acc r vm']
    by (auto simp: riscv_mmu_translate_rv64_def Let_def split: if_splits)
  have sv32: "hart_good M h0 vm' \<and> (\<forall>p. r = Some p \<longrightarrow> p AND 0xFFF = vaddr AND 0xFFF)"
    if "riscv_mmu_translate_sv32 vaddr priv acc vm = (r, vm')" for priv acc
    using that walk_sv32_good [OF assms(1) root, of 2 22 vaddr priv acc r vm']
    by (simp add: riscv_mmu_translate_sv32_def)
  have "hart_good M h0 vm' \<and> (\<forall>p. r = Some p \<longrightarrow> p AND 0xFFF = vaddr AND 0xFFF)"
    using assms rv64 sv32 unfolding riscv_mmu_translate_def Let_def
    by (auto split: if_splits simp del: One_nat_def)
  then show "hart_good M h0 vm'" "r = Some p \<Longrightarrow> p AND 0xFFF = vaddr AND 0xFFF" by auto
qed

lemma scan_good:
  assumes "set ds \<subseteq> set (m_mmio_devs M)" "hart_good M h0 vm" "paddr AND 0xFFF = vaddr AND 0xFFF"
    "unat (vaddr AND 0xFFF) + unat sz \<le> 4096" "sz \<le> 16" "access \<in> {2, 4, 8}"
  shows "hart_good M h0 (snd (snd (riscv_mmio_scan ds vaddr paddr data sz access vm)))"
  using assms(1)
proof (induction ds)
  case (Cons dev ds)
  have d: "mmio_device M dev" "dev \<in> set (m_mmio_devs M)" using Cons.prems devs by auto
  show ?case
  proof (cases "mmio_addr dev \<le> paddr \<and> paddr < mmio_addr dev + mmio_size dev")
    case False
    then show ?thesis using Cons by auto
  next
    case True
    define f where "f = (if access = RISCV_MMU_WRITE then mmio_write dev else mmio_read dev)"
    define res where "res = (case f of
                      Some f \<Rightarrow>
                        if sz \<le> mmio_max_op_size dev \<and> mmio_min_op_size dev \<le> sz
                           \<and> (paddr - mmio_addr dev) AND (ucast sz - 1) = 0
                        then snd (f data (paddr - mmio_addr dev) sz vm)
                        else snd (riscv_mmio_unaligned_op dev data (paddr - mmio_addr dev) sz access vm)
                    | None \<Rightarrow>
                        (if mmio_mapping dev = 0 then rvvm_mmio_none data (unat sz) else data, vm))"
    have f: "handler_ok M dev g" if "f = Some g" for g
      using that mmio_device.read_ok [OF d(1)] mmio_device.write_ok [OF d(1)] by (auto simp: f_def split: if_splits)
    have good: "hart_good M h0 (snd res)"
      using f assms(2) mmio_device.unaligned_op_good [OF d(1) assms(2,5)]
      by (auto simp: res_def handler_ok_def split: option.split)
    have pg: "page_guest M vaddr (mmio_mapping dev + (paddr - mmio_addr dev))" if m: "mmio_mapping dev \<noteq> 0"
    proof (rule page_guest_region [OF host_guest_mapping [OF d(2) m]])
      have al: "mmio_addr dev AND 0xFFF = 0 \<and> mmio_size dev AND 0xFFF = 0" by (rule mmio_device.mapped [OF d(1) m])
      then show "mmio_size dev AND 0xFFF = 0" by simp
      show "paddr - mmio_addr dev < mmio_size dev" using True sub_less_of_range by blast
      show "(paddr - mmio_addr dev) AND 0xFFF = vaddr AND 0xFFF"
        using al aligned_sub_low assms(3) unfolding mask_12 by metis
    qed
    show ?thesis
      using True assms(6) pg good assms(4)
      by (auto simp: Let_def f_def [symmetric] res_def [symmetric] intro!: good_tlb_put good_page_write [where n = "unat sz"])
  qed
qed (use assms(2) in simp)

end

section \<open>Attributes\<close>

lemma bit_u8_imp: "bit (b :: u8) n \<Longrightarrow> n < 8"
  using bit_imp_le_length [of b n] by simp

lemma u8_casts:
  "unat (ucast (b :: u8) :: u64) = unat b" "unat (ucast b :: u32) = unat b" "ucast (ucast b :: u32) = b"
proof -
  have "unat b < 256" using unsigned_less [of b] by simp
  then show "unat (ucast b :: u64) = unat b" "unat (ucast b :: u32) = unat b"
    by (simp_all add: unat_ucast_small)
  show "ucast (ucast b :: u32) = b" by (rule bit_word_eqI) (auto simp: bit_simps dest: bit_u8_imp)
qed

lemma mmu_attr_size: "drop_bit 16 (mmu_attr attr sz access) = ucast sz"
proof -
  have m: "(0xFF00 :: u32) = mask 16 AND NOT (mask 8)" by (simp add: mask_eq_exp_minus_1)
  show ?thesis unfolding mmu_attr_def m
    by (intro bit_word_eqI) (auto simp: bit_simps dest: bit_u8_imp)
qed

lemma mmu_attr_access [simp]: "attr_access (mmu_attr attr sz access) = access"
proof -
  have m: "(0xFF00 :: u32) = mask 16 AND NOT (mask 8)" "(0xFF :: u32) = mask 8" by (simp_all add: mask_eq_exp_minus_1)
  show ?thesis unfolding mmu_attr_def attr_access_def m by (intro bit_word_eqI) (auto simp: bit_simps)
qed

lemma mmu_attr_flag:
  assumes "8 \<le> k" "k < 16"
  shows "bit (mmu_attr attr sz access) k = bit attr k"
proof -
  have m: "(0xFF00 :: u32) = mask 16 AND NOT (mask 8)" by (simp add: mask_eq_exp_minus_1)
  show ?thesis using assms unfolding mmu_attr_def m by (auto simp: bit_simps)
qed

lemma page_room: "(vaddr AND 0xFFF) + ucast (sz :: u8) \<le> (0x1000 :: u64) \<Longrightarrow> unat (vaddr AND 0xFFF) + unat sz \<le> 4096"
proof -
  assume a: "(vaddr AND 0xFFF) + ucast sz \<le> 0x1000"
  have "unat (vaddr AND 0xFFF) \<le> 4095" using word_and_le1 [of vaddr "0xFFF"] by (simp add: word_le_nat_alt)
  moreover note u8_casts(1) [of sz]
  moreover have "unat sz < 256" using unsigned_less [of sz] by simp
  ultimately have "unat ((vaddr AND 0xFFF) + ucast sz) = unat (vaddr AND 0xFFF) + unat sz"
    by (subst unat_plus_small) simp_all
  with a show ?thesis by (simp add: word_le_nat_alt)
qed

lemma trap_causes_good:
  "hart_good M h0 vm \<Longrightarrow> hart_good M h0 (riscv_mmu_misalign vaddr attr vm)"
  "hart_good M h0 vm \<Longrightarrow> hart_good M h0 (riscv_mmu_phys_fault vaddr attr vm)"
  "hart_good M h0 vm \<Longrightarrow> hart_good M h0 (riscv_mmu_pagefault vaddr attr vm)"
  by (simp_all add: riscv_mmu_misalign_def riscv_mmu_phys_fault_def riscv_mmu_pagefault_def good_trap)

context mmio_bus
begin

lemma op_page_good:
  assumes "hart_good M h0 vm" "attr_access attr \<in> {2, 4, 8}" "drop_bit 16 attr = ucast (sz :: u8)"
    "unat (vaddr AND 0xFFF) + unat sz \<le> 4096" "data \<noteq> None \<Longrightarrow> sz \<le> 16"
    "riscv_mmu_op_page M vaddr data attr vm = (p, data', vm')"
  shows "hart_good M h0 vm' \<and> (\<forall>a. p = PMem a \<longrightarrow> page_guest M vaddr a)"
proof -
  define macc where "macc = (if attr AND 0x200 \<noteq> 0 then 14 else attr_access attr)"
  obtain r vm1 where tr: "riscv_mmu_translate vaddr macc vm = (r, vm1)" by (cases "riscv_mmu_translate vaddr macc vm")
  note t = translate_good [OF assms(1) tr]
  have size: "unat (drop_bit 16 attr) = unat sz" "ucast (drop_bit 16 attr) = sz"
    unfolding assms(3) by (rule u8_casts)+
  show ?thesis
  proof (cases r)
    case None
    then show ?thesis using assms(6) tr t(1)
      by (auto simp: riscv_mmu_op_page_def Let_def macc_def [symmetric] trap_causes_good)
  next
    case (Some paddr)
    have low: "paddr AND 0xFFF = vaddr AND 0xFFF" using t(2) Some by simp
    have phys: "page_guest M vaddr ptr" if "riscv_phys_access paddr vm1 = Some ptr" for ptr
      using phys_page_guest [OF t(1) that low] .
    have put: "hart_good M h0 (riscv_tlb_put vaddr ptr (attr_access attr) vm1)"
      if "riscv_phys_access paddr vm1 = Some ptr" for ptr
      using good_tlb_put [OF t(1) assms(2) phys [OF that]] .
    have wr: "hart_good M h0 (v\<lparr>host := write_bytes (host v) ptr (take (unat sz) bs)\<rparr>)"
      if "riscv_phys_access paddr vm1 = Some ptr" "hart_good M h0 v" for ptr bs v
      using good_page_write [OF that(2) phys [OF that(1)] assms(4)] by simp
    define sacc where "sacc = (if attr AND 0x800 \<noteq> 0 then 2 else attr_access attr)"
    have "sacc \<in> {2, 4, 8}" using assms(2) by (simp add: sacc_def)
    then have scan: "hart_good M h0 v" if "data = Some bs"
      "riscv_mmio_scan (m_mmio_devs M) vaddr paddr bs sz sacc vm1 = (found, bs', v)" for bs found bs' v
      using scan_good [OF order_refl t(1) low assms(4) assms(5), of sacc bs] that by simp
    show ?thesis
      using assms(6) tr Some t(1) phys put wr scan assms(2)
      unfolding riscv_mmu_op_page_def Let_def macc_def [symmetric] sacc_def [symmetric] size buf_ptr_def
      by (auto simp: trap_causes_good split: if_splits option.splits prod.splits)
  qed
qed

end

lemma mmu_attr_ptr: "mmu_attr attr sz access AND 0x800 = 0 \<longleftrightarrow> attr AND 0x800 = 0"
  using mmu_attr_flag [of 11 attr sz access] and_exp_eq_0_iff_not_bit [of "mmu_attr attr sz access" 11]
    and_exp_eq_0_iff_not_bit [of attr 11] by simp

lemma page_split:
  fixes vaddr :: u64 and sz :: u8
  assumes "\<not> riscv_block_in_page vaddr (ucast sz)"
    and part_def: "part = (ucast (0x1000 - (vaddr AND 0xFFF)) :: u8)"
  shows "unat (vaddr AND 0xFFF) + unat part = 4096" "part < sz" "(vaddr + ucast part) AND 0xFFF = 0"
proof -
  let ?lo = "vaddr AND 0xFFF"
  have lo: "unat ?lo \<le> 4095" using word_and_le1 [of vaddr "0xFFF"] by (simp add: word_le_nat_alt)
  have sz: "unat sz < 256" using unsigned_less [of sz] by simp
  have "unat (?lo + ucast sz) = unat ?lo + unat sz"
    using lo sz u8_casts(1) [of sz] by (subst unat_plus_small) simp_all
  then have gt: "unat ?lo + unat sz > 4096" using assms(1) by (simp add: riscv_block_in_page_def word_le_nat_alt)
  have d: "unat (0x1000 - ?lo) = 4096 - unat ?lo" using lo by (subst unat_sub) (simp_all add: word_le_nat_alt)
  have part: "unat part = 4096 - unat ?lo"
    unfolding part_def using d gt sz lo by (subst unat_ucast_small) simp_all
  then show "unat ?lo + unat part = 4096" using lo by simp
  show "part < sz" using part gt lo by (simp add: word_less_nat_alt)
  have "unat (?lo + ucast part) = 4096" using lo part u8_casts(1) [of part] by (subst unat_plus_small) simp_all
  then have e: "?lo + ucast part = 0x1000" by (simp add: word_unat_eq_iff)
  have "(vaddr + ucast part) AND mask 12 = (?lo + ucast part) AND mask 12"
    using mask_eqs(1) [where a = vaddr and b = "ucast part" and n = 12] by (simp add: mask_12)
  also have "\<dots> = 0" unfolding e by (simp add: mask_eq_exp_minus_1)
  finally show "(vaddr + ucast part) AND 0xFFF = 0" by (simp only: mask_12)
qed

lemma aligned_room:
  fixes vaddr :: u64
  assumes "vaddr AND mask k = 0" "k \<le> 12"
  shows "unat (vaddr AND 0xFFF) + 2 ^ k \<le> 4096"
proof -
  let ?u = "unat (vaddr AND 0xFFF)"
  have "(vaddr AND mask 12) AND mask k = 0" using assms(1) by (metis and.assoc and.commute and_zero_eq)
  then have "take_bit k ?u = 0"
    by (metis mask_12 take_bit_eq_mask unsigned_0 unsigned_take_bit_eq)
  then obtain q where q: "?u = 2 ^ k * q" by (auto simp: take_bit_eq_0_iff elim: dvdE)
  have e: "(4096 :: nat) = 2 ^ k * 2 ^ (12 - k)" using assms(2) by (simp add: power_add [symmetric])
  have "?u < 4096" using word_and_le1 [of vaddr "0xFFF"] by (simp add: word_le_nat_alt)
  then have "q < 2 ^ (12 - k)" unfolding q e by simp
  then have "2 ^ k * (q + 1) \<le> 2 ^ k * (2 ^ (12 - k) :: nat)" by (intro mult_le_mono2) simp
  then show ?thesis unfolding q e by (simp add: algebra_simps)
qed

lemma aligned_room_size:
  fixes vaddr :: u64
  assumes "vaddr AND (of_nat n - 1) = 0" "n \<in> {1, 2, 4, 8, 16, 64}"
  shows "unat (vaddr AND 0xFFF) + n \<le> 4096"
proof -
  have "\<exists>k. k \<le> 12 \<and> n = 2 ^ k \<and> of_nat n - 1 = (mask k :: u64)"
    using assms(2)
    by (auto intro: exI [of _ 0] exI [of _ 1] exI [of _ 2] exI [of _ 3] exI [of _ 4] exI [of _ 6] simp: mask_eq_exp_minus_1)
  then show ?thesis using aligned_room assms(1) by metis
qed

context mmio_bus
begin

lemma op_page_None:
  "riscv_mmu_op_page M vaddr None attr vm = (p, data', vm') \<Longrightarrow> data' = None"
  by (auto simp: riscv_mmu_op_page_def Let_def split: if_splits option.splits prod.splits)

lemma op_internal_good:
  assumes "hart_good M h0 vm" "access \<in> {2, 4, 8}" "data \<noteq> None \<Longrightarrow> sz \<le> 16"
    "riscv_mmu_op_internal M vaddr data (mmu_attr attr sz access) vm = (p, data', vm')"
  shows "hart_good M h0 vm' \<and> (\<forall>a. attr AND 0x800 \<noteq> 0 \<and> p = PMem a \<longrightarrow> page_guest M vaddr a)"
proof -
  let ?at = "mmu_attr attr sz access"
  have sz: "drop_bit 16 ?at = ucast sz" by (rule mmu_attr_size)
  have c: "(ucast (ucast sz :: u32) :: u64) = ucast sz" by (rule bit_word_eqI) (auto simp: bit_simps dest: bit_u8_imp)
  show ?thesis
  proof (cases "riscv_block_in_page vaddr (ucast sz)")
    case True
    then have "unat (vaddr AND 0xFFF) + unat sz \<le> 4096" unfolding riscv_block_in_page_def by (rule page_room)
    from op_page_good [OF assms(1) _ sz this assms(3)] True assms(2,4) show ?thesis
      by (simp add: riscv_mmu_op_internal_def sz c Let_def)
  next
    case False
    show ?thesis
    proof (cases "attr AND 0x800 = 0")
      case notptr: False
      with False assms show ?thesis
        by (auto simp: riscv_mmu_op_internal_def sz c Let_def mmu_attr_ptr trap_causes_good)
    next
      case True
      define part where "part = (ucast (0x1000 - (vaddr AND 0xFFF)) :: u8)"
      note ps = page_split [OF False part_def]
      obtain p1 d1 vm1 where one: "riscv_mmu_op_page M vaddr data (mmu_attr ?at part access) vm = (p1, d1, vm1)"
        by (cases "riscv_mmu_op_page M vaddr data (mmu_attr ?at part access) vm")
      have part16: "data \<noteq> None \<Longrightarrow> part \<le> 16" using assms(3) ps(2) by auto
      have g1: "hart_good M h0 vm1"
        using op_page_good [OF assms(1) _ mmu_attr_size _ part16 one] assms(2) ps(1) by simp
      let ?d = "map_option (drop (unat part)) d1"
      obtain p2 d2 vm2 where two:
          "riscv_mmu_op_page M (vaddr + ucast part) ?d (mmu_attr ?at (ucast (ucast sz :: u32) - part) access) vm1 = (p2, d2, vm2)"
        by (cases "riscv_mmu_op_page M (vaddr + ucast part) ?d (mmu_attr ?at (ucast (ucast sz :: u32) - part) access) vm1")
      have g2: "hart_good M h0 vm2"
      proof -
        have "ucast (ucast sz :: u32) - part \<le> sz" "unat (sz - part) \<le> 4096"
          using ps(2) unsigned_less [of "sz - part", where ?'a = nat] by (simp_all add: u8_casts word_sub_le)
        moreover have "data \<noteq> None" if "?d \<noteq> None" using that one by (cases data) (auto dest: op_page_None)
        ultimately show ?thesis
          using op_page_good [OF g1 _ mmu_attr_size _ _ two] assms(2,3) ps(3) by (force simp: u8_casts)
      qed
      show ?thesis
        using assms(4) False True one two g1 g2
        by (auto simp: riscv_mmu_op_internal_def sz c Let_def mmu_attr_ptr part_def [symmetric] split: if_splits)
    qed
  qed
qed

lemma helper_good:
  assumes "hart_good M h0 vm" "access \<in> {2, 4, 8}" "data \<noteq> None \<Longrightarrow> sz \<le> 16"
  shows "hart_good M h0 (snd (snd (riscv_mmu_op_helper M vaddr data attr sz access vm)))"
  using op_internal_good [OF assms(1,2), of data sz vaddr attr] assms(3)
  by (cases "riscv_mmu_op_internal M vaddr data (mmu_attr attr sz access) vm") (auto simp: riscv_mmu_op_helper_def)

lemma mmu_op_good:
  assumes "hart_good M h0 vm" "access \<in> {2, 4, 8}" "sz \<le> 16"
  shows "hart_good M h0 (snd (snd (riscv_mmu_op M vaddr data sz access vm)))"
  using helper_good [OF assms(1,2), of "Some data" sz vaddr 0] assms(3)
  by (auto simp: riscv_mmu_op_def split: prod.split)

lemma mmu_op_goodD:
  "\<lbrakk>riscv_mmu_op M vaddr data sz access vm = (ok, bs, vm'); hart_good M h0 vm; access \<in> {2, 4, 8}; sz \<le> 16\<rbrakk>
     \<Longrightarrow> hart_good M h0 vm'"
  using mmu_op_good [of h0 vm access sz vaddr data] by simp

lemma ptr_translate_good:
  assumes "hart_good M h0 vm" "access \<in> {2, 4, 8}" "data \<noteq> None \<Longrightarrow> sz \<le> 16"
    "riscv_mmu_ptr_translate M vaddr data sz access vm = (p, data', vm')"
  shows "hart_good M h0 vm'" "p = PMem a \<Longrightarrow> page_guest M vaddr a"
  using op_internal_good [OF assms(1-3), where vaddr = vaddr and attr = "0x800" and p = p and data' = data' and vm' = vm'] assms(4)
  by (simp_all add: riscv_mmu_ptr_translate_def riscv_mmu_op_helper_def)

lemma ro_translate_good:
  assumes "hart_good M h0 vm" "data \<noteq> None \<Longrightarrow> sz \<le> 16"
    "riscv_ro_translate M vaddr data sz vm = (p, data', vm')"
  shows "hart_good M h0 vm'" "p = PMem a \<Longrightarrow> page_guest M vaddr a"
  using assms ptr_translate_good [OF assms(1) _ assms(2), where access = 2 and vaddr = vaddr and p = p and data' = data' and vm' = vm']
    page_guest_tlb [OF assms(1), of vaddr]
  by (auto simp: riscv_ro_translate_def Let_def tlb_hit_def split: if_splits)

lemma rmw_translate_good:
  assumes "hart_good M h0 vm" "data \<noteq> None \<Longrightarrow> sz \<le> 16"
    "riscv_rmw_translate M vaddr data sz vm = (p, data', vm')"
  shows "hart_good M h0 vm'" "p = PMem a \<Longrightarrow> page_guest M vaddr a"
  using assms ptr_translate_good [OF assms(1) _ assms(2), where access = 4 and vaddr = vaddr and p = p and data' = data' and vm' = vm']
    page_guest_tlb [OF assms(1), of vaddr]
  by (auto simp: riscv_rmw_translate_def Let_def tlb_hit_def split: if_splits)

lemma commit_good:
  "hart_good M h0 vm \<Longrightarrow> sz \<le> 16 \<Longrightarrow> hart_good M h0 (riscv_rmw_mmio_commit M vaddr data sz vm)"
  unfolding riscv_rmw_mmio_commit_def by (rule helper_good) simp_all

lemma fetch_good:
  "hart_good M h0 vm \<Longrightarrow> hart_good M h0 (snd (riscv_fetch_insn M vaddr vm))"
  by (auto simp: riscv_fetch_insn_def Let_def split: prod.split dest!: mmu_op_goodD)

lemma load_bytes_good:
  assumes "hart_good M h0 vm" "n \<in> {1, 2, 4, 8}"
  shows "hart_good M h0 (snd (riscv_load_bytes n M vaddr vm))"
  using assms mmu_op_good [OF assms(1), of 2 "of_nat n" vaddr "replicate n 0"]
  by (auto simp: riscv_load_bytes_def Let_def split: prod.split)

lemma load_into_good: "hart_good M h0 (snd r) \<Longrightarrow> hart_good M h0 (load_into f reg r)"
  by (auto simp: load_into_def split: prod.split option.split)

lemma store_bytes_good:
  assumes "hart_good M h0 vm" "length bs \<in> {1, 2, 4, 8}"
  shows "hart_good M h0 (riscv_store_bytes bs M vaddr vm)"
proof (cases "tlb_w (tlb_at vaddr vm) = page_of vaddr \<and> vaddr AND (of_nat (length bs) - 1) = 0")
  case True
  have "unat (vaddr AND 0xFFF) + length bs \<le> 4096"
    using True assms(2) by (intro aligned_room_size) auto
  moreover have "page_guest M vaddr (tlb_ptr (tlb_at vaddr vm) + vaddr)"
    using True by (intro page_guest_tlb [OF assms(1)]) (simp add: tlb_hit_def)
  ultimately show ?thesis using good_page_write [OF assms(1)] True
    by (simp add: riscv_store_bytes_def Let_def)
next
  case False
  then show ?thesis using mmu_op_good [OF assms(1), of 4 "of_nat (length bs)" vaddr bs] assms(2)
    by (auto simp: riscv_store_bytes_def Let_def)
qed

end
end
