(* ===== verification/RVVM_CSR_Safety.thy ===== *)
theory RVVM_CSR_Safety
  imports RVVM_MMU_Safety
begin

text \<open>
  Isolation under interrupts and CSR accesses: every operation of src/rvvm/src/riscv_hart.c on
  interrupts and every register of src/rvvm/src/riscv_csr.c keeps \<open>hart_good\<close>.
\<close>

unbundle bit_operations_syntax

section \<open>Interrupts\<close>

lemma good_interrupt_ops:
  "hart_good M h0 (riscv_interrupt irq vm) = hart_good M h0 vm"
  "hart_good M h0 (riscv_interrupt_clear irq vm) = hart_good M h0 vm"
  "hart_good M h0 (riscv_hart_check_interrupts vm) = hart_good M h0 vm"
  "hart_good M h0 (riscv_hart_check_timer vm) = hart_good M h0 vm"
  "hart_good M h0 (riscv_hart_preempt ms vm) = hart_good M h0 vm"
  "hart_good M h0 (riscv_hart_queue_pause vm) = hart_good M h0 vm"
  by (simp_all add: riscv_interrupt_def riscv_interrupt_set_def riscv_hart_notify_def riscv_interrupt_clear_def
      riscv_hart_check_interrupts_def riscv_hart_check_timer_def riscv_hart_preempt_def
      riscv_hart_queue_pause_def Let_def)

lemma good_send_aia_irq: "hart_good M h0 (riscv_send_aia_irq smode irq vm) = hart_good M h0 vm"
  by (simp add: riscv_send_aia_irq_def Let_def good_interrupt_ops split: option.split)

lemma good_aia_scan: "hart_good M h0 vm \<Longrightarrow> hart_good M h0 (snd (riscv_aia_scan smode upd claim thresh is ret vm))"
  by (induction smode upd claim thresh "is" ret vm rule: riscv_aia_scan.induct)
     (auto simp: Let_def good_interrupt_ops split: option.split)

lemma good_update_aia:
  "hart_good M h0 vm \<Longrightarrow> hart_good M h0 (snd (riscv_update_aia_internal smode upd claim vm))"
  by (auto simp: riscv_update_aia_internal_def Let_def good_interrupt_ops good_aia_scan split: option.split)

lemma irq_target_cases:
  assumes "csr_inv c" "pending \<noteq> 0"
  shows "fst (riscv_irq_target (csr_ideleg c) 3 pending) \<in> {0, 1, 3}"
proof -
  have m: "csr_ideleg c 2 = mask 32" using assms(1) by (simp add: csr_inv_def mask_eq_exp_minus_1)
  have "ucast (NOT (csr_ideleg c 2)) = (0 :: u32)"
    unfolding m by (rule bit_word_eqI) (simp add: bit_simps)
  then show ?thesis by (simp add: numeral_3_eq_3 numeral_2_eq_2 Let_def)
qed

lemma good_handle_irqs:
  assumes "hart_good M h0 vm"
  shows "hart_good M h0 (riscv_handle_irqs vm)"
proof (cases "riscv_interrupts_pending vm = 0")
  case False
  obtain p irqs where t: "riscv_irq_target (csr_ideleg (csr vm)) 3 (riscv_interrupts_pending vm) = (p, irqs)"
    by (cases "riscv_irq_target (csr_ideleg (csr vm)) 3 (riscv_interrupts_pending vm)")
  have p: "p \<in> {0, 1, 3}"
    using irq_target_cases [OF _ False, of "csr vm"] assms t by (simp add: hart_good_def)
  have sw: "hart_good M h0 (riscv_switch_priv p (riscv_trap_priv_helper p vm))"
    by (intro good_switch_priv good_trap_priv_helper assms p)
  have inv: "csr_inv (csr (riscv_switch_priv p (riscv_trap_priv_helper p vm)))" using sw by (simp add: hart_good_def)
  have upd: "hart_good M h0 ((riscv_switch_priv p (riscv_trap_priv_helper p vm))
       \<lparr>csr := (csr (riscv_switch_priv p (riscv_trap_priv_helper p vm)))\<lparr>csr_epc := e, csr_cause := u, csr_tval := w\<rparr>\<rparr>)" for e u w
    using inv by (intro hart_good_csr sw) (simp add: csr_inv_def)
  show ?thesis using False t assms upd by (simp add: riscv_handle_irqs_def Let_def)
qed (simp add: riscv_handle_irqs_def assms)

section \<open>Control and status registers\<close>

lemma good_csr_upd:
  "\<lbrakk>hart_good M h0 vm; csr_inv (csr vm) \<Longrightarrow> csr_inv (f (csr vm))\<rbrakk> \<Longrightarrow> hart_good M h0 (csr_upd f vm)"
  by (simp add: hart_good_def)

lemma good_set_status:
  "\<lbrakk>hart_good M h0 vm; bit_cut s 11 2 \<noteq> 2\<rbrakk> \<Longrightarrow> hart_good M h0 (set_status s vm)"
  by (simp add: hart_good_def csr_inv_def)

lemma good_csr_fields:
  assumes "hart_good M h0 vm" "\<And>v c. csr_inv c \<Longrightarrow> csr_inv (put v c)"
  shows "hart_good M h0 (snd (snd (csr_field get put dest op vm)))"
    "hart_good M h0 (snd (snd (csr_field_masked get put msk dest op vm)))"
    "hart_good M h0 (snd (snd (csr_field_l get put msk dest op vm)))"
    "hart_good M h0 (snd (snd (csr_field_h get put msk dest op vm)))"
  using assms
  by (auto simp: csr_field_def csr_field_masked_def csr_field_l_def csr_field_h_def simp del: csr_upd_def
      intro!: good_csr_upd split: prod.split option.split)

lemma status_warl_mpp: "bit_cut (riscv_csr_status_warl rv s) 11 2 \<noteq> 2"
  by (simp add: riscv_csr_status_warl_def Let_def status_fields)

lemma good_csr_special:
  assumes "hart_good M h0 vm"
  shows "hart_good M h0 (snd (snd (riscv_csr_const val vm)))"
    "hart_good M h0 (snd (snd (riscv_csr_zero vm)))"
    "hart_good M h0 (snd (snd (riscv_csr_zero_h dest vm)))"
    "hart_good M h0 (snd (snd (riscv_csr_counter dest cnt vm)))"
    "hart_good M h0 (snd (snd (riscv_csr_counter_h dest cnt vm)))"
    "hart_good M h0 (snd (snd (riscv_csr_seed dest vm)))"
    "hart_good M h0 (snd (snd (riscv_csr_topi msk dest vm)))"
  using assms by (simp_all add: riscv_csr_const_def riscv_csr_zero_def riscv_csr_zero_h_def
      riscv_csr_counter_def riscv_csr_counter_h_def riscv_csr_seed_def riscv_csr_topi_def Let_def)

lemma good_csr_misa: "hart_good M h0 vm \<Longrightarrow> hart_good M h0 (snd (snd (riscv_csr_misa M' dest op vm)))"
  by (auto simp: riscv_csr_misa_def Let_def csr_inv_def hart_good_def intro!: good_update_xlen hart_good_csr split: prod.split)

lemma good_csr_status: "hart_good M h0 vm \<Longrightarrow> hart_good M h0 (snd (snd (riscv_csr_status M' msk dest op vm)))"
  by (auto simp: riscv_csr_status_def Let_def status_warl_mpp good_interrupt_ops simp del: set_status_def
      intro!: good_set_status split: prod.split)

lemma good_csr_irq_regs:
  assumes "hart_good M h0 vm"
  shows "hart_good M h0 (snd (snd (riscv_csr_ie msk dest op vm)))"
    "hart_good M h0 (snd (snd (riscv_csr_ip msk dest op vm)))"
    "hart_good M h0 (snd (snd (riscv_csr_topei priv dest op vm)))"
    "hart_good M h0 (snd (snd (riscv_csr_stimecmp dest op vm)))"
    "hart_good M h0 (snd (snd (riscv_csr_stimecmph dest op vm)))"
proof -
  have "hart_good M h0 (csr_upd (csr_ie_update f) vm)" "hart_good M h0 (csr_upd (csr_ip_update f) vm)" for f
    using assms by (simp_all add: hart_good_def csr_inv_def)
  then show "hart_good M h0 (snd (snd (riscv_csr_ie msk dest op vm)))"
    "hart_good M h0 (snd (snd (riscv_csr_ip msk dest op vm)))"
    by (auto simp: riscv_csr_ie_def riscv_csr_ip_def Let_def good_interrupt_ops simp del: csr_upd_def split: prod.split)
  show "hart_good M h0 (snd (snd (riscv_csr_topei priv dest op vm)))"
    using assms good_update_aia [OF assms]
    by (auto simp: riscv_csr_topei_def riscv_get_aia_irq_def Let_def split: prod.split) (metis snd_conv)
  show "hart_good M h0 (snd (snd (riscv_csr_stimecmp dest op vm)))"
    "hart_good M h0 (snd (snd (riscv_csr_stimecmph dest op vm)))"
    using assms by (simp_all add: riscv_csr_stimecmp_def riscv_csr_stimecmph_def riscv_csr_stimecmp_set_def Let_def
        good_interrupt_ops split: prod.split option.split)
qed

lemma good_csr_satp: "hart_good M h0 vm \<Longrightarrow> hart_good M h0 (snd (snd (riscv_csr_satp M' dest op vm)))"
proof -
  assume good: "hart_good M h0 vm"
  have "push_bit 12 x AND 0xFFF = (0 :: u64)" for x
    unfolding mask_12 by (rule bit_word_eqI) (auto simp: bit_simps)
  then have "hart_good M h0 (vm\<lparr>root_page_table := push_bit 12 x\<rparr>)" for x
    using good by (simp add: hart_good_def)
  then have "hart_good M h0 (riscv_csr_satp_mode m (vm\<lparr>root_page_table := push_bit 12 x\<rparr>))" for m x
    by (simp add: riscv_csr_satp_mode_def good_tlb_flush)
  with good show ?thesis by (auto simp: riscv_csr_satp_def Let_def simp del: push_bit_and split: prod.split)
qed

lemma good_aia_helper:
  "hart_good M h0 vm \<Longrightarrow> hart_good M h0 (snd (snd (riscv_csr_aia_helper smode get put dest op vm)))"
  by (simp add: riscv_csr_aia_helper_def Let_def riscv_update_aia_state_def good_update_aia split: option.split prod.split)

lemma good_aia_pair:
  assumes "hart_good M h0 vm"
  shows "hart_good M h0 (snd (snd (riscv_csr_aia_pair_helper smode reg get put dest op vm)))"
proof -
  have one: "riscv_csr_aia_helper smode g p d op v = (b, d', v') \<Longrightarrow> hart_good M h0 v \<Longrightarrow> hart_good M h0 v'" for g p d v b d' v'
    using good_aia_helper [of M h0 v smode g p d op] by simp
  show ?thesis using assms
    by (auto simp: riscv_csr_aia_pair_helper_def Let_def dest: one split: prod.split)
qed

lemma good_csr_indirect: "hart_good M h0 vm \<Longrightarrow> hart_good M h0 (snd (snd (riscv_csr_indirect priv csri dest op vm)))"
  by (simp add: riscv_csr_indirect_def Let_def good_aia_helper good_aia_pair good_csr_special)

lemmas good_csr_regs = good_csr_special good_csr_misa good_csr_status good_csr_irq_regs good_csr_satp good_csr_indirect

lemma good_csr_op_groups:
  assumes "hart_good M h0 vm"
  shows "riscv_csr_op_user M' csr_id dest op vm = Some r \<Longrightarrow> hart_good M h0 (snd (snd r))"
    "riscv_csr_op_supervisor M' csr_id dest op vm = Some r \<Longrightarrow> hart_good M h0 (snd (snd r))"
    "riscv_csr_op_machine M' csr_id dest op vm = Some r \<Longrightarrow> hart_good M h0 (snd (snd r))"
    "riscv_csr_op_counters M' csr_id dest op vm = Some r \<Longrightarrow> hart_good M h0 (snd (snd r))"
proof -
  have inv: "csr_inv (csr_tvec_update f c) = csr_inv c" "csr_inv (csr_counteren_update f c) = csr_inv c"
    "csr_inv (csr_envcfg_update f c) = csr_inv c" "csr_inv (csr_iselect_update f c) = csr_inv c"
    "csr_inv (csr_scratch_update f c) = csr_inv c" "csr_inv (csr_epc_update f c) = csr_inv c"
    "csr_inv (csr_cause_update f c) = csr_inv c" "csr_inv (csr_tval_update f c) = csr_inv c"
    "csr_inv (csr_mseccfg_update g c) = csr_inv c"
    "csr_inv (csr_edeleg_update (\<lambda>a. a(3 := v)) c) = csr_inv c" "csr_inv (csr_ideleg_update (\<lambda>a. a(3 := v)) c) = csr_inv c"
    for f g v c by (simp_all add: csr_inv_def)
  note rules = good_csr_regs [OF assms] good_csr_fields [OF assms]
  show "riscv_csr_op_user M' csr_id dest op vm = Some r \<Longrightarrow> hart_good M h0 (snd (snd r))"
    by (auto simp: riscv_csr_op_user_def rules inv split: if_splits)
  show "riscv_csr_op_supervisor M' csr_id dest op vm = Some r \<Longrightarrow> hart_good M h0 (snd (snd r))"
    by (auto simp: riscv_csr_op_supervisor_def rules inv split: if_splits)
  show "riscv_csr_op_machine M' csr_id dest op vm = Some r \<Longrightarrow> hart_good M h0 (snd (snd r))"
    by (auto simp: riscv_csr_op_machine_def rules inv split: if_splits)
  show "riscv_csr_op_counters M' csr_id dest op vm = Some r \<Longrightarrow> hart_good M h0 (snd (snd r))"
    by (auto simp: riscv_csr_op_counters_def rules inv split: if_splits)
qed

lemma good_csr_op:
  assumes "hart_good M h0 vm"
  shows "hart_good M h0 (snd (snd (riscv_csr_op M' csr_id dest op vm)))"
proof -
  have "hart_good M h0 (snd (snd (riscv_csr_op_internal M' csr_id dest op vm)))"
    using assms good_csr_op_groups [OF assms]
    by (auto simp: riscv_csr_op_internal_def split: option.split)
  with assms show ?thesis by (auto simp: riscv_csr_op_def Let_def split: prod.split)
qed

end
