(* ===== verification/RVVM_Insn_Safety.thy ===== *)
theory RVVM_Insn_Safety
  imports RVVM_CSR_Safety
begin

text \<open>
  Isolation of the instructions: the privileged, atomic, base and compressed instructions, the
  dispatch loop and the steps of a hart thread keep \<open>hart_good\<close> on every machine of the locale
  \<open>mmio_bus\<close>.
\<close>

unbundle bit_operations_syntax

section \<open>Instructions\<close>

lemma good_set_reg [simp]: "hart_good M h0 (set_reg r v vm) = hart_good M h0 vm"
  by simp

lemma good_write_reg [simp]: "hart_good M h0 (riscv_write_reg r v vm) = hart_good M h0 vm"
  by (simp add: riscv_write_reg_def)

lemma good_illegal_insn: "hart_good M h0 vm \<Longrightarrow> hart_good M h0 (riscv_illegal_insn insn vm)"
  by (simp add: riscv_illegal_insn_def good_trap)

lemma good_breakpoint: "hart_good M h0 vm \<Longrightarrow> hart_good M h0 (riscv_breakpoint M' vm)"
  by (simp add: riscv_breakpoint_def riscv_restart_at_pc_def good_trap split: option.split)

lemma good_write_result: "hart_good M h0 vm \<Longrightarrow> hart_good M h0 (write_result insn rds r vm)"
  by (simp add: write_result_def good_illegal_insn split: option.split)

lemma bit_ext_less:
  assumes "0 < n" "pos + n \<le> 32"
  shows "unat (bit_ext_u32 w pos n) < 2 ^ n"
proof -
  have "bit_ext_u32 w pos n = take_bit n (drop_bit pos w)"
    using assms by (intro bit_word_eqI) (auto simp: bit_ops_bits bit_simps)
  then show ?thesis by (simp add: unsigned_take_bit_eq)
qed

lemma bit_ext_eq_cut:
  assumes "0 < n" "pos + n \<le> 32"
  shows "bit_ext_u32 (ucast (s :: u64)) pos n = ucast (bit_cut s pos n)"
  using assms by (intro bit_word_eqI) (auto simp: bit_ops_bits bit_cut_def bit_simps)

lemma next_priv_cases:
  assumes "csr_inv c"
  shows "unat (bit_ext_u32 (ucast (csr_status c)) 8 1) \<in> {0, 1, 3}"
    "unat (bit_ext_u32 (ucast (csr_status c)) 11 2) \<in> {0, 1, 3}"
proof -
  show "unat (bit_ext_u32 (ucast (csr_status c)) 8 1) \<in> {0, 1, 3}"
    using bit_ext_less [of 1 8 "ucast (csr_status c)"] by auto
  let ?p = "bit_cut (csr_status c) 11 2"
  have "?p \<noteq> 2" using assms by (simp add: csr_inv_def)
  have "?p = take_bit 2 (drop_bit 11 (csr_status c))"
    by (rule bit_word_eqI) (auto simp: bit_ops_bits bit_cut_def bit_simps)
  then have lt: "unat ?p < 4"
    using take_bit_nat_less_exp [of 2 "unat (drop_bit 11 (csr_status c))"] by (simp add: unsigned_take_bit_eq)
  then have "unat (ucast ?p :: u32) = unat ?p" by (simp add: unat_ucast_small)
  moreover have "unat ?p \<noteq> 2" using \<open>?p \<noteq> 2\<close> by (simp add: word_unat_eq_iff)
  ultimately show "unat (bit_ext_u32 (ucast (csr_status c)) 11 2) \<in> {0, 1, 3}"
    using lt by (simp add: bit_ext_eq_cut) linarith
qed

lemma good_next_priv:
  assumes "hart_good M h0 vm" "p \<in> {0, 1, 3}" "bit_cut s 11 2 \<noteq> 2"
  shows "hart_good M h0 (riscv_switch_priv p (set_reg r v (set_status s vm)))"
  using assms by (intro good_switch_priv) (simp_all add: hart_good_def csr_inv_def)

lemma sret_good: "hart_good M h0 vm \<Longrightarrow> hart_good M h0 (riscv_sret vm)"
  unfolding riscv_sret_def Let_def good_interrupt_ops
  by (rule good_next_priv) (use next_priv_cases(1) in \<open>auto simp: hart_good_def csr_inv_def status_fields simp del: set_status_def\<close>)

lemma mret_good: "hart_good M h0 vm \<Longrightarrow> hart_good M h0 (riscv_mret vm)"
  unfolding riscv_mret_def Let_def good_interrupt_ops
  by (rule good_next_priv) (use next_priv_cases(2) in \<open>auto simp: hart_good_def csr_inv_def status_fields\<close>)

lemma good_csr_insn: "hart_good M h0 vm \<Longrightarrow> hart_good M h0 (riscv_csr_insn M' insn val op vm)"
  using good_csr_op [of M h0 vm M' "drop_bit 20 insn" val op]
  by (auto simp: riscv_csr_insn_def good_illegal_insn split: prod.split)

lemma good_system_funct3: "hart_good M h0 vm \<Longrightarrow> hart_good M h0 (riscv_emulate_opc_system_funct3 M' insn vm)"
  by (simp add: riscv_emulate_opc_system_funct3_def Let_def good_tlb_flush good_tlb_flush_page good_csr_insn good_illegal_insn)

context mmio_bus
begin

lemma wfi_good:
  assumes "hart_good M h0 vm" "riscv_wfi M vm = Some vm'"
  shows "hart_good M h0 vm'"
proof (cases "riscv_interrupts_pending vm = 0")
  case True
  then have "while_option running (riscv_wfi_pass M) vm = Some vm'" using assms(2) by (simp add: riscv_wfi_def)
  then show ?thesis
    by (rule while_option_rule [rotated]) (use assms(1) in \<open>simp_all add: riscv_wfi_pass_def good_interrupt_ops wait_good\<close>)
qed (use assms in \<open>simp add: riscv_wfi_def\<close>)

lemma system_good:
  assumes "hart_good M h0 vm" "riscv_emulate_opc_system M insn vm = Some vm'"
  shows "hart_good M h0 vm'"
proof -
  have "8 + priv_mode vm < 32" using assms(1) by (auto simp: hart_good_def)
  then show ?thesis using assms wfi_good [OF assms(1)]
    by (auto simp: riscv_emulate_opc_system_def good_breakpoint sret_good mret_good good_system_funct3 intro!: good_trap
        split: if_splits)
qed

lemma cbo_zero_good: "hart_good M h0 vm \<Longrightarrow> hart_good M h0 (riscv_cbo_zero M vaddr vm)"
proof -
  assume good: "hart_good M h0 vm"
  let ?a = "vaddr AND NOT 63"
  obtain p d vm' where tr: "riscv_rmw_translate M ?a None 64 vm = (p, d, vm')" by (cases "riscv_rmw_translate M ?a None 64 vm")
  have "?a AND (of_nat 64 - 1) = 0" by (simp add: and.assoc)
  then have "unat (?a AND 0xFFF) + 64 \<le> 4096" by (rule aligned_room_size) simp
  with tr rmw_translate_good [OF good _ tr] show ?thesis
    by (auto simp: riscv_cbo_zero_def split: hptr.split intro!: good_page_write [where vaddr = ?a and n = 64])
qed

lemma misc_mem_good: "hart_good M h0 vm \<Longrightarrow> hart_good M h0 (riscv_emulate_opc_misc_mem M insn vm)"
  by (simp add: riscv_emulate_opc_misc_mem_def Let_def cbo_zero_good good_illegal_insn)

end

context mmio_bus
begin

section \<open>Atomic instructions\<close>

lemma model_translate_good:
  assumes "hart_good M h0 vm" "n \<le> 16"
  shows "rmw_translate M vaddr n vm = (p, buf, vm') \<Longrightarrow> hart_good M h0 vm' \<and> (\<forall>a. p = PMem a \<longrightarrow> page_guest M vaddr a)"
    "ro_translate M vaddr n vm = (p, buf, vm') \<Longrightarrow> hart_good M h0 vm' \<and> (\<forall>a. p = PMem a \<longrightarrow> page_guest M vaddr a)"
proof -
  have n: "(of_nat n :: u8) \<le> 16" using assms(2) by (simp add: word_le_nat_alt unat_of_nat_small)
  show "rmw_translate M vaddr n vm = (p, buf, vm') \<Longrightarrow> hart_good M h0 vm' \<and> (\<forall>a. p = PMem a \<longrightarrow> page_guest M vaddr a)"
    using rmw_translate_good [OF assms(1), of "Some (replicate n 0)" "of_nat n" vaddr] n
    by (auto simp: rmw_translate_def split: prod.splits)
  show "ro_translate M vaddr n vm = (p, buf, vm') \<Longrightarrow> hart_good M h0 vm' \<and> (\<forall>a. p = PMem a \<longrightarrow> page_guest M vaddr a)"
    using ro_translate_good [OF assms(1), of "Some (replicate n 0)" "of_nat n" vaddr] n
    by (auto simp: ro_translate_def split: prod.splits)
qed

lemma ptr_write_good:
  assumes "hart_good M h0 vm" "\<And>a. p = PMem a \<Longrightarrow> page_guest M vaddr a"
    "unat (vaddr AND 0xFFF) + length bs \<le> 4096" "ptr_write p buf bs vm = (buf', vm')"
  shows "hart_good M h0 vm'"
  using assms good_page_write [OF assms(1) assms(2) assms(3)] by (auto simp: ptr_write_def split: hptr.splits)

lemma amo_rmw_good:
  fixes val :: "'w::len word"
  assumes "hart_good M h0 vm" "\<And>a. p = PMem a \<Longrightarrow> page_guest M vaddr a"
    "unat (vaddr AND 0xFFF) + LENGTH('w) div 8 \<le> 4096" "LENGTH('w) div 8 \<le> 16"
  shows "hart_good M h0 (riscv_amo_rmw M op vaddr rds p buf val vm)"
proof -
  have n: "(of_nat (LENGTH('w) div 8) :: u8) \<le> 16" using assms(4) by (simp add: word_le_nat_alt unat_of_nat_small)
  have pw: "hart_good M h0 v" if "ptr_write p b (le_bytes (LENGTH('w) div 8) w) vm = (b', v)" for b b' v and w :: "'w word"
    by (rule ptr_write_good [OF assms(1,2) _ that]) (simp_all add: assms(3))
  show ?thesis
    using pw n by (auto simp: riscv_amo_rmw_def Let_def intro!: commit_good split: prod.split)
qed

lemma amo_sc_good:
  fixes val :: "'w::len word"
  assumes "hart_good M h0 vm" "\<And>a. p = PMem a \<Longrightarrow> page_guest M vaddr a"
    "unat (vaddr AND 0xFFF) + LENGTH('w) div 8 \<le> 4096" "LENGTH('w) div 8 \<le> 16"
  shows "hart_good M h0 (riscv_amo_sc M vaddr rds p buf val vm)"
proof -
  have n: "(of_nat (LENGTH('w) div 8) :: u8) \<le> 16" using assms(4) by (simp add: word_le_nat_alt unat_of_nat_small)
  have pw: "hart_good M h0 v" if "ptr_write p b (le_bytes (LENGTH('w) div 8) w) vm = (b', v)" for b b' v and w :: "'w word"
    by (rule ptr_write_good [OF assms(1,2) _ that]) (simp_all add: assms(3))
  show ?thesis
    using pw n assms(1) by (auto simp: riscv_amo_sc_def Let_def intro!: commit_good split: prod.split)
qed

lemma amo_lr_good: "hart_good M h0 vm \<Longrightarrow> hart_good M h0 (riscv_amo_lr wt vaddr rds p buf vm)"
  by (simp add: riscv_amo_lr_def Let_def)

lemma atomic_b_good: "hart_good M h0 vm \<Longrightarrow> hart_good M h0 (riscv_emulate_atomic_b xl M insn vm)"
proof -
  assume good: "hart_good M h0 vm"
  have room: "unat (v AND 0xFFF) + 1 \<le> 4096" for v :: u64 by (rule aligned_room_size) simp_all
  show ?thesis
    using good model_translate_good(1) [OF good, of 1] room
    by (auto simp: riscv_emulate_atomic_b_def Let_def good_illegal_insn intro!: amo_rmw_good split: prod.split)
qed

lemma atomic_h_good: "hart_good M h0 vm \<Longrightarrow> hart_good M h0 (riscv_emulate_atomic_h xl M insn vm)"
proof -
  assume good: "hart_good M h0 vm"
  have room: "v AND 1 = 0 \<Longrightarrow> unat (v AND 0xFFF) + 2 \<le> 4096" for v :: u64 by (rule aligned_room_size) simp_all
  show ?thesis
    using good model_translate_good(1) [OF good, of 2] room
    by (auto simp: riscv_emulate_atomic_h_def Let_def good_illegal_insn good_trap intro!: amo_rmw_good split: prod.split)
qed

lemma atomic_w_good: "hart_good M h0 vm \<Longrightarrow> hart_good M h0 (riscv_emulate_atomic_w xl M insn vm)"
proof -
  assume good: "hart_good M h0 vm"
  have room: "v AND 3 = 0 \<Longrightarrow> unat (v AND 0xFFF) + 4 \<le> 4096" for v :: u64 by (rule aligned_room_size) simp_all
  show ?thesis
    using good model_translate_good [OF good, of 4] room
    by (auto simp: riscv_emulate_atomic_w_def Let_def good_illegal_insn good_trap
        intro!: amo_rmw_good amo_sc_good amo_lr_good split: prod.split)
qed

lemma atomic_d_good: "hart_good M h0 vm \<Longrightarrow> hart_good M h0 (riscv_emulate_atomic_d xl M insn vm)"
proof -
  assume good: "hart_good M h0 vm"
  have room: "v AND 7 = 0 \<Longrightarrow> unat (v AND 0xFFF) + 8 \<le> 4096" for v :: u64 by (rule aligned_room_size) simp_all
  show ?thesis
    using good model_translate_good [OF good, of 8] room
    by (auto simp: riscv_emulate_atomic_d_def Let_def good_illegal_insn good_trap
        intro!: amo_rmw_good amo_sc_good amo_lr_good split: prod.split)
qed
end

context mmio_bus
begin

lemma dwcas_good:
  fixes xl :: "'x::len itself"
  assumes "hart_good M h0 vm" "LENGTH('x) \<in> {32, 64}"
  shows "hart_good M h0 (riscv_emulate_atomic_dwcas xl M insn vm)"
proof -
  define h where "h = LENGTH('x) div 8"
  define n where "n = 2 * h"
  have n: "n \<in> {8, 16}" "n \<le> 16" "(of_nat n :: u8) \<le> 16" using assms(2) by (auto simp: n_def h_def)
  define vaddr where "vaddr = (ucast (riscv_read_reg (insn_rs1 insn) vm :: 'x word) :: u64)"
  show ?thesis
  proof (cases "vaddr AND (of_nat n - 1) = 0")
    case False
    then show ?thesis using assms(1)
      by (simp add: riscv_emulate_atomic_dwcas_def Let_def good_illegal_insn good_trap
          n_def [symmetric] h_def [symmetric] vaddr_def [symmetric])
  next
    case True
    have room: "unat (vaddr AND 0xFFF) + n \<le> 4096" using True n(1) by (intro aligned_room_size) auto
    obtain p buf vm1 where tr: "rmw_translate M vaddr n vm = (p, buf, vm1)" by (cases "rmw_translate M vaddr n vm")
    have t: "hart_good M h0 vm1" "\<And>a. p = PMem a \<Longrightarrow> page_guest M vaddr a"
      using model_translate_good(1) [OF assms(1) n(2) tr] by auto
    have hh: "h + h = n" by (simp add: n_def)
    have pw: "hart_good M h0 v" if "ptr_write q buf bs vm1 = (b', v)" "q = p" "length bs = n" for q bs b' v
      by (rule ptr_write_good [OF t _ that(1) [unfolded that(2)]]) (use room that(3) in simp_all)
    show ?thesis
      using assms(1) tr t(1) n(3)
      unfolding riscv_emulate_atomic_dwcas_def Let_def h_def [symmetric]
      unfolding n_def [symmetric] unfolding vaddr_def [symmetric]
      by (auto simp: good_illegal_insn good_trap hh intro!: commit_good split: prod.split dest: pw)
  qed
qed

lemma opc_amo_good:
  fixes xl :: "'x::len itself"
  assumes "hart_good M h0 vm" "LENGTH('x) \<in> {32, 64}"
  shows "hart_good M h0 (riscv_emulate_a_opc_amo xl M insn vm)"
  using assms by (simp add: riscv_emulate_a_opc_amo_def Let_def atomic_b_good atomic_h_good atomic_w_good
      atomic_d_good dwcas_good good_illegal_insn)

section \<open>Loads, stores and the remaining instructions\<close>

lemma loads_good:
  assumes "hart_good M h0 vm"
  shows "hart_good M h0 (riscv_load_u64 M vaddr reg vm)" "hart_good M h0 (riscv_load_u32 M vaddr reg vm)"
    "hart_good M h0 (riscv_load_s32 M vaddr reg vm)" "hart_good M h0 (riscv_load_u16 M vaddr reg vm)"
    "hart_good M h0 (riscv_load_s16 M vaddr reg vm)" "hart_good M h0 (riscv_load_u8 M vaddr reg vm)"
    "hart_good M h0 (riscv_load_s8 M vaddr reg vm)"
  unfolding riscv_load_u64_def riscv_load_u32_def riscv_load_s32_def riscv_load_u16_def riscv_load_s16_def
    riscv_load_u8_def riscv_load_s8_def
  by (intro load_into_good load_bytes_good assms; simp)+

lemma stores_good:
  assumes "hart_good M h0 vm"
  shows "hart_good M h0 (riscv_store_u64 M vaddr reg vm)" "hart_good M h0 (riscv_store_u32 M vaddr reg vm)"
    "hart_good M h0 (riscv_store_u16 M vaddr reg vm)" "hart_good M h0 (riscv_store_u8 M vaddr reg vm)"
  unfolding riscv_store_u64_def riscv_store_u32_def riscv_store_u16_def riscv_store_u8_def
  by (intro store_bytes_good assms; simp)+

lemma emulate_i_good:
  fixes xl :: "'x::len itself"
  assumes "hart_good M h0 vm" "LENGTH('x) \<in> {32, 64}" "riscv_emulate_i xl M insn vm = Some vm'"
  shows "hart_good M h0 vm'"
proof -
  note rules = good_illegal_insn [OF assms(1)] good_write_result [OF assms(1)] assms(1)
  have "hart_good M h0 (riscv_emulate_i_opc_load xl M insn vm)" "hart_good M h0 (riscv_emulate_i_opc_store xl M insn vm)"
    by (simp_all add: riscv_emulate_i_opc_load_def riscv_emulate_i_opc_store_def Let_def rules
        loads_good [OF assms(1)] stores_good [OF assms(1)])
  moreover have "hart_good M h0 (riscv_emulate_i_opc_imm xl insn vm)" "hart_good M h0 (riscv_emulate_i_opc_imm32 xl insn vm)"
    "hart_good M h0 (riscv_emulate_i_opc_op xl insn vm)" "hart_good M h0 (riscv_emulate_i_opc_op32 xl insn vm)"
    "hart_good M h0 (riscv_emulate_i_auipc xl insn vm)" "hart_good M h0 (riscv_emulate_i_lui xl insn vm)"
    by (simp_all add: riscv_emulate_i_opc_imm_def riscv_emulate_i_opc_imm32_def riscv_emulate_i_opc_op_def
        riscv_emulate_i_opc_op32_def riscv_emulate_i_auipc_def riscv_emulate_i_lui_def Let_def rules)
  moreover have "hart_good M h0 (riscv_emulate_i_opc_branch xl insn vm)" "hart_good M h0 (riscv_emulate_i_jalr xl insn vm)"
    "hart_good M h0 (riscv_emulate_i_jal xl insn vm)"
    by (simp_all add: riscv_emulate_i_opc_branch_def riscv_emulate_i_jalr_def riscv_emulate_i_jal_def Let_def rules
        split: option.split)
  ultimately show ?thesis
    using assms(3) misc_mem_good [OF assms(1)] opc_amo_good [OF assms(1,2)] system_good [OF assms(1)] rules(1)
    by (auto simp: riscv_emulate_i_def Let_def split: if_splits)
qed

lemma emulate_c_good:
  assumes "hart_good M h0 vm"
  shows "hart_good M h0 (riscv_emulate_c_c0 xl M insn vm)" "hart_good M h0 (riscv_emulate_c_c1 xl insn vm)"
    "hart_good M h0 (riscv_emulate_c_c2 xl M insn vm)"
  by (simp_all add: riscv_emulate_c_c0_def riscv_emulate_c_c0_zcb_def riscv_emulate_c_c1_def riscv_emulate_c_c1_alu_def
      riscv_emulate_c_c2_def Let_def assms loads_good stores_good good_illegal_insn good_write_result good_breakpoint)

lemma emulate_insn_good:
  fixes xl :: "'x::len itself"
  assumes "hart_good M h0 vm" "LENGTH('x) \<in> {32, 64}" "riscv_emulate_insn xl M insn vm = Some vm'"
  shows "hart_good M h0 vm'"
  using assms(3) emulate_c_good [OF assms(1)] emulate_i_good [OF assms(1,2)]
  by (auto simp: riscv_emulate_insn_def Let_def advance_pc_def split: if_splits)

section \<open>The hart thread\<close>

lemma interp_fetch_good:
  fixes xl :: "'x::len itself"
  assumes "hart_good M h0 vm"
  shows "hart_good M h0 (snd (snd (snd (riscv_interp_fetch xl M ptr page vm))))"
proof -
  let ?a = "ucast (ucast (registers vm 32) :: 'x word) :: u64"
  obtain i vm1 where f: "riscv_fetch_insn M ?a vm = (i, vm1)" by (cases "riscv_fetch_insn M ?a vm")
  then have "hart_good M h0 vm1" using fetch_good [OF assms, of ?a] by simp
  with assms f show ?thesis by (cases i) (simp_all add: riscv_interp_fetch_def Let_def)
qed

lemma interp_pass_good:
  fixes xl :: "'x::len itself"
  assumes "hart_good M h0 vm" "LENGTH('x) \<in> {32, 64}"
    "riscv_interp_pass xl M ptr page vm = Some (go, ptr', page', vm')"
  shows "hart_good M h0 vm'"
proof -
  obtain i p1 g1 vm1 where f: "riscv_interp_fetch xl M ptr page vm = (i, p1, g1, vm1)"
    by (cases "riscv_interp_fetch xl M ptr page vm")
  then have good: "hart_good M h0 (set_reg 0 0 vm1)"
    using interp_fetch_good [OF assms(1), of xl ptr page] by simp
  show ?thesis
  proof (cases i)
    case None
    then show ?thesis using assms(3) f good by (simp add: riscv_interp_pass_def)
  next
    case (Some insn)
    then show ?thesis
      using assms(3) f emulate_insn_good [OF good assms(2), of xl insn]
      by (auto simp: riscv_interp_pass_def simp del: set_reg_def split: option.splits)
  qed
qed

lemma hart_step_good:
  assumes "hart_step M (ph, vm) (ph', vm')" "hart_good M h0 vm"
  shows "hart_good M h0 vm'"
proof -
  have run: "riscv_hart_run_begin v = (go, v') \<Longrightarrow> hart_good M h0 v \<Longrightarrow> hart_good M h0 v'" for v go v'
    by (auto simp: riscv_hart_run_begin_def Let_def good_handle_irqs split: if_splits)
  have fin: "hart_good M h0 v \<Longrightarrow> hart_good M h0 (riscv_hart_run_end v)" for v
    by (simp add: riscv_hart_run_end_def)
  have env: "env_step v v' \<Longrightarrow> hart_good M h0 v \<Longrightarrow> hart_good M h0 v'" for v v'
    by (erule env_stepE) (simp_all add: good_interrupt_ops good_send_aia_irq)
  from assms(1) show ?thesis
  proof cases
    case (step_go64 ptr page ptr' page')
    then show ?thesis using interp_pass_good [OF assms(2), of "TYPE(64)"] by simp
  next
    case (step_go32 ptr page ptr' page')
    then show ?thesis using interp_pass_good [OF assms(2), of "TYPE(32)"] by simp
  next
    case (step_stop64 ptr page ptr' page' v)
    then show ?thesis using interp_pass_good [OF assms(2), of "TYPE(64)"] by (auto intro: fin)
  next
    case (step_stop32 ptr page ptr' page' v)
    then show ?thesis using interp_pass_good [OF assms(2), of "TYPE(32)"] by (auto intro: fin)
  qed (auto intro: run env assms(2))
qed

end

end
