(* ===== verification/RVVM_Machine.thy ===== *)
theory RVVM_Machine
  imports RVVM_Insn_Safety RVVM_Utils RVVM_Timer "HOL-Library.While_Combinator"
begin

text \<open>
  The machine of src/rvvm/src/rvvm.c: access to guest memory, the placement, attaching and removal
  of devices, message signalled and wired interrupts, options, creation, reset and the register
  interface of user threads.  What a hart reads of its machine is \<open>rvvm_machine\<close>;
  \<open>rvvm_system\<close> adds the harts and the rest of the C structure.  The locks and the threads of the
  API are left out: every operation is one step.
\<close>

unbundle bit_operations_syntax

section \<open>Guest memory\<close>

definition ram_check :: "rvvm_ram \<Rightarrow> u64 \<Rightarrow> u64 \<Rightarrow> bool" where
  "ram_check r addr sz \<longleftrightarrow> ram_addr r \<le> addr \<and> addr + sz \<le> ram_addr r + ram_size r"

definition rvvm_write_ram :: "rvvm_ram \<Rightarrow> u64 \<Rightarrow> u8 list \<Rightarrow> host_mem \<Rightarrow> bool \<times> host_mem" where
  "rvvm_write_ram r dest src m =
     (if ram_check r dest (of_nat (length src))
      then (True, write_bytes m (ram_data r + (dest - ram_addr r)) src) else (False, m))"

definition rvvm_read_ram :: "rvvm_ram \<Rightarrow> u64 \<Rightarrow> u64 \<Rightarrow> host_mem \<Rightarrow> u8 list option" where
  "rvvm_read_ram r src sz m =
     (if ram_check r src sz
      then Some (read_bytes m (ram_data r + (src - ram_addr r)) (unat sz)) else None)"

definition rvvm_get_dma_ptr :: "rvvm_ram \<Rightarrow> u64 \<Rightarrow> u64 \<Rightarrow> u64 option" where
  "rvvm_get_dma_ptr r addr sz =
     (if ram_check r addr sz then Some (ram_data r + (addr - ram_addr r)) else None)"

section \<open>Device regions\<close>

definition rvvm_mmio_overlap_check :: "u64 \<Rightarrow> u64 \<Rightarrow> u64 \<Rightarrow> u64 \<Rightarrow> bool" where
  "rvvm_mmio_overlap_check addr1 size1 addr2 size2 \<longleftrightarrow> addr1 < addr2 + size2 \<and> addr2 < addr1 + size1"

definition region_end :: "u64 \<Rightarrow> u64 \<Rightarrow> u64" where
  "region_end addr sz = (addr + sz + 0xFFF) AND NOT 0xFFF"

text \<open>
  One pass of the search of \<open>rvvm_mmio_zone_auto\<close>: the address it goes on with when the zone
  overlaps the RAM or a device.
\<close>

definition mmio_zone_conflict :: "'d rvvm_machine \<Rightarrow> u64 \<Rightarrow> u64 \<Rightarrow> u64 option" where
  "mmio_zone_conflict M sz addr =
     (if rvvm_mmio_overlap_check addr sz (ram_addr (m_mem M)) (ram_size (m_mem M))
      then Some (region_end (ram_addr (m_mem M)) (ram_size (m_mem M)))
      else map_option (\<lambda>dev. region_end (mmio_addr dev) (mmio_size dev))
             (find (\<lambda>dev. rvvm_mmio_overlap_check addr sz (mmio_addr dev) (mmio_size dev)) (m_mmio_devs M)))"

definition rvvm_mmio_zone_auto :: "'d rvvm_machine \<Rightarrow> u64 \<Rightarrow> u64 \<Rightarrow> u64 option" where
  "rvvm_mmio_zone_auto M addr sz =
     (if sz \<noteq> 0
      then while_option (\<lambda>a. mmio_zone_conflict M sz a \<noteq> None) (\<lambda>a. the (mmio_zone_conflict M sz a)) addr
      else Some addr)"

definition mmio_normalize :: "'d mmio_dev \<Rightarrow> 'd mmio_dev" where
  "mmio_normalize dev = dev
     \<lparr>mmio_min_op_size := (if mmio_min_op_size dev \<noteq> 0 then ucast (bit_next_pow2 (ucast (mmio_min_op_size dev))) else 1),
      mmio_max_op_size := (if mmio_max_op_size dev \<noteq> 0 then ucast (bit_next_pow2 (ucast (mmio_max_op_size dev))) else 8)\<rparr>"

text \<open>
  Attaching a device.  No result means that the search for a zone does not end; otherwise the
  device is refused or the machine has it at the end of its list.
\<close>

definition rvvm_attach_mmio :: "'d rvvm_machine \<Rightarrow> 'd mmio_dev \<Rightarrow> ('d mmio_dev \<times> 'd rvvm_machine) option option" where
  "rvvm_attach_mmio M mmio_desc =
     (let dev = mmio_normalize mmio_desc
      in if mmio_max_op_size dev < mmio_min_op_size dev \<or> 8 < mmio_min_op_size dev then Some None
         else (case rvvm_mmio_zone_auto M (mmio_addr dev) (mmio_size dev) of
                 None \<Rightarrow> None
               | Some addr \<Rightarrow>
                   if addr \<noteq> mmio_addr dev then Some None
                   else Some (Some (dev, M\<lparr>m_mmio_devs := m_mmio_devs M @ [dev]\<rparr>))))"

section \<open>Systems\<close>

record 'd rvvm_system =
  sys_machine :: "'d rvvm_machine"
  sys_harts :: "'d rvvm_hart list"
  sys_msi_targets :: "'d mmio_dev list"
  sys_opts :: "nat \<Rightarrow> u64"
  sys_power_state :: u32
  sys_running :: bool

abbreviation (input) RVVM_POWER_OFF :: u32 where "RVVM_POWER_OFF \<equiv> 0"
abbreviation (input) RVVM_POWER_ON :: u32 where "RVVM_POWER_ON \<equiv> 1"
abbreviation (input) RVVM_POWER_RESET :: u32 where "RVVM_POWER_RESET \<equiv> 2"
abbreviation (input) RVVM_OPTS_ARR_SIZE :: u32 where "RVVM_OPTS_ARR_SIZE \<equiv> 9"
abbreviation (input) RVVM_OPT_RESET_PC :: u32 where "RVVM_OPT_RESET_PC \<equiv> 1"
abbreviation (input) RVVM_OPT_TIME_FREQ :: u32 where "RVVM_OPT_TIME_FREQ \<equiv> 3"
abbreviation (input) RVVM_OPT_MAX_CPU_CENT :: u32 where "RVVM_OPT_MAX_CPU_CENT \<equiv> 5"
abbreviation (input) RVVM_OPT_MEM_BASE :: u32 where "RVVM_OPT_MEM_BASE \<equiv> 0x80000001"
abbreviation (input) RVVM_OPT_MEM_SIZE :: u32 where "RVVM_OPT_MEM_SIZE \<equiv> 0x80000002"
abbreviation (input) RVVM_OPT_CPU_COUNT :: u32 where "RVVM_OPT_CPU_COUNT \<equiv> 0x80000003"
abbreviation (input) RVVM_DEFAULT_MEMBASE :: u64 where "RVVM_DEFAULT_MEMBASE \<equiv> 0x80000000"

text \<open>
  Removing the device at an index of the device list: every hart drops its translations when the
  device is a shared memory mapping.  The list of interrupt targets keeps its pointer to the freed
  device.
\<close>

definition rvvm_remove_mmio :: "nat \<Rightarrow> 'd rvvm_system \<Rightarrow> 'd rvvm_system" where
  "rvvm_remove_mmio i s =
     (let M = sys_machine s; dev = m_mmio_devs M ! i;
          s = s\<lparr>sys_machine := M\<lparr>m_mmio_devs := take i (m_mmio_devs M) @ drop (Suc i) (m_mmio_devs M)\<rparr>\<rparr>
      in if mmio_mapping dev \<noteq> 0 then s\<lparr>sys_harts := map riscv_tlb_flush (sys_harts s)\<rparr> else s)"

section \<open>Options\<close>

definition rvvm_get_opt :: "'d rvvm_system \<Rightarrow> u32 \<Rightarrow> u64" where
  "rvvm_get_opt s opt =
     (if opt < RVVM_OPTS_ARR_SIZE then sys_opts s (unat opt)
      else if opt = RVVM_OPT_MEM_BASE then ram_addr (m_mem (sys_machine s))
      else if opt = RVVM_OPT_MEM_SIZE then ram_size (m_mem (sys_machine s))
      else if opt = RVVM_OPT_CPU_COUNT then of_nat (length (sys_harts s))
      else 0)"

definition rvvm_set_opt :: "u32 \<Rightarrow> u64 \<Rightarrow> 'd rvvm_system \<Rightarrow> bool \<times> 'd rvvm_system" where
  "rvvm_set_opt opt val s =
     (if opt < RVVM_OPTS_ARR_SIZE then (True, s\<lparr>sys_opts := (sys_opts s)(unat opt := val)\<rparr>)
      else if opt = RVVM_OPT_MEM_BASE
        then (True, s\<lparr>sys_machine := (sys_machine s)\<lparr>m_mem := (m_mem (sys_machine s))\<lparr>ram_addr := val\<rparr>\<rparr>\<rparr>)
      else (False, s))"

section \<open>Power\<close>

definition rvvm_reset_machine :: "bool \<Rightarrow> 'd rvvm_system \<Rightarrow> 'd rvvm_system" where
  "rvvm_reset_machine reset s = s\<lparr>sys_power_state := (if reset then RVVM_POWER_RESET else RVVM_POWER_OFF)\<rparr>"

definition rvvm_machine_running :: "'d rvvm_system \<Rightarrow> bool" where
  "rvvm_machine_running s = sys_running s"

definition rvvm_machine_powered :: "'d rvvm_system \<Rightarrow> bool" where
  "rvvm_machine_powered s \<longleftrightarrow> sys_power_state s \<noteq> RVVM_POWER_OFF"

text \<open>
  The part of \<open>rvvm_reset_machine_state\<close> for one hart, and the whole reset.  Resetting the
  devices and loading the images into the guest memory is one parameter; it returns the address
  of the device tree.  \<open>rvtimer_init\<close> restarts the clock at zero.
\<close>

definition reset_hart :: "nat \<Rightarrow> u64 \<Rightarrow> u64 \<Rightarrow> 'd rvvm_hart \<Rightarrow> 'd rvvm_hart" where
  "reset_hart i fdt_addr reset_pc vm =
     (let c = csr vm;
          vm = vm\<lparr>csr := c\<lparr>csr_status := 0, csr_cause := (csr_cause c)(RISCV_PRIV_MACHINE := 0),
                           csr_hartid := of_nat i\<rparr>,
                  lrsc := False,
                  registers := (registers vm)(10 := of_nat i, 11 := fdt_addr, RISCV_REG_PC := reset_pc)\<rparr>
      in riscv_switch_priv RISCV_PRIV_MACHINE vm)"

definition rvvm_reset_machine_state ::
  "('d rvvm_system \<Rightarrow> u64 \<times> 'd rvvm_system) \<Rightarrow> 'd rvvm_system \<Rightarrow> 'd rvvm_system" where
  "rvvm_reset_machine_state load s =
     (let (fdt_addr, s) = load s;
          pc = rvvm_get_opt s RVVM_OPT_RESET_PC;
          freq = rvvm_get_opt s RVVM_OPT_TIME_FREQ;
          s = s\<lparr>sys_machine := (sys_machine s)\<lparr>m_timer_freq := freq\<rparr>\<rparr>
      in s\<lparr>sys_harts := map (\<lambda>(i, vm). reset_hart i fdt_addr pc (vm\<lparr>timer := 0\<rparr>)) (enumerate 0 (sys_harts s)),
           sys_power_state := RVVM_POWER_ON\<rparr>)"

text \<open>
  Starting and pausing the harts.  A pause asks the thread of the hart to end and waits for it;
  what the thread does to the hart meanwhile is the parameter \<open>join\<close>.
\<close>

definition riscv_hart_spawn :: "'d rvvm_hart \<Rightarrow> 'd rvvm_hart" where
  "riscv_hart_spawn vm = vm\<lparr>pending_events := 0\<rparr>"

definition riscv_hart_pause :: "('d rvvm_hart \<Rightarrow> 'd rvvm_hart) \<Rightarrow> 'd rvvm_hart \<Rightarrow> 'd rvvm_hart" where
  "riscv_hart_pause join vm = join (riscv_hart_queue_pause vm)"

definition rvvm_start_machine ::
  "('d rvvm_system \<Rightarrow> u64 \<times> 'd rvvm_system) \<Rightarrow> 'd rvvm_system \<Rightarrow> bool \<times> 'd rvvm_system" where
  "rvvm_start_machine load s =
     (if sys_running s then (False, s)
      else (let s = s\<lparr>sys_running := True\<rparr>;
                s = (if rvvm_machine_powered s then s else rvvm_reset_machine_state load s)
            in (True, s\<lparr>sys_harts := map riscv_hart_spawn (sys_harts s)\<rparr>)))"

definition rvvm_pause_machine ::
  "('d rvvm_hart \<Rightarrow> 'd rvvm_hart) \<Rightarrow> 'd rvvm_system \<Rightarrow> bool \<times> 'd rvvm_system" where
  "rvvm_pause_machine join s =
     (if sys_running s
      then (True, s\<lparr>sys_running := False, sys_harts := map (riscv_hart_pause join) (sys_harts s)\<rparr>)
      else (False, s))"

text \<open>
  One tick of the event loop for one machine: the first component says whether the machine stays
  in the list of running machines.  The update callbacks of the devices are a parameter.
\<close>

definition eventloop_preempt :: "u64 \<Rightarrow> u32" where
  "eventloop_preempt cent = ucast (10 - (10 * cent + 9) div 100)"

definition eventloop_hart :: "u64 \<Rightarrow> 'd rvvm_hart \<Rightarrow> 'd rvvm_hart" where
  "eventloop_hart cent vm =
     (let vm = riscv_hart_check_timer vm
      in if cent < 100 then riscv_hart_preempt (eventloop_preempt cent) vm else vm)"

definition rvvm_eventloop_tick ::
  "('d rvvm_system \<Rightarrow> 'd rvvm_system) \<Rightarrow> ('d rvvm_hart \<Rightarrow> 'd rvvm_hart) \<Rightarrow>
   ('d rvvm_system \<Rightarrow> u64 \<times> 'd rvvm_system) \<Rightarrow> 'd rvvm_system \<Rightarrow> bool \<times> 'd rvvm_system" where
  "rvvm_eventloop_tick update join load s =
     (if sys_power_state s = RVVM_POWER_ON
      then (True, update (s\<lparr>sys_harts := map (eventloop_hart (rvvm_get_opt s RVVM_OPT_MAX_CPU_CENT)) (sys_harts s)\<rparr>))
      else
        (let s' = s\<lparr>sys_harts := map (riscv_hart_pause join) (sys_harts s)\<rparr>
         in if sys_power_state s = RVVM_POWER_RESET
            then (True, (let s' = rvvm_reset_machine_state load s'
                         in s'\<lparr>sys_harts := map riscv_hart_spawn (sys_harts s')\<rparr>))
            else (False, s'\<lparr>sys_running := False\<rparr>)))"

section \<open>Creation\<close>

text \<open>
  A pointer comparison with the result of \<open>rvvm_strfind\<close> asks for a match at the start.  The
  result of the allocation and what surrounds a hart are parameters.
\<close>

definition isa_rv64 :: "string option \<Rightarrow> bool" where
  "isa_rv64 isa = (case isa of None \<Rightarrow> True | Some s \<Rightarrow> rvvm_strfind s ''rv64'' = Some s)"

definition isa_rv32 :: "string option \<Rightarrow> bool" where
  "isa_rv32 isa = (case isa of None \<Rightarrow> False | Some s \<Rightarrow> rvvm_strfind s ''rv32'' = Some s)"

definition rvvm_create_machine ::
  "u64 option \<Rightarrow> 'd rvvm_machine \<Rightarrow> host_mem \<Rightarrow> u64 \<Rightarrow> u16 \<Rightarrow> 'd
     \<Rightarrow> u64 \<Rightarrow> nat \<Rightarrow> string option \<Rightarrow> 'd rvvm_system option" where
  "rvvm_create_machine alloc env hst tm ent dev mem_size hart_count isa =
     (if \<not> isa_rv64 isa \<and> \<not> isa_rv32 isa then None
      else if hart_count = 0 \<or> 1024 < hart_count then None
      else (case riscv_init_ram RVVM_DEFAULT_MEMBASE mem_size alloc of
              None \<Rightarrow> None
            | Some r \<Rightarrow>
                (let M = env\<lparr>m_mem := r, m_rv64 := isa_rv64 isa, m_mmio_devs := []\<rparr>;
                     s = \<lparr>sys_machine = M, sys_harts = [], sys_msi_targets = [], sys_opts = (\<lambda>_. 0),
                          sys_power_state = RVVM_POWER_OFF, sys_running = False\<rparr>;
                     s = snd (rvvm_set_opt RVVM_OPT_MAX_CPU_CENT 100 s);
                     s = snd (rvvm_set_opt RVVM_OPT_MEM_BASE RVVM_DEFAULT_MEMBASE s);
                     s = snd (rvvm_set_opt RVVM_OPT_RESET_PC RVVM_DEFAULT_MEMBASE s);
                     s = snd (rvvm_set_opt RVVM_OPT_TIME_FREQ 10000000 s)
                 in Some (s\<lparr>sys_harts := replicate hart_count (riscv_hart_init (sys_machine s) hst tm ent dev)\<rparr>))))"

section \<open>Interrupts\<close>

text \<open>
  Message signalled interrupts: the handlers of the targets run on behalf of a hart.  The target
  list holds the devices.
\<close>

fun msi_scan :: "'d mmio_dev list \<Rightarrow> u64 \<Rightarrow> u8 list \<Rightarrow> 'd rvvm_hart \<Rightarrow> bool \<times> 'd rvvm_hart" where
  "msi_scan [] addr le vm = (False, vm)"
| "msi_scan (mmio # ms) addr le vm =
     (if mmio_addr mmio \<le> addr \<and> addr < mmio_addr mmio + mmio_size mmio
      then (case mmio_write mmio of
              Some f \<Rightarrow> (let (ok, _, vm) = f le (addr - mmio_addr mmio) 4 vm in (ok, vm))
            | None \<Rightarrow> (False, vm\<lparr>fatal := True\<rparr>))
      else msi_scan ms addr le vm)"

definition rvvm_send_msi_irq :: "'d mmio_dev list \<Rightarrow> u64 \<Rightarrow> u32 \<Rightarrow> 'd rvvm_hart \<Rightarrow> bool \<times> 'd rvvm_hart" where
  "rvvm_send_msi_irq targets addr val vm =
     (if addr AND 3 = 0 then msi_scan targets addr (le_bytes 4 val) vm else (False, vm))"

definition rvvm_attach_msi_target ::
  "'d rvvm_machine \<Rightarrow> 'd mmio_dev list \<Rightarrow> 'd mmio_dev \<Rightarrow> (bool \<times> 'd rvvm_machine \<times> 'd mmio_dev list) option" where
  "rvvm_attach_msi_target M targets mmio_desc =
     (if mmio_min_op_size mmio_desc \<le> 4 \<and> 4 \<le> mmio_max_op_size mmio_desc
      then (case rvvm_attach_mmio M mmio_desc of
              None \<Rightarrow> None
            | Some None \<Rightarrow> Some (False, M, targets)
            | Some (Some (dev, M)) \<Rightarrow> Some (True, M, targets @ [dev]))
      else Some (False, M, targets))"

text \<open>An interrupt controller: its callbacks act on a state of its own.\<close>

record 's rvvm_intc =
  last_irq :: u32
  intc_data :: 's
  intc_send_irq :: "u32 \<Rightarrow> 's \<Rightarrow> bool \<times> 's"
  intc_raise_irq :: "(u32 \<Rightarrow> 's \<Rightarrow> bool \<times> 's) option"
  intc_lower_irq :: "(u32 \<Rightarrow> 's \<Rightarrow> bool \<times> 's) option"
  intc_alloc_irq :: "('s \<Rightarrow> u32 \<times> 's) option"

definition rvvm_alloc_irq :: "'s rvvm_intc option \<Rightarrow> u32 \<times> 's rvvm_intc option" where
  "rvvm_alloc_irq intc =
     (case intc of
        None \<Rightarrow> (0, None)
      | Some c \<Rightarrow>
          (case intc_alloc_irq c of
             Some alloc \<Rightarrow> (let (irq, d) = alloc (intc_data c) in (irq, Some (c\<lparr>intc_data := d\<rparr>)))
           | None \<Rightarrow> (last_irq c + 1, Some (c\<lparr>last_irq := last_irq c + 1\<rparr>))))"

definition intc_call :: "(u32 \<Rightarrow> 's \<Rightarrow> bool \<times> 's) \<Rightarrow> u32 \<Rightarrow> 's rvvm_intc \<Rightarrow> bool \<times> 's rvvm_intc option" where
  "intc_call f irq c = (let (ok, d) = f irq (intc_data c) in (ok, Some (c\<lparr>intc_data := d\<rparr>)))"

definition rvvm_send_irq :: "u32 \<Rightarrow> 's rvvm_intc option \<Rightarrow> bool \<times> 's rvvm_intc option" where
  "rvvm_send_irq irq intc =
     (case intc of Some c \<Rightarrow> intc_call (intc_send_irq c) irq c | None \<Rightarrow> (False, None))"

definition rvvm_raise_irq :: "u32 \<Rightarrow> 's rvvm_intc option \<Rightarrow> bool \<times> 's rvvm_intc option" where
  "rvvm_raise_irq irq intc =
     (case intc of
        Some c \<Rightarrow> (case intc_raise_irq c of Some f \<Rightarrow> intc_call f irq c | None \<Rightarrow> rvvm_send_irq irq intc)
      | None \<Rightarrow> rvvm_send_irq irq intc)"

definition rvvm_lower_irq :: "u32 \<Rightarrow> 's rvvm_intc option \<Rightarrow> bool \<times> 's rvvm_intc option" where
  "rvvm_lower_irq irq intc =
     (case intc of
        Some c \<Rightarrow> (case intc_lower_irq c of Some f \<Rightarrow> intc_call f irq c | None \<Rightarrow> (False, intc))
      | None \<Rightarrow> (False, None))"

section \<open>User threads\<close>

definition rvvm_create_user_thread :: "'d rvvm_machine \<Rightarrow> host_mem \<Rightarrow> u64 \<Rightarrow> u16 \<Rightarrow> 'd \<Rightarrow> 'd rvvm_hart" where
  "rvvm_create_user_thread M hst tm ent dev =
     (let vm = riscv_hart_init M hst tm ent dev;
          c = csr vm;
          vm = vm\<lparr>csr := c\<lparr>csr_counteren := (csr_counteren c)(RISCV_PRIV_MACHINE := 7, RISCV_PRIV_SUPERVISOR := 7),
                           csr_mseccfg := 0x300,
                           csr_envcfg := (csr_envcfg c)(RISCV_PRIV_MACHINE := 0x80000000000000D0,
                                                        RISCV_PRIV_SUPERVISOR := 0xD0)\<rparr>\<rparr>
      in riscv_switch_priv RISCV_PRIV_USER vm)"

abbreviation (input) RVVM_REGID_PC :: nat where "RVVM_REGID_PC \<equiv> 1024"
abbreviation (input) RVVM_REGID_CAUSE :: nat where "RVVM_REGID_CAUSE \<equiv> 1025"
abbreviation (input) RVVM_REGID_TVAL :: nat where "RVVM_REGID_TVAL \<equiv> 1026"

definition rvvm_read_cpu_reg :: "'d rvvm_hart \<Rightarrow> nat \<Rightarrow> u64" where
  "rvvm_read_cpu_reg thread reg_id =
     (if reg_id < 32 then registers thread reg_id
      else if reg_id = RVVM_REGID_PC then registers thread RISCV_REG_PC
      else if reg_id = RVVM_REGID_CAUSE then csr_cause (csr thread) RISCV_PRIV_USER
      else if reg_id = RVVM_REGID_TVAL then csr_tval (csr thread) RISCV_PRIV_USER
      else 0)"

definition rvvm_write_cpu_reg :: "nat \<Rightarrow> u64 \<Rightarrow> 'd rvvm_hart \<Rightarrow> 'd rvvm_hart" where
  "rvvm_write_cpu_reg reg_id reg thread =
     (let c = csr thread
      in if reg_id < 32 then set_reg reg_id reg thread
         else if reg_id = RVVM_REGID_PC then set_reg RISCV_REG_PC reg thread
         else if reg_id = RVVM_REGID_CAUSE
           then thread\<lparr>csr := c\<lparr>csr_cause := (csr_cause c)(RISCV_PRIV_USER := reg)\<rparr>\<rparr>
         else if reg_id = RVVM_REGID_TVAL
           then thread\<lparr>csr := c\<lparr>csr_tval := (csr_tval c)(RISCV_PRIV_USER := reg)\<rparr>\<rparr>
         else thread)"

section \<open>Guest memory stays in bounds\<close>

lemma word_diff_add: "(p + i) - q = (p - q) + (i :: u64)"
  by simp

lemma ram_check_bounds:
  assumes "ram_check r addr sz" "unat addr + unat sz < 2 ^ 64" "unat (ram_addr r) + unat (ram_size r) < 2 ^ 64"
  shows "unat (addr - ram_addr r) + unat sz \<le> unat (ram_size r)"
proof -
  have a: "ram_addr r \<le> addr" "addr + sz \<le> ram_addr r + ram_size r" using assms(1) by (simp_all add: ram_check_def)
  have "unat addr + unat sz \<le> unat (ram_addr r) + unat (ram_size r)"
    using a(2) assms(2,3) by (simp add: word_le_nat_alt unat_plus_small)
  then show ?thesis using a(1) by (simp add: unat_sub word_le_nat_alt)
qed

lemma ram_check_host:
  assumes "ram_check r addr sz" "unat addr + unat sz < 2 ^ 64" "unat (ram_addr r) + unat (ram_size r) < 2 ^ 64"
    "i < unat sz"
  shows "ram_host r (ram_data r + (addr - ram_addr r) + of_nat i)"
proof -
  have b: "unat (addr - ram_addr r) + unat sz \<le> unat (ram_size r)" by (rule ram_check_bounds [OF assms(1-3)])
  have "unat (of_nat i :: u64) = i"
    using assms(4) unat_lt [of sz] by (simp add: unat_of_nat_small)
  then have "unat ((addr - ram_addr r) + of_nat i) = unat (addr - ram_addr r) + i"
    using b assms(4) unat_lt [of "ram_size r"] by (simp add: unat_plus_small)
  moreover have "ram_data r + (addr - ram_addr r) + of_nat i - ram_data r = (addr - ram_addr r) + of_nat i" by simp
  ultimately show ?thesis using b assms(4) unfolding ram_host_def word_less_nat_alt by (simp only:)
qed

lemma write_ram_outside:
  assumes "unat dest + length src < 2 ^ 64" "unat (ram_addr r) + unat (ram_size r) < 2 ^ 64" "\<not> ram_host r a"
  shows "snd (rvvm_write_ram r dest src m) a = m a"
proof (cases "ram_check r dest (of_nat (length src))")
  case True
  have l: "unat (of_nat (length src) :: u64) = length src" using assms(1) by (simp add: unat_of_nat_small)
  let ?p = "ram_data r + (dest - ram_addr r)"
  have "length src \<le> unat (a - ?p)"
  proof (rule ccontr)
    assume c: "\<not> length src \<le> unat (a - ?p)"
    then have "ram_host r (?p + of_nat (unat (a - ?p)))"
      using ram_check_host [OF True _ assms(2), of "unat (a - ?p)"] assms(1) l by simp
    then show False using assms(3) by simp
  qed
  then show ?thesis using True by (simp add: rvvm_write_ram_def write_bytes_other)
qed (simp add: rvvm_write_ram_def)

lemma read_write_ram:
  assumes "rvvm_write_ram r dest src m = (True, m')" "length src < 2 ^ 64"
  shows "rvvm_read_ram r dest (of_nat (length src)) m' = Some src"
proof -
  have l: "unat (of_nat (length src) :: u64) = length src" using assms(2) by (simp add: unat_of_nat_small)
  show ?thesis using assms
    by (auto simp: rvvm_write_ram_def rvvm_read_ram_def l simp del: of_nat_mult split: if_splits)
qed

section \<open>Device regions do not overlap\<close>

definition region_fits :: "u64 \<Rightarrow> u64 \<Rightarrow> bool" where
  "region_fits addr sz \<longleftrightarrow> unat addr + unat sz + 0xFFF < 2 ^ 64"

definition region_disjoint :: "u64 \<Rightarrow> u64 \<Rightarrow> u64 \<Rightarrow> u64 \<Rightarrow> bool" where
  "region_disjoint a1 s1 a2 s2 \<longleftrightarrow>
     {unat a1 ..< unat a1 + unat s1} \<inter> {unat a2 ..< unat a2 + unat s2} = {}"

lemma overlap_check_sound:
  assumes "\<not> rvvm_mmio_overlap_check a1 s1 a2 s2" "region_fits a1 s1" "region_fits a2 s2"
  shows "region_disjoint a1 s1 a2 s2"
  using assms by (auto simp: rvvm_mmio_overlap_check_def region_fits_def region_disjoint_def
      word_less_nat_alt unat_plus_small)

lemma region_end_above:
  assumes "region_fits addr sz"
  shows "unat addr + unat sz \<le> unat (region_end addr sz)"
proof -
  let ?e = "addr + sz + 0xFFF"
  have e: "unat ?e = unat addr + unat sz + 0xFFF"
    using assms unfolding region_fits_def by (subst unat_plus_small; subst unat_plus_small; simp)
  have s: "(?e AND NOT 0xFFF) + (?e AND 0xFFF) = ?e"
    unfolding mask_12 by (rule word_split_page [symmetric])
  have le: "?e AND 0xFFF \<le> 0xFFF" by (rule word_and_le1)
  have "?e AND NOT 0xFFF = ?e - (?e AND 0xFFF)" using s by (metis add_diff_cancel_right')
  then have "unat (?e AND NOT 0xFFF) = unat ?e - unat (?e AND 0xFFF)"
    using word_and_le2 [of ?e "0xFFF"] by (simp only: unat_sub)
  then show ?thesis using e le by (simp add: region_end_def word_le_nat_alt)
qed

definition zones_fit :: "'d rvvm_machine \<Rightarrow> bool" where
  "zones_fit M \<longleftrightarrow> region_fits (ram_addr (m_mem M)) (ram_size (m_mem M)) \<and>
     (\<forall>dev \<in> set (m_mmio_devs M). region_fits (mmio_addr dev) (mmio_size dev))"

lemma zone_conflict_increases:
  assumes "zones_fit M" "mmio_zone_conflict M sz a = Some a'"
  shows "a < a'"
proof -
  have up: "a < region_end x s" if "rvvm_mmio_overlap_check a sz x s" "region_fits x s" for x s
    using that region_end_above [OF that(2)]
    by (simp add: rvvm_mmio_overlap_check_def word_less_nat_alt region_fits_def unat_plus_small)
  from assms(2) show ?thesis
    using assms(1) up
    by (auto simp: mmio_zone_conflict_def zones_fit_def find_Some_iff split: if_splits) 
qed

lemma zone_auto_terminates:
  assumes "zones_fit M"
  shows "\<exists>a. rvvm_mmio_zone_auto M addr sz = Some a"
proof (cases "sz = 0")
  case False
  have "\<exists>a. while_option (\<lambda>a. mmio_zone_conflict M sz a \<noteq> None) (\<lambda>a. the (mmio_zone_conflict M sz a)) addr = Some a"
  proof (rule measure_while_option_Some [where P = "\<lambda>_. True" and f = "\<lambda>a. 2 ^ 64 - unat a"])
    fix a assume "mmio_zone_conflict M sz a \<noteq> None"
    then obtain a' where a': "mmio_zone_conflict M sz a = Some a'" by auto
    then have "unat a < unat a'" using zone_conflict_increases [OF assms] by (simp add: word_less_nat_alt)
    then have "2 ^ 64 - unat a' < 2 ^ 64 - unat a" using unat_lt [of a] by (rule diff_less_mono2)
    then show "True \<and> 2 ^ 64 - unat (the (mmio_zone_conflict M sz a)) < 2 ^ 64 - unat a" by (simp only: a' option.sel simp_thms)
  qed simp
  then show ?thesis using False by (simp add: rvvm_mmio_zone_auto_def)
qed (simp add: rvvm_mmio_zone_auto_def)

lemma zone_auto_free:
  assumes "rvvm_mmio_zone_auto M addr sz = Some a" "sz \<noteq> 0"
  shows "\<not> rvvm_mmio_overlap_check a sz (ram_addr (m_mem M)) (ram_size (m_mem M)) \<and>
    (\<forall>dev \<in> set (m_mmio_devs M). \<not> rvvm_mmio_overlap_check a sz (mmio_addr dev) (mmio_size dev))"
proof -
  have "mmio_zone_conflict M sz a = None"
    using while_option_stop [OF assms(1) [unfolded rvvm_mmio_zone_auto_def if_P [OF assms(2)]]] by simp
  then show ?thesis by (auto simp: mmio_zone_conflict_def find_None_iff split: if_splits)
qed

definition zones_disjoint :: "'d rvvm_machine \<Rightarrow> bool" where
  "zones_disjoint M \<longleftrightarrow>
     (\<forall>dev \<in> set (m_mmio_devs M). region_disjoint (mmio_addr dev) (mmio_size dev) (ram_addr (m_mem M)) (ram_size (m_mem M))) \<and>
     (\<forall>i j. i < j \<and> j < length (m_mmio_devs M) \<longrightarrow>
        region_disjoint (mmio_addr (m_mmio_devs M ! j)) (mmio_size (m_mmio_devs M ! j))
                        (mmio_addr (m_mmio_devs M ! i)) (mmio_size (m_mmio_devs M ! i)))"

lemma region_disjoint_empty [simp]: "region_disjoint a 0 b s"
  by (simp add: region_disjoint_def)

lemma attach_disjoint:
  assumes "rvvm_attach_mmio M desc = Some (Some (dev, M'))" "zones_fit M" "zones_disjoint M"
    "region_fits (mmio_addr desc) (mmio_size desc)"
  shows "zones_disjoint M' \<and> zones_fit M'"
proof -
  have d: "mmio_addr dev = mmio_addr desc" "mmio_size dev = mmio_size desc"
      and M': "M' = M\<lparr>m_mmio_devs := m_mmio_devs M @ [dev]\<rparr>"
      and z: "rvvm_mmio_zone_auto M (mmio_addr dev) (mmio_size dev) = Some (mmio_addr dev)"
    using assms(1) by (auto simp: rvvm_attach_mmio_def mmio_normalize_def Let_def split: if_splits option.splits)
  have free: "region_disjoint (mmio_addr dev) (mmio_size dev) x s"
    if "region_fits x s" "mmio_size dev \<noteq> 0 \<Longrightarrow> \<not> rvvm_mmio_overlap_check (mmio_addr dev) (mmio_size dev) x s" for x s
    using that overlap_check_sound [of "mmio_addr dev" "mmio_size dev" x s] assms(4) d
    by (cases "mmio_size dev = 0") simp_all
  show ?thesis
    using assms(2-4) zone_auto_free [OF z] free
    by (auto simp: zones_disjoint_def zones_fit_def M' d nth_append less_Suc_eq)
qed

section \<open>Isolation\<close>

lemma good_init: "hart_good M hst (riscv_hart_init M hst tm ent dev)"
proof -
  have "mem (riscv_csr_init vm) = mem vm" "host (riscv_csr_init vm) = host vm" "fatal (riscv_csr_init vm) = fatal vm"
      "priv_mode (riscv_csr_init vm) = priv_mode vm" "root_page_table (riscv_csr_init vm) = root_page_table vm"
      "csr_edeleg (csr vm) = (\<lambda>_. 0) \<and> csr_ideleg (csr vm) = (\<lambda>_. 0) \<and> csr_status (csr vm) = 0 \<Longrightarrow> csr_inv (csr (riscv_csr_init vm))"
      for vm :: "'a rvvm_hart"
    by (simp_all add: riscv_csr_init_def Let_def csr_inv_def bit_cut_def bit_ext_u64_def)
  note f = this
  show ?thesis unfolding riscv_hart_init_def Let_def hart_good_def
    by (simp add: tlb_safe_flush f)
qed

context mmio_bus
begin

lemma reachable_good:
  "\<lbrakk>(hart_step M)\<^sup>*\<^sup>* s t; hart_good M h0 (snd s)\<rbrakk> \<Longrightarrow> hart_good M h0 (snd t)"
  by (induction rule: rtranclp_induct) (auto dest: hart_step_good)

end

lemma good_reset_hart:
  assumes "hart_good M h0 vm"
  shows "hart_good M h0 (reset_hart i fdt pc vm)"
  using assms unfolding reset_hart_def Let_def
  by (intro good_switch_priv) (auto simp: hart_good_def csr_inv_def bit_cut_def bit_ext_u64_def)

lemma reachable_from_reset:
  assumes "mmio_bus M"
    "(hart_step M)\<^sup>*\<^sup>* (Idle, reset_hart i fdt pc (riscv_hart_init M hst tm ent dev)) (ph, vm)"
  shows "hart_good M hst vm"
  using mmio_bus.reachable_good [OF assms] good_reset_hart [OF good_init] by (metis snd_conv)

lemma host_guest_removed:
  assumes "i < length (m_mmio_devs M)" "mmio_mapping (m_mmio_devs M ! i) = 0"
  shows "host_guest (M\<lparr>m_mmio_devs := take i (m_mmio_devs M) @ drop (Suc i) (m_mmio_devs M)\<rparr>) = host_guest M"
proof -
  have "set (m_mmio_devs M) = insert (m_mmio_devs M ! i) (set (take i (m_mmio_devs M)) \<union> set (drop (Suc i) (m_mmio_devs M)))"
    using assms(1) by (subst id_take_nth_drop [OF assms(1)]) auto
  then show ?thesis using assms(2) by (intro ext) (auto simp: host_guest_def)
qed

lemma good_remove_mmio:
  assumes "i < length (m_mmio_devs (sys_machine s))"
    "\<forall>vm \<in> set (sys_harts s). hart_good (sys_machine s) (host vm) vm"
  shows "\<forall>vm \<in> set (sys_harts (rvvm_remove_mmio i s)). hart_good (sys_machine (rvvm_remove_mmio i s)) (host vm) vm"
proof (cases "mmio_mapping (m_mmio_devs (sys_machine s) ! i) = 0")
  case True
  note h = host_guest_removed [OF assms(1) True]
  show ?thesis using assms(2) True
    by (simp add: rvvm_remove_mmio_def Let_def hart_good_def tlb_safe_def h)
next
  case False
  then show ?thesis using assms(2)
    by (auto simp: rvvm_remove_mmio_def Let_def hart_good_def tlb_safe_flush)
qed

section \<open>Creation and reset\<close>

lemma create_machine_good:
  assumes "rvvm_create_machine alloc env hst tm ent dev mem_size n isa = Some s"
  shows "length (sys_harts s) = n \<and> 0 < n \<and> m_mmio_devs (sys_machine s) = []
    \<and> ram_addr (m_mem (sys_machine s)) AND 0xFFF = 0 \<and> ram_size (m_mem (sys_machine s)) AND 0xFFF = 0
    \<and> (\<forall>vm \<in> set (sys_harts s). hart_good (sys_machine s) hst vm)"
  using assms
  by (auto simp: rvvm_create_machine_def riscv_init_ram_def rvvm_set_opt_def good_init Let_def
      split: if_splits option.splits)

lemma reset_hart_state:
  "registers (reset_hart i fdt pc vm) = (registers vm)(10 := of_nat i, 11 := fdt, RISCV_REG_PC := pc)"
  "priv_mode (reset_hart i fdt pc vm) = RISCV_PRIV_MACHINE" "status (reset_hart i fdt pc vm) = 0"
  "csr_hartid (csr (reset_hart i fdt pc vm)) = of_nat i" "lrsc (reset_hart i fdt pc vm) = False"
  "csr_isa (csr (reset_hart i fdt pc vm)) = csr_isa (csr vm)"
  by (simp_all add: reset_hart_def Let_def riscv_switch_priv_def)
    (simp add: riscv_tlb_flush_def riscv_update_xlen_def riscv_restart_dispatch_def Let_def)

lemma reset_drops_width:
  assumes "p = RISCV_PRIV_USER \<or> p = RISCV_PRIV_SUPERVISOR"
  shows "\<not> rv64 (riscv_switch_priv p (reset_hart i fdt pc vm))"
  using assms by (auto simp: riscv_switch_priv_def reset_hart_state riscv_update_xlen_def bit_check_def Let_def)

lemma eventloop_preempt_bounds:
  assumes "cent < 100"
  shows "1 \<le> unat (eventloop_preempt cent) \<and> unat (eventloop_preempt cent) \<le> 10"
proof -
  have c: "unat cent < 100" using assms by (simp add: word_less_nat_alt)
  have m: "unat (10 * cent) = 10 * unat cent" using c by (subst unat_mult_small) simp_all
  have p: "unat (10 * cent + 9) = 10 * unat cent + 9" using c m by (subst unat_plus_small) simp_all
  have d: "unat ((10 * cent + 9) div 100) = (10 * unat cent + 9) div 100" by (simp add: unat_div p)
  have "(10 * cent + 9) div 100 \<le> 10" using c d by (simp add: word_le_nat_alt)
  then have "unat (10 - (10 * cent + 9) div 100) = 10 - (10 * unat cent + 9) div 100"
    by (simp only: unat_sub d) simp
  moreover have "unat (ucast (10 - (10 * cent + 9) div 100) :: u32) = unat (10 - (10 * cent + 9) div 100)"
    using calculation by (intro unat_ucast_small) simp
  ultimately show ?thesis using c by (simp add: eventloop_preempt_def)
qed

end
