(* ===== verification/RVVM_PLIC.thy ===== *)
theory RVVM_PLIC
  imports RVVM_Machine
begin

text \<open>
  The platform level interrupt controller of src/rvvm/src/devices/riscv-plic.c: the state of the
  controller next to the list of harts it interrupts.  A context is a hart in machine mode (even)
  or supervisor mode (odd).  The arrays are functions from indices; the handlers check the indices
  the guest chooses except for the completed interrupt, so completion of an interrupt outside the
  arrays has no result.
\<close>

unbundle bit_operations_syntax

section \<open>State\<close>

record plic_ctx =
  plic_prio :: "nat \<Rightarrow> u32"
  plic_pending :: "nat \<Rightarrow> u32"
  plic_raised :: "nat \<Rightarrow> u32"
  plic_enable :: "nat \<Rightarrow> nat \<Rightarrow> u32"
  plic_threshold :: "nat \<Rightarrow> u32"
  workaround_intx_storm :: bool

type_synonym 'd plic_state = "plic_ctx \<times> 'd rvvm_hart list"

abbreviation (input) PLIC_SRC_LIMIT :: nat where "PLIC_SRC_LIMIT \<equiv> 64"
abbreviation (input) PLIC_SRC_REGS :: nat where "PLIC_SRC_REGS \<equiv> 2"

definition plic_ctx_prio :: "nat \<Rightarrow> nat" where
  "plic_ctx_prio ctx = (if odd ctx then RISCV_INTERRUPT_SEXTERNAL else RISCV_INTERRUPT_MEXTERNAL)"

definition plic_ctx_hartid :: "nat \<Rightarrow> nat" where
  "plic_ctx_hartid ctx = ctx div 2"

definition plic_ctx_count :: "'d plic_state \<Rightarrow> nat" where
  "plic_ctx_count s = 2 * length (snd s)"

definition plic_irq_pending :: "plic_ctx \<Rightarrow> nat \<Rightarrow> bool" where
  "plic_irq_pending p irq = bit (plic_pending p (irq div 32)) (irq mod 32)"

definition plic_irq_enabled :: "plic_ctx \<Rightarrow> nat \<Rightarrow> nat \<Rightarrow> bool" where
  "plic_irq_enabled p ctx irq = bit (plic_enable p ctx (irq div 32)) (irq mod 32)"

section \<open>Notification\<close>

definition plic_interrupt :: "nat \<Rightarrow> 'd rvvm_hart list \<Rightarrow> 'd rvvm_hart list" where
  "plic_interrupt ctx harts =
     harts[plic_ctx_hartid ctx := riscv_interrupt (plic_ctx_prio ctx) (harts ! plic_ctx_hartid ctx)]"

definition plic_interrupt_clear :: "nat \<Rightarrow> 'd rvvm_hart list \<Rightarrow> 'd rvvm_hart list" where
  "plic_interrupt_clear ctx harts =
     harts[plic_ctx_hartid ctx := riscv_interrupt_clear (plic_ctx_prio ctx) (harts ! plic_ctx_hartid ctx)]"

definition plic_notify_ctx_irq :: "nat \<Rightarrow> nat \<Rightarrow> 'd plic_state \<Rightarrow> bool \<times> 'd plic_state" where
  "plic_notify_ctx_irq ctx irq = (\<lambda>(p, harts).
     if \<not> plic_irq_enabled p ctx irq then (False, (p, harts))
     else if plic_prio p irq \<le> plic_threshold p ctx then (False, (p, harts))
     else (True, (p, plic_interrupt ctx harts)))"

fun plic_notify_scan :: "nat list \<Rightarrow> nat \<Rightarrow> 'd plic_state \<Rightarrow> 'd plic_state" where
  "plic_notify_scan [] irq s = s"
| "plic_notify_scan (ctx # cs) irq s =
     (case plic_notify_ctx_irq ctx irq s of
        (True, s) \<Rightarrow> s
      | (False, s) \<Rightarrow> plic_notify_scan cs irq s)"

definition plic_notify_irq :: "nat \<Rightarrow> 'd plic_state \<Rightarrow> 'd plic_state" where
  "plic_notify_irq irq s = plic_notify_scan [0..<plic_ctx_count s] irq s"

definition plic_update_irq :: "nat \<Rightarrow> 'd plic_state \<Rightarrow> 'd plic_state" where
  "plic_update_irq irq s = (if plic_irq_pending (fst s) irq then plic_notify_irq irq s else s)"

definition plic_update_ctx_irq_reg :: "nat \<Rightarrow> nat \<Rightarrow> 'd plic_state \<Rightarrow> 'd plic_state" where
  "plic_update_ctx_irq_reg ctx reg s =
     (if plic_pending (fst s) reg AND plic_enable (fst s) ctx reg \<noteq> 0
      then fold (\<lambda>i. plic_update_irq (32 * reg + i)) [0..<32] s else s)"

section \<open>Updating a context\<close>

text \<open>
  The scan of \<open>plic_update_ctx\<close> over the interrupts in ascending order: the number of interrupts
  above the threshold, the interrupt of highest priority and its priority.
\<close>

fun plic_scan :: "plic_ctx \<Rightarrow> nat \<Rightarrow> nat list \<Rightarrow> nat \<times> nat \<times> u32 \<Rightarrow> nat \<times> nat \<times> u32" where
  "plic_scan p ctx [] acc = acc"
| "plic_scan p ctx (irq # irqs) (notifying, highest, max_prio) =
     (if plic_irq_pending p irq \<and> plic_irq_enabled p ctx irq
      then plic_scan p ctx irqs
             (if plic_threshold p ctx < plic_prio p irq then notifying + 1 else notifying,
              if max_prio < plic_prio p irq then irq else highest,
              if max_prio < plic_prio p irq then plic_prio p irq else max_prio)
      else plic_scan p ctx irqs (notifying, highest, max_prio))"

definition plic_update_ctx :: "nat \<Rightarrow> bool \<Rightarrow> 'd plic_state \<Rightarrow> nat \<times> 'd plic_state" where
  "plic_update_ctx ctx claim = (\<lambda>(p, harts).
     let harts = plic_interrupt_clear ctx harts;
         (notifying, highest, max_prio) = plic_scan p ctx [0..<PLIC_SRC_LIMIT] (0, 0, 0);
         notifying = (if claim \<and> plic_threshold p ctx < max_prio then notifying - 1 else notifying);
         harts = (if notifying \<noteq> 0 then plic_interrupt ctx harts else harts)
     in (highest, (p, harts)))"

definition plic_full_update :: "'d plic_state \<Rightarrow> 'd plic_state" where
  "plic_full_update s = fold (\<lambda>ctx s. snd (plic_update_ctx ctx False s)) [0..<plic_ctx_count s] s"

section \<open>Register writes\<close>

definition plic_set_irq_prio :: "nat \<Rightarrow> u32 \<Rightarrow> 'd plic_state \<Rightarrow> 'd plic_state" where
  "plic_set_irq_prio irq prio = (\<lambda>(p, harts).
     let old = plic_prio p irq; s = (p\<lparr>plic_prio := (plic_prio p)(irq := prio)\<rparr>, harts)
     in if prio < old then (if plic_irq_pending p irq then plic_full_update s else s)
        else if old < prio then plic_update_irq irq s else s)"

definition plic_set_enable_bits :: "nat \<Rightarrow> nat \<Rightarrow> u32 \<Rightarrow> 'd plic_state \<Rightarrow> 'd plic_state" where
  "plic_set_enable_bits ctx reg enable = (\<lambda>(p, harts).
     let old = plic_enable p ctx reg;
         s = (p\<lparr>plic_enable := (plic_enable p)(ctx := (plic_enable p ctx)(reg := enable))\<rparr>, harts);
         irqs_disabled = old AND NOT enable
     in if irqs_disabled \<noteq> 0
        then (if irqs_disabled AND plic_pending p reg \<noteq> 0 then plic_full_update s else s)
        else if enable AND NOT old \<noteq> 0 then plic_update_ctx_irq_reg ctx reg s else s)"

definition plic_set_ctx_threshold :: "nat \<Rightarrow> u32 \<Rightarrow> 'd plic_state \<Rightarrow> 'd plic_state" where
  "plic_set_ctx_threshold ctx threshold = (\<lambda>(p, harts).
     let s = (p\<lparr>plic_threshold := (plic_threshold p)(ctx := threshold)\<rparr>, harts)
     in if plic_threshold p ctx \<noteq> threshold then snd (plic_update_ctx ctx False s) else s)"

text \<open>
  A claim takes the pending bit of the interrupt the update selects.  No other thread runs between
  the two, so the retry of the loop is not taken.
\<close>

definition plic_claim_irq :: "nat \<Rightarrow> 'd plic_state \<Rightarrow> nat \<times> 'd plic_state" where
  "plic_claim_irq ctx s =
     (case plic_update_ctx ctx True s of
        (irq, (p, harts)) \<Rightarrow>
          if irq \<noteq> 0
          then (irq, (p\<lparr>plic_pending := (plic_pending p)(irq div 32 :=
                        plic_pending p (irq div 32) AND NOT (push_bit (irq mod 32) 1))\<rparr>, harts))
          else (irq, (p, harts)))"

definition plic_complete_irq :: "nat \<Rightarrow> u32 \<Rightarrow> 'd plic_state \<Rightarrow> 'd plic_state option" where
  "plic_complete_irq ctx irq0 = (\<lambda>(p, harts).
     let irq = unat irq0
     in if PLIC_SRC_REGS \<le> irq div 32 then None
        else (let raised = plic_raised p (irq div 32) AND push_bit (irq mod 32) 1
              in if raised \<noteq> 0
                 then (let p = p\<lparr>plic_pending := (plic_pending p)(irq div 32 := plic_pending p (irq div 32) OR raised)\<rparr>
                       in if \<not> workaround_intx_storm p then Some (snd (plic_notify_ctx_irq ctx irq (p, harts)))
                          else Some (p, harts))
                 else Some (p, harts)))"

section \<open>Handlers\<close>

definition plic_mmio_read :: "u8 list \<Rightarrow> u64 \<Rightarrow> u8 \<Rightarrow> 'd plic_state \<Rightarrow> bool \<times> u8 list \<times> 'd plic_state" where
  "plic_mmio_read data0 offset sz s =
     (let data = rvvm_mmio_none data0 (unat sz); p = fst s; put = (\<lambda>v :: u32. buf_write data 0 (le_bytes 4 v))
      in if offset < 0x1000 then
           (let irq = unat (drop_bit 2 offset)
            in if 0 < irq \<and> irq < PLIC_SRC_LIMIT then (True, put (plic_prio p irq), s) else (True, data, s))
         else if offset < 0x1080 then
           (let reg = unat (drop_bit 2 (offset - 0x1000))
            in if reg < PLIC_SRC_REGS then (True, put (plic_pending p reg), s) else (True, data, s))
         else if offset < 0x2000 then (True, data, s)
         else if offset < 0x1F2000 then
           (let reg = unat (drop_bit 2 (offset - 0x2000) AND 0x1F); ctx = unat (drop_bit 7 (offset - 0x2000))
            in if reg < PLIC_SRC_REGS \<and> ctx < plic_ctx_count s then (True, put (plic_enable p ctx reg), s)
               else (True, data, s))
         else if offset < 0x200000 then (True, data, s)
         else if offset < 0x4000000 then
           (let flag = drop_bit 2 (offset - 0x200000) AND 0x3FF; ctx = unat (drop_bit 12 (offset - 0x200000))
            in if ctx < plic_ctx_count s then
                 (if flag = 1 then (case plic_claim_irq ctx s of (irq, s) \<Rightarrow> (True, put (of_nat irq), s))
                  else if flag = 0 then (True, put (plic_threshold p ctx), s)
                  else (True, data, s))
               else (True, data, s))
         else (True, data, s))"

definition plic_mmio_write :: "u8 list \<Rightarrow> u64 \<Rightarrow> u8 \<Rightarrow> 'd plic_state \<Rightarrow> 'd plic_state option" where
  "plic_mmio_write data offset sz s =
     (let v = le_val (take 4 data) :: u32
      in if offset < 0x1000 then
           (let irq = unat (drop_bit 2 offset)
            in if 0 < irq \<and> irq < PLIC_SRC_LIMIT then Some (plic_set_irq_prio irq v s) else Some s)
         else if offset < 0x2000 then Some s
         else if offset < 0x1F2000 then
           (let reg = unat (drop_bit 2 (offset - 0x2000) AND 0x1F); ctx = unat (drop_bit 7 (offset - 0x2000))
            in if reg < PLIC_SRC_REGS \<and> ctx < plic_ctx_count s then Some (plic_set_enable_bits ctx reg v s)
               else Some s)
         else if offset < 0x200000 then Some s
         else if offset < 0x4000000 then
           (let flag = drop_bit 2 (offset - 0x200000) AND 0x3FF; ctx = unat (drop_bit 12 (offset - 0x200000))
            in if ctx < plic_ctx_count s then
                 (if flag = 1 then plic_complete_irq ctx v s
                  else if flag = 0 then Some (plic_set_ctx_threshold ctx v s)
                  else Some s)
               else Some s)
         else Some s)"

definition plic_reset :: "'d plic_state \<Rightarrow> 'd plic_state" where
  "plic_reset = (\<lambda>(p, harts).
     (p\<lparr>plic_prio := (\<lambda>_. 0), plic_pending := (\<lambda>_. 0), plic_raised := (\<lambda>_. 0), plic_enable := (\<lambda>_ _. 0),
        plic_threshold := (\<lambda>_. 0)\<rparr>,
      fold plic_interrupt_clear [0..<plic_ctx_count (p, harts)] harts))"

definition plic_update :: "'d plic_state \<Rightarrow> 'd plic_state" where
  "plic_update s = (if workaround_intx_storm (fst s) then plic_full_update s else s)"

section \<open>Interrupt interface\<close>

definition set_bit_in :: "(nat \<Rightarrow> u32) \<Rightarrow> nat \<Rightarrow> nat \<Rightarrow> u32" where
  "set_bit_in f irq = f(irq div 32 := f (irq div 32) OR push_bit (irq mod 32) 1)"

definition plic_send_irq :: "u32 \<Rightarrow> 'd plic_state \<Rightarrow> bool \<times> 'd plic_state" where
  "plic_send_irq irq0 = (\<lambda>(p, harts).
     let irq = unat irq0
     in if 0 < irq \<and> irq < PLIC_SRC_LIMIT
        then (let s = (p\<lparr>plic_pending := set_bit_in (plic_pending p) irq\<rparr>, harts)
              in (True, if plic_irq_pending p irq then s else plic_notify_irq irq s))
        else (False, (p, harts)))"

definition plic_raise_irq :: "u32 \<Rightarrow> 'd plic_state \<Rightarrow> bool \<times> 'd plic_state" where
  "plic_raise_irq irq0 = (\<lambda>(p, harts).
     let irq = unat irq0
     in if 0 < irq \<and> irq < PLIC_SRC_LIMIT
        then (let p' = p\<lparr>plic_raised := set_bit_in (plic_raised p) irq\<rparr>
              in if bit (plic_raised p (irq div 32)) (irq mod 32) then (True, (p', harts))
                 else (let s = (p'\<lparr>plic_pending := set_bit_in (plic_pending p) irq\<rparr>, harts)
                       in (True, if plic_irq_pending p irq then s else plic_notify_irq irq s)))
        else (False, (p, harts)))"

definition plic_lower_irq :: "u32 \<Rightarrow> 'd plic_state \<Rightarrow> bool \<times> 'd plic_state" where
  "plic_lower_irq irq0 = (\<lambda>(p, harts).
     let irq = unat irq0
     in if 0 < irq \<and> irq < PLIC_SRC_LIMIT
        then (True, (p\<lparr>plic_raised := (plic_raised p)(irq div 32 :=
                         plic_raised p (irq div 32) AND NOT (push_bit (irq mod 32) 1))\<rparr>, harts))
        else (False, (p, harts)))"

definition plic_intc :: "'d plic_state \<Rightarrow> 'd plic_state rvvm_intc" where
  "plic_intc s = \<lparr>last_irq = 0, intc_data = s, intc_send_irq = plic_send_irq,
     intc_raise_irq = Some plic_raise_irq, intc_lower_irq = Some plic_lower_irq, intc_alloc_irq = None\<rparr>"

section \<open>Interrupt lines\<close>

definition plic_line :: "nat \<Rightarrow> 'd rvvm_hart list \<Rightarrow> bool" where
  "plic_line ctx harts = bit (pending_irqs (harts ! plic_ctx_hartid ctx)) (plic_ctx_prio ctx)"

definition plic_deliverable :: "plic_ctx \<Rightarrow> nat \<Rightarrow> nat \<Rightarrow> bool" where
  "plic_deliverable p ctx irq \<longleftrightarrow> irq < PLIC_SRC_LIMIT \<and> plic_irq_pending p irq \<and> plic_irq_enabled p ctx irq"

lemma plic_ctx_inj: "\<lbrakk>plic_ctx_hartid c = plic_ctx_hartid d; plic_ctx_prio c = plic_ctx_prio d\<rbrakk> \<Longrightarrow> c = d"
  by (simp add: plic_ctx_hartid_def plic_ctx_prio_def split: if_splits) (metis div_mult_mod_eq odd_iff_mod_2_eq_one even_iff_mod_2_eq_zero)+

lemma bit_single: "k < 32 \<Longrightarrow> bit (push_bit n 1 :: u32) k \<longleftrightarrow> n = k"
  by (auto simp: bit_exp_iff)

lemma pending_interrupt:
  "n < 32 \<Longrightarrow> pending_irqs (riscv_interrupt n vm) = pending_irqs vm OR push_bit n 1"
  "pending_irqs (riscv_interrupt_clear n vm) = pending_irqs vm AND NOT (push_bit n 1)"
  by (simp_all add: riscv_interrupt_def riscv_interrupt_set_def riscv_interrupt_clear_def riscv_hart_notify_def
      riscv_restart_dispatch_def Let_def)

lemma length_plic_lines [simp]:
  "length (plic_interrupt ctx harts) = length harts" "length (plic_interrupt_clear ctx harts) = length harts"
  by (simp_all add: plic_interrupt_def plic_interrupt_clear_def)

lemma plic_line_interrupt:
  assumes "plic_ctx_hartid d < length harts"
  shows "plic_line d (plic_interrupt ctx harts) \<longleftrightarrow> d = ctx \<or> plic_line d harts"
    "plic_line d (plic_interrupt_clear ctx harts) \<longleftrightarrow> d \<noteq> ctx \<and> plic_line d harts"
proof -
  have c: "plic_ctx_prio e < 32" for e by (simp add: plic_ctx_prio_def)
  show "plic_line d (plic_interrupt ctx harts) \<longleftrightarrow> d = ctx \<or> plic_line d harts"
    using assms plic_ctx_inj [of d ctx]
    by (cases "plic_ctx_hartid d = plic_ctx_hartid ctx")
      (auto simp: plic_line_def plic_interrupt_def pending_interrupt(1) [OF c] bit_or_iff c bit_exp_iff)
  show "plic_line d (plic_interrupt_clear ctx harts) \<longleftrightarrow> d \<noteq> ctx \<and> plic_line d harts"
    using assms plic_ctx_inj [of d ctx]
    by (cases "plic_ctx_hartid d = plic_ctx_hartid ctx")
      (auto simp: plic_line_def plic_interrupt_clear_def pending_interrupt(2) bit_and_iff bit_not_iff bit_exp_iff c)
qed

section \<open>Updates\<close>

abbreviation plic_above :: "plic_ctx \<Rightarrow> nat \<Rightarrow> nat list \<Rightarrow> nat" where
  "plic_above p ctx irqs \<equiv> length (filter (\<lambda>irq. plic_irq_pending p irq \<and> plic_irq_enabled p ctx irq \<and>
     plic_threshold p ctx < plic_prio p irq) irqs)"

lemma plic_scan_count: "fst (plic_scan p ctx irqs (n, h, m)) = n + plic_above p ctx irqs"
  by (induction irqs arbitrary: n h m) auto

lemma plic_scan_max:
  assumes "plic_scan p ctx irqs (n, h, m) = (n', h', m')"
  shows "m \<le> m' \<and> (\<forall>i \<in> set irqs. plic_irq_pending p i \<and> plic_irq_enabled p ctx i \<longrightarrow> plic_prio p i \<le> m') \<and>
    (m' = m \<and> h' = h \<or>
     m < m' \<and> h' \<in> set irqs \<and> plic_irq_pending p h' \<and> plic_irq_enabled p ctx h' \<and> plic_prio p h' = m')"
  using assms
proof (induction irqs arbitrary: n h m)
  case (Cons i irqs)
  show ?case
  proof (cases "plic_irq_pending p i \<and> plic_irq_enabled p ctx i")
    case True
    show ?thesis
    proof (cases "m < plic_prio p i")
      case less: True
      then have "\<exists>k. plic_scan p ctx irqs (k, i, plic_prio p i) = (n', h', m')" using Cons.prems True by auto
      then obtain k where "plic_scan p ctx irqs (k, i, plic_prio p i) = (n', h', m')" ..
      note IH = Cons.IH [OF this]
      have "m < m'" using less IH by (metis order.strict_trans2)
      then show ?thesis using IH True by auto
    next
      case nless: False
      then have "\<exists>k. plic_scan p ctx irqs (k, h, m) = (n', h', m')" using Cons.prems True by auto
      then obtain k where "plic_scan p ctx irqs (k, h, m) = (n', h', m')" ..
      note IH = Cons.IH [OF this]
      have "plic_prio p i \<le> m'" using nless IH by (metis leI order.trans)
      then show ?thesis using IH True by auto
    qed
  next
    case False
    then have "plic_scan p ctx irqs (n, h, m) = (n', h', m')" using Cons.prems by auto
    note IH = Cons.IH [OF this]
    show ?thesis using IH False by auto
  qed
qed auto

lemma plic_update_ctx_line:
  assumes "ctx < plic_ctx_count (p, harts)" "plic_update_ctx ctx False (p, harts) = (irq, (p', harts'))"
  shows "p' = p" "length harts' = length harts"
    "plic_line ctx harts' \<longleftrightarrow> (\<exists>irq. plic_deliverable p ctx irq \<and> plic_threshold p ctx < plic_prio p irq)"
proof -
  obtain n h m where sc: "plic_scan p ctx [0..<PLIC_SRC_LIMIT] (0, 0, 0) = (n, h, m)"
    by (cases "plic_scan p ctx [0..<PLIC_SRC_LIMIT] (0, 0, 0)")
  have n: "n = plic_above p ctx [0..<PLIC_SRC_LIMIT]" using plic_scan_count [of p ctx "[0..<PLIC_SRC_LIMIT]" 0 0 0] sc by simp
  have h: "plic_ctx_hartid ctx < length harts" using assms(1) by (simp add: plic_ctx_count_def plic_ctx_hartid_def)
  have r: "p' = p" "harts' = (if n \<noteq> 0 then plic_interrupt ctx (plic_interrupt_clear ctx harts) else plic_interrupt_clear ctx harts)"
    using assms(2) by (auto simp: plic_update_ctx_def Let_def sc split: if_splits)
  show "p' = p" "length harts' = length harts" using r by simp_all
  have "plic_line ctx harts' \<longleftrightarrow> n \<noteq> 0" using r(2) h by (simp add: plic_line_interrupt)
  then show "plic_line ctx harts' \<longleftrightarrow> (\<exists>irq. plic_deliverable p ctx irq \<and> plic_threshold p ctx < plic_prio p irq)"
    by (auto simp: n filter_empty_conv plic_deliverable_def simp del: upt_eq_Cons_conv)
qed

lemma plic_claim_highest:
  assumes "plic_claim_irq ctx (p, harts) = (irq, (p', harts'))" "irq \<noteq> 0"
  shows "plic_deliverable p ctx irq" "plic_deliverable p ctx i \<Longrightarrow> plic_prio p i \<le> plic_prio p irq"
    "plic_irq_pending p' i \<longleftrightarrow> i \<noteq> irq \<and> plic_irq_pending p i"
proof -
  obtain n h m where sc: "plic_scan p ctx [0..<PLIC_SRC_LIMIT] (0, 0, 0) = (n, h, m)"
    by (cases "plic_scan p ctx [0..<PLIC_SRC_LIMIT] (0, 0, 0)")
  have irq: "irq = h" using assms(1) by (auto simp: plic_claim_irq_def plic_update_ctx_def Let_def sc split: if_splits)
  have p': "p' = p\<lparr>plic_pending := (plic_pending p)(irq div 32 :=
      plic_pending p (irq div 32) AND NOT (push_bit (irq mod 32) 1))\<rparr>"
    using assms by (auto simp: plic_claim_irq_def plic_update_ctx_def Let_def sc split: if_splits)
  note mx = plic_scan_max [OF sc]
  show "plic_deliverable p ctx irq" using mx assms(2) irq by (auto simp: plic_deliverable_def)
  show "plic_prio p i \<le> plic_prio p irq" if "plic_deliverable p ctx i"
    using mx assms(2) irq that by (auto simp: plic_deliverable_def)
  have "i = irq \<longleftrightarrow> i div 32 = irq div 32 \<and> i mod 32 = irq mod 32" by (metis div_mult_mod_eq)
  then show "plic_irq_pending p' i \<longleftrightarrow> i \<noteq> irq \<and> plic_irq_pending p i"
    by (auto simp: p' plic_irq_pending_def bit_and_iff bit_not_iff bit_exp_iff)
qed

lemma plic_claim_none:
  assumes "plic_claim_irq ctx (p, harts) = (0, s')" "plic_prio p 0 = 0" "plic_deliverable p ctx i"
  shows "plic_prio p i = 0"
proof -
  obtain n h m where sc: "plic_scan p ctx [0..<PLIC_SRC_LIMIT] (0, 0, 0) = (n, h, m)"
    by (cases "plic_scan p ctx [0..<PLIC_SRC_LIMIT] (0, 0, 0)")
  have "h = 0" using assms(1) by (auto simp: plic_claim_irq_def plic_update_ctx_def Let_def sc split: if_splits)
  then show ?thesis using plic_scan_max [OF sc] assms(2,3) by (auto simp: plic_deliverable_def)
qed

section \<open>Delivery\<close>

lemma plic_notify_scan_line:
  assumes "\<exists>c \<in> set cs. plic_irq_enabled p c irq \<and> plic_threshold p c < plic_prio p irq"
    "\<forall>c \<in> set cs. plic_ctx_hartid c < length harts" "plic_notify_scan cs irq (p, harts) = (p', harts')"
  shows "p' = p \<and> (\<exists>c \<in> set cs. plic_irq_enabled p c irq \<and> plic_threshold p c < plic_prio p irq \<and> plic_line c harts')"
  using assms
proof (induction cs)
  case (Cons c cs)
  show ?case
  proof (cases "plic_irq_enabled p c irq \<and> plic_threshold p c < plic_prio p irq")
    case True
    then show ?thesis using Cons.prems by (auto simp: plic_notify_ctx_irq_def plic_line_interrupt split: if_splits)
  next
    case False
    then show ?thesis using Cons by (auto simp: plic_notify_ctx_irq_def not_less split: if_splits)
  qed
qed simp

lemma plic_send_delivers:
  assumes "0 < unat irq" "unat irq < PLIC_SRC_LIMIT" "\<not> plic_irq_pending p (unat irq)"
    "ctx < plic_ctx_count (p, harts)" "plic_irq_enabled p ctx (unat irq)" "plic_threshold p ctx < plic_prio p (unat irq)"
    "plic_send_irq irq (p, harts) = (ok, (p', harts'))"
  shows "ok \<and> plic_irq_pending p' (unat irq) \<and>
    (\<exists>c < plic_ctx_count (p, harts). plic_irq_enabled p c (unat irq) \<and> plic_threshold p c < plic_prio p (unat irq) \<and> plic_line c harts')"
proof -
  let ?p = "p\<lparr>plic_pending := set_bit_in (plic_pending p) (unat irq)\<rparr>"
  have e: "plic_irq_enabled ?p = plic_irq_enabled p" by (intro ext) (simp add: plic_irq_enabled_def)
  have r: "ok" "plic_notify_scan [0..<plic_ctx_count (p, harts)] (unat irq) (?p, harts) = (p', harts')"
    using assms by (auto simp: plic_send_irq_def Let_def plic_notify_irq_def plic_ctx_count_def)
  have h: "\<forall>c \<in> set [0..<plic_ctx_count (p, harts)]. plic_ctx_hartid c < length harts"
    by (auto simp: plic_ctx_count_def plic_ctx_hartid_def)
  have "p' = ?p \<and> (\<exists>c \<in> set [0..<plic_ctx_count (p, harts)]. plic_irq_enabled p c (unat irq) \<and>
      plic_threshold p c < plic_prio p (unat irq) \<and> plic_line c harts')"
    using plic_notify_scan_line [OF _ h r(2)] assms(4-6) e by fastforce
  moreover have "plic_irq_pending ?p (unat irq)"
    by (simp add: plic_irq_pending_def set_bit_in_def bit_or_iff bit_exp_iff)
  ultimately show ?thesis using r(1) by auto
qed

section \<open>Array bounds\<close>

lemma plic_complete_bounds: "plic_complete_irq ctx irq s = None \<longleftrightarrow> PLIC_SRC_LIMIT \<le> unat irq"
  by (cases s) (auto simp: plic_complete_irq_def Let_def split: prod.splits)

end
