(* ===== verification/RVVM_Ringbuf.thy ===== *)
theory RVVM_Ringbuf
  imports RVVM_MMU
begin

text \<open>
  The ring buffer of src/rvvm/src/ringbuf.c, which the character devices use, and its refinement
  of a bounded queue of bytes.  The offsets are at most the size of the buffer, so the arithmetic
  on \<open>size_t\<close> does not wrap and they are natural numbers.
\<close>

section \<open>Operations\<close>

record ringbuf =
  rb_data :: "u8 list"
  rb_size :: nat
  rb_start :: nat
  rb_consumed :: nat

definition ringbuf_create :: "nat \<Rightarrow> ringbuf" where
  "ringbuf_create sz = \<lparr>rb_data = replicate sz 0, rb_size = sz, rb_start = 0, rb_consumed = 0\<rparr>"

definition ringbuf_space :: "ringbuf \<Rightarrow> nat" where
  "ringbuf_space rb = rb_size rb - rb_consumed rb"

definition ringbuf_avail :: "ringbuf \<Rightarrow> nat" where
  "ringbuf_avail rb = rb_consumed rb"

definition ringbuf_skip :: "nat \<Rightarrow> ringbuf \<Rightarrow> nat \<times> ringbuf" where
  "ringbuf_skip len rb =
     (let skip = min len (rb_consumed rb) in (skip, rb\<lparr>rb_consumed := rb_consumed rb - skip\<rparr>))"

definition ringbuf_get_read_start :: "ringbuf \<Rightarrow> nat" where
  "ringbuf_get_read_start rb =
     (if rb_start rb < rb_consumed rb then rb_size rb - rb_consumed rb + rb_start rb
      else rb_start rb - rb_consumed rb)"

text \<open>The bytes that \<open>ringbuf_peek\<close> copies; their number is what it returns.\<close>

definition ringbuf_peek :: "nat \<Rightarrow> ringbuf \<Rightarrow> u8 list" where
  "ringbuf_peek len rb =
     (let start = ringbuf_get_read_start rb;
          ret = min (rb_consumed rb) len;
          lhalf_len = min (rb_size rb - start) ret;
          lhalf = take lhalf_len (drop start (rb_data rb))
      in if lhalf_len < ret then lhalf @ take (ret - lhalf_len) (rb_data rb) else lhalf)"

definition ringbuf_read :: "nat \<Rightarrow> ringbuf \<Rightarrow> u8 list \<times> ringbuf" where
  "ringbuf_read len rb =
     (let bs = ringbuf_peek len rb in (bs, snd (ringbuf_skip (length bs) rb)))"

definition ringbuf_write :: "u8 list \<Rightarrow> ringbuf \<Rightarrow> nat \<times> ringbuf" where
  "ringbuf_write data rb =
     (let ret = min (rb_size rb - rb_consumed rb) (length data);
          lhalf_len = min (rb_size rb - rb_start rb) ret;
          d = buf_write (rb_data rb) (rb_start rb) (take lhalf_len data);
          rb' = (if lhalf_len < ret
                 then rb\<lparr>rb_data := buf_write d 0 (take (ret - lhalf_len) (drop lhalf_len data)),
                         rb_start := ret - lhalf_len\<rparr>
                 else rb\<lparr>rb_data := d, rb_start := rb_start rb + ret\<rparr>)
      in (ret, rb'\<lparr>rb_consumed := rb_consumed rb + ret\<rparr>))"

definition ringbuf_get :: "nat \<Rightarrow> ringbuf \<Rightarrow> u8 list option \<times> ringbuf" where
  "ringbuf_get len rb =
     (if len \<le> ringbuf_avail rb then (let (bs, rb) = ringbuf_read len rb in (Some bs, rb)) else (None, rb))"

definition ringbuf_put :: "u8 list \<Rightarrow> ringbuf \<Rightarrow> bool \<times> ringbuf" where
  "ringbuf_put data rb =
     (if length data \<le> ringbuf_space rb then (True, snd (ringbuf_write data rb)) else (False, rb))"

section \<open>Bounded byte queues\<close>

datatype fifo_op = FWrite "u8 list" | FRead nat

text \<open>The bytes a sequence of operations puts in and takes out.\<close>

fun fifo_run :: "('q \<Rightarrow> u8 list \<Rightarrow> nat \<times> 'q) \<Rightarrow> ('q \<Rightarrow> nat \<Rightarrow> u8 list \<times> 'q) \<Rightarrow> fifo_op list \<Rightarrow> 'q
    \<Rightarrow> u8 list \<times> u8 list \<times> 'q" where
  "fifo_run wr rd [] q = ([], [], q)"
| "fifo_run wr rd (FWrite bs # ops) q =
     (let (n, q) = wr q bs; (i, out, q) = fifo_run wr rd ops q in (take n bs @ i, out, q))"
| "fifo_run wr rd (FRead n # ops) q =
     (let (bs, q) = rd q n; (i, out, q) = fifo_run wr rd ops q in (i, bs @ out, q))"

locale byte_fifo =
  fixes inv :: "'q \<Rightarrow> bool" and contents :: "'q \<Rightarrow> u8 list" and capacity :: "'q \<Rightarrow> nat"
    and wr :: "'q \<Rightarrow> u8 list \<Rightarrow> nat \<times> 'q" and rd :: "'q \<Rightarrow> nat \<Rightarrow> u8 list \<times> 'q"
  assumes bounded: "inv q \<Longrightarrow> length (contents q) \<le> capacity q"
    and wr_law: "\<lbrakk>inv q; wr q bs = (n, q')\<rbrakk> \<Longrightarrow> inv q' \<and> capacity q' = capacity q \<and>
       n = min (capacity q - length (contents q)) (length bs) \<and> contents q' = contents q @ take n bs"
    and rd_law: "\<lbrakk>inv q; rd q n = (bs, q')\<rbrakk> \<Longrightarrow> inv q' \<and> capacity q' = capacity q \<and>
       bs = take n (contents q) \<and> contents q' = drop n (contents q)"
begin

lemma run_order:
  "\<lbrakk>inv q; fifo_run wr rd ops q = (i, out, q')\<rbrakk> \<Longrightarrow> inv q' \<and> contents q @ i = out @ contents q'"
proof (induction ops arbitrary: q i out)
  case (Cons op ops)
  show ?case
  proof (cases op)
    case (FWrite bs)
    obtain n q1 where w: "wr q bs = (n, q1)" by (cases "wr q bs")
    obtain i1 o1 where r: "fifo_run wr rd ops q1 = (i1, o1, q')" "i = take n bs @ i1" "out = o1"
      using Cons.prems(2) by (auto simp: FWrite w split: prod.splits)
    show ?thesis using Cons.IH [OF _ r(1)] wr_law [OF Cons.prems(1) w] r(2,3) by simp
  next
    case (FRead n)
    obtain bs q1 where w: "rd q n = (bs, q1)" by (cases "rd q n")
    obtain i1 o1 where r: "fifo_run wr rd ops q1 = (i1, o1, q')" "i = i1" "out = bs @ o1"
      using Cons.prems(2) by (auto simp: FRead w split: prod.splits)
    have law: "inv q1 \<and> bs = take n (contents q) \<and> contents q1 = drop n (contents q)"
      using rd_law [OF Cons.prems(1) w] by simp
    then have "contents q1 @ i1 = o1 @ contents q' \<and> inv q'" using Cons.IH [OF _ r(1)] by simp
    moreover have "contents q = bs @ contents q1" using law by simp
    ultimately show ?thesis using r(2,3) by simp
  qed
qed simp

end

section \<open>The ring buffer is a byte queue\<close>

definition rb_inv :: "ringbuf \<Rightarrow> bool" where
  "rb_inv rb \<longleftrightarrow> length (rb_data rb) = rb_size rb \<and> rb_start rb \<le> rb_size rb \<and> rb_consumed rb \<le> rb_size rb"

definition rb_contents :: "ringbuf \<Rightarrow> u8 list" where
  "rb_contents rb = map (\<lambda>i. rb_data rb ! ((rb_start rb + rb_size rb - rb_consumed rb + i) mod rb_size rb)) [0..<rb_consumed rb]"

lemma ringbuf_create_inv: "rb_inv (ringbuf_create sz)" "rb_contents (ringbuf_create sz) = []"
  by (simp_all add: ringbuf_create_def rb_inv_def rb_contents_def)

lemma length_rb_contents [simp]: "length (rb_contents rb) = rb_consumed rb"
  by (simp add: rb_contents_def)

lemma mod_once: "(s :: nat) \<le> x \<Longrightarrow> x < 2 * s \<Longrightarrow> x mod s = x - s"
  by (simp add: le_mod_geq)

lemma mod_wrap: "(x :: nat) < 2 * s \<Longrightarrow> x mod s = (if x < s then x else x - s)"
  by (simp add: mod_once)

lemma ring_index:
  assumes "rb_inv rb" "i < rb_consumed rb"
  shows "(rb_start rb + rb_size rb - rb_consumed rb + i) mod rb_size rb =
    (if ringbuf_get_read_start rb + i < rb_size rb then ringbuf_get_read_start rb + i
     else ringbuf_get_read_start rb + i - rb_size rb)"
  using assms by (auto simp: rb_inv_def ringbuf_get_read_start_def mod_once not_less le_mod_geq)

lemma ringbuf_peek_eq:
  assumes "rb_inv rb"
  shows "ringbuf_peek len rb = take len (rb_contents rb)"
proof (rule nth_equalityI)
  have s: "rb_size rb - ringbuf_get_read_start rb \<le> rb_size rb" "rb_consumed rb \<le> rb_size rb" "length (rb_data rb) = rb_size rb"
    using assms by (auto simp: rb_inv_def)
  show l: "length (ringbuf_peek len rb) = length (take len (rb_contents rb))"
    using s by (auto simp: ringbuf_peek_def Let_def)
  fix i assume "i < length (ringbuf_peek len rb)"
  then have i: "i < min (rb_consumed rb) len" using l by simp
  have "ringbuf_get_read_start rb \<le> rb_size rb" using assms by (auto simp: rb_inv_def ringbuf_get_read_start_def)
  then have "i - (rb_size rb - ringbuf_get_read_start rb) = ringbuf_get_read_start rb + i - rb_size rb" by simp
  then show "ringbuf_peek len rb ! i = take len (rb_contents rb) ! i"
    using i s ring_index [OF assms, of i]
    by (auto simp: ringbuf_peek_def Let_def rb_contents_def nth_append min_def)
qed

lemma ringbuf_read_law:
  assumes "rb_inv rb" "ringbuf_read n rb = (bs, rb')"
  shows "rb_inv rb' \<and> rb_size rb' = rb_size rb \<and> bs = take n (rb_contents rb) \<and> rb_contents rb' = drop n (rb_contents rb)"
proof -
  let ?k = "min n (rb_consumed rb)"
  have r: "bs = take n (rb_contents rb)" "rb' = rb\<lparr>rb_consumed := rb_consumed rb - ?k\<rparr>"
    using assms(2) by (auto simp: ringbuf_read_def ringbuf_skip_def Let_def ringbuf_peek_eq [OF assms(1)] min_def)
  have "rb_contents rb' = drop n (rb_contents rb)"
  proof (rule nth_equalityI)
    show "length (rb_contents rb') = length (drop n (rb_contents rb))" using r(2) by simp
    fix i assume "i < length (rb_contents rb')"
    then have i: "i < rb_consumed rb - ?k" using r(2) by simp
    moreover have "rb_start rb + rb_size rb - (rb_consumed rb - ?k) + i = rb_start rb + rb_size rb - rb_consumed rb + (n + i)"
      using assms(1) i by (auto simp: rb_inv_def)
    ultimately show "rb_contents rb' ! i = drop n (rb_contents rb) ! i"
      using r(2) by (auto simp: rb_contents_def add.assoc)
  qed
  then show ?thesis using assms(1) r by (auto simp: rb_inv_def)
qed

lemma nth_buf_write:
  "\<lbrakk>off + length bs \<le> length buf; i < length buf\<rbrakk> \<Longrightarrow>
     buf_write buf off bs ! i = (if off \<le> i \<and> i < off + length bs then bs ! (i - off) else buf ! i)"
  by (auto simp: buf_write_def nth_append)

lemma length_buf_write_at: "off + length bs \<le> length buf \<Longrightarrow> length (buf_write buf off bs) = length buf"
  by (simp add: buf_write_def)

lemma ringbuf_write_data:
  assumes "rb_inv rb" "ringbuf_write data rb = (ret, rb')"
  defines "l \<equiv> min (rb_size rb - rb_start rb) ret"
  shows "ret = min (rb_size rb - rb_consumed rb) (length data)" "rb_size rb' = rb_size rb"
    "rb_consumed rb' = rb_consumed rb + ret" "length (rb_data rb') = rb_size rb"
    "rb_start rb' = (if l < ret then ret - l else rb_start rb + ret)"
    "j < rb_size rb \<Longrightarrow> rb_data rb' ! j =
       (if rb_start rb \<le> j \<and> j < rb_start rb + l then data ! (j - rb_start rb)
        else if j < ret - l then data ! (l + j) else rb_data rb ! j)"
proof -
  have i: "length (rb_data rb) = rb_size rb" "rb_start rb \<le> rb_size rb" "rb_consumed rb \<le> rb_size rb"
    using assms(1) by (simp_all add: rb_inv_def)
  let ?d = "buf_write (rb_data rb) (rb_start rb) (take l data)"
  have ret1: "ret = min (rb_size rb - rb_consumed rb) (length data)"
    using assms(2) by (simp add: ringbuf_write_def Let_def)
  have rb': "rb' = (if l < ret
      then rb\<lparr>rb_data := buf_write ?d 0 (take (ret - l) (drop l data)), rb_start := ret - l\<rparr>
      else rb\<lparr>rb_data := ?d, rb_start := rb_start rb + ret\<rparr>)\<lparr>rb_consumed := rb_consumed rb + ret\<rparr>"
    using assms(2) unfolding ringbuf_write_def Let_def ret1 [symmetric] l_def by (simp only: prod.inject)
  show ret: "ret = min (rb_size rb - rb_consumed rb) (length data)" "rb_size rb' = rb_size rb"
      "rb_consumed rb' = rb_consumed rb + ret" "rb_start rb' = (if l < ret then ret - l else rb_start rb + ret)"
    using ret1 by (simp_all add: rb')
  have d: "rb_data rb' = (if l < ret then buf_write ?d 0 (take (ret - l) (drop l data)) else ?d)"
    by (simp add: rb')
  have b: "l \<le> length data" "rb_start rb + l \<le> rb_size rb" "ret - l \<le> rb_size rb" "ret \<le> length data"
    using ret(1) i unfolding l_def by simp_all
  have ld: "length ?d = rb_size rb" using b i by (simp add: length_buf_write_at)
  show "length (rb_data rb') = rb_size rb" unfolding d using b ld by (auto simp: length_buf_write_at)
  assume j: "j < rb_size rb"
  have lt: "length (take l data) = l" "length (take (ret - l) (drop l data)) = ret - l" using b by simp_all
  have dj: "?d ! j = (if rb_start rb \<le> j \<and> j < rb_start rb + l then data ! (j - rb_start rb) else rb_data rb ! j)"
    using nth_buf_write [of "rb_start rb" "take l data" "rb_data rb" j] b i j unfolding lt
    by (cases "rb_start rb \<le> j \<and> j < rb_start rb + l") (auto simp: less_diff_conv2)
  have ej: "buf_write ?d 0 (take (ret - l) (drop l data)) ! j = (if j < ret - l then data ! (l + j) else ?d ! j)"
    using nth_buf_write [of 0 "take (ret - l) (drop l data)" ?d j] b ld j unfolding lt by simp
  show "rb_data rb' ! j = (if rb_start rb \<le> j \<and> j < rb_start rb + l then data ! (j - rb_start rb)
        else if j < ret - l then data ! (l + j) else rb_data rb ! j)"
  proof (cases "l < ret")
    case True
    then have "ret - l \<le> rb_start rb" using ret(1) i unfolding l_def by auto
    then show ?thesis unfolding d if_P [OF True] ej dj by simp
  next
    case False
    then show ?thesis unfolding d if_not_P [OF False] dj by simp
  qed
qed

lemma ringbuf_write_law:
  assumes "rb_inv rb" "ringbuf_write data rb = (n, rb')"
  shows "rb_inv rb' \<and> rb_size rb' = rb_size rb \<and>
    n = min (rb_size rb - length (rb_contents rb)) (length data) \<and> rb_contents rb' = rb_contents rb @ take n data"
proof -
  let ?s = "rb_size rb" and ?st = "rb_start rb" and ?c = "rb_consumed rb"
  define l where "l = min (?s - ?st) n"
  note w = ringbuf_write_data [OF assms, folded l_def]
  have i: "?st \<le> ?s" "?c \<le> ?s" using assms(1) by (simp_all add: rb_inv_def)
  have n: "?c + n \<le> ?s" "n \<le> length data" using w(1) i by simp_all
  have l: "l \<le> n" "?st + l \<le> ?s" "l < n \<Longrightarrow> ?st + l = ?s" using i by (auto simp: l_def)
  have nl: "n - l + ?c \<le> ?st \<or> n = l" using l n by linarith
  have st: "rb_start rb' \<le> ?s" using l n i unfolding w(5) by auto
  have "rb_contents rb' = rb_contents rb @ take n data"
  proof (rule nth_equalityI)
    show "length (rb_contents rb') = length (rb_contents rb @ take n data)" using w(3) n by simp
    fix k assume "k < length (rb_contents rb')"
    then have k: "k < ?c + n" using w(3) by simp
    let ?b = "?st + ?s - ?c + k"
    have idx: "(rb_start rb' + ?s - (?c + n) + k) mod ?s = ?b mod ?s"
    proof (cases "l < n")
      case True
      then have "rb_start rb' + ?s - (?c + n) + k + ?s = ?b" using l n i w(5) by simp
      then show ?thesis by (metis mod_add_self2)
    next
      case False
      then have "rb_start rb' + ?s - (?c + n) + k = ?b" using l n i w(5) by simp
      then show ?thesis by simp
    qed
    have nth: "rb_contents rb' ! k = rb_data rb' ! (?b mod ?s)"
      using k by (simp add: rb_contents_def w(2,3) idx)
    show "rb_contents rb' ! k = (rb_contents rb @ take n data) ! k"
    proof (cases "k < ?c")
      case True
      have m: "?b mod ?s = (if ?b < ?s then ?b else ?b - ?s)" using True i by (intro mod_wrap) simp
      define j where "j = ?b mod ?s"
      have j: "j = ?b \<and> ?b < ?s \<or> j + ?s = ?b" using m by (auto simp: j_def)
      have "j < ?s" "\<not> (?st \<le> j \<and> j < ?st + l)" "\<not> j < n - l" using j l nl n(1) i True by linarith+
      then have "rb_data rb' ! j = rb_data rb ! j" using w(6) [of j] by (simp only: if_False)
      then have "rb_data rb' ! (?b mod ?s) = rb_data rb ! (?b mod ?s)" by (simp only: j_def)
      then show ?thesis using True nth by (simp add: nth_append rb_contents_def)
    next
      case False
      let ?q = "?st + (k - ?c)"
      have "?b = ?q + ?s" using i False by simp
      then have "?b mod ?s = ?q mod ?s" by (simp only: mod_add_self2)
      also have "\<dots> = (if ?q < ?s then ?q else ?q - ?s)" using i False k n by (intro mod_wrap) simp
      finally have m: "?b mod ?s = (if ?q < ?s then ?q else ?q - ?s)" .
      define j where "j = ?b mod ?s"
      have "rb_data rb' ! j = data ! (k - ?c)"
      proof (cases "k - ?c < l")
        case True
        then have "j = ?q" "j < ?s" "?st \<le> j \<and> j < ?st + l" "j - ?st = k - ?c" using l(2) m by (auto simp: j_def)
        then show ?thesis using w(6) [of j] by (simp only: if_True simp_thms)
      next
        case nl': False
        then have "?st + l = ?s" using l(3) k False by linarith
        then have "j + ?s = ?q" using nl' m by (auto simp: j_def)
        then have "j < ?s" "\<not> (?st \<le> j \<and> j < ?st + l)" "j < n - l" "l + j = k - ?c"
          using \<open>?st + l = ?s\<close> l(1) n(1) k False nl' i by linarith+
        then show ?thesis using w(6) [of j] by (simp only: if_False if_True)
      qed
      then have "rb_data rb' ! (?b mod ?s) = data ! (k - ?c)" by (simp only: j_def)
      then show ?thesis using False nth k by (simp add: nth_append)
    qed
  qed
  then show ?thesis using w(1-4) st n by (simp add: rb_inv_def)
qed

interpretation ring: byte_fifo rb_inv rb_contents rb_size "\<lambda>rb bs. ringbuf_write bs rb" "\<lambda>rb n. ringbuf_read n rb"
proof unfold_locales
  show "length (rb_contents q) \<le> rb_size q" if "rb_inv q" for q using that by (simp add: rb_inv_def)
qed (fact ringbuf_write_law, fact ringbuf_read_law)

end
