(* ===== verification/RVVM_Spinlock.thy ===== *)
theory RVVM_Spinlock
  imports RVVM_Prelude "HOL-Library.Numeral_Type"
begin

text \<open>
  The reader/writer lock of src/rvvm/src/spinlock.h and spinlock.c: the operations on the lock word
  and the transition system of any number of threads that lock and unlock, with one atomic
  operation per step.  Waiting for the kernel and the deadlock reports leave the lock word alone.
  A failed attempt of the fast path is a step that changes nothing, so it is left out.
\<close>

unbundle bit_operations_syntax

section \<open>Operations on the lock word\<close>

abbreviation (input) SPINLOCK_HAS_WRITER :: u32 where "SPINLOCK_HAS_WRITER \<equiv> 0x00000001"
abbreviation (input) SPINLOCK_HAS_READERS :: u32 where "SPINLOCK_HAS_READERS \<equiv> 0x7FFFFFFE"
abbreviation (input) SPINLOCK_HAS_WAITERS :: u32 where "SPINLOCK_HAS_WAITERS \<equiv> 0x80000000"

definition spin_try_lock :: "u32 \<Rightarrow> bool \<times> u32" where
  "spin_try_lock flag = (if flag = 0 then (True, 1) else (False, flag))"

definition spin_try_read_lock :: "u32 \<Rightarrow> bool \<times> u32" where
  "spin_try_read_lock flag = (if flag AND 0x80000001 \<noteq> 0 then (False, flag) else (True, flag + 2))"

definition spin_flag_has_writer :: "u32 \<Rightarrow> bool" where
  "spin_flag_has_writer flag \<longleftrightarrow> flag AND SPINLOCK_HAS_WRITER \<noteq> 0"

definition spin_flag_has_readers :: "u32 \<Rightarrow> bool" where
  "spin_flag_has_readers flag \<longleftrightarrow> flag AND SPINLOCK_HAS_READERS \<noteq> 0"

definition spin_flag_has_waiters :: "u32 \<Rightarrow> bool" where
  "spin_flag_has_waiters flag \<longleftrightarrow> flag AND SPINLOCK_HAS_WAITERS \<noteq> 0"

definition spin_lock_possibly_available :: "u32 \<Rightarrow> bool \<Rightarrow> bool" where
  "spin_lock_possibly_available flag writer \<longleftrightarrow>
     (if writer then flag = 0 else flag AND (SPINLOCK_HAS_WRITER OR SPINLOCK_HAS_WAITERS) = 0)"

definition spin_try_claim_lock :: "bool \<Rightarrow> u32 \<Rightarrow> u32 \<Rightarrow> bool \<times> u32" where
  "spin_try_claim_lock writer waiters flag =
     (if writer then (if flag = 0 then (True, SPINLOCK_HAS_WRITER OR waiters) else (False, flag))
      else if \<not> spin_lock_possibly_available flag False then (False, flag)
      else (True, (flag + 2) OR waiters))"

text \<open>The mark a waiting thread leaves in the slow path.\<close>

definition spin_mark_waiter :: "bool \<Rightarrow> u32 \<Rightarrow> u32" where
  "spin_mark_waiter writer flag =
     (if \<not> spin_lock_possibly_available flag writer \<and> \<not> spin_flag_has_waiters flag
      then flag OR SPINLOCK_HAS_WAITERS else flag)"

datatype wake_result = WakeNone | WakeOne | WakeFatal

definition spin_unlock :: "u32 \<Rightarrow> wake_result \<times> u32" where
  "spin_unlock prev =
     (if prev \<noteq> 1 then
        (if spin_flag_has_readers prev then (WakeFatal, 0)
         else if \<not> spin_flag_has_writer prev then (WakeFatal, 0)
         else if spin_flag_has_waiters prev then (WakeOne, 0) else (WakeNone, 0))
      else (WakeNone, 0))"

text \<open>
  Unlocking a reader is two atomic operations when there are waiters: the decrement and, in
  \<open>spin_read_lock_wake\<close>, clearing the mark.
\<close>

definition spin_read_unlock :: "u32 \<Rightarrow> wake_result \<times> u32" where
  "spin_read_unlock prev =
     (if sint prev < 2 then
        (if spin_flag_has_writer prev then (WakeFatal, prev - 2)
         else if \<not> spin_flag_has_readers prev then (WakeFatal, prev - 2)
         else if spin_flag_has_waiters prev then (WakeOne, prev - 2) else (WakeNone, prev - 2))
      else (WakeNone, prev - 2))"

definition spin_read_clear_waiters :: "u32 \<Rightarrow> u32" where
  "spin_read_clear_waiters flag = flag AND NOT SPINLOCK_HAS_WAITERS"

section \<open>Threads\<close>

datatype spin_phase = SIdle | SWriter | SReader | SWaking | SFatal

type_synonym 't spin_state = "u32 \<times> ('t \<Rightarrow> spin_phase)"

inductive spin_step :: "'t spin_state \<Rightarrow> 't spin_state \<Rightarrow> bool" where
  sp_lock: "\<lbrakk>ph t = SIdle; spin_try_lock flag = (True, flag')\<rbrakk> \<Longrightarrow> spin_step (flag, ph) (flag', ph(t := SWriter))"
| sp_read_lock: "\<lbrakk>ph t = SIdle; spin_try_read_lock flag = (True, flag')\<rbrakk>
    \<Longrightarrow> spin_step (flag, ph) (flag', ph(t := SReader))"
| sp_claim: "\<lbrakk>ph t = SIdle; w \<in> {0, SPINLOCK_HAS_WAITERS}; spin_try_claim_lock writer w flag = (True, flag')\<rbrakk>
    \<Longrightarrow> spin_step (flag, ph) (flag', ph(t := if writer then SWriter else SReader))"
| sp_mark: "ph t = SIdle \<Longrightarrow> spin_step (flag, ph) (spin_mark_waiter writer flag, ph)"
| sp_unlock: "\<lbrakk>ph t = SWriter; spin_unlock flag = (r, flag')\<rbrakk>
    \<Longrightarrow> spin_step (flag, ph) (flag', ph(t := if r = WakeFatal then SFatal else SIdle))"
| sp_read_unlock: "\<lbrakk>ph t = SReader; spin_read_unlock flag = (r, flag')\<rbrakk>
    \<Longrightarrow> spin_step (flag, ph) (flag', ph(t := case r of WakeFatal \<Rightarrow> SFatal | WakeOne \<Rightarrow> SWaking | WakeNone \<Rightarrow> SIdle))"
| sp_wake: "ph t = SWaking \<Longrightarrow> spin_step (flag, ph) (spin_read_clear_waiters flag, ph(t := SIdle))"

inductive_cases spin_stepE: "spin_step s s'"

section \<open>What the lock word counts\<close>

definition spin_enc :: "bool \<Rightarrow> nat \<Rightarrow> bool \<Rightarrow> u32" where
  "spin_enc w r wt = of_bool w OR push_bit 1 (of_nat r) OR push_bit 31 (of_bool wt)"

lemma bit_u32_of_nat: "r < 2 ^ 30 \<Longrightarrow> bit (of_nat r :: u32) n \<longleftrightarrow> n < 30 \<and> bit r n"
  using bit_take_bit_iff [of 30 r n] by (auto simp: take_bit_nat_eq_self bit_of_nat_iff)

lemma bit_spin_enc:
  assumes "r < 2 ^ 30"
  shows "bit (spin_enc w r wt) n \<longleftrightarrow> n = 0 \<and> w \<or> 0 < n \<and> n < 31 \<and> bit r (n - 1) \<or> n = 31 \<and> wt"
  using bit_u32_of_nat [OF assms, of "n - 1"]
  by (auto simp: spin_enc_def bit_or_iff bit_push_bit_iff bit_of_bool_iff simp del: push_bit_of_nat push_bit_Suc One_nat_def)

lemma word_and_zero: "a AND b = 0 \<longleftrightarrow> (\<forall>n < LENGTH('a). \<not> (bit a n \<and> bit b n))" for a b :: "'a::len word"
  by (auto simp: bit_eq_iff bit_and_iff)

lemma nat_bits_zero: "r < 2 ^ 30 \<Longrightarrow> r = 0 \<longleftrightarrow> (\<forall>n < 30. \<not> bit r n)" for r :: nat
  using bit_take_bit_iff [of 30 r] by (auto simp: bit_eq_iff take_bit_nat_eq_self)

lemma spin_masks:
  "(0x80000001 :: u32) = push_bit 31 1 OR 1" "(0x80000000 :: u32) = push_bit 31 1" "(0x7FFFFFFE :: u32) = push_bit 1 (mask 30)"
  by (simp_all add: mask_eq_exp_minus_1)

lemma bit_spin_masks:
  "bit (0x80000001 :: u32) n \<longleftrightarrow> n = 0 \<or> n = 31" "bit (0x80000000 :: u32) n \<longleftrightarrow> n = 31"
  "bit (0x7FFFFFFE :: u32) n \<longleftrightarrow> 0 < n \<and> n < 31" "bit (1 :: u32) n \<longleftrightarrow> n = 0"
  unfolding spin_masks
  by (auto simp: bit_or_iff bit_push_bit_iff bit_1_iff bit_mask_iff simp del: push_bit_of_1 push_bit_mask_eq push_bit_Suc One_nat_def)

lemma spin_enc_flags:
  assumes "r < 2 ^ 30"
  shows "spin_flag_has_writer (spin_enc w r wt) = w" "spin_flag_has_waiters (spin_enc w r wt) = wt"
    "spin_flag_has_readers (spin_enc w r wt) = (0 < r)" "spin_enc w r wt = 0 \<longleftrightarrow> \<not> w \<and> r = 0 \<and> \<not> wt"
    "spin_enc w r wt AND 0x80000001 = 0 \<longleftrightarrow> \<not> w \<and> \<not> wt"
proof -
  note b = bit_spin_enc [OF assms] bit_spin_masks
  have sh: "(\<forall>n < 32. 0 < n \<and> n < 31 \<longrightarrow> \<not> bit r (n - 1)) \<longleftrightarrow> r = 0"
  proof -
    have "(\<forall>n < 32. 0 < n \<and> n < 31 \<longrightarrow> \<not> bit r (n - 1)) \<longleftrightarrow> (\<forall>n < 30. \<not> bit r n)"
    proof
      assume a: "\<forall>n < 32. 0 < n \<and> n < 31 \<longrightarrow> \<not> bit r (n - 1)"
      show "\<forall>n < 30. \<not> bit r n"
      proof (intro allI impI)
        fix n :: nat assume "n < 30"
        then show "\<not> bit r n" using a [rule_format, of "Suc n"] by simp
      qed
    qed auto
    then show ?thesis using nat_bits_zero [OF assms] by simp
  qed
  show "spin_flag_has_writer (spin_enc w r wt) = w" "spin_flag_has_waiters (spin_enc w r wt) = wt"
      "spin_enc w r wt AND 0x80000001 = 0 \<longleftrightarrow> \<not> w \<and> \<not> wt"
    unfolding spin_flag_has_writer_def spin_flag_has_waiters_def word_and_zero b
    by (auto dest: spec [of _ 0] spec [of _ 31])
  show "spin_flag_has_readers (spin_enc w r wt) = (0 < r)"
    unfolding spin_flag_has_readers_def word_and_zero b using sh by auto
  show "spin_enc w r wt = 0 \<longleftrightarrow> \<not> w \<and> r = 0 \<and> \<not> wt"
  proof -
    have "spin_enc w r wt = 0 \<longleftrightarrow> (\<forall>n < 32. \<not> bit (spin_enc w r wt) n)" by (auto intro!: bit_word_eqI)
    then show ?thesis unfolding b using sh by (auto dest: spec [of _ 0] spec [of _ 31])
  qed
qed

lemma spin_enc_marks:
  assumes "r < 2 ^ 30"
  shows "spin_enc w r wt OR 0x80000000 = spin_enc w r True" "spin_enc w r wt AND NOT 0x80000000 = spin_enc w r False"
  by (intro bit_word_eqI; simp only: bit_spin_enc [OF assms] bit_spin_masks bit_or_iff bit_and_iff bit_not_iff; auto)+

lemma spin_enc_add: "r < 2 ^ 30 \<Longrightarrow> spin_enc w r wt = of_bool w + (2 * of_nat r + push_bit 31 (of_bool wt))"
proof -
  assume r: "r < 2 ^ 30"
  have "push_bit 1 (of_nat r) OR push_bit 31 (of_bool wt :: u32) = push_bit 1 (of_nat r) + push_bit 31 (of_bool wt)"
    by (rule disjunctive_add [symmetric]) (use bit_u32_of_nat [OF r] in \<open>auto simp: bit_or_iff bit_push_bit_iff bit_of_bool_iff simp del: push_bit_of_nat push_bit_Suc One_nat_def\<close>)
  moreover have "of_bool w OR (push_bit 1 (of_nat r) + push_bit 31 (of_bool wt)) =
      of_bool w + (push_bit 1 (of_nat r) + push_bit 31 (of_bool wt) :: u32)"
    unfolding calculation [symmetric]
    by (rule disjunctive_add [symmetric]) (auto simp: bit_or_iff bit_push_bit_iff bit_of_bool_iff simp del: push_bit_of_nat push_bit_Suc One_nat_def)
  ultimately show ?thesis by (simp add: spin_enc_def push_bit_eq_mult mult.commute)
qed

lemma spin_enc_count:
  "Suc r < 2 ^ 30 \<Longrightarrow> spin_enc w r wt + 2 = spin_enc w (Suc r) wt"
  "Suc r < 2 ^ 30 \<Longrightarrow> spin_enc w (Suc r) wt - 2 = spin_enc w r wt"
  by (simp_all add: spin_enc_add algebra_simps)

lemma spin_enc_signed:
  assumes "r < 2 ^ 30"
  shows "sint (spin_enc False r wt) < 2 \<longleftrightarrow> wt \<or> r = 0"
proof (cases wt)
  case True
  have "bit (spin_enc False r True) 31" using bit_spin_enc [OF assms] by simp
  then have "sint (spin_enc False r True) < 0" by (simp add: sint_uint signed_take_bit_negative_iff bit_uint_iff)
  then show ?thesis using True by simp
next
  case False
  have "spin_enc False r False = 2 * of_nat r" using spin_enc_add [OF assms, of False False] by simp
  moreover have "unat (2 * of_nat r :: u32) = 2 * r" using assms by (simp add: unat_word_ariths unat_of_nat_small)
  ultimately have u: "uint (spin_enc False r False) = 2 * int r" by (metis of_nat_mult of_nat_numeral uint_nat)
  have "sint (spin_enc False r False) = 2 * int r"
    using assms by (simp add: sint_uint u signed_take_bit_int_eq_self)
  then show ?thesis using False by simp
qed

section \<open>Mutual exclusion\<close>

definition spin_inv :: "'t::finite spin_state \<Rightarrow> bool" where
  "spin_inv = (\<lambda>(flag, ph).
     (\<exists>wt. flag = spin_enc (\<exists>t. ph t = SWriter) (card {t. ph t = SReader}) wt \<and>
        (wt \<and> (\<forall>t. ph t \<noteq> SWriter \<and> ph t \<noteq> SReader) \<longrightarrow> (\<exists>t. ph t = SWaking))) \<and>
     (\<forall>t u. ph t = SWriter \<longrightarrow> ph u \<noteq> SReader \<and> (ph u = SWriter \<longrightarrow> u = t)) \<and> (\<forall>t. ph t \<noteq> SFatal))"

lemma spin_invI:
  assumes "flag = spin_enc (\<exists>t. ph t = SWriter) (card {t. ph t = SReader}) wt"
    "\<lbrakk>wt; \<forall>t. ph t \<noteq> SWriter \<and> ph t \<noteq> SReader\<rbrakk> \<Longrightarrow> \<exists>t. ph t = SWaking"
    "\<And>t u. ph t = SWriter \<Longrightarrow> ph u \<noteq> SReader \<and> (ph u = SWriter \<longrightarrow> u = t)" "\<And>t. ph t \<noteq> SFatal"
  shows "spin_inv (flag, ph)"
  using assms unfolding spin_inv_def by blast

lemma spin_invE:
  assumes "spin_inv (flag, ph)"
  obtains wt where "flag = spin_enc (\<exists>t. ph t = SWriter) (card {t. ph t = SReader}) wt"
    "wt \<and> (\<forall>t. ph t \<noteq> SWriter \<and> ph t \<noteq> SReader) \<longrightarrow> (\<exists>t. ph t = SWaking)"
    "\<forall>t u. ph t = SWriter \<longrightarrow> ph u \<noteq> SReader \<and> (ph u = SWriter \<longrightarrow> u = t)" "\<forall>t. ph t \<noteq> SFatal"
  using assms unfolding spin_inv_def prod.case by (elim conjE exE) (rule that)

lemma readers_upd:
  "ph t \<noteq> SReader \<Longrightarrow> card {u. (ph(t := SReader)) u = SReader} = Suc (card {u. ph u = SReader})"
  "x \<noteq> SReader \<Longrightarrow> ph t \<noteq> SReader \<Longrightarrow> card {u. (ph(t := x)) u = SReader} = card {u. ph u = SReader}"
  "x \<noteq> SReader \<Longrightarrow> ph t = SReader \<Longrightarrow> Suc (card {u. (ph(t := x)) u = SReader}) = card {u. ph u = SReader}"
  for ph :: "'t::finite \<Rightarrow> spin_phase"
proof -
  show "card {u. (ph(t := SReader)) u = SReader} = Suc (card {u. ph u = SReader})" if "ph t \<noteq> SReader"
  proof -
    have "{u. (ph(t := SReader)) u = SReader} = insert t {u. ph u = SReader}" by auto
    then show ?thesis using that by simp
  qed
  show "card {u. (ph(t := x)) u = SReader} = card {u. ph u = SReader}" if "x \<noteq> SReader" "ph t \<noteq> SReader"
    using that by (intro arg_cong [where f = card]) auto
  show "Suc (card {u. (ph(t := x)) u = SReader}) = card {u. ph u = SReader}" if "x \<noteq> SReader" "ph t = SReader"
  proof -
    have "{u. ph u = SReader} = insert t {u. (ph(t := x)) u = SReader}" "t \<notin> {u. (ph(t := x)) u = SReader}"
      using that by auto
    then show ?thesis by simp
  qed
qed

lemma spin_inv_init: "spin_inv (0, \<lambda>_. SIdle)"
  by (auto simp: spin_inv_def spin_enc_def intro: exI [of _ False])

lemma spin_readers_bound:
  fixes ph :: "'t::finite \<Rightarrow> spin_phase"
  assumes "CARD('t) < 2 ^ 30"
  shows "card {t. ph t = SReader} < 2 ^ 30"
  using assms card_mono [of "UNIV :: 't set" "{t. ph t = SReader}"] by simp

lemma spin_claims:
  assumes "spin_inv (flag, ph)" "ph t = SIdle" "CARD('t::finite) < 2 ^ 30"
  shows "flag = 0 \<Longrightarrow> w \<in> {0, SPINLOCK_HAS_WAITERS} \<Longrightarrow> spin_inv (SPINLOCK_HAS_WRITER OR w, ph(t :: 't := SWriter))"
    "flag AND 0x80000001 = 0 \<Longrightarrow> w \<in> {0, SPINLOCK_HAS_WAITERS} \<Longrightarrow> spin_inv ((flag + 2) OR w, ph(t := SReader))"
proof -
  let ?r = "card {t. ph t = SReader}"
  obtain wt where f: "flag = spin_enc (\<exists>t. ph t = SWriter) ?r wt" and
      ex: "\<forall>t u. ph t = SWriter \<longrightarrow> ph u \<noteq> SReader \<and> (ph u = SWriter \<longrightarrow> u = t)" "\<forall>t. ph t \<noteq> SFatal"
    by (rule spin_invE [OF assms(1)])
  have b: "?r < 2 ^ 30" by (rule spin_readers_bound [OF assms(3)])
  have b': "card {u. (ph(t := SReader)) u = SReader} < 2 ^ 30" by (rule spin_readers_bound [OF assms(3)])
  have up: "card {u. (ph(t := SReader)) u = SReader} = Suc ?r" by (rule readers_upd) (simp add: assms(2))
  have up2: "card {u. (ph(t := SWriter)) u = SReader} = ?r" by (rule readers_upd) (simp_all add: assms(2))
  show "spin_inv (SPINLOCK_HAS_WRITER OR w, ph(t := SWriter))" if "flag = 0" "w \<in> {0, SPINLOCK_HAS_WAITERS}"
  proof -
    have "spin_enc (\<exists>t. ph t = SWriter) ?r wt = 0" using that(1) f by (simp only:)
    then have z: "\<not> (\<exists>t. ph t = SWriter)" "?r = 0" unfolding spin_enc_flags(4) [OF b] by blast+
    have nr: "\<forall>u. ph u \<noteq> SReader" using z(2) by simp
    have "SPINLOCK_HAS_WRITER OR w = spin_enc True 0 (w \<noteq> 0)" using that(2) by (auto simp: spin_enc_def)
    moreover have "(\<exists>u. (ph(t := SWriter)) u = SWriter)" by auto
    ultimately have e: "SPINLOCK_HAS_WRITER OR w = spin_enc (\<exists>u. (ph(t := SWriter)) u = SWriter)
        (card {u. (ph(t := SWriter)) u = SReader}) (w \<noteq> 0)" unfolding up2 z(2) by (simp only: simp_thms)
    show ?thesis
    proof (rule spin_invI [OF e])
      show "\<exists>u. (ph(t := SWriter)) u = SWaking" if "\<forall>u. (ph(t := SWriter)) u \<noteq> SWriter \<and> (ph(t := SWriter)) u \<noteq> SReader"
        using spec [OF that, of t] by simp
      show "(ph(t := SWriter)) v \<noteq> SReader \<and> ((ph(t := SWriter)) v = SWriter \<longrightarrow> v = u)"
        if "(ph(t := SWriter)) u = SWriter" for u v using that z(1) nr by (simp split: if_splits)
      show "(ph(t := SWriter)) u \<noteq> SFatal" for u using ex(2) by simp
    qed
  qed
  show "spin_inv ((flag + 2) OR w, ph(t := SReader))" if "flag AND 0x80000001 = 0" "w \<in> {0, SPINLOCK_HAS_WAITERS}"
  proof -
    have "spin_enc (\<exists>t. ph t = SWriter) ?r wt AND 0x80000001 = 0" using that(1) f by (simp only:)
    then have z: "\<not> (\<exists>t. ph t = SWriter)" "\<not> wt" unfolding spin_enc_flags(5) [OF b] by blast+
    have "flag + 2 = spin_enc False (Suc ?r) False"
      using b' up z f spin_enc_count(1) [of ?r] by simp
    then have "(flag + 2) OR w = spin_enc False (Suc ?r) (w \<noteq> 0)"
      using that(2) spin_enc_marks(1) b' up by auto
    moreover have nw: "\<not> (\<exists>u. (ph(t := SReader)) u = SWriter)" using z(1) by simp
    ultimately have e: "(flag + 2) OR w = spin_enc (\<exists>u. (ph(t := SReader)) u = SWriter)
        (card {u. (ph(t := SReader)) u = SReader}) (w \<noteq> 0)" unfolding up by (simp only: simp_thms)
    show ?thesis
    proof (rule spin_invI [OF e])
      show "\<exists>u. (ph(t := SReader)) u = SWaking" if "\<forall>u. (ph(t := SReader)) u \<noteq> SWriter \<and> (ph(t := SReader)) u \<noteq> SReader"
        using spec [OF that, of t] by simp
      show "(ph(t := SReader)) v \<noteq> SReader \<and> ((ph(t := SReader)) v = SWriter \<longrightarrow> v = u)"
        if "(ph(t := SReader)) u = SWriter" for u v using that nw by blast
      show "(ph(t := SReader)) u \<noteq> SFatal" for u using ex(2) by simp
    qed
  qed
qed

lemma spin_releases:
  fixes ph :: "'t::finite \<Rightarrow> spin_phase"
  assumes "spin_inv (flag, ph)" "CARD('t) < 2 ^ 30"
  shows "ph t = SIdle \<Longrightarrow> spin_inv (spin_mark_waiter writer flag, ph)"
    "ph t = SWaking \<Longrightarrow> spin_inv (spin_read_clear_waiters flag, ph(t := SIdle))"
    "\<lbrakk>ph t = SWriter; spin_unlock flag = (r, flag')\<rbrakk> \<Longrightarrow> r \<noteq> WakeFatal \<and> spin_inv (flag', ph(t := SIdle))"
    "\<lbrakk>ph t = SReader; spin_read_unlock flag = (r, flag')\<rbrakk> \<Longrightarrow> r \<noteq> WakeFatal \<and>
       spin_inv (flag', ph(t := if r = WakeOne then SWaking else SIdle))"
proof -
  let ?r = "card {t. ph t = SReader}" and ?w = "\<exists>t. ph t = SWriter"
  obtain wt where f: "flag = spin_enc ?w ?r wt" and
      wk: "wt \<and> (\<forall>t. ph t \<noteq> SWriter \<and> ph t \<noteq> SReader) \<longrightarrow> (\<exists>t. ph t = SWaking)" and
      ex: "\<forall>t u. ph t = SWriter \<longrightarrow> ph u \<noteq> SReader \<and> (ph u = SWriter \<longrightarrow> u = t)" "\<forall>t. ph t \<noteq> SFatal"
    by (rule spin_invE [OF assms(1)])
  have b: "?r < 2 ^ 30" by (rule spin_readers_bound [OF assms(2)])
  note fl = spin_enc_flags [OF b] and mk = spin_enc_marks [OF b]
  have rz: "?r = 0 \<longleftrightarrow> (\<forall>u. ph u \<noteq> SReader)" by simp
  show "spin_inv (spin_mark_waiter writer flag, ph)"
  proof (cases "\<not> spin_lock_possibly_available flag writer \<and> \<not> spin_flag_has_waiters flag")
    case True
    then have "\<not> wt" using fl(2) f by simp
    then have "?w \<or> 0 < ?r" using True fl(4,5) f by (auto simp: spin_lock_possibly_available_def split: if_splits)
    then have "\<exists>u. ph u = SWriter \<or> ph u = SReader" using rz by (metis less_irrefl_nat)
    moreover have "spin_mark_waiter writer flag = spin_enc ?w ?r True" using True mk(1) f by (simp add: spin_mark_waiter_def)
    ultimately show ?thesis using ex by (intro spin_invI [where wt = True]) (assumption, blast, simp, simp)
  next
    case False
    then have "spin_mark_waiter writer flag = flag" by (simp only: spin_mark_waiter_def if_False)
    then show ?thesis using assms(1) by simp
  qed
  show "spin_inv (spin_read_clear_waiters flag, ph(t := SIdle))" if t: "ph t = SWaking"
  proof -
    have c: "card {u. (ph(t := SIdle)) u = SReader} = ?r" by (rule readers_upd) (simp_all add: t)
    have "(ph(t := SIdle)) u = SWriter \<longleftrightarrow> ph u = SWriter" for u using t by (cases "u = t") simp_all
    then have "(\<exists>u. (ph(t := SIdle)) u = SWriter) = ?w" by (simp only:)
    then have "spin_read_clear_waiters flag = spin_enc (\<exists>u. (ph(t := SIdle)) u = SWriter) (card {u. (ph(t := SIdle)) u = SReader}) False"
      using mk(2) f unfolding c spin_read_clear_waiters_def by (simp only:)
    then show ?thesis
    proof (rule spin_invI)
      show "(ph(t := SIdle)) v \<noteq> SReader \<and> ((ph(t := SIdle)) v = SWriter \<longrightarrow> v = u)"
        if "(ph(t := SIdle)) u = SWriter" for u v using that ex(1) by (simp split: if_splits)
      show "(ph(t := SIdle)) u \<noteq> SFatal" for u using ex(2) by simp
    qed simp
  qed
  show "r \<noteq> WakeFatal \<and> spin_inv (flag', ph(t := SIdle))" if t: "ph t = SWriter" "spin_unlock flag = (r, flag')"
  proof -
    have w: "?w" "?r = 0" using t(1) ex(1) rz by auto
    have u: "r \<noteq> WakeFatal" "flag' = 0" using t(2) w fl(1-3) f by (auto simp: spin_unlock_def split: if_splits)
    have "card {u. (ph(t := SIdle)) u = SReader} = ?r" by (rule readers_upd) (simp_all add: t)
    moreover have "\<not> (\<exists>u. (ph(t := SIdle)) u = SWriter)" using t ex(1) by auto
    moreover have "spin_enc False 0 False = 0" by (simp add: spin_enc_def)
    ultimately have "spin_inv (0, ph(t := SIdle))"
      using ex(2) w(2) by (intro spin_invI [where wt = False]) (simp_all split: if_splits)
    then show ?thesis using u by simp
  qed
  show "r \<noteq> WakeFatal \<and> spin_inv (flag', ph(t := if r = WakeOne then SWaking else SIdle))"
    if t: "ph t = SReader" "spin_read_unlock flag = (r, flag')"
  proof -
    have "?r \<noteq> 0" using t(1) rz by blast
    then have w2: "0 < ?r" by (simp only: neq0_conv)
    have w1: "\<not> ?w" using t(1) ex(1) by blast
    obtain k where k: "?r = Suc k" using w2 gr0_implies_Suc by blast
    have f': "flag = spin_enc False (Suc k) wt" using f w1 k by simp
    have sk: "Suc k < 2 ^ 30" using b k by simp
    have u: "r = (if wt then WakeOne else WakeNone)" "flag' = spin_enc False k wt"
      using t(2) unfolding spin_read_unlock_def f' spin_enc_flags [OF sk] spin_enc_signed [OF sk] spin_enc_count(2) [OF sk]
      by (auto split: if_splits)
    let ?ph = "ph(t := if r = WakeOne then SWaking else SIdle)"
    have "Suc (card {u. ?ph u = SReader}) = ?r" by (rule readers_upd) (simp_all add: t)
    then have "card {u. ?ph u = SReader} = k" using k by simp
    moreover have "\<not> (\<exists>u. ?ph u = SWriter)" using w1 by auto
    ultimately have "spin_inv (spin_enc False k wt, ?ph)"
      using ex(2) u(1) by (intro spin_invI [where wt = wt]) (simp_all split: if_splits, blast)
    then show ?thesis using u by simp
  qed
qed

lemma spin_step_inv:
  assumes "spin_step s s'" "spin_inv s" "CARD('t::finite) < 2 ^ 30"
  shows "spin_inv (s' :: 't spin_state)"
  using assms(1,2)
proof cases
  case (sp_lock ph t flag flag')
  then show ?thesis using spin_claims(1) [of flag ph t 0] assms by (auto simp: spin_try_lock_def split: if_splits)
next
  case (sp_read_lock ph t flag flag')
  then show ?thesis using spin_claims(2) [of flag ph t 0] assms by (auto simp: spin_try_read_lock_def split: if_splits)
next
  case (sp_claim ph t w writer flag flag')
  then show ?thesis using spin_claims [of flag ph t w] assms
    by (auto simp: spin_try_claim_lock_def spin_lock_possibly_available_def split: if_splits)
next
  case (sp_mark ph t flag writer)
  then show ?thesis using spin_releases(1) assms by blast
next
  case (sp_unlock ph t flag r flag')
  then show ?thesis using spin_releases(3) [of flag ph t r flag'] assms by simp
next
  case (sp_read_unlock ph t flag r flag')
  then show ?thesis using spin_releases(4) [of flag ph t r flag'] assms by (cases r) simp_all
next
  case (sp_wake ph t flag)
  then show ?thesis using spin_releases(2) assms by blast
qed

lemma spin_reachable_inv:
  "\<lbrakk>spin_step\<^sup>*\<^sup>* s s'; spin_inv s; CARD('t::finite) < 2 ^ 30\<rbrakk> \<Longrightarrow> spin_inv (s' :: 't spin_state)"
  by (induction rule: rtranclp_induct) (auto intro: spin_step_inv)

lemma spin_free_lock:
  fixes t :: "'t::finite"
  assumes "spin_inv (flag, ph)" and free: "\<forall>u. ph u \<noteq> SWriter \<and> ph u \<noteq> SReader" and t: "ph t = SIdle"
  shows "\<exists>flag' ph'. spin_step\<^sup>*\<^sup>* (flag, ph) (flag', ph') \<and> ph' t = SWriter"
proof -
  obtain wt where f: "flag = spin_enc False 0 wt" and w: "wt \<Longrightarrow> \<exists>u. ph u = SWaking"
    by (rule spin_invE [OF assms(1)]) (use free in simp)
  have lock: "spin_step (0, p) (1, p(t := SWriter))" if "p t = SIdle" for p
    using that by (intro sp_lock) (simp_all add: spin_try_lock_def)
  show ?thesis
  proof (cases wt)
    case True
    then obtain u where u: "ph u = SWaking" using w by blast
    have "spin_read_clear_waiters flag = 0" by (simp add: f True spin_enc_def spin_read_clear_waiters_def)
    then have "spin_step (flag, ph) (0, ph(u := SIdle))" using sp_wake [of ph u flag] u by simp
    moreover have "spin_step (0, ph(u := SIdle)) (1, ph(u := SIdle, t := SWriter))" by (rule lock) (simp add: t)
    ultimately have "spin_step\<^sup>*\<^sup>* (flag, ph) (1, ph(u := SIdle, t := SWriter))" by simp
    then show ?thesis by (intro exI [of _ 1] exI [of _ "ph(u := SIdle, t := SWriter)"]) simp
  next
    case False
    then have "spin_step (flag, ph) (1, ph(t := SWriter))" using lock [of ph] t by (simp add: f spin_enc_def)
    then show ?thesis by (intro exI [of _ 1] exI [of _ "ph(t := SWriter)"]) auto
  qed
qed

end
