(* ===== verification/RVVM_Devices.thy ===== *)
theory RVVM_Devices
  imports RVVM_Machine
begin

text \<open>
  The devices of src/rvvm/src/devices that every board has: the core local interruptor
  (riscv-aclint.c), the power controller (syscon.c) and the controller of message signalled
  interrupts (riscv-imsic.c).  The handlers act on the list of harts of the machine.  A board with
  these devices, attached through \<open>rvvm_attach_mmio\<close>, is the machine on which the isolation of
  the guest is stated.
\<close>

unbundle bit_operations_syntax

section \<open>Core local interruptor\<close>

type_synonym 'd harts_handler = "u8 list \<Rightarrow> u64 \<Rightarrow> 'd rvvm_hart list \<Rightarrow> bool \<times> u8 list \<times> 'd rvvm_hart list"

abbreviation (input) RISCV_INTERRUPT_MSOFTWARE :: nat where "RISCV_INTERRUPT_MSOFTWARE \<equiv> 3"

definition aclint_mswi_read :: "'d harts_handler" where
  "aclint_mswi_read data offset harts =
     (let hartid = unat (drop_bit 2 offset)
      in if hartid < length harts
         then (True, buf_write data 0 (le_bytes 4
                 (drop_bit RISCV_INTERRUPT_MSOFTWARE (riscv_interrupts_raised (harts ! hartid)) AND 1)), harts)
         else (False, data, harts))"

definition aclint_mswi_write :: "'d harts_handler" where
  "aclint_mswi_write data offset harts =
     (let hartid = unat (drop_bit 2 offset)
      in if hartid < length harts
         then (True, data, harts[hartid :=
                 if (le_val (take 4 data) :: u32) AND 1 \<noteq> 0
                 then riscv_interrupt RISCV_INTERRUPT_MSOFTWARE (harts ! hartid)
                 else riscv_interrupt_clear RISCV_INTERRUPT_MSOFTWARE (harts ! hartid)])
         else (False, data, harts))"

text \<open>The clock of the machine is the clock of each hart; writing it moves them all.\<close>

definition aclint_mtimer_read :: "'d harts_handler" where
  "aclint_mtimer_read data offset harts =
     (let hartid = unat (drop_bit 3 offset)
      in if offset = 0x7FF8 then (True, buf_write data 0 (le_bytes 8 (timer (hd harts))), harts)
         else if hartid < length harts
           then (True, buf_write data 0 (le_bytes 8 (mtimecmp (harts ! hartid))), harts)
         else (False, data, harts))"

definition aclint_mtimecmp_set :: "u64 \<Rightarrow> 'd rvvm_hart \<Rightarrow> 'd rvvm_hart" where
  "aclint_mtimecmp_set v vm =
     (let vm = vm\<lparr>mtimecmp := v\<rparr>
      in if rvtimecmp_pending (timer vm) (mtimecmp vm) then riscv_interrupt RISCV_INTERRUPT_MTIMER vm
         else riscv_interrupt_clear RISCV_INTERRUPT_MTIMER vm)"

definition aclint_mtimer_write :: "'d harts_handler" where
  "aclint_mtimer_write data offset harts =
     (let hartid = unat (drop_bit 3 offset); v = le_val (take 8 data)
      in if offset = 0x7FF8 then (True, data, map (\<lambda>vm. vm\<lparr>timer := v\<rparr>) harts)
         else if hartid < length harts
           then (True, data, harts[hartid := aclint_mtimecmp_set v (harts ! hartid)])
         else (False, data, harts))"

section \<open>Power controller\<close>

text \<open>
  \<open>rvvm_reset_machine\<close> stores the power state of the machine, which the handlers reach through
  the part of the state the devices share.
\<close>

record rvvm_board =
  power_state :: u32

definition board_reset_machine :: "bool \<Rightarrow> rvvm_board rvvm_hart \<Rightarrow> rvvm_board rvvm_hart" where
  "board_reset_machine reset vm =
     vm\<lparr>devices := (devices vm)\<lparr>power_state := if reset then RVVM_POWER_RESET else RVVM_POWER_OFF\<rparr>\<rparr>"

abbreviation (input) SYSCON_POWEROFF :: u16 where "SYSCON_POWEROFF \<equiv> 0x5555"
abbreviation (input) SYSCON_RESET :: u16 where "SYSCON_RESET \<equiv> 0x7777"

definition syscon_mmio_write :: "rvvm_board mmio_handler" where
  "syscon_mmio_write data offset sz vm =
     (let v = le_val (take 2 data) :: u16
      in if offset = 0 \<and> (v = SYSCON_POWEROFF \<or> v = SYSCON_RESET)
         then (True, data, board_reset_machine (v = SYSCON_RESET) vm) else (True, data, vm))"

section \<open>Message signalled interrupts\<close>

definition imsic_mmio_write :: "bool \<Rightarrow> 'd harts_handler" where
  "imsic_mmio_write smode data offset harts =
     (let hartid = unat (drop_bit 12 offset)
      in if hartid < length harts then
           (if offset AND 0xFFC = 0
            then (True, data, harts[hartid := riscv_send_aia_irq smode (le_val (take 4 data)) (harts ! hartid)])
            else if offset AND 0xFFC = 4
            then (True, data, harts[hartid := riscv_send_aia_irq smode (le_val (rev (take 4 data))) (harts ! hartid)])
            else (True, data, harts))
         else (True, data, harts))"

section \<open>A board with one hart\<close>

text \<open>On a machine with one hart the list of harts is the hart that runs the handler.\<close>

definition on_hart :: "'d harts_handler \<Rightarrow> 'd mmio_handler" where
  "on_hart f data offset sz vm = (let (ok, data, harts) = f data offset [vm] in (ok, data, hd harts))"

definition mmio_none_handler :: "'d mmio_handler" where
  "mmio_none_handler data offset sz vm = (True, rvvm_mmio_none data (unat sz), vm)"

definition aclint_mswi :: "u64 \<Rightarrow> 'd mmio_dev" where
  "aclint_mswi addr = \<lparr>mmio_addr = addr, mmio_size = 0x4000, mmio_mapping = 0, mmio_min_op_size = 4,
     mmio_max_op_size = 4, mmio_read = Some (on_hart aclint_mswi_read), mmio_write = Some (on_hart aclint_mswi_write)\<rparr>"

definition aclint_mtimer :: "u64 \<Rightarrow> 'd mmio_dev" where
  "aclint_mtimer addr = \<lparr>mmio_addr = addr + 0x4000, mmio_size = 0x8000, mmio_mapping = 0, mmio_min_op_size = 8,
     mmio_max_op_size = 8, mmio_read = Some (on_hart aclint_mtimer_read), mmio_write = Some (on_hart aclint_mtimer_write)\<rparr>"

definition syscon :: "u64 \<Rightarrow> rvvm_board mmio_dev" where
  "syscon base_addr = \<lparr>mmio_addr = base_addr, mmio_size = 0x1000, mmio_mapping = 0, mmio_min_op_size = 2,
     mmio_max_op_size = 2, mmio_read = Some mmio_none_handler, mmio_write = Some syscon_mmio_write\<rparr>"

definition imsic_mmio :: "nat \<Rightarrow> u64 \<Rightarrow> bool \<Rightarrow> 'd mmio_dev" where
  "imsic_mmio harts addr smode = \<lparr>mmio_addr = addr, mmio_size = push_bit 12 (of_nat harts), mmio_mapping = 0,
     mmio_min_op_size = 4, mmio_max_op_size = 4, mmio_read = Some mmio_none_handler,
     mmio_write = Some (on_hart (imsic_mmio_write smode))\<rparr>"

section \<open>Initialisation\<close>

text \<open>
  The initialisation functions without the device tree nodes they add.  As for
  \<open>rvvm_attach_mmio\<close>, no result means that the search for a zone does not end.
\<close>

definition riscv_clint_init :: "u64 \<Rightarrow> 'd rvvm_machine \<Rightarrow> 'd rvvm_machine option" where
  "riscv_clint_init addr M =
     (case rvvm_attach_mmio M (aclint_mswi addr) of
        None \<Rightarrow> None
      | Some None \<Rightarrow> Some M
      | Some (Some (_, M)) \<Rightarrow>
          (case rvvm_attach_mmio M (aclint_mtimer addr) of
             None \<Rightarrow> None
           | Some None \<Rightarrow> Some M
           | Some (Some (_, M)) \<Rightarrow> Some M))"

definition riscv_clint_init_auto :: "'d rvvm_machine \<Rightarrow> 'd rvvm_machine option" where
  "riscv_clint_init_auto M =
     Option.bind (rvvm_mmio_zone_auto M 0x2000000 0x10000) (\<lambda>addr. riscv_clint_init addr M)"

definition syscon_init :: "u64 \<Rightarrow> rvvm_board rvvm_machine \<Rightarrow> rvvm_board rvvm_machine option" where
  "syscon_init base_addr M =
     (case rvvm_attach_mmio M (syscon base_addr) of
        None \<Rightarrow> None
      | Some None \<Rightarrow> Some M
      | Some (Some (_, M)) \<Rightarrow> Some M)"

definition syscon_init_auto :: "rvvm_board rvvm_machine \<Rightarrow> rvvm_board rvvm_machine option" where
  "syscon_init_auto M =
     Option.bind (rvvm_mmio_zone_auto M 0x100000 0x1000) (\<lambda>addr. syscon_init addr M)"

definition riscv_imsic_init :: "nat \<Rightarrow> u64 \<Rightarrow> bool \<Rightarrow> 'd rvvm_machine \<times> 'd mmio_dev list
     \<Rightarrow> ('d rvvm_machine \<times> 'd mmio_dev list) option" where
  "riscv_imsic_init harts addr smode = (\<lambda>(M, targets).
     map_option snd (rvvm_attach_msi_target M targets (imsic_mmio harts addr smode)))"

definition riscv_imsic_init_auto :: "nat \<Rightarrow> 'd rvvm_machine \<times> 'd mmio_dev list
     \<Rightarrow> ('d rvvm_machine \<times> 'd mmio_dev list) option" where
  "riscv_imsic_init_auto harts mt =
     (let imsic_size = push_bit 12 (of_nat harts)
      in Option.bind (rvvm_mmio_zone_auto (fst mt) 0x24000000 imsic_size) (\<lambda>m_addr.
         Option.bind (rvvm_mmio_zone_auto (fst mt) 0x28000000 imsic_size) (\<lambda>s_addr.
         Option.bind (riscv_imsic_init harts m_addr False mt) (riscv_imsic_init harts s_addr True))))"

section \<open>Devices that keep the isolation on every machine\<close>

locale portable_device =
  fixes dev :: "'d mmio_dev"
  assumes ops: "0 < mmio_min_op_size dev" "mmio_min_op_size dev \<le> 16" "mmio_min_op_size dev \<le> mmio_max_op_size dev"
    and unmapped: "mmio_mapping dev = 0"
    and read_ok: "mmio_read dev = Some f \<Longrightarrow> handler_ok M dev f"
    and write_ok: "mmio_write dev = Some f \<Longrightarrow> handler_ok M dev f"

sublocale portable_device \<subseteq> bus: mmio_device M dev for M
  by unfold_locales (auto simp: ops unmapped read_ok write_ok)

lemma mmio_normalize_pow2 [simp]:
  assumes "mmio_min_op_size dev \<in> {1, 2, 4, 8}" "mmio_max_op_size dev \<in> {1, 2, 4, 8}"
  shows "mmio_normalize dev = dev"
  using assms by (auto simp: mmio_normalize_def bit_next_pow2_def)

lemma length_buf_write [simp]: "length bs \<le> length buf \<Longrightarrow> length (buf_write buf 0 bs) = length buf"
  by (simp add: buf_write_def)

lemma handler_none: "handler_ok M dev mmio_none_handler"
  by (simp add: handler_ok_def mmio_none_handler_def rvvm_mmio_none_def)

lemma u8_size_bound: "\<lbrakk>(b :: u8) \<le> sz; unat sz \<le> n\<rbrakk> \<Longrightarrow> unat b \<le> n"
  by (simp add: word_le_nat_alt)

lemma handlers_aclint:
  "handler_ok M (aclint_mswi a) (on_hart aclint_mswi_read)" "handler_ok M (aclint_mswi a) (on_hart aclint_mswi_write)"
  "handler_ok M (aclint_mtimer a) (on_hart aclint_mtimer_read)" "handler_ok M (aclint_mtimer a) (on_hart aclint_mtimer_write)"
  by (auto simp: handler_ok_def on_hart_def aclint_mswi_read_def aclint_mswi_write_def aclint_mtimer_read_def
      aclint_mtimer_write_def aclint_mtimecmp_set_def aclint_mswi_def aclint_mtimer_def Let_def good_interrupt_ops
      dest!: u8_size_bound)

lemma handler_syscon: "handler_ok M dev syscon_mmio_write"
  by (simp add: handler_ok_def syscon_mmio_write_def board_reset_machine_def Let_def)

lemma handler_imsic: "handler_ok M dev (on_hart (imsic_mmio_write smode))"
  by (simp add: handler_ok_def on_hart_def imsic_mmio_write_def Let_def good_send_aia_irq)

interpretation mswi: portable_device "aclint_mswi addr" for addr
  by unfold_locales (auto simp: aclint_mswi_def handlers_aclint [unfolded aclint_mswi_def])

interpretation mtimer: portable_device "aclint_mtimer addr" for addr
  by unfold_locales (auto simp: aclint_mtimer_def handlers_aclint [unfolded aclint_mtimer_def])

interpretation power: portable_device "syscon base_addr" for base_addr
  by unfold_locales (auto simp: syscon_def handler_none handler_syscon)

interpretation msi: portable_device "imsic_mmio harts addr smode" for harts addr smode
  by unfold_locales (auto simp: imsic_mmio_def handler_none handler_imsic)

section \<open>Boards\<close>

locale portable_bus =
  fixes M :: "'d rvvm_machine"
  assumes ram: "ram_addr (m_mem M) AND 0xFFF = 0" "ram_size (m_mem M) AND 0xFFF = 0"
    and devices: "\<forall>dev \<in> set (m_mmio_devs M). portable_device dev"
    and wait: "hart_good M' h0 vm \<Longrightarrow> hart_good M' h0 (m_condvar_wait M ns vm)"
begin

lemma attach_keeps:
  assumes "rvvm_attach_mmio M d = Some (Some (d', M'))" "portable_device (mmio_normalize d)"
  shows "portable_bus M'"
proof -
  have "M' = M\<lparr>m_mmio_devs := m_mmio_devs M @ [mmio_normalize d]\<rparr>"
    using assms(1) by (auto simp: rvvm_attach_mmio_def Let_def split: if_splits option.splits)
  then show ?thesis using assms(2) ram devices wait by unfold_locales auto
qed

end

sublocale portable_bus \<subseteq> bus: mmio_bus M
proof unfold_locales
  show "\<forall>dev\<in>set (m_mmio_devs M). mmio_device M dev"
    using devices by (auto simp: mmio_device_def portable_device_def)
qed (use ram wait in auto)

definition board_wait :: "u64 \<Rightarrow> u64 \<Rightarrow> 'd rvvm_hart \<Rightarrow> 'd rvvm_hart" where
  "board_wait freq ns vm = vm\<lparr>timer := timer vm + rvtimer_convert_freq ns 1000000000 freq\<rparr>"

definition board_ram :: "u64 \<Rightarrow> u64 option \<Rightarrow> rvvm_ram" where
  "board_ram mem_size alloc =
     (case riscv_init_ram RVVM_DEFAULT_MEMBASE mem_size alloc of
        Some r \<Rightarrow> r | None \<Rightarrow> \<lparr>ram_addr = 0, ram_size = 0, ram_data = 0\<rparr>)"

definition board_env :: "u64 \<Rightarrow> u64 option \<Rightarrow> bool \<Rightarrow> rvvm_board rvvm_machine" where
  "board_env mem_size alloc rv = \<lparr>m_mem = board_ram mem_size alloc, m_rv64 = rv, m_mmio_devs = [],
     m_gdbstub_halt = None, m_arg_sv57 = True, m_version = ''0.7'', m_timer_freq = 10000000,
     m_condvar_wait = board_wait 10000000\<rparr>"

text \<open>
  The devices of a board with one hart, in the order src/rvvm/src/main.c initialises them when
  message signalled interrupts are in use.
\<close>

definition board_init :: "rvvm_board rvvm_machine \<Rightarrow> rvvm_board rvvm_machine option" where
  "board_init M =
     Option.bind (riscv_clint_init_auto M) (\<lambda>M.
     Option.bind (riscv_imsic_init_auto 1 (M, [])) (\<lambda>(M, _). syscon_init_auto M))"

definition board_machine :: "u64 \<Rightarrow> u64 option \<Rightarrow> bool \<Rightarrow> rvvm_board rvvm_machine" where
  "board_machine mem_size alloc rv =
     (case board_init (board_env mem_size alloc rv) of Some M \<Rightarrow> M | None \<Rightarrow> board_env mem_size alloc rv)"

lemma board_env_portable: "portable_bus (board_env mem_size alloc rv)"
  by unfold_locales (auto simp: board_env_def board_ram_def riscv_init_ram_def board_wait_def split: option.split)

lemma normalize_devices [simp]:
  "mmio_normalize (aclint_mswi a) = aclint_mswi a" "mmio_normalize (aclint_mtimer a) = aclint_mtimer a"
  "mmio_normalize (syscon a) = syscon a" "mmio_normalize (imsic_mmio n a b) = imsic_mmio n a b"
  by (simp_all add: aclint_mswi_def aclint_mtimer_def syscon_def imsic_mmio_def)

lemmas portable_devices =
  mswi.portable_device_axioms mtimer.portable_device_axioms power.portable_device_axioms msi.portable_device_axioms

lemma attach_portable:
  "\<lbrakk>rvvm_attach_mmio M d = Some (Some (d', M')); portable_bus M; mmio_normalize d = d; portable_device d\<rbrakk>
     \<Longrightarrow> portable_bus M'"
  using portable_bus.attach_keeps by metis

lemma clint_init_portable: "\<lbrakk>riscv_clint_init_auto M = Some M'; portable_bus M\<rbrakk> \<Longrightarrow> portable_bus M'"
  unfolding riscv_clint_init_auto_def riscv_clint_init_def bind_eq_Some_conv
  by (elim exE conjE) (auto simp: portable_devices split: option.split_asm dest!: attach_portable)

lemma syscon_init_portable: "\<lbrakk>syscon_init_auto M = Some M'; portable_bus M\<rbrakk> \<Longrightarrow> portable_bus M'"
  unfolding syscon_init_auto_def syscon_init_def bind_eq_Some_conv
  by (elim exE conjE) (auto simp: portable_devices split: option.split_asm dest!: attach_portable)

lemma imsic_init_portable:
  "\<lbrakk>riscv_imsic_init n a b (M, ts) = Some (M', ts'); portable_bus M\<rbrakk> \<Longrightarrow> portable_bus M'"
  by (auto simp: riscv_imsic_init_def rvvm_attach_msi_target_def portable_devices
      split: option.split_asm if_splits dest!: attach_portable)

lemma board_portable: "portable_bus (board_machine mem_size alloc rv)"
proof -
  have "portable_bus M'" if "board_init M = Some M'" "portable_bus M" for M M'
    using that unfolding board_init_def riscv_imsic_init_auto_def Let_def bind_eq_Some_conv
    by (auto dest!: clint_init_portable imsic_init_portable syscon_init_portable)
  then show ?thesis using board_env_portable by (simp add: board_machine_def split: option.split)
qed

interpretation board: portable_bus "board_machine mem_size alloc rv" for mem_size alloc rv
  by (rule board_portable)

section \<open>What the devices do\<close>

lemma zone_auto_here: "mmio_zone_conflict M sz a = None \<Longrightarrow> rvvm_mmio_zone_auto M a sz = Some a"
  by (auto simp: rvvm_mmio_zone_auto_def while_option_unfold)

lemmas dev_defs = aclint_mswi_def aclint_mtimer_def syscon_def imsic_mmio_def

lemma board_devices:
  "board_machine 0x4000000 (Some 0x7F0000000000) rv = (board_env 0x4000000 (Some 0x7F0000000000) rv)
     \<lparr>m_mmio_devs := [aclint_mswi 0x2000000, aclint_mtimer 0x2000000, imsic_mmio 1 0x24000000 False,
       imsic_mmio 1 0x28000000 True, syscon 0x100000]\<rparr>"
proof -
  let ?M = "board_env 0x4000000 (Some 0x7F0000000000) rv"
  have z: "rvvm_mmio_zone_auto N a sz = Some a" if "mmio_zone_conflict N sz a = None" for N :: "rvvm_board rvvm_machine" and a sz
    using that by (rule zone_auto_here)
  have c: "riscv_clint_init_auto ?M = Some (?M\<lparr>m_mmio_devs := [aclint_mswi 0x2000000, aclint_mtimer 0x2000000]\<rparr>)"
    by (simp add: riscv_clint_init_auto_def riscv_clint_init_def rvvm_attach_mmio_def z mmio_zone_conflict_def
        board_env_def board_ram_def riscv_init_ram_def rvvm_mmio_overlap_check_def dev_defs Let_def)
  show ?thesis unfolding board_machine_def board_init_def c
    by (simp add: riscv_imsic_init_auto_def riscv_imsic_init_def
        rvvm_attach_msi_target_def rvvm_attach_mmio_def z mmio_zone_conflict_def syscon_init_auto_def syscon_init_def
        board_env_def board_ram_def riscv_init_ram_def rvvm_mmio_overlap_check_def dev_defs Let_def)
qed

lemma mtimecmp_irq: "bit (pending_irqs (aclint_mtimecmp_set v vm)) RISCV_INTERRUPT_MTIMER \<longleftrightarrow> v \<le> timer vm"
  by (simp add: aclint_mtimecmp_set_def rvtimecmp_pending_def riscv_interrupt_def riscv_interrupt_set_def
      riscv_interrupt_clear_def riscv_hart_notify_def riscv_restart_dispatch_def Let_def bit_simps)

lemma mswi_irq:
  assumes "aclint_mswi_write data offset harts = (True, data', harts')"
  shows "unat (drop_bit 2 offset) < length harts'"
    "bit (pending_irqs (harts' ! unat (drop_bit 2 offset))) RISCV_INTERRUPT_MSOFTWARE \<longleftrightarrow> bit (le_val (take 4 data) :: u32) 0"
  using assms
  by (auto simp: aclint_mswi_write_def Let_def riscv_interrupt_def riscv_interrupt_set_def riscv_interrupt_clear_def
      riscv_hart_notify_def riscv_restart_dispatch_def bit_simps and_one_eq bit_0 even_iff_mod_2_eq_zero split: if_splits)

end
