(* ===== verification/RVVM_Board.thy ===== *)
theory RVVM_Board
  imports RVVM_Devices RVVM_MMU_Lemmas
begin

text \<open>
  A concrete board: 64 MiB of RAM at the reset address, the devices of RVVM_Devices and one
  64-bit hart, reset as src/rvvm/src/rvvm.c does.  Its first instruction is executed here, so that
  the properties of reachable states can be applied to a state the interpreter has produced.
\<close>

unbundle bit_operations_syntax

definition small_board :: "rvvm_board rvvm_machine" where
  "small_board = board_machine 0x4000000 (Some 0x7F0000000000) True"

definition small_hart :: "host_mem \<Rightarrow> rvvm_board rvvm_hart" where
  "small_hart hst = reset_hart 0 0 0x80000000 (riscv_hart_init small_board hst 0 0 \<lparr>power_state = 1\<rparr>)"

lemma small_board_shape:
  "m_mem small_board = \<lparr>ram_addr = 0x80000000, ram_size = 0x4000000, ram_data = 0x7F0000000000\<rparr>"
  "m_rv64 small_board"
  "m_mmio_devs small_board = [aclint_mswi 0x2000000, aclint_mtimer 0x2000000, imsic_mmio 1 0x24000000 False,
     imsic_mmio 1 0x28000000 True, syscon 0x100000]"
  by (simp_all add: small_board_def board_devices board_env_def board_ram_def riscv_init_ram_def)

lemma small_board_bus: "mmio_bus small_board"
  unfolding small_board_def by (rule board.bus.mmio_bus_axioms)

lemma small_board_guest:
  "host_guest small_board a \<longleftrightarrow> a - 0x7F0000000000 < 0x4000000"
  by (simp add: host_guest_def ram_host_def small_board_shape dev_defs)

section \<open>The first instruction\<close>

lemma small_hart_fields:
  "priv_mode (small_hart hst) = 3" "mem (small_hart hst) = m_mem small_board" "rv64 (small_hart hst)"
  "host (small_hart hst) = hst" "registers (small_hart hst) 32 = 0x80000000" "status (small_hart hst) = 0"
  "csr_ie (csr (small_hart hst)) = 0" "pending_events (small_hart hst) = 0" "userland (small_hart hst) = False"
  "trap (small_hart hst) = False" "csr_tvec (csr (small_hart hst)) = (\<lambda>_. 0)"
  "csr_edeleg (csr (small_hart hst)) 3 = 0"
  by (simp_all add: small_hart_def reset_hart_def riscv_hart_init_def riscv_csr_init_def riscv_switch_priv_def
      riscv_tlb_flush_def riscv_restart_dispatch_def small_board_shape Let_def)

lemma small_hart_begin:
  "riscv_hart_run_begin (small_hart hst) = (True, (small_hart hst)\<lparr>running := True, pending_events := 0\<rparr>)"
  by (simp add: riscv_hart_run_begin_def small_hart_fields riscv_handle_irqs_def riscv_interrupts_pending_def Let_def)

lemma small_hart_fetch:
  assumes "hst 0x7F0000000000 = 0" "hst 0x7F0000000001 = 0"
  shows "riscv_fetch_insn small_board 0x80000000 ((small_hart hst)\<lparr>running := True, pending_events := 0\<rparr>) =
    (Some 0, riscv_tlb_put 0x80000000 0x7F0000000000 8 ((small_hart hst)\<lparr>running := True, pending_events := 0\<rparr>))"
proof -
  let ?vm = "(small_hart hst)\<lparr>running := True, pending_events := 0\<rparr>"
  have miss: "tlb_e (tlb_at 0x80000000 ?vm) \<noteq> drop_bit 12 0x80000000"
    by (simp add: tlb_at_def small_hart_def reset_hart_def riscv_hart_init_def riscv_csr_init_def riscv_switch_priv_def
      riscv_tlb_flush_def riscv_restart_dispatch_def small_board_shape tlb_zero_def tlb_index_def Let_def)
  have t: "riscv_mmu_translate 0x80000000 8 ?vm = (Some 0x80000000, ?vm)"
    by (rule translate_mmode) (simp add: small_hart_fields)
  have p: "riscv_phys_access 0x80000000 ?vm = Some 0x7F0000000000"
    by (simp add: riscv_phys_access_def small_hart_fields small_board_shape)
  have "riscv_mmu_op small_board 0x80000000 [0, 0] 2 8 ?vm = (True, [0, 0], riscv_tlb_put 0x80000000 0x7F0000000000 8 ?vm)"
    using assms by (subst mmu_op_ram [OF t p]) (simp_all add: Let_def buf_write_def read_bytes_def small_hart_fields upt_conv_Cons)
  then show ?thesis using miss by (simp add: riscv_fetch_insn_def Let_def le_val_def)
qed

lemma zero_insn: "riscv_emulate_insn xl M 0 vm = Some (advance_pc 2 (riscv_trap 2 0 vm))"
  by (simp add: riscv_emulate_insn_def riscv_emulate_c_c0_def insn_field_def bit_ext_u32_def decode_c_addi4spn_imm_def
      riscv_illegal_insn_def Let_def)

lemma tlb_put_frame [simp]:
  "registers (riscv_tlb_put v ptr access vm) = registers vm" "csr (riscv_tlb_put v ptr access vm) = csr vm"
  "trap (riscv_tlb_put v ptr access vm) = trap vm" "userland (riscv_tlb_put v ptr access vm) = userland vm"
  "priv_mode (riscv_tlb_put v ptr access vm) = priv_mode vm"
  by (simp_all add: riscv_tlb_put_def Let_def)

lemma trap_mmode_tlb:
  assumes "priv_mode vm = 3" "\<not> trap vm" "\<not> userland vm" "csr_edeleg (csr vm) 3 = 0"
  shows "tlb (riscv_trap cause tval vm) = tlb vm"
  using assms by (simp add: riscv_trap_def numeral_3_eq_3 riscv_switch_priv_def riscv_restart_at_pc_def
      riscv_trap_priv_helper_def riscv_restart_dispatch_def Let_def)

lemma small_hart_run:
  assumes "hst 0x7F0000000000 = 0" "hst 0x7F0000000001 = 0"
  obtains vm where "(hart_step small_board)\<^sup>*\<^sup>* (Idle, small_hart hst) (Idle, vm)"
    "tlb_hit (tlb_at 0x80000000 vm) (drop_bit 12 0x80000000)" "csr_cause (csr vm) 3 = 2"
    "csr_epc (csr vm) 3 = 0x80000000" "registers vm 32 = 0" "priv_mode vm = 3"
proof -
  let ?v1 = "(small_hart hst)\<lparr>running := True, pending_events := 0\<rparr>"
  define v2 where "v2 = set_reg RISCV_REG_ZERO 0 (riscv_tlb_put 0x80000000 0x7F0000000000 8 ?v1)"
  define v3 where "v3 = advance_pc 2 (riscv_trap 2 0 v2)"
  have v2: "priv_mode v2 = 3" "\<not> trap v2" "\<not> userland v2" "csr_edeleg (csr v2) 3 = 0" "registers v2 32 = 0x80000000"
    "csr_tvec (csr v2) 3 = 0" "tlb_e (tlb_at 0x80000000 v2) = 0x80000"
    using tlb_put_hit(4) [of 8 "0x80000000" "0x7F0000000000" ?v1]
    by (simp_all add: v2_def set_reg_def small_hart_fields tlb_at_def)
  have t: "riscv_trap_target (csr_edeleg (csr v2)) (priv_mode v2) 2 3 = 3"
    using v2 by (simp add: numeral_3_eq_3)
  have b: "hart_step small_board (Idle, small_hart hst) (Run64 0 0x80001000, ?v1)"
    using step_begin64 [OF small_hart_begin, where M = small_board] by (simp add: small_hart_fields)
  have "riscv_interp_pass TYPE(64) small_board 0 0x80001000 ?v1 = Some (running v3, tlb_ptr (tlb_at 0x80000000 v2), 0x80000000, v3)"
    using small_hart_fetch [OF assms] v2(7)
    by (simp add: riscv_interp_pass_def riscv_interp_fetch_def small_hart_fields zero_insn v2_def v3_def set_reg_def tlb_at_def)
  moreover have "\<not> running v3"
    using riscv_trap_taken [OF v2(2,3) t [symmetric]] by (simp add: v3_def advance_pc_def set_reg_def)
  ultimately have e: "hart_step small_board (Run64 0 0x80001000, ?v1) (Idle, riscv_hart_run_end v3)"
    by (simp add: step_stop64)
  have r: "trap v3" "trap_pc v3 = 0" "csr_cause (csr v3) 3 = 2" "csr_epc (csr v3) 3 = 0x80000000" "priv_mode v3 = 3"
    "tlb v3 = tlb v2"
    using riscv_trap_taken [OF v2(2,3) t [symmetric]] trap_mmode_tlb [OF v2(1-4)] v2
    by (simp_all add: v3_def advance_pc_def set_reg_def)
  show ?thesis
    by (rule that [of "riscv_hart_run_end v3"])
      (use b e r v2(7) in \<open>simp_all add: riscv_hart_run_end_def set_reg_def tlb_hit_def tlb_at_def\<close>)
qed

end
