(* ===== verification/RVVM_Translation.thy ===== *)
theory RVVM_Translation
  imports RVVM_MMU_Lemmas
begin

text \<open>
  What a successful page table walk of src/rvvm/src/riscv_mmu.c has found, that a failed one
  changes nothing, that a store through the access paths is seen by the next load, and that an
  operation over two pages is the source's recursion.
\<close>

unbundle bit_operations_syntax

section \<open>Permissions\<close>

text \<open>
  The conditions of the privileged specification on a leaf entry: valid, the permission for the
  access (or, for a load with MXR, the permission to execute), and the user bit.
\<close>

definition page_allows :: "nat \<Rightarrow> u8 \<Rightarrow> u64 \<Rightarrow> u64 \<Rightarrow> bool" where
  "page_allows priv access st pte \<longleftrightarrow> bit pte 0 \<and>
     (access = RISCV_MMU_READ \<longrightarrow> bit pte 1 \<or> st AND CSR_STATUS_MXR \<noteq> 0 \<and> bit pte 3) \<and>
     (access = RISCV_MMU_WRITE \<longrightarrow> bit pte 2) \<and> (access = RISCV_MMU_EXEC \<longrightarrow> bit pte 3) \<and>
     (priv = RISCV_PRIV_USER \<longrightarrow> bit pte 4) \<and>
     (priv = RISCV_PRIV_SUPERVISOR \<and> bit pte 4 \<longrightarrow> st AND CSR_STATUS_SUM \<noteq> 0 \<and> access \<noteq> RISCV_MMU_EXEC)"

definition pte_dirty :: "u64 \<Rightarrow> u8 \<Rightarrow> u64" where
  "pte_dirty pte access = pte OR 0x40 OR push_bit 5 (ucast (access AND RISCV_MMU_WRITE))"

text \<open>The sizes of pages: 4 KiB, and a factor of 512 for every level above.\<close>

definition sv_page_bits :: "nat \<Rightarrow> bool" where
  "sv_page_bits k \<longleftrightarrow> k \<in> {12, 21, 30, 39, 48}"

lemma walk_rv64_sound:
  assumes "riscv_mmu_walk_rv64 n pagetable k0 vaddr priv access vm = (r, vm')" "k0 = 12 + 9 * i" "n \<le> Suc i" "i < 5"
  shows "(r = None \<longrightarrow> vm' = vm) \<and>
    (\<forall>paddr. r = Some paddr \<longrightarrow> (\<exists>pte_addr ptr pte k. riscv_phys_access pte_addr vm = Some ptr \<and> sv_page_bits k \<and>
       pte = read_uint64_le (host vm) ptr \<and> pte AND 1 \<noteq> 0 \<and> pte AND ucast access \<noteq> 0 \<and>
       ((pte AND 0x10 \<noteq> 0) = (priv \<noteq> 0) \<longrightarrow> riscv_mmu_check_priv priv access vm) \<and>
       paddr = (push_bit 2 pte AND push_bit k (bit_mask (56 - k))) OR (vaddr AND bit_mask k) \<and>
       vm' = (if pte \<noteq> pte_dirty pte access then vm\<lparr>host := write_uint64_le (host vm) ptr (pte_dirty pte access)\<rparr> else vm)))"
  using assms
proof (induction n arbitrary: pagetable k0 i)
  case 0
  then show ?case by (simp only: riscv_mmu_walk_rv64.simps prod.inject option.distinct simp_thms)
next
  case (Suc n)
  let ?a = "pagetable + push_bit 3 (drop_bit k0 vaddr AND 0x1FF)"
  show ?case
  proof (cases "riscv_phys_access ?a vm")
    case None
    then show ?thesis using Suc.prems(1) by simp
  next
    case (Some ptr)
    define pte where "pte = read_uint64_le (host vm) ptr"
    show ?thesis
    proof (cases "pte AND 1 \<noteq> 0 \<and> pte AND 0xA \<noteq> 0 \<and> pte AND ucast access \<noteq> 0")
      case True
      let ?bad = "(pte AND 0x10 \<noteq> 0) = (priv \<noteq> 0) \<and> \<not> riscv_mmu_check_priv priv access vm"
      let ?mis = "push_bit 2 pte AND bit_mask k0 AND NOT 0xFFF \<noteq> 0"
      let ?pa = "(push_bit 2 pte AND push_bit k0 (bit_mask (56 - k0))) OR (vaddr AND bit_mask k0)"
      let ?vm = "if pte \<noteq> pte_dirty pte access then vm\<lparr>host := write_uint64_le (host vm) ptr (pte_dirty pte access)\<rparr> else vm"
      have r: "(r, vm') = (if ?bad \<or> ?mis then (None, vm) else (Some ?pa, ?vm))"
        using Suc.prems(1) Some True
        unfolding riscv_mmu_walk_rv64.simps Let_def Some option.case pte_def [symmetric] pte_dirty_def by presburger
      show ?thesis
      proof (cases "?bad \<or> ?mis")
        case True
        have "r = None" "vm' = vm" using r [unfolded if_P [OF True]] by (simp_all only: prod.inject)
        then show ?thesis by simp
      next
        case False
        have "r = Some ?pa" "vm' = ?vm" using r [unfolded if_not_P [OF False]] by (simp_all only: prod.inject)
        moreover have "sv_page_bits k0" using Suc.prems(2,4) by (auto simp: sv_page_bits_def less_Suc_eq numeral_eq_Suc)
        ultimately show ?thesis using False True Some pte_def by blast
      qed
    next
      case False
      then have "(r, vm') = (None, vm) \<or> riscv_mmu_walk_rv64 n pagetable k0 vaddr priv access vm = (r, vm') \<or>
          riscv_mmu_walk_rv64 n (push_bit 12 (drop_bit 10 pte) AND 0xFFFFFFFFFFFFFF) (k0 - 9) vaddr priv access vm = (r, vm')"
        using Suc.prems(1) Some
        unfolding riscv_mmu_walk_rv64.simps Let_def Some option.case pte_def [symmetric] by presburger
      then show ?thesis
      proof (elim disjE)
        assume "(r, vm') = (None, vm)"
        then show ?thesis by simp
      next
        assume "riscv_mmu_walk_rv64 n pagetable k0 vaddr priv access vm = (r, vm')"
        then show ?thesis by (rule Suc.IH [OF _ Suc.prems(2)]) (use Suc.prems(3,4) in simp_all)
      next
        assume w: "riscv_mmu_walk_rv64 n (push_bit 12 (drop_bit 10 pte) AND 0xFFFFFFFFFFFFFF) (k0 - 9) vaddr priv access vm = (r, vm')"
        show ?thesis
        proof (cases i)
          case 0
          then show ?thesis using w Suc.prems(3) by simp
        next
          case (Suc j)
          show ?thesis by (rule Suc.IH [OF w, of j]) (use Suc Suc.prems(2-4) in simp_all)
        qed
      qed
    qed
  qed
qed

definition data_priv :: "u8 \<Rightarrow> 'd rvvm_hart \<Rightarrow> nat" where
  "data_priv access vm = (if status vm AND CSR_STATUS_MPRV \<noteq> 0 \<and> access \<noteq> RISCV_MMU_EXEC
     then unat (bit_cut (status vm) 11 2) else priv_mode vm)"

lemma pte_bits:
  "(pte :: u64) AND 1 = 0 \<longleftrightarrow> \<not> bit pte 0" "pte AND 2 = 0 \<longleftrightarrow> \<not> bit pte 1" "pte AND 4 = 0 \<longleftrightarrow> \<not> bit pte 2"
  "pte AND 8 = 0 \<longleftrightarrow> \<not> bit pte 3" "pte AND 0x10 = 0 \<longleftrightarrow> \<not> bit pte 4" "pte AND 0xA = 0 \<longleftrightarrow> \<not> bit pte 1 \<and> \<not> bit pte 3"
proof -
  have b: "pte AND 2 ^ n = 0 \<longleftrightarrow> \<not> bit pte n" for n by (rule and_exp_eq_0_iff_not_bit)
  show "pte AND 1 = 0 \<longleftrightarrow> \<not> bit pte 0" "pte AND 2 = 0 \<longleftrightarrow> \<not> bit pte 1" "pte AND 4 = 0 \<longleftrightarrow> \<not> bit pte 2"
    "pte AND 8 = 0 \<longleftrightarrow> \<not> bit pte 3" "pte AND 0x10 = 0 \<longleftrightarrow> \<not> bit pte 4"
    using b [of 0] b [of 1] b [of 2] b [of 3] b [of 4] by simp_all
  have "pte AND 0xA = (pte AND 2) OR (pte AND 8)" by (simp flip: bit.conj_disj_distrib)
  then show "pte AND 0xA = 0 \<longleftrightarrow> \<not> bit pte 1 \<and> \<not> bit pte 3"
    using b [of 1] b [of 3] by (simp add: or_eq_0_iff)
qed

lemma translate_sound:
  assumes t: "riscv_mmu_translate vaddr access vm = (r, vm')" and a: "access \<in> {2, 4, 8}"
    and mode: "mmu_mode vm \<in> {8, 9, 10}" and p: "data_priv access vm < 3"
  shows "(r = None \<longrightarrow> vm' = vm) \<and>
    (\<forall>paddr. r = Some paddr \<longrightarrow> (\<exists>pte_addr ptr pte k. riscv_phys_access pte_addr vm = Some ptr \<and> sv_page_bits k \<and>
       pte = read_uint64_le (host vm) ptr \<and> page_allows (data_priv access vm) access (status vm) pte \<and>
       paddr = (push_bit 2 pte AND push_bit k (bit_mask (56 - k))) OR (vaddr AND bit_mask k) \<and>
       vm' = (if pte \<noteq> pte_dirty pte access then vm\<lparr>host := write_uint64_le (host vm) ptr (pte_dirty pte access)\<rparr> else vm)))"
proof -
  define acc where "acc = (if status vm AND CSR_STATUS_MXR \<noteq> 0 \<and> access = RISCV_MMU_READ then access OR RISCV_MMU_EXEC else access)"
  have acc: "access = 2 \<Longrightarrow> acc = (if status vm AND CSR_STATUS_MXR \<noteq> 0 then 10 else 2)" "access = 4 \<Longrightarrow> acc = 4"
      "access = 8 \<Longrightarrow> acc = 8"
    by (simp_all add: acc_def)
  have "\<exists>l \<in> {3, 4, 5}. riscv_mmu_translate_rv64 l vaddr (data_priv access vm) acc vm = (r, vm')"
    using t mode p unfolding riscv_mmu_translate_def Let_def data_priv_def [symmetric] acc_def [symmetric]
    by (auto split: if_splits)
  then consider "(r, vm') = (None, vm)"
    | l where "riscv_mmu_walk_rv64 l (root_page_table vm) (l * 9 + 12 - 9) vaddr (data_priv access vm) acc vm = (r, vm')" "l \<in> {3, 4, 5}"
    unfolding riscv_mmu_translate_rv64_def Let_def by (metis (full_types))
  then show ?thesis
  proof cases
    case 2
    have d: "pte_dirty pte acc = pte_dirty pte access" for pte
      using a acc by (auto simp: pte_dirty_def)
    have pa: "page_allows (data_priv access vm) access (status vm) pte"
      if "pte AND 1 \<noteq> 0" "pte AND ucast acc \<noteq> 0"
        "(pte AND 0x10 \<noteq> 0) = (data_priv access vm \<noteq> 0) \<longrightarrow> riscv_mmu_check_priv (data_priv access vm) acc vm" for pte
      using that a acc by (auto simp: page_allows_def pte_bits riscv_mmu_check_priv_def split: if_splits)
    have "l * 9 + 12 - 9 = 12 + 9 * (l - 1)" "l \<le> Suc (l - 1)" "l - 1 < 5" using 2(2) by auto
    from walk_rv64_sound [OF 2(1) this] show ?thesis unfolding d using pa by blast
  qed simp
qed

section \<open>Stores and loads\<close>

text \<open>The cached pointer for an address of RAM, if there is one, is the pointer of the slow path.\<close>

definition tlb_coherent :: "u64 \<Rightarrow> u64 \<Rightarrow> 'd rvvm_hart \<Rightarrow> bool" where
  "tlb_coherent va ptr vm \<longleftrightarrow> (tlb_r (tlb_at va vm) = page_of va \<or> tlb_w (tlb_at va vm) = page_of va
     \<longrightarrow> tlb_ptr (tlb_at va vm) + va = ptr)"

lemma tlb_put_frame2 [simp]:
  "mem (riscv_tlb_put v ptr access vm) = mem vm" "csr (riscv_tlb_put v ptr access vm) = csr vm"
  "priv_mode (riscv_tlb_put v ptr access vm) = priv_mode vm"
  by (simp_all add: riscv_tlb_put_def Let_def)

lemma u8_of_nat_size: "n \<in> {1, 2, 4, 8} \<Longrightarrow> unat (of_nat n :: u8) = n"
  by auto

lemma load_ram:
  assumes m: "mmode_data vm" and p: "riscv_phys_access va vm = Some ptr" and n: "n \<in> {1, 2, 4, 8}"
    and room: "unat (va AND 0xFFF) + n \<le> 4096" and c: "tlb_coherent va ptr vm"
  shows "fst (riscv_load_bytes n M va vm) = Some (read_bytes (host vm) ptr n)"
proof (cases "tlb_r (tlb_at va vm) = drop_bit 12 va \<and> va AND (of_nat n - 1) = 0")
  case True
  then show ?thesis using c by (simp add: riscv_load_bytes_def Let_def tlb_coherent_def)
next
  case False
  have sz: "unat (of_nat n :: u8) = n" using n by (rule u8_of_nat_size)
  have "riscv_mmu_op M va (replicate n 0) (of_nat n) 2 vm =
      (True, buf_write (replicate n 0) 0 (read_bytes (host vm) ptr n), riscv_tlb_put va ptr 2 vm)"
    using mmu_op_ram [OF translate_mmode(1) [OF m] p, of "of_nat n" 2 M "replicate n 0"] room
    by (simp add: sz Let_def)
  then show ?thesis using False by (auto simp: riscv_load_bytes_def Let_def buf_write_def)
qed

lemma store_ram:
  assumes m: "mmode_data vm" and p: "riscv_phys_access va vm = Some ptr" and n: "length bs \<in> {1, 2, 4, 8}"
    and room: "unat (va AND 0xFFF) + length bs \<le> 4096" and c: "tlb_coherent va ptr vm"
    and vm': "vm' = riscv_store_bytes bs M va vm"
  shows "host vm' = write_bytes (host vm) ptr bs" "mmode_data vm'" "riscv_phys_access va vm' = Some ptr"
    "tlb_coherent va ptr vm'"
proof -
  let ?w = "vm\<lparr>host := write_bytes (host vm) ptr bs\<rparr>"
  let ?t = "riscv_tlb_put va ptr 4 vm"
  have sz: "unat (of_nat (length bs) :: u8) = length bs" using n by (rule u8_of_nat_size)
  have "riscv_mmu_op M va bs (of_nat (length bs)) 4 vm = (True, bs, ?t\<lparr>host := write_bytes (host vm) ptr bs\<rparr>)"
    using mmu_op_ram [OF translate_mmode(1) [OF m] p, of "of_nat (length bs)" 4 M bs] room
    by (simp add: sz Let_def)
  then have v: "vm' = ?w \<or> vm' = ?t\<lparr>host := write_bytes (host vm) ptr bs\<rparr>"
    using c by (auto simp: vm' riscv_store_bytes_def Let_def tlb_coherent_def)
  then show "host vm' = write_bytes (host vm) ptr bs" by auto
  show "mmode_data vm'" using v m by (auto simp: mmode_data_def)
  have "mem vm' = mem vm" using v by auto
  then show "riscv_phys_access va vm' = Some ptr" using p by (simp only: riscv_phys_access_def)
  have "tlb_coherent va ptr (?t\<lparr>host := write_bytes (host vm) ptr bs\<rparr>)"
    using tlb_put_hit(1) [of 4 va ptr vm] by (simp add: tlb_coherent_def tlb_at_def)
  moreover have "tlb_coherent va ptr ?w" using c by (simp add: tlb_coherent_def tlb_at_def)
  ultimately show "tlb_coherent va ptr vm'" using v by auto
qed

lemma store_load:
  assumes "mmode_data vm" "riscv_phys_access va vm = Some ptr" "length bs \<in> {1, 2, 4, 8}"
    "unat (va AND 0xFFF) + length bs \<le> 4096" "tlb_coherent va ptr vm"
  shows "fst (riscv_load_bytes (length bs) M va (riscv_store_bytes bs M va vm)) = Some bs"
proof -
  note s = store_ram [OF assms refl, of M]
  have "length bs < 2 ^ 64" using assms(3) by auto
  then show ?thesis using load_ram [OF s(2,3) assms(3,4) s(4), of M] by (simp add: s(1))
qed

section \<open>Operations over two pages\<close>

text \<open>
  The definition of the slow path splits an operation once; for every size the callers can pass
  this is the recursion of the source, whose parts lie within one page.
\<close>

lemma op_internal_in_page:
  "unat (vaddr AND 0xFFF) + unat sz \<le> 4096 \<Longrightarrow>
   riscv_mmu_op_internal M vaddr data (mmu_attr attr sz access) vm = riscv_mmu_op_page M vaddr data (mmu_attr attr sz access) vm"
proof -
  assume room: "unat (vaddr AND 0xFFF) + unat sz \<le> 4096"
  have c: "ucast (drop_bit 16 (mmu_attr attr sz access)) = (ucast sz :: u64)"
    unfolding mmu_attr_size by (rule bit_word_eqI) (auto simp: bit_simps dest: bit_u8_imp)
  have "unat (ucast sz :: u64) = unat sz" by (rule u8_casts)
  then have b: "riscv_block_in_page vaddr (ucast (drop_bit 16 (mmu_attr attr sz access)))"
    using room unfolding riscv_block_in_page_def c by (simp add: word_le_nat_alt unat_plus_small)
  then show ?thesis by (simp add: riscv_mmu_op_internal_def)
qed

lemma mmu_attr_again: "mmu_attr (mmu_attr attr sz access) sz' access = mmu_attr attr sz' access"
proof -
  have m: "(0xFF00 :: u32) = mask 16 AND NOT (mask 8)" by (simp add: mask_eq_exp_minus_1)
  show ?thesis unfolding mmu_attr_def m
    by (intro bit_word_eqI) (auto simp: bit_simps dest: bit_u8_imp)
qed

lemma op_internal_recursion:
  "riscv_mmu_op_internal M vaddr data (mmu_attr attr sz access) vm =
     (if \<not> riscv_block_in_page vaddr (ucast sz) then
        if attr AND RISCV_MMU_ATTR_PTR \<noteq> 0 then (PNull, data, riscv_mmu_misalign vaddr (mmu_attr attr sz access) vm)
        else
          (let part = ucast (0x1000 - (vaddr AND 0xFFF))
           in case riscv_mmu_op_internal M vaddr data (mmu_attr attr part access) vm of
                (p, data, vm) \<Rightarrow>
                  if p = PNull then (PNull, data, vm)
                  else
                    (case riscv_mmu_op_internal M (vaddr + ucast part) (map_option (drop (unat part)) data)
                            (mmu_attr attr (sz - part) access) vm of
                       (p, rest, vm) \<Rightarrow>
                         (p, (case data of None \<Rightarrow> None | Some bs \<Rightarrow> map_option (\<lambda>r. take (unat part) bs @ r) rest), vm)))
      else riscv_mmu_op_page M vaddr data (mmu_attr attr sz access) vm)"
proof (cases "riscv_block_in_page vaddr (ucast sz)")
  case True
  have "unat (vaddr AND 0xFFF) + unat sz \<le> 4096" using True unfolding riscv_block_in_page_def by (rule page_room)
  then show ?thesis using True by (simp only: op_internal_in_page simp_thms if_False)
next
  case False
  define part where "part = (ucast (0x1000 - (vaddr AND 0xFFF)) :: u8)"
  have c: "(ucast (ucast sz :: u32) :: u64) = ucast sz" "ucast (ucast sz :: u32) = sz"
    by (rule bit_word_eqI, auto simp: bit_simps dest: bit_u8_imp)+
  note ps = page_split [OF False part_def]
  have one: "riscv_mmu_op_internal M vaddr data (mmu_attr attr part access) vm = riscv_mmu_op_page M vaddr data (mmu_attr attr part access) vm"
    for data and vm :: "'a rvvm_hart" using ps(1) by (intro op_internal_in_page) simp
  have rest: "unat (sz - part) < 256" using unsigned_less [of "sz - part"] by simp
  have two: "riscv_mmu_op_internal M (vaddr + ucast part) data (mmu_attr attr (sz - part) access) vm =
      riscv_mmu_op_page M (vaddr + ucast part) data (mmu_attr attr (sz - part) access) vm"
    for data and vm :: "'a rvvm_hart"
    using rest by (intro op_internal_in_page) (simp add: ps(3))
  show ?thesis
    unfolding one two part_def [symmetric] Let_def
    using False by (simp add: riscv_mmu_op_internal_def mmu_attr_size c mmu_attr_access mmu_attr_ptr mmu_attr_again part_def [symmetric] Let_def
        split: prod.split)
qed

end
