(* ===== verification/RVVM_Events.thy ===== *)
theory RVVM_Events
  imports RVVM_Interp RVVM_Bit_Lemmas RVVM_Translation
begin

text \<open>
  What the interpreter does at the edges of normal execution: which interrupt is taken and in
  which mode, which CSR accesses are refused, and the atomic instructions on a cached page.
\<close>

section \<open>Interrupt delegation\<close>

text \<open>
  The mode that an interrupt belongs to: the first one, from M-mode down, whose delegation
  register does not pass it on.
\<close>

definition irq_goes_to :: "(nat \<Rightarrow> u64) \<Rightarrow> nat \<Rightarrow> nat \<Rightarrow> bool" where
  "irq_goes_to ideleg n q \<longleftrightarrow> n < 32 \<and> 0 < q \<and> q \<le> 3 \<and> \<not> bit (ideleg q) n \<and> (\<forall>k \<in> {q<..3}. bit (ideleg k) n)"

lemma irq_target_iff:
  assumes "riscv_irq_target ideleg p pending = (q, irqs)" "n < 32"
  shows "bit irqs n \<longleftrightarrow> 0 < q \<and> bit pending n \<and> \<not> bit (ideleg q) n \<and> (\<forall>k. q < k \<and> k \<le> p \<longrightarrow> bit (ideleg k) n)"
    "q \<le> p" "0 < q \<Longrightarrow> irqs \<noteq> 0"
    "bit pending n \<Longrightarrow> q < r \<Longrightarrow> r \<le> p \<Longrightarrow> bit (ideleg r) n"
proof -
  have "(bit irqs n \<longleftrightarrow> 0 < q \<and> bit pending n \<and> \<not> bit (ideleg q) n \<and> (\<forall>k. q < k \<and> k \<le> p \<longrightarrow> bit (ideleg k) n)) \<and>
      q \<le> p \<and> (0 < q \<longrightarrow> irqs \<noteq> 0) \<and> (bit pending n \<longrightarrow> q < r \<longrightarrow> r \<le> p \<longrightarrow> bit (ideleg r) n)" for r
    using assms(1)
  proof (induction p arbitrary: pending)
    case (Suc p)
    show ?case
    proof (cases "pending AND ucast (NOT (ideleg (Suc p))) = 0")
      case True
      then have "riscv_irq_target ideleg p (pending AND ucast (ideleg (Suc p))) = (q, irqs)"
        using Suc.prems by (simp add: Let_def)
      moreover have "bit pending n \<Longrightarrow> bit (ideleg (Suc p)) n"
        using arg_cong [OF True, of "\<lambda>x. bit x n"] assms(2) by (auto simp: bit_simps)
      ultimately show ?thesis using Suc.IH assms(2) by (auto simp: bit_simps le_Suc_eq)
    next
      case False
      then have "Suc p = q \<and> pending AND ucast (NOT (ideleg (Suc p))) = irqs"
        using Suc.prems by (auto simp: Let_def)
      then show ?thesis using False assms(2) by (auto simp: bit_simps)
    qed
  qed simp
  then show "bit irqs n \<longleftrightarrow> 0 < q \<and> bit pending n \<and> \<not> bit (ideleg q) n \<and> (\<forall>k. q < k \<and> k \<le> p \<longrightarrow> bit (ideleg k) n)"
    "q \<le> p" "0 < q \<Longrightarrow> irqs \<noteq> 0" "bit pending n \<Longrightarrow> q < r \<Longrightarrow> r \<le> p \<Longrightarrow> bit (ideleg r) n"
    by blast+
qed

text \<open>S-mode delegates nothing, so the search ends above U-mode.\<close>

lemma irq_target_pos:
  assumes "ideleg 1 = 0" "pending \<noteq> 0" "riscv_irq_target ideleg 3 pending = (q, irqs)"
  shows "0 < q"
proof (rule ccontr)
  assume q: "\<not> 0 < q"
  obtain n where n: "n < 32" "bit pending n" using assms(2) by (rule word_msb_exists) simp
  show False using irq_target_iff(4) [OF assms(3) n(1) n(2), of 1] q assms(1) by simp
qed

text \<open>
  An interrupt is the one to take when it is pending, and every other pending one belongs to a
  lower mode, or to the same mode with a lower number.
\<close>

definition irq_selected :: "'d rvvm_hart \<Rightarrow> nat \<Rightarrow> nat \<Rightarrow> bool" where
  "irq_selected vm n q \<longleftrightarrow> bit (riscv_interrupts_pending vm) n \<and> irq_goes_to (csr_ideleg (csr vm)) n q \<and>
     (\<forall>m r. bit (riscv_interrupts_pending vm) m \<and> irq_goes_to (csr_ideleg (csr vm)) m r \<longrightarrow> r < q \<or> r = q \<and> m \<le> n)"

lemma irq_selected_unique:
  assumes "irq_selected vm n q" "irq_selected vm n' q'"
  shows "n' = n" "q' = q"
proof -
  have "q' < q \<or> q' = q \<and> n' \<le> n" "q < q' \<or> q = q' \<and> n \<le> n'"
    using assms unfolding irq_selected_def by blast+
  then show "n' = n" "q' = q" by auto
qed

lemma irq_selected_exists:
  assumes "csr_ideleg (csr vm) 1 = 0" "riscv_interrupts_pending vm \<noteq> 0"
  obtains q n irqs where "riscv_irq_target (csr_ideleg (csr vm)) 3 (riscv_interrupts_pending vm) = (q, irqs)"
    "irq_selected vm n q" "bit_clz32 irqs XOR 31 = of_nat n"
proof -
  obtain q irqs where t: "riscv_irq_target (csr_ideleg (csr vm)) 3 (riscv_interrupts_pending vm) = (q, irqs)"
    by fastforce
  have q: "0 < q" using irq_target_pos [OF assms t] .
  have "irqs \<noteq> 0" using irq_target_iff(3) [OF t _ q, of 0] by simp
  then obtain n where n: "n < 32" "bit irqs n" "\<And>j. n < j \<Longrightarrow> \<not> bit irqs j"
    by (rule word_msb_exists) simp
  have "irq_selected vm n q"
    unfolding irq_selected_def
  proof (intro conjI allI impI)
    show "bit (riscv_interrupts_pending vm) n" "irq_goes_to (csr_ideleg (csr vm)) n q"
      using irq_target_iff(1,2) [OF t n(1)] n(1,2) by (simp_all add: irq_goes_to_def)
    fix m r assume m: "bit (riscv_interrupts_pending vm) m \<and> irq_goes_to (csr_ideleg (csr vm)) m r"
    then have "m < 32" by (simp add: irq_goes_to_def)
    note i = irq_target_iff [OF t this]
    have "\<not> q < r" using i(4) [of r] m by (auto simp: irq_goes_to_def)
    moreover have "m \<le> n" if "r = q"
      using i(1) m n(3) [of m] that by (cases "n < m") (auto simp: irq_goes_to_def)
    ultimately show "r < q \<or> r = q \<and> m \<le> n" by auto
  qed
  then show ?thesis using t bit_clz32_xor_31_msb [OF n(2,3)] by (intro that) simp_all
qed

text \<open>What the hart looks like after it took interrupt \<open>n\<close> to mode \<open>q\<close>.\<close>

definition irq_entered :: "nat \<Rightarrow> nat \<Rightarrow> 'd rvvm_hart \<Rightarrow> 'd rvvm_hart \<Rightarrow> bool" where
  "irq_entered n q vm vm' \<longleftrightarrow> priv_mode vm' = q \<and> csr_epc (csr vm') q = registers vm RISCV_REG_PC \<and>
     csr_cause (csr vm') q = of_nat n OR riscv_cause_irq_mask vm' \<and> csr_tval (csr vm') q = 0 \<and>
     status vm' = status (riscv_trap_priv_helper q vm) \<and>
     registers vm' RISCV_REG_PC =
       (csr_tvec (csr vm) q AND NOT 3) + (if bit (csr_tvec (csr vm) q) 0 then of_nat (4 * n) else 0)"

lemma handle_irqs_spec:
  assumes "csr_ideleg (csr vm) 1 = 0"
  shows "(riscv_handle_irqs vm = vm \<and>
       (\<forall>n q. irq_selected vm n q \<longrightarrow> q < priv_mode vm \<or> q = priv_mode vm \<and> \<not> bit (status vm) q)) \<or>
     (\<exists>n q. irq_selected vm n q \<and> (priv_mode vm < q \<or> priv_mode vm = q \<and> bit (status vm) q) \<and>
       irq_entered n q vm (riscv_handle_irqs vm))"
proof (cases "riscv_interrupts_pending vm = 0")
  case True
  then show ?thesis by (simp add: riscv_handle_irqs_def irq_selected_def)
next
  case False
  obtain q n irqs where i: "riscv_irq_target (csr_ideleg (csr vm)) 3 (riscv_interrupts_pending vm) = (q, irqs)"
      "irq_selected vm n q" "bit_clz32 irqs XOR 31 = of_nat n"
    using assms False by (rule irq_selected_exists)
  have n: "n < 32" using i(2) by (simp add: irq_selected_def irq_goes_to_def)
  have st: "2 ^ k AND status vm = 0 \<longleftrightarrow> \<not> bit (status vm) k" "csr_tvec (csr vm) k AND 1 = 0 \<longleftrightarrow> \<not> bit (csr_tvec (csr vm) k) 0" for k
    using and_exp_eq_0_iff_not_bit [of "status vm" k] and_exp_eq_0_iff_not_bit [of "csr_tvec (csr vm) k" 0]
    by (simp_all add: and.commute)
  show ?thesis
  proof (cases "priv_mode vm < q \<or> priv_mode vm = q \<and> bit (status vm) q")
    case True
    have "list_all (\<lambda>n. ucast (of_nat n :: u32) = (of_nat n :: u64) \<and> ucast (push_bit 2 (of_nat n :: u32)) = (of_nat (4 * n) :: u64)) [0..<32]"
      by code_simp
    then have u: "ucast (of_nat n :: u32) = (of_nat n :: u64)" "ucast (push_bit 2 (of_nat n :: u32)) = (of_nat (4 * n) :: u64)"
      using n by (simp_all add: list_all_iff)
    have "irq_entered n q vm (riscv_handle_irqs vm)"
      using True False n
      by (auto simp: riscv_handle_irqs_def i st irq_entered_def Let_def u riscv_cause_irq_mask_def)
    then show ?thesis using True i(2) by blast
  next
    case F: False
    then have "riscv_handle_irqs vm = vm" using False by (auto simp: riscv_handle_irqs_def i st)
    moreover have "q' < priv_mode vm \<or> q' = priv_mode vm \<and> \<not> bit (status vm) q'" if "irq_selected vm n' q'" for n' q'
      using F irq_selected_unique [OF i(2) that] by auto
    ultimately show ?thesis by blast
  qed
qed

section \<open>Refused CSR accesses\<close>

text \<open>
  The instruction is one of the six CSR instructions, and the register is above the privilege of
  the hart, or read-only and the instruction writes it.
\<close>

definition csr_insn_value :: "u32 \<Rightarrow> 'd rvvm_hart \<Rightarrow> u64" where
  "csr_insn_value insn vm =
     (if insn_funct3 insn \<in> {1, 2, 3} then registers vm (insn_rs1 insn) else ucast (bit_ext_u32 insn 15 5))"

definition csr_refused :: "u32 \<Rightarrow> 'd rvvm_hart \<Rightarrow> bool" where
  "csr_refused insn vm \<longleftrightarrow>
     priv_mode vm < riscv_csr_privilege (drop_bit 20 insn) \<or>
     riscv_csr_readonly (drop_bit 20 insn) \<and> (insn_funct3 insn \<in> {1, 5} \<or> csr_insn_value insn vm \<noteq> 0)"

lemma csr_insn_illegal:
  assumes "priv_mode vm < riscv_csr_privilege (drop_bit 20 insn) \<or>
    riscv_csr_readonly (drop_bit 20 insn) \<and> (op = CSR_SWAP \<or> v \<noteq> 0)"
  shows "riscv_csr_insn M insn v op vm = riscv_illegal_insn insn vm"
proof -
  have "riscv_csr_op M (drop_bit 20 insn) v op vm = (False, v, vm)"
    using assms by (auto simp: riscv_csr_op_def)
  then show ?thesis by (simp add: riscv_csr_insn_def)
qed

lemma system_insn_funct3:
  "insn_funct3 RISCV_INSN_ECALL = 0" "insn_funct3 RISCV_INSN_EBREAK = 0" "insn_funct3 RISCV_INSN_SRET = 0"
  "insn_funct3 RISCV_INSN_MRET = 0" "insn_funct3 RISCV_INSN_WFI = 0" "insn_funct3 RISCV_INSN_WRS_NT = 0"
  "insn_funct3 RISCV_INSN_WRS_ST = 0"
  by code_simp+

lemma csr_insn_refused:
  assumes "insn_funct3 insn \<in> {1, 2, 3, 5, 6, 7}" "csr_refused insn vm"
  shows "riscv_emulate_opc_system M insn vm = Some (riscv_illegal_insn insn vm)"
proof -
  have ne: "insn \<noteq> c" if "insn_funct3 c = 0" for c using assms(1) that by auto
  have "riscv_emulate_opc_system M insn vm = Some (riscv_emulate_opc_system_funct3 M insn vm)"
    by (simp only: riscv_emulate_opc_system_def system_insn_funct3 [THEN ne] simp_thms if_False)
  moreover have "riscv_emulate_opc_system_funct3 M insn vm = riscv_illegal_insn insn vm"
  proof -
    have r: "priv_mode vm < riscv_csr_privilege (drop_bit 20 insn) \<or> riscv_csr_readonly (drop_bit 20 insn) \<and>
        (insn_funct3 insn \<in> {1, 5} \<or> csr_insn_value insn vm \<noteq> 0)"
      using assms(2) by (simp only: csr_refused_def)
    consider "insn_funct3 insn = 1" | "insn_funct3 insn = 2" | "insn_funct3 insn = 3" | "insn_funct3 insn = 5"
      | "insn_funct3 insn = 6" | "insn_funct3 insn = 7" using assms(1) by auto
    then show ?thesis
      using r by cases (simp_all add: riscv_emulate_opc_system_funct3_def Let_def csr_insn_value_def csr_insn_illegal)
  qed
  ultimately show ?thesis by simp
qed

section \<open>Atomic instructions on cached pages\<close>

text \<open>
  The address of an atomic instruction, and the host pointer behind it when the TLB has the page
  for reading and for writing.
\<close>

definition amo_addr :: "'x::len itself \<Rightarrow> u32 \<Rightarrow> 'd rvvm_hart \<Rightarrow> u64" where
  "amo_addr xl insn vm = ucast (riscv_read_reg (insn_rs1 insn) vm :: 'x word)"

definition amo_operand :: "'x::len itself \<Rightarrow> u32 \<Rightarrow> 'd rvvm_hart \<Rightarrow> u32" where
  "amo_operand xl insn vm = ucast (riscv_read_reg (insn_rs2 insn) vm :: 'x word)"

definition amo_cached :: "u64 \<Rightarrow> u64 \<Rightarrow> 'd rvvm_hart \<Rightarrow> bool" where
  "amo_cached va ptr vm \<longleftrightarrow> va AND 3 = 0 \<and> tlb_r (tlb_at va vm) = page_of va \<and> tlb_w (tlb_at va vm) = page_of va \<and>
     ptr = tlb_ptr (tlb_at va vm) + va"

definition word_at :: "u64 \<Rightarrow> 'd rvvm_hart \<Rightarrow> u32" where
  "word_at ptr vm = le_val (read_bytes (host vm) ptr 4)"

lemma amo_translate:
  assumes "amo_cached va ptr vm"
  shows "rmw_translate M va 4 vm = (PMem ptr, replicate 4 0, vm)" "ro_translate M va 4 vm = (PMem ptr, replicate 4 0, vm)"
  using assms
  by (simp_all add: amo_cached_def rmw_translate_def ro_translate_def riscv_rmw_translate_def riscv_ro_translate_def Let_def)

lemma atomic_w_lr:
  fixes xl :: "'x::len itself"
  assumes "drop_bit 27 insn = 2" "amo_cached (amo_addr xl insn vm) ptr vm"
  shows "riscv_emulate_atomic_w xl M insn vm =
    riscv_write_reg (insn_rds insn) (word_at ptr vm)
      (vm\<lparr>lrsc := True, lrsc_addr := amo_addr xl insn vm, lrsc_cas := ucast (word_at ptr vm)\<rparr>)"
  using assms amo_translate(2) [OF assms(2), of M]
  by (simp add: riscv_emulate_atomic_w_def Let_def amo_addr_def [of xl, symmetric] amo_cached_def riscv_amo_lr_def ptr_read_def word_at_def)

lemma atomic_w_sc:
  fixes xl :: "'x::len itself"
  assumes "drop_bit 27 insn = 3" "amo_cached (amo_addr xl insn vm) ptr vm"
  shows "riscv_emulate_atomic_w xl M insn vm =
    (if lrsc vm \<and> lrsc_addr vm = amo_addr xl insn vm \<and> word_at ptr vm = ucast (lrsc_cas vm)
     then set_reg (insn_rds insn) 0 (vm\<lparr>host := write_bytes (host vm) ptr (le_bytes 4 (amo_operand xl insn vm))\<rparr>)
     else set_reg (insn_rds insn) 1 vm)\<lparr>lrsc := False\<rparr>"
  using assms amo_translate(1) [OF assms(2), of M]
  by (simp add: riscv_emulate_atomic_w_def Let_def amo_addr_def [of xl, symmetric] amo_operand_def [of xl, symmetric] amo_cached_def
      riscv_amo_sc_def ptr_read_def ptr_write_def word_at_def)

lemma atomic_w_rmw:
  fixes xl :: "'x::len itself"
  assumes "unat (drop_bit 27 insn) \<in> {0, 1, 4, 5, 8, 12, 16, 20, 24, 28}" "amo_cached (amo_addr xl insn vm) ptr vm"
  shows "riscv_emulate_atomic_w xl M insn vm =
    riscv_write_reg (insn_rds insn) (word_at ptr vm)
      (vm\<lparr>host := write_bytes (host vm) ptr
         (le_bytes 4 (amo_result (unat (drop_bit 27 insn)) (word_at ptr vm) (amo_operand xl insn vm) (riscv_read_reg (insn_rds insn) vm)))\<rparr>)"
proof -
  have c: "push_bit (unat (drop_bit 27 insn)) 1 AND 0x1111113F \<noteq> (0 :: u32)"
    using assms(1) by (elim insertE emptyE) simp_all
  have n: "unat (drop_bit 27 insn) \<noteq> 2" "unat (drop_bit 27 insn) \<noteq> 3" using assms(1) by auto
  show ?thesis
    using c n assms(2) amo_translate(1) [OF assms(2), of M]
    by (simp add: riscv_emulate_atomic_w_def Let_def amo_addr_def [of xl, symmetric] amo_operand_def [of xl, symmetric] amo_cached_def
        riscv_amo_rmw_def ptr_read_def ptr_write_def word_at_def)
qed

end
