(* ===== verification/RVVM_ISA.thy ===== *)
theory RVVM_ISA
  imports RVVM_Interp RVVM_Hart_Lemmas
begin

text \<open>
  What the instructions of src/rvvm/src/cpu compute, against the instruction set: division, the
  immediates of jumps and branches, compressed instructions against the ones they abbreviate,
  atomic instructions, privileged registers and the choice of interrupts.
\<close>

unbundle bit_operations_syntax

section \<open>Division\<close>

lemma c_div_rem:
  assumes "b \<noteq> 0"
  shows "a = c_div a b * b + c_rem a b" "\<bar>c_rem a b\<bar> < \<bar>b\<bar>" "c_rem a b = 0 \<or> sgn (c_rem a b) = sgn a"
    "\<bar>c_div a b\<bar> \<le> \<bar>a\<bar>" "b \<noteq> - 1 \<and> b \<noteq> 1 \<and> a \<noteq> 0 \<Longrightarrow> \<bar>c_div a b\<bar> < \<bar>a\<bar>"
proof -
  show "a = c_div a b * b + c_rem a b" by (simp add: c_rem_def)
  have "c_rem a b = sgn a * (\<bar>a\<bar> - \<bar>a\<bar> div \<bar>b\<bar> * \<bar>b\<bar>)"
    using abs_sgn [of b] mult_sgn_abs [of a] by (simp add: c_rem_def c_div_def right_diff_distrib mult.assoc mult.commute [of "sgn b"])
  then have m: "c_rem a b = sgn a * (\<bar>a\<bar> mod \<bar>b\<bar>)" by (simp add: minus_div_mult_eq_mod)
  have p: "0 \<le> \<bar>a\<bar> mod \<bar>b\<bar>" "\<bar>a\<bar> mod \<bar>b\<bar> < \<bar>b\<bar>" using assms by simp_all
  show "\<bar>c_rem a b\<bar> < \<bar>b\<bar>" using p assms by (simp add: m abs_mult sgn_if)
  show "c_rem a b = 0 \<or> sgn (c_rem a b) = sgn a" using p by (auto simp: m sgn_mult sgn_if)
  have d: "\<bar>c_div a b\<bar> = \<bar>a\<bar> div \<bar>b\<bar>" using assms
    by (cases "a = 0") (simp_all add: c_div_def abs_mult sgn_if pos_imp_zdiv_nonneg_iff)
  show "\<bar>c_div a b\<bar> \<le> \<bar>a\<bar>" unfolding d using assms zdiv_mono2 [of "\<bar>a\<bar>" 1 "\<bar>b\<bar>"] by simp
  show "\<bar>c_div a b\<bar> < \<bar>a\<bar>" if "b \<noteq> - 1 \<and> b \<noteq> 1 \<and> a \<noteq> 0"
    unfolding d using that assms by (intro int_div_less_self) auto
qed

lemma c_div_range:
  assumes "b \<noteq> 0" "- P \<le> a" "a < P" "\<not> (a = - P \<and> b = - 1)"
  shows "- P \<le> c_div a b \<and> c_div a b < P"
proof -
  have le: "\<bar>c_div a b\<bar> \<le> P" using c_div_rem(4) [OF assms(1), of a] assms(2,3) by linarith
  moreover have "c_div a b < P"
  proof (cases "a = - P \<and> b \<noteq> 1")
    case True
    then have "\<bar>c_div a b\<bar> < \<bar>a\<bar>" using c_div_rem(5) [OF assms(1), of a] assms(2-4) by auto
    then show ?thesis using True assms(2,3) by linarith
  next
    case False
    have "c_div a 1 = a" by (simp add: c_div_def mult_sgn_abs)
    then show ?thesis using False c_div_rem(4) [OF assms(1), of a] assms(2,3) by (cases "b = 1") auto
  qed
  ultimately show ?thesis by linarith
qed

lemma sint_word_of_int:
  "- (2 ^ (LENGTH('a) - 1)) \<le> i \<Longrightarrow> i < 2 ^ (LENGTH('a) - 1) \<Longrightarrow> sint (word_of_int i :: 'a::len word) = i"
  by (simp add: sint_sbintrunc' signed_take_bit_int_eq_self)

lemma sint_bounds: "- (2 ^ (LENGTH('a) - 1)) \<le> sint (w :: 'a::len word)" "sint w < 2 ^ (LENGTH('a) - 1)"
  using sint_greater_eq [of w] sint_less [of w] by simp_all

lemma sint_eq: "sint v = sint w \<longleftrightarrow> v = w" for v w :: "'a::len word"
  by (auto intro: signed_word_eqI)

lemma riscv_div_rem:
  fixes a b :: "'x::len word"
  assumes ov: "sint (ov :: 'x word) = - (2 ^ (LENGTH('x) - 1))" and len: "2 \<le> LENGTH('x)"
  shows "riscv_div ov a 0 = - 1" "riscv_rem ov a 0 = a"
    "riscv_div ov ov (- 1) = ov" "riscv_rem ov ov (- 1) = 0"
    "b \<noteq> 0 \<Longrightarrow> a = riscv_div ov a b * b + riscv_rem ov a b"
    "b \<noteq> 0 \<Longrightarrow> \<bar>sint (riscv_rem ov a b)\<bar> < \<bar>sint b\<bar>"
    "b \<noteq> 0 \<Longrightarrow> riscv_rem ov a b = 0 \<or> sgn (sint (riscv_rem ov a b)) = sgn (sint a)"
    "b \<noteq> 0 \<Longrightarrow> \<not> (a = ov \<and> b = - 1) \<Longrightarrow> sint (riscv_div ov a b) = c_div (sint a) (sint b)"
proof -
  have ov0: "ov \<noteq> 0" using ov by auto
  then show "riscv_div ov a 0 = - 1" "riscv_rem ov a 0 = a" "riscv_div ov ov (- 1) = ov" "riscv_rem ov ov (- 1) = 0"
    by (simp_all add: riscv_div_def riscv_rem_def)
  note s = sint_bounds [of a] sint_bounds [of b]
  assume b: "b \<noteq> 0"
  then have b0: "sint b \<noteq> 0" using signed_eq_0_iff by blast
  note cd = c_div_rem [OF b0, of "sint a"]
  have div: "sint (riscv_div ov a b) = c_div (sint a) (sint b)" if "\<not> (a = ov \<and> b = - 1)"
  proof -
    have "a = ov \<longleftrightarrow> sint a = - (2 ^ (LENGTH('x) - 1))" "b = - 1 \<longleftrightarrow> sint b = - 1"
      unfolding ov [symmetric] sint_eq using sint_eq [of b "- 1"] by simp_all
    then have "- (2 ^ (LENGTH('x) - 1)) \<le> c_div (sint a) (sint b) \<and> c_div (sint a) (sint b) < 2 ^ (LENGTH('x) - 1)"
      using c_div_range [OF b0 s(1,2)] that by blast
    then show ?thesis using that b by (auto simp: riscv_div_def sint_word_of_int)
  qed
  then show "\<not> (a = ov \<and> b = - 1) \<Longrightarrow> sint (riscv_div ov a b) = c_div (sint a) (sint b)" .
  have "- (2 ^ (LENGTH('x) - 1)) \<le> c_rem (sint a) (sint b)" "c_rem (sint a) (sint b) < 2 ^ (LENGTH('x) - 1)"
    using cd(2) s(3,4) by linarith+
  then have rem: "sint (riscv_rem ov a b) = c_rem (sint a) (sint b)" if "\<not> (a = ov \<and> b = - 1)"
    using that b by (auto simp: riscv_rem_def sint_word_of_int)
  show "a = riscv_div ov a b * b + riscv_rem ov a b"
  proof (cases "a = ov \<and> b = - 1")
    case True
    have "- ov = ov"
    proof -
      have "ov + ov = word_of_int (sint ov + sint ov)" by simp
      also have "sint ov + sint ov = - (2 ^ LENGTH('x))"
        using ov len by (metis Suc_diff_1 len_gt_0 minus_add_distrib mult_2 power_Suc)
      finally have "ov + ov = 0" by simp
      then show ?thesis by (metis minus_unique)
    qed
    then show ?thesis using True by (simp add: riscv_div_def riscv_rem_def)
  next
    case False
    have "a = word_of_int (sint a)" by simp
    also have "\<dots> = word_of_int (sint (riscv_div ov a b) * sint b + sint (riscv_rem ov a b))"
      using cd(1) div [OF False] rem [OF False] by simp
    also have "\<dots> = riscv_div ov a b * b + riscv_rem ov a b" by simp
    finally show ?thesis .
  qed
  show "\<bar>sint (riscv_rem ov a b)\<bar> < \<bar>sint b\<bar>"
    using cd(2) rem b0 by (cases "a = ov \<and> b = - 1") (simp_all add: riscv_rem_def)
  show "riscv_rem ov a b = 0 \<or> sgn (sint (riscv_rem ov a b)) = sgn (sint a)"
    using cd(3) rem by (cases "a = ov \<and> b = - 1") (auto simp: riscv_rem_def sint_eq [of _ 0, simplified, symmetric])
qed

section \<open>Immediates of branches, jumps and stores\<close>

text \<open>The immediate fields of the B, J and S formats of the instruction set manual.\<close>

definition encode_b_imm :: "u32 \<Rightarrow> u32" where
  "encode_b_imm off = push_bit 31 (drop_bit 12 off AND 1) OR push_bit 25 (drop_bit 5 off AND 0x3F)
     OR push_bit 8 (drop_bit 1 off AND 0xF) OR push_bit 7 (drop_bit 11 off AND 1)"

definition encode_j_imm :: "u32 \<Rightarrow> u32" where
  "encode_j_imm off = push_bit 31 (drop_bit 20 off AND 1) OR push_bit 21 (drop_bit 1 off AND 0x3FF)
     OR push_bit 20 (drop_bit 11 off AND 1) OR push_bit 12 (drop_bit 12 off AND 0xFF)"

definition encode_s_imm :: "u32 \<Rightarrow> u32" where
  "encode_s_imm off = push_bit 25 (drop_bit 5 off AND 0x7F) OR push_bit 7 (off AND 0x1F)"

lemma decode_branch_bits:
  assumes "n < 32"
  shows "bit (decode_i_branch_off insn) n \<longleftrightarrow> (if n = 0 then False else if n \<le> 4 then bit insn (n + 7)
     else if n \<le> 10 then bit insn (n + 20) else if n = 11 then bit insn 7 else bit insn 31)"
  using assms unfolding decode_i_branch_off_def
  by (elim nat_less_32_cases [THEN insertE] insertE emptyE) (simp_all add: bit_simps)

lemma decode_jal_bits:
  assumes "n < 32"
  shows "bit (decode_i_jal_off insn) n \<longleftrightarrow> (if n = 0 then False else if n \<le> 10 then bit insn (n + 20)
     else if n = 11 then bit insn 20 else if n \<le> 19 then bit insn n else bit insn 31)"
  using assms unfolding decode_i_jal_off_def
  by (elim nat_less_32_cases [THEN insertE] insertE emptyE) (simp_all add: bit_simps)

lemma decode_store_bits:
  assumes "n < 32"
  shows "bit (decode_i_store_off insn) n \<longleftrightarrow> (if n \<le> 4 then bit insn (n + 7) else if n \<le> 11 then bit insn (n + 20) else bit insn 31)"
  using assms unfolding decode_i_store_off_def bit_ext_u32_def
  by (elim nat_less_32_cases [THEN insertE] insertE emptyE) (simp_all add: bit_simps)

lemma encode_bits:
  assumes "n < 32"
  shows "bit (encode_b_imm off) n \<longleftrightarrow> (if n = 7 then bit off 11 else if 8 \<le> n \<and> n \<le> 11 then bit off (n - 7)
      else if 25 \<le> n \<and> n \<le> 30 then bit off (n - 20) else n = 31 \<and> bit off 12)"
    "bit (encode_j_imm off) n \<longleftrightarrow> (if 12 \<le> n \<and> n \<le> 19 then bit off n else if n = 20 then bit off 11
      else if 21 \<le> n \<and> n \<le> 30 then bit off (n - 20) else n = 31 \<and> bit off 20)"
    "bit (encode_s_imm off) n \<longleftrightarrow> (if 7 \<le> n \<and> n \<le> 11 then bit off (n - 7) else 25 \<le> n \<and> bit off (n - 20))"
proof -
  show "bit (encode_b_imm off) n \<longleftrightarrow> (if n = 7 then bit off 11 else if 8 \<le> n \<and> n \<le> 11 then bit off (n - 7)
      else if 25 \<le> n \<and> n \<le> 30 then bit off (n - 20) else n = 31 \<and> bit off 12)"
    using assms unfolding encode_b_imm_def
    by (elim nat_less_32_cases [THEN insertE] insertE emptyE) (simp_all add: bit_simps flip: numeral_2_eq_2 numeral_3_eq_3)
  show "bit (encode_j_imm off) n \<longleftrightarrow> (if 12 \<le> n \<and> n \<le> 19 then bit off n else if n = 20 then bit off 11
      else if 21 \<le> n \<and> n \<le> 30 then bit off (n - 20) else n = 31 \<and> bit off 20)"
    using assms unfolding encode_j_imm_def
    by (elim nat_less_32_cases [THEN insertE] insertE emptyE) (simp_all add: bit_simps flip: numeral_2_eq_2 numeral_3_eq_3)
  show "bit (encode_s_imm off) n \<longleftrightarrow> (if 7 \<le> n \<and> n \<le> 11 then bit off (n - 7) else 25 \<le> n \<and> bit off (n - 20))"
    using assms unfolding encode_s_imm_def by (elim nat_less_32_cases [THEN insertE] insertE emptyE) (simp_all add: bit_simps)
qed

lemma sign_bits: "signed_take_bit k (off :: u32) = off \<Longrightarrow> k \<le> n \<Longrightarrow> n < 32 \<Longrightarrow> bit off n = bit off k"
proof -
  assume a: "signed_take_bit k off = off" "k \<le> n" "n < 32"
  have "bit (signed_take_bit k off) n = bit off (min k n)" using a(2,3) by (simp only: bit_signed_take_bit_iff) simp
  then show ?thesis using a by (simp add: min_def)
qed

text \<open>The bits that hold an immediate are free in the other fields.\<close>

lemma imm_fields_free:
  "rest AND 0xFE000F80 = 0 \<Longrightarrow> n \<in> {7..11} \<union> {25..31} \<Longrightarrow> \<not> bit rest n"
  "rest AND 0xFFFFF000 = 0 \<Longrightarrow> n \<in> {12..31} \<Longrightarrow> \<not> bit rest n"
  for rest :: u32
proof -
  have m: "\<not> bit rest n" if "rest AND msk = 0" "bit msk n" for msk :: u32 and n
    using arg_cong [OF that(1), of "\<lambda>x. bit x n"] that(2) by (simp add: bit_and_iff)
  have "\<forall>n \<in> set ([7..<12] @ [25..<32]). bit (0xFE000F80 :: u32) n" "\<forall>n \<in> set [12..<32]. bit (0xFFFFF000 :: u32) n"
    by code_simp+
  then have b: "n \<in> set ([7..<12] @ [25..<32]) \<Longrightarrow> bit (0xFE000F80 :: u32) n" "n \<in> set [12..<32] \<Longrightarrow> bit (0xFFFFF000 :: u32) n"
    for n by blast+
  show "rest AND 0xFE000F80 = 0 \<Longrightarrow> n \<in> {7..11} \<union> {25..31} \<Longrightarrow> \<not> bit rest n"
    by (erule m, rule b) (auto simp del: upt_rec_numeral)
  show "rest AND 0xFFFFF000 = 0 \<Longrightarrow> n \<in> {12..31} \<Longrightarrow> \<not> bit rest n"
    by (erule m, rule b) (auto simp del: upt_rec_numeral)
qed

lemma decode_encode_branch:
  assumes "signed_take_bit 12 off = off" "\<not> bit off 0" "\<And>n. n \<in> {7..11} \<union> {25..31} \<Longrightarrow> \<not> bit rest n"
  shows "decode_i_branch_off (encode_b_imm off OR rest) = off"
proof (rule bit_word_eqI)
  fix n assume "n < LENGTH(32)"
  then have n: "n < 32" by simp
  have "bit off n = bit off 12" if "12 \<le> n" using sign_bits [OF assms(1) that n] .
  then show "bit (decode_i_branch_off (encode_b_imm off OR rest)) n = bit off n"
    using n assms(2,3) by (auto simp: decode_branch_bits bit_or_iff encode_bits)
qed

lemma decode_encode_jal:
  assumes "signed_take_bit 20 off = off" "\<not> bit off 0" "\<And>n. n \<in> {12..31} \<Longrightarrow> \<not> bit rest n"
  shows "decode_i_jal_off (encode_j_imm off OR rest) = off"
proof (rule bit_word_eqI)
  fix n assume "n < LENGTH(32)"
  then have n: "n < 32" by simp
  have "bit off n = bit off 20" if "20 \<le> n" using sign_bits [OF assms(1) that n] .
  then show "bit (decode_i_jal_off (encode_j_imm off OR rest)) n = bit off n"
    using n assms(2,3) by (auto simp: decode_jal_bits bit_or_iff encode_bits)
qed

lemma decode_encode_store:
  assumes "signed_take_bit 11 off = off" "\<And>n. n \<in> {7..11} \<union> {25..31} \<Longrightarrow> \<not> bit rest n"
  shows "decode_i_store_off (encode_s_imm off OR rest) = off"
proof (rule bit_word_eqI)
  fix n assume "n < LENGTH(32)"
  then have n: "n < 32" by simp
  have "bit off n = bit off 11" if "11 \<le> n" using sign_bits [OF assms(1) that n] .
  then show "bit (decode_i_store_off (encode_s_imm off OR rest)) n = bit off n"
    using n assms(2) by (auto simp: decode_store_bits bit_or_iff encode_bits)
qed

section \<open>Compressed instructions\<close>

text \<open>The R format of the manual, with the function bits in place.\<close>

definition encode_r :: "u32 \<Rightarrow> nat \<Rightarrow> nat \<Rightarrow> nat \<Rightarrow> u32" where
  "encode_r funct rs2 rs1 rd = funct OR push_bit 20 (of_nat rs2) OR push_bit 15 (of_nat rs1) OR push_bit 7 (of_nat rd) OR 0x33"

text \<open>The instruction that a compressed register operation stands for.\<close>

definition expand_c_alu :: "u32 \<Rightarrow> u32" where
  "expand_c_alu insn =
     encode_r ([0x40000000, 0x00004000, 0x00006000, 0x00007000] ! insn_field insn 5 2)
       (insn_field insn 2 3 + 8) (insn_field insn 7 3 + 8) (insn_field insn 7 3 + 8)"

lemma bit_reg: "r < 32 \<Longrightarrow> bit (of_nat r :: u32) n \<longleftrightarrow> n < 5 \<and> bit r n"
  using bit_take_bit_iff [of 5 r n] by (auto simp: take_bit_nat_eq_self bit_of_nat_iff)

lemma bit_funct: "bit (0xFE007000 :: int) n \<longleftrightarrow> n \<in> {12, 13, 14} \<or> n \<in> {25..31}"
proof (cases "n < 32")
  case True
  then show ?thesis by (elim nat_less_32_cases [THEN insertE] insertE emptyE) simp_all
next
  case False
  then show ?thesis using bit_take_bit_iff [of 32 "0xFE007000 :: int" n] by auto
qed

lemma encode_r_fields:
  assumes "rs2 < 32" "rs1 < 32" "rd < 32" "funct AND 0xFE007000 = funct"
  shows "insn_field (encode_r funct rs2 rs1 rd) 7 5 = rd" "insn_field (encode_r funct rs2 rs1 rd) 15 5 = rs1"
    "insn_field (encode_r funct rs2 rs1 rd) 20 5 = rs2" "encode_r funct rs2 rs1 rd AND 0xFE007000 = funct"
proof -
  have f: "bit funct n \<Longrightarrow> n \<in> {12, 13, 14} \<or> n \<in> {25..31}" for n
    using arg_cong [OF assms(4), of "\<lambda>w. bit w n"] by (auto simp: bit_and_iff bit_funct)
  note b = encode_r_def bit_or_iff bit_push_bit_iff bit_reg [OF assms(1)] bit_reg [OF assms(2)] bit_reg [OF assms(3)]
  have o: "bit (0x33 :: int) n \<Longrightarrow> n < 6" for n using bit_take_bit_iff [of 6 "0x33 :: int" n] by simp
  have u: "unat (of_nat r :: u32) = r" if "r < 32" for r using that by (simp add: unat_of_nat_small)
  have "bit_ext_u32 (encode_r funct rs2 rs1 rd) 7 5 = of_nat rd"
    by (rule bit_word_eqI) (auto simp: bit_ext_u32_bits b bit_reg [OF assms(3)] dest!: f o)
  then show "insn_field (encode_r funct rs2 rs1 rd) 7 5 = rd" using assms(3) by (simp add: insn_field_def u)
  have "bit_ext_u32 (encode_r funct rs2 rs1 rd) 15 5 = of_nat rs1"
    by (rule bit_word_eqI) (auto simp: bit_ext_u32_bits b dest!: f o)
  then show "insn_field (encode_r funct rs2 rs1 rd) 15 5 = rs1" using assms(2) by (simp add: insn_field_def u)
  have "bit_ext_u32 (encode_r funct rs2 rs1 rd) 20 5 = of_nat rs2"
    by (rule bit_word_eqI) (auto simp: bit_ext_u32_bits b dest!: f o)
  then show "insn_field (encode_r funct rs2 rs1 rd) 20 5 = rs2" using assms(1) by (simp add: insn_field_def u)
  show "encode_r funct rs2 rs1 rd AND 0xFE007000 = funct"
    by (rule bit_word_eqI) (auto simp: bit_and_iff bit_funct b dest: f o)
qed

lemma insn_field_bound: "pos + bits \<le> 32 \<Longrightarrow> 0 < bits \<Longrightarrow> insn_field insn pos bits < 2 ^ bits"
proof -
  assume a: "pos + bits \<le> 32" "0 < bits"
  have "take_bit bits (bit_ext_u32 insn pos bits) = bit_ext_u32 insn pos bits"
    by (rule bit_word_eqI) (use a in \<open>auto simp: bit_take_bit_iff bit_ext_u32_bits\<close>)
  then have "insn_field insn pos bits = take_bit bits (insn_field insn pos bits)"
    unfolding insn_field_def by (metis unsigned_take_bit_eq)
  then show ?thesis by (metis take_bit_nat_less_exp)
qed

lemma insn_field_2:
  assumes "pos < 31"
  shows "insn_field insn pos 2 = of_bool (bit insn pos) + 2 * of_bool (bit insn (Suc pos))"
proof -
  have "bit_ext_u32 insn pos 2 = of_bool (bit insn pos) OR push_bit 1 (of_bool (bit insn (Suc pos)))"
    by (rule bit_word_eqI) (use assms in \<open>auto simp: bit_ext_u32_bits bit_or_iff bit_push_bit_iff bit_of_bool_iff less_Suc_eq numeral_2_eq_2\<close>)
  then show ?thesis unfolding insn_field_def by (cases "bit insn pos"; cases "bit insn (Suc pos)") simp_all
qed

lemma less_4_cases: "k < 4 \<Longrightarrow> k \<in> {0, 1, 2, 3 :: nat}"
  by auto

lemma op_base_funct:
  "k < 4 \<Longrightarrow> riscv_op_result ([0x40000000, 0x00004000, 0x00006000, 0x00007000] ! k) a b =
     Some ([a - b, a XOR b, a OR b, a AND b] ! k)"
  by (elim less_4_cases [THEN insertE] insertE emptyE) (simp_all add: riscv_op_result_def riscv_op_base_def)

lemma c_alu_expands:
  fixes xl :: "'x::len itself"
  assumes "insn_field insn 13 3 = 4" "insn_field insn 10 2 = 3" "\<not> bit insn 12"
  shows "riscv_emulate_c_c1 xl insn vm = riscv_emulate_i_opc_op xl (expand_c_alu insn) vm"
proof -
  define k where "k = insn_field insn 5 2"
  have k: "k < 4" using insn_field_bound [of 5 2 insn] by (simp add: k_def)
  have r: "insn_field insn 7 3 + 8 < 32" "insn_field insn 2 3 + 8 < 32"
    using insn_field_bound [of 7 3 insn] insn_field_bound [of 2 3 insn] by simp_all
  have fm: "[0x40000000, 0x00004000, 0x00006000, 0x00007000] ! k AND 0xFE007000 = ([0x40000000, 0x00004000, 0x00006000, 0x00007000] ! k :: u32)"
    using k by (elim less_4_cases [THEN insertE] insertE emptyE) simp_all
  note e = encode_r_fields [OF r(2) r(1) r(1) fm]
  have f: "insn AND 0x1C60 = [0x0C00, 0x0C20, 0x0C40, 0x0C60] ! k"
  proof -
    have i: "insn_field insn 10 2 = of_bool (bit insn 10) + 2 * of_bool (bit insn 11)"
        "k = of_bool (bit insn 5) + 2 * of_bool (bit insn 6)"
      unfolding k_def using insn_field_2 [of 10 insn] insn_field_2 [of 5 insn] by simp_all
    have h: "bit insn 10 \<and> bit insn 11" using i(1) assms(2) by (cases "bit insn 10"; cases "bit insn 11") simp_all
    have "insn AND 0x1C60 = 0x0C00 OR (if bit insn 5 then 0x20 else 0) OR (if bit insn 6 then 0x40 else 0)"
    proof (rule bit_word_eqI)
      fix n assume "n < LENGTH(32)"
      then have "n < 32" by simp
      then show "bit (insn AND 0x1C60) n = bit (0x0C00 OR (if bit insn 5 then 0x20 else 0) OR (if bit insn 6 then 0x40 else 0) :: u32) n"
        using assms(3) h by (elim nat_less_32_cases [THEN insertE] insertE emptyE) (simp_all add: bit_and_iff bit_or_iff)
    qed
    then show ?thesis using i(2) by (cases "bit insn 5"; cases "bit insn 6") simp_all
  qed
  have c: "riscv_c1_alu_result insn a b = Some ([a - b, a XOR b, a OR b, a AND b] ! k)" for a b :: "'x word"
    using k by (elim less_4_cases [THEN insertE] insertE emptyE) (simp_all add: riscv_c1_alu_result_def Let_def assms(2) f)
  show ?thesis
    using assms(1)
    by (simp add: riscv_emulate_c_c1_def riscv_emulate_c_c1_alu_def riscv_emulate_i_opc_op_def Let_def c write_result_def
        expand_c_alu_def k_def [symmetric] e op_base_funct [OF k])
qed

end
