(* ===== verification/RVVM_Samples.thy ===== *)
theory RVVM_Samples
  imports RVVM_Board RVVM_Events RVVM_ISA
begin

text \<open>
  Concrete harts of the small board: a supervisor with one gigapage mapped, a hart with a cached
  page of RAM, and a hart with pending interrupts.
\<close>

unbundle bit_operations_syntax

definition paged_host :: host_mem where
  "paged_host = write_uint64_le (\<lambda>_. 0) 0x7F0000000000 0x200000CF"

definition paged_hart :: "rvvm_board rvvm_hart" where
  "paged_hart = (small_hart paged_host)\<lparr>priv_mode := 1, mmu_mode := 8, root_page_table := 0x80000000\<rparr>"

lemma paged_hart_fields:
  "priv_mode paged_hart = 1" "mmu_mode paged_hart = 8" "status paged_hart = 0" "host paged_hart = paged_host"
  by (simp_all add: paged_hart_def small_hart_fields)

lemma paged_hart_access:
  "riscv_phys_access pa paged_hart = (if 0x80000000 \<le> pa \<and> pa - 0x80000000 < 0x4000000 then Some (0x7F0000000000 + (pa - 0x80000000)) else None)"
  by (simp add: riscv_phys_access_def paged_hart_def small_hart_fields small_board_shape)

lemma paged_hart_pte: "read_uint64_le paged_host 0x7F0000000000 = 0x200000CF"
  unfolding paged_host_def by (rule read_write_uint64_le)

lemma paged_hart_translate: "riscv_mmu_translate 0x1234 2 paged_hart = (Some 0x80001234, paged_hart)"
proof -
  have a: "riscv_phys_access 0x80000000 paged_hart = Some 0x7F0000000000" by (simp add: paged_hart_access)
  have "riscv_mmu_walk_rv64 (Suc 2) 0x80000000 30 0x1234 1 2 paged_hart = (Some 0x80001234, paged_hart)"
    unfolding riscv_mmu_walk_rv64.simps
    by (simp add: a paged_hart_pte paged_hart_fields Let_def bit_mask_def)
  moreover have "sign_extend (0x1234 :: u64) 39 = 0x1234" by code_simp
  moreover have "root_page_table paged_hart = 0x80000000" by (simp add: paged_hart_def)
  ultimately have "riscv_mmu_translate_rv64 3 0x1234 1 2 paged_hart = (Some 0x80001234, paged_hart)"
    by (simp add: riscv_mmu_translate_rv64_def)
  then show ?thesis by (simp add: riscv_mmu_translate_def paged_hart_fields)
qed

section \<open>A cached page\<close>

definition cached_hart :: "rvvm_board rvvm_hart" where
  "cached_hart =
     (let vm = riscv_tlb_put 0x80001000 0x7F0000001000 4 (riscv_tlb_put 0x80001000 0x7F0000001000 2 (small_hart (\<lambda>_. 0)))
      in set_reg 11 0x55 (set_reg 10 0x80001000 vm))"

lemma cached_hart_fields:
  "registers cached_hart 10 = 0x80001000" "registers cached_hart 11 = 0x55" "host cached_hart = (\<lambda>_. 0)"
  "priv_mode cached_hart = 3" "status cached_hart = 0"
  "riscv_phys_access 0x80001000 cached_hart = Some 0x7F0000001000"
  by (simp_all add: cached_hart_def Let_def small_hart_fields riscv_phys_access_def small_board_shape)

lemma cached_hart_tlb:
  "tlb_r (tlb_at 0x80001000 cached_hart) = 0x80001" "tlb_w (tlb_at 0x80001000 cached_hart) = 0x80001"
  "tlb_ptr (tlb_at 0x80001000 cached_hart) + 0x80001000 = 0x7F0000001000"
  by (simp_all add: cached_hart_def Let_def riscv_tlb_put_def tlb_at_def)

text \<open>\<open>lr.w a2, (a0)\<close>, \<open>sc.w a3, a1, (a0)\<close> and \<open>amoadd.w a3, a1, (a0)\<close>.\<close>

abbreviation (input) lr_insn :: u32 where "lr_insn \<equiv> 0x1005262F"
abbreviation (input) sc_insn :: u32 where "sc_insn \<equiv> 0x18B526AF"
abbreviation (input) amoadd_insn :: u32 where "amoadd_insn \<equiv> 0x00B526AF"

lemma amo_fields:
  "insn_rds lr_insn = 12" "insn_rs1 lr_insn = 10" "insn_rds sc_insn = 13" "insn_rs1 sc_insn = 10" "insn_rs2 sc_insn = 11"
  "insn_rds amoadd_insn = 13" "insn_rs1 amoadd_insn = 10" "insn_rs2 amoadd_insn = 11"
  by code_simp+

lemma cached_hart_amo:
  assumes "tlb vm = tlb cached_hart"
  shows "amo_cached 0x80001000 0x7F0000001000 vm"
  using cached_hart_tlb assms by (simp add: amo_cached_def tlb_at_def)

definition reserved_hart :: "rvvm_board rvvm_hart" where
  "reserved_hart = riscv_emulate_atomic_w TYPE(64) small_board lr_insn cached_hart"

lemma reserved_hart:
  "reserved_hart = riscv_write_reg 12 (0 :: u32) (cached_hart\<lparr>lrsc := True, lrsc_addr := 0x80001000, lrsc_cas := 0\<rparr>)"
proof -
  have a: "amo_addr TYPE(64) lr_insn cached_hart = 0x80001000"
    by (simp add: amo_addr_def amo_fields riscv_read_reg_def cached_hart_fields)
  have w: "word_at 0x7F0000001000 cached_hart = 0"
    unfolding word_at_def cached_hart_fields by code_simp
  show ?thesis unfolding reserved_hart_def
    by (subst atomic_w_lr [of _ _ _ "0x7F0000001000"]) (simp_all add: a w amo_fields cached_hart_amo)
qed

section \<open>Pending interrupts\<close>

definition irq_hart :: "rvvm_board rvvm_hart" where
  "irq_hart = (let vm = small_hart (\<lambda>_. 0)
     in vm\<lparr>priv_mode := 1, pending_irqs := 0x880, csr := (csr vm)\<lparr>csr_ie := 0xAAA\<rparr>\<rparr>)"

lemma irq_hart_fields:
  "priv_mode irq_hart = 1" "riscv_interrupts_pending irq_hart = 0x880" "csr_ideleg (csr irq_hart) 1 = 0"
  "csr_ideleg (csr irq_hart) 3 = 0" "registers irq_hart 32 = 0x80000000"
  by (simp_all add: irq_hart_def Let_def small_hart_fields riscv_interrupts_pending_def riscv_interrupts_raised_def small_hart_def
      reset_hart_def riscv_hart_init_def riscv_csr_init_def riscv_switch_priv_def
      riscv_tlb_flush_def riscv_restart_dispatch_def small_board_shape)

lemma irq_hart_selected: "irq_selected irq_hart 11 3"
proof -
  have b: "bit (0x880 :: u32) m \<longleftrightarrow> m = 7 \<or> m = 11" if "m < 32" for m
    using that by (elim nat_less_32_cases [THEN insertE] insertE emptyE) simp_all
  have g: "irq_goes_to (csr_ideleg (csr irq_hart)) m 3" if "m < 32" for m
    using that by (simp add: irq_goes_to_def irq_hart_fields)
  show ?thesis unfolding irq_selected_def irq_hart_fields
    using b g [of 11] by (auto simp: irq_goes_to_def)
qed

end
