(* ===== verification/Spec2Isabelle.thy ===== *)
theory Spec2Isabelle
  imports RVVM_Utils RVVM_Timer RVVM_Bit_Lemmas RVVM_PLIC RVVM_Ringbuf RVVM_Spinlock RVVM_Samples
begin

text \<open>
  A verification library for RVVM, the RISC-V virtual machine under src/rvvm/src.  The other trees
  of the repository (qemu, renode, spike, tlib) are third-party emulators that share no code with it.

  \<^bold>\<open>The program.\<close>  A machine (rvvm.c) owns guest RAM, a list of memory mapped devices and a
  list of harts.  A hart (riscv_hart.c) runs a loop in its own thread: it takes the pending events,
  enters an interrupt handler if one is due, and runs the interpreter (cpu/riscv_interpreter.h)
  until something asks it to stop.  The interpreter fetches through a translation cache, decodes
  and executes one instruction per pass (cpu/riscv_base.h, riscv_compressed.h, riscv_atomics.h,
  riscv_priv.c, riscv_csr.c).  Loads, stores and fetches that miss the cache walk the page tables
  and reach RAM or a device (riscv_mmu.c).  Devices and other threads interrupt harts through the
  pending interrupt word.

  \<^bold>\<open>The build that is modelled.\<close>  Both register widths, a 64-bit little endian host, the compiler
  builtins and 128-bit integers; without the JIT, floating point, vectors and thread emulation.
  Host memory is a function from addresses to bytes.  The clock, the entropy source, the file
  system and the terminal are the host's: values or parameters of the model.

  \<^bold>\<open>Theories.\<close>
  \<^item> RVVM_Prelude: types, words and lists.  RVVM_Bit_Ops and RVVM_Bit_Lemmas: bit_ops.h.
    RVVM_Mem_Ops: mem_ops.h.  RVVM_Utils: text routines of utils.c.  RVVM_Timer: rvtimer.c.
  \<^item> RVVM_State: the hart and machine records of rvvm.h and the translation cache.  RVVM_Hart:
    riscv_hart.c.  RVVM_MMU: riscv_mmu.c and riscv_mmu.h.  RVVM_CSR: riscv_csr.c.
  \<^item> RVVM_Common, RVVM_Base, RVVM_Compressed, RVVM_Atomics: the instruction emulation under cpu/,
    generic over the register width as the C templates are.  RVVM_Priv: riscv_priv.c.  RVVM_Interp:
    the dispatch loop, the hart loop and \<open>hart_step\<close>, the transition relation of a hart thread
    interleaved with what other threads do to it.
  \<^item> RVVM_Machine: rvvm.c.  RVVM_Devices: riscv-aclint.c, syscon.c, riscv-imsic.c and a board made
    of them.  RVVM_PLIC: riscv-plic.c.  RVVM_Ringbuf: ringbuf.c.  RVVM_Spinlock: spinlock.c.
  \<^item> RVVM_Hart_Lemmas, RVVM_Pages, RVVM_Safety, RVVM_MMU_Safety, RVVM_CSR_Safety,
    RVVM_Insn_Safety: every operation of a hart keeps the isolation invariant \<open>hart_good\<close>.
    RVVM_MMU_Lemmas and RVVM_Translation: the translation cache, the page walk and the access
    paths.  RVVM_ISA: division, immediates and compressed instructions against the instruction
    set.  RVVM_Events: interrupts, refused CSR accesses and atomic instructions.  RVVM_Board and
    RVVM_Samples: a concrete board, its first instruction and harts in particular states.

  \<^bold>\<open>Interfaces.\<close>  What the harts rely on in a device and in the bus is the locale \<open>mmio_device\<close> and
  \<open>mmio_bus\<close>; devices that meet it on every machine are \<open>portable_device\<close> and \<open>portable_bus\<close>,
  interpreted on the handlers of RVVM_Devices and on the board.  A bounded queue of bytes is
  \<open>byte_fifo\<close>, interpreted on the ring buffer.

  \<^bold>\<open>State and effects.\<close>  Operations take and return the hart or machine record.  A raised
  exception is a change of the hart; \<open>rvvm_fatal\<close> sets the field \<open>fatal\<close>.  Loops that only the
  guest or another thread can end (the dispatch loop, the hart loop, WFI) are partial functions with
  an optional result, and safety is stated on \<open>hart_step\<close>, which covers runs that never end.
  Other loops are recursive functions with a termination proof, or take as many passes as the bytes
  or levels they handle, which is enough because every pass handles at least one.  The search for a
  free device address is \<open>while_option\<close>; that it ends is proved.

  \<^bold>\<open>Not modelled.\<close>  Floating point, vectors and the JIT; files, sockets, windows, sound and system
  calls of the host; threads beyond the interleaving of atomic operations (no weak memory); the
  device tree; devices other than those named; the command line.
\<close>


unbundle bit_operations_syntax

section \<open>Isolation of the guest\<close>

text \<open>
  C1. Guest code cannot touch the host.  From the reset state on, whatever the hart executes and
  whatever other threads do to it in between, host memory outside the RAM of the machine and the
  direct mappings of its devices keeps its contents, and the emulator does not abort.  The
  hypothesis \<open>mmio_bus\<close> says that the devices are sane: operation sizes of at most 16 bytes,
  page aligned mappings, handlers that keep to guest memory.
\<close>

theorem guest_isolated:
  assumes "mmio_bus M" "\<not> host_guest M a"
    "(hart_step M)\<^sup>*\<^sup>* (Idle, reset_hart i fdt pc (riscv_hart_init M hst tm ent dev)) (ph, vm)"
  shows "host vm a = hst a \<and> \<not> fatal vm"
  using reachable_from_reset [OF assms(1,3)] assms(2) by (simp add: hart_good_def)

theorem guest_isolated_witness:
  "\<exists>vm. (hart_step small_board)\<^sup>*\<^sup>* (Idle, small_hart (\<lambda>_. 0)) (Idle, vm) \<and> csr_cause (csr vm) 3 = 2 \<and>
     host vm 0x1000 = 0 \<and> \<not> fatal vm"
proof -
  obtain vm where vm: "(hart_step small_board)\<^sup>*\<^sup>* (Idle, small_hart (\<lambda>_. 0)) (Idle, vm)" "csr_cause (csr vm) 3 = 2"
    by (rule small_hart_run [of "\<lambda>_. 0"]) simp_all
  have "\<not> host_guest small_board 0x1000" by (simp add: small_board_guest)
  from guest_isolated [OF small_board_bus this vm(1) [unfolded small_hart_def]] show ?thesis
    by (intro exI [of _ vm]) (simp add: vm)
qed

text \<open>
  C2. Every cached translation is safe: in every reachable state, a TLB entry that matches the page
  of an address, for reads, writes or instruction fetches, holds a host pointer that leads into
  guest memory for that address.  The fast paths of loads, stores and fetches check nothing else.
\<close>

theorem tlb_points_into_guest:
  assumes "mmio_bus M" "tlb_hit (tlb_at v vm) (drop_bit 12 v)"
    "(hart_step M)\<^sup>*\<^sup>* (Idle, reset_hart i fdt pc (riscv_hart_init M hst tm ent dev)) (ph, vm)"
  shows "host_guest M (tlb_ptr (tlb_at v vm) + v)"
proof -
  have "hart_good M hst vm" by (rule reachable_from_reset [OF assms(1,3)])
  then have "tlb_safe M (tlb vm)" by (simp add: hart_good_def)
  then show ?thesis using assms(2) by (simp add: tlb_safe_iff tlb_at_def)
qed

theorem tlb_points_into_guest_witness:
  "\<exists>vm. (hart_step small_board)\<^sup>*\<^sup>* (Idle, small_hart (\<lambda>_. 0)) (Idle, vm) \<and>
     tlb_hit (tlb_at 0x80000000 vm) (drop_bit 12 0x80000000) \<and>
     host_guest small_board (tlb_ptr (tlb_at 0x80000000 vm) + 0x80000000)"
proof -
  obtain vm where vm: "(hart_step small_board)\<^sup>*\<^sup>* (Idle, small_hart (\<lambda>_. 0)) (Idle, vm)"
      "tlb_hit (tlb_at 0x80000000 vm) (drop_bit 12 0x80000000)"
    by (rule small_hart_run [of "\<lambda>_. 0"]) simp_all
  show ?thesis using tlb_points_into_guest [OF small_board_bus vm(2) vm(1) [unfolded small_hart_def]] vm
    by (intro exI [of _ vm]) blast
qed

text \<open>
  C3. In every reachable state the hart is in user, supervisor or machine mode, the field that MRET
  returns to never holds the hypervisor encoding, the page table root is page aligned, and the
  hart still has the RAM it was created with.
\<close>

theorem privilege_invariant:
  assumes "mmio_bus M"
    "(hart_step M)\<^sup>*\<^sup>* (Idle, reset_hart i fdt pc (riscv_hart_init M hst tm ent dev)) (ph, vm)"
  shows "priv_mode vm \<in> {RISCV_PRIV_USER, RISCV_PRIV_SUPERVISOR, RISCV_PRIV_MACHINE} \<and>
    bit_cut (status vm) 11 2 \<noteq> 2 \<and> root_page_table vm AND 0xFFF = 0 \<and> mem vm = m_mem M"
  using reachable_from_reset [OF assms] by (simp add: hart_good_def csr_inv_def)

theorem privilege_invariant_witness:
  "\<exists>vm. (hart_step small_board)\<^sup>*\<^sup>* (Idle, small_hart (\<lambda>_. 0)) (Idle, vm) \<and> csr_epc (csr vm) 3 = 0x80000000 \<and>
     bit_cut (status vm) 11 2 \<noteq> 2 \<and> mem vm = m_mem small_board"
proof -
  obtain vm where vm: "(hart_step small_board)\<^sup>*\<^sup>* (Idle, small_hart (\<lambda>_. 0)) (Idle, vm)" "csr_epc (csr vm) 3 = 0x80000000"
    by (rule small_hart_run [of "\<lambda>_. 0"]) simp_all
  show ?thesis using privilege_invariant [OF small_board_bus vm(1) [unfolded small_hart_def]] vm
    by (intro exI [of _ vm]) blast
qed

section \<open>Traps and interrupts\<close>

text \<open>
  C4. A trap that machine mode takes enters its handler with interrupts off, and MRET in the handler
  resumes the interrupted code: the privilege mode, the program counter and the interrupt enable
  bit of machine mode are what they were before the trap.
\<close>

theorem trap_mret_round_trip:
  assumes "\<not> trap vm" "\<not> userland vm" "priv_mode vm \<le> 3"
    and "riscv_trap_target (csr_edeleg (csr vm)) (priv_mode vm) cause 3 = 3"
    and handler: "handler = riscv_hart_run_end (riscv_trap cause tval vm)"
  shows "priv_mode handler = 3 \<and> registers handler 32 = csr_tvec (csr vm) 3 AND NOT 3 \<and> \<not> bit (status handler) 3 \<and>
    priv_mode (riscv_mret handler) = priv_mode vm \<and>
    registers (advance_pc 4 (riscv_mret handler)) 32 = registers vm 32 \<and>
    bit (status (riscv_mret handler)) 3 = bit (status vm) 3"
  using trap_mret [OF assms] by blast

theorem trap_mret_round_trip_witness:
  "let vm = (small_hart (\<lambda>_. 0))\<lparr>priv_mode := 0\<rparr>; handler = riscv_hart_run_end (riscv_trap 2 0 vm)
   in priv_mode handler = 3 \<and> registers handler 32 = 0 \<and> priv_mode (riscv_mret handler) = 0 \<and>
      registers (advance_pc 4 (riscv_mret handler)) 32 = 0x80000000"
proof -
  let ?v = "(small_hart (\<lambda>_. 0))\<lparr>priv_mode := 0\<rparr>"
  have "riscv_trap_target (csr_edeleg (csr ?v)) 0 2 3 = 3"
    using small_hart_fields(12) [of "\<lambda>_. 0"] by (simp add: numeral_3_eq_3)
  then show ?thesis using trap_mret_round_trip [OF _ _ _ _ refl, of ?v 2 0] by (simp add: small_hart_fields Let_def)
qed

text \<open>
  C5. A trap delegated to supervisor mode enters its handler with supervisor interrupts off, and SRET
  in the handler resumes the interrupted code with the old privilege mode, program counter and
  supervisor interrupt enable bit.
\<close>

theorem trap_sret_round_trip:
  assumes "\<not> trap vm" "\<not> userland vm" "priv_mode vm \<le> 1"
    and "riscv_trap_target (csr_edeleg (csr vm)) (priv_mode vm) cause 3 = 1"
    and handler: "handler = riscv_hart_run_end (riscv_trap cause tval vm)"
  shows "priv_mode handler = 1 \<and> registers handler 32 = csr_tvec (csr vm) 1 AND NOT 3 \<and> \<not> bit (status handler) 1 \<and>
    priv_mode (riscv_sret handler) = priv_mode vm \<and>
    registers (advance_pc 4 (riscv_sret handler)) 32 = registers vm 32 \<and>
    bit (status (riscv_sret handler)) 1 = bit (status vm) 1"
  using trap_sret [OF assms] by blast

theorem trap_sret_round_trip_witness:
  "let vm = small_hart (\<lambda>_. 0);
       vm = vm\<lparr>priv_mode := 0, csr := (csr vm)\<lparr>csr_edeleg := (\<lambda>_. 0)(3 := 0x100, 2 := 0x100)\<rparr>\<rparr>;
       handler = riscv_hart_run_end (riscv_trap 8 0 vm)
   in priv_mode handler = 1 \<and> priv_mode (riscv_sret handler) = 0 \<and>
      registers (advance_pc 4 (riscv_sret handler)) 32 = 0x80000000"
proof -
  let ?v = "small_hart (\<lambda>_. 0)"
  have "riscv_trap_target ((\<lambda>_. 0)(3 := 0x100, 2 := 0x100)) 0 8 3 = 1" by code_simp
  then show ?thesis
    using trap_sret_round_trip [OF _ _ _ _ refl, of "?v\<lparr>priv_mode := 0, csr := (csr ?v)\<lparr>csr_edeleg := (\<lambda>_. 0)(3 := 0x100, 2 := 0x100)\<rparr>\<rparr>" 8 0]
    by (simp add: small_hart_fields Let_def)
qed

text \<open>
  C6. In every reachable state a synchronous exception is taken in supervisor or machine mode, never in
  a mode less privileged than the interrupted one: delegation cannot hand a trap of machine mode
  to the guest kernel.
\<close>

theorem trap_never_lowers_privilege:
  assumes "mmio_bus M" "\<not> trap vm" "\<not> userland vm" "cause < 32"
    "(hart_step M)\<^sup>*\<^sup>* (Idle, reset_hart i fdt pc (riscv_hart_init M hst tm ent dev)) (ph, vm)"
  shows "priv_mode (riscv_trap cause tval vm) \<in> {RISCV_PRIV_SUPERVISOR, RISCV_PRIV_MACHINE} \<and>
    priv_mode vm \<le> priv_mode (riscv_trap cause tval vm)"
proof -
  have "hart_good M hst vm" by (rule reachable_from_reset [OF assms(1,5)])
  then have "csr_inv (csr vm)" "priv_mode vm \<in> {0, 1, 3}" by (simp_all add: hart_good_def)
  from trap_target_cases [OF this assms(4)] show ?thesis
    using riscv_trap_taken(1) [OF assms(2,3) refl] by metis
qed

theorem trap_never_lowers_privilege_witness:
  "priv_mode (riscv_trap 2 0 (small_hart (\<lambda>_. 0))) = RISCV_PRIV_MACHINE"
  using trap_never_lowers_privilege [OF small_board_bus _ _ _ rtranclp.rtrancl_refl, where cause = 2 and tval = 0
      and i = 0 and fdt = 0 and pc = "0x80000000" and hst = "\<lambda>_. 0" and tm = 0 and ent = 0 and dev = "\<lparr>power_state = 1\<rparr>"]
  by (auto simp: small_hart_def [symmetric] small_hart_fields)

text \<open>
  C7. The hart takes the right interrupt.  Among the pending and enabled ones it selects those of the
  highest mode that does not delegate them, and the highest number there.  It is taken exactly
  when that mode is above the current one, or equal to it with interrupts enabled; then the hart
  is in that mode with the return address, the cause and the vector of the interrupt, and the
  status stacked.  Otherwise nothing changes.  The hypothesis is that S-mode has no delegation
  register, which is how the CSRs of the hart are.
\<close>

theorem interrupt_selection:
  assumes "csr_ideleg (csr vm) RISCV_PRIV_SUPERVISOR = 0"
  shows "(riscv_handle_irqs vm = vm \<and>
      (\<forall>n q. irq_selected vm n q \<longrightarrow> q < priv_mode vm \<or> q = priv_mode vm \<and> \<not> bit (status vm) q)) \<or>
    (\<exists>n q. irq_selected vm n q \<and> (priv_mode vm < q \<or> priv_mode vm = q \<and> bit (status vm) q) \<and>
      irq_entered n q vm (riscv_handle_irqs vm))"
  using assms by (rule handle_irqs_spec)

theorem interrupt_selection_witness: "irq_entered 11 3 irq_hart (riscv_handle_irqs irq_hart)"
proof -
  have "\<not> (3 < priv_mode irq_hart \<or> 3 = priv_mode irq_hart \<and> \<not> bit (status irq_hart) 3)"
    by (simp add: irq_hart_fields)
  with interrupt_selection [OF irq_hart_fields(3)] irq_hart_selected
  obtain n q where "irq_selected irq_hart n q" "irq_entered n q irq_hart (riscv_handle_irqs irq_hart)" by blast
  then show ?thesis using irq_selected_unique [OF irq_hart_selected, of n q] by simp
qed

text \<open>
  C8. A CSR instruction on a register above the privilege of the hart, or one that writes a read-only
  register, raises an illegal instruction exception and does nothing else.
\<close>

theorem csr_access_refused:
  assumes "insn_funct3 insn \<in> {1, 2, 3, 5, 6, 7}" "csr_refused insn vm"
  shows "riscv_emulate_opc_system M insn vm = Some (riscv_illegal_insn insn vm)"
  using assms by (rule csr_insn_refused)

theorem csr_access_refused_witness:
  "riscv_emulate_opc_system small_board 0x300315F3 irq_hart = Some (riscv_illegal_insn 0x300315F3 irq_hart)"
proof (rule csr_access_refused)
  show "insn_funct3 0x300315F3 \<in> {1, 2, 3, 5, 6, 7}" by code_simp
  have "riscv_csr_privilege (drop_bit 20 0x300315F3) = 3" by code_simp
  then show "csr_refused 0x300315F3 irq_hart" by (simp only: csr_refused_def irq_hart_fields) simp
qed

section \<open>Address translation and memory\<close>

text \<open>
  C9. Virtual memory protects pages.  With Sv39, Sv48 or Sv57 paging, a translation for an access in
  U- or S-mode that succeeds went through a leaf entry of a page table in RAM that allows the
  access: it is valid, readable, writable or executable as the access needs (MXR lets loads use
  executable pages), open to U-mode for U-mode, and not a U-mode page for S-mode unless SUM is set
  and the access is no fetch.  The physical address is the frame of that entry with the offset of
  the virtual address, and the only change is the accessed and dirty bits of the entry.
\<close>

theorem translation_respects_permissions:
  assumes "riscv_mmu_translate vaddr access vm = (Some paddr, vm')" "access \<in> {RISCV_MMU_READ, RISCV_MMU_WRITE, RISCV_MMU_EXEC}"
    "mmu_mode vm \<in> {CSR_SATP_MODE_SV39, CSR_SATP_MODE_SV48, CSR_SATP_MODE_SV57}" "data_priv access vm < 3"
  shows "\<exists>pte_addr ptr pte k. riscv_phys_access pte_addr vm = Some ptr \<and> sv_page_bits k \<and>
    pte = read_uint64_le (host vm) ptr \<and> page_allows (data_priv access vm) access (status vm) pte \<and>
    paddr = (push_bit 2 pte AND push_bit k (bit_mask (56 - k))) OR (vaddr AND bit_mask k) \<and>
    vm' = (if pte \<noteq> pte_dirty pte access then vm\<lparr>host := write_uint64_le (host vm) ptr (pte_dirty pte access)\<rparr> else vm)"
  by (rule translate_sound [OF assms, THEN conjunct2, rule_format, OF refl])

theorem translation_respects_permissions_witness:
  "riscv_mmu_translate 0x1234 RISCV_MMU_READ paged_hart = (Some 0x80001234, paged_hart) \<and>
   (\<exists>pte_addr ptr. riscv_phys_access pte_addr paged_hart = Some ptr \<and>
      page_allows 1 RISCV_MMU_READ 0 (read_uint64_le paged_host ptr))"
proof -
  have p: "data_priv RISCV_MMU_READ paged_hart = 1" by (simp add: data_priv_def paged_hart_fields)
  have m: "RISCV_MMU_READ \<in> {RISCV_MMU_READ, RISCV_MMU_WRITE, RISCV_MMU_EXEC}"
    "mmu_mode paged_hart \<in> {CSR_SATP_MODE_SV39, CSR_SATP_MODE_SV48, CSR_SATP_MODE_SV57}" "data_priv RISCV_MMU_READ paged_hart < 3"
    by (simp_all add: paged_hart_fields p)
  obtain pte_addr ptr pte where "riscv_phys_access pte_addr paged_hart = Some ptr" "pte = read_uint64_le (host paged_hart) ptr"
    "page_allows (data_priv RISCV_MMU_READ paged_hart) RISCV_MMU_READ (status paged_hart) pte"
    using translation_respects_permissions [OF paged_hart_translate m] by (elim exE conjE) (rule that)
  then show ?thesis using paged_hart_translate unfolding p paged_hart_fields by blast
qed




section \<open>Instructions\<close>

text \<open>
  C12. A store-conditional on a cached word writes and reports success exactly when the hart holds a
  reservation for the address and the word still has the value that was reserved; otherwise memory
  keeps its contents and the instruction reports failure.  Either way the reservation is gone.
\<close>

theorem store_conditional_checks:
  fixes xl :: "'x::len itself"
  assumes "drop_bit 27 insn = of_nat RISCV_AMO_SC" "amo_cached (amo_addr xl insn vm) ptr vm"
    "vm' = riscv_emulate_atomic_w xl M insn vm"
    "ok \<longleftrightarrow> lrsc vm \<and> lrsc_addr vm = amo_addr xl insn vm \<and> word_at ptr vm = ucast (lrsc_cas vm)"
  shows "host vm' = (if ok then write_bytes (host vm) ptr (le_bytes 4 (amo_operand xl insn vm)) else host vm) \<and>
    registers vm' = (registers vm)(insn_rds insn := (if ok then 0 else 1)) \<and> \<not> lrsc vm'"
  using atomic_w_sc [of insn xl vm ptr M] assms by simp

theorem store_conditional_checks_witness:
  "host (riscv_emulate_atomic_w TYPE(64) small_board sc_insn reserved_hart) = write_bytes (\<lambda>_. 0) 0x7F0000001000 (le_bytes 4 (0x55 :: u32)) \<and>
   registers (riscv_emulate_atomic_w TYPE(64) small_board sc_insn reserved_hart) 13 = 0"
proof -
  have a: "amo_addr TYPE(64) sc_insn reserved_hart = 0x80001000" "amo_operand TYPE(64) sc_insn reserved_hart = 0x55"
    by (simp_all add: amo_addr_def amo_operand_def amo_fields riscv_read_reg_def reserved_hart riscv_write_reg_def cached_hart_fields)
  have c: "amo_cached (amo_addr TYPE(64) sc_insn reserved_hart) 0x7F0000001000 reserved_hart"
    unfolding a by (rule cached_hart_amo) (simp add: reserved_hart riscv_write_reg_def)
  have h: "host reserved_hart = (\<lambda>_. 0)" by (simp add: reserved_hart riscv_write_reg_def cached_hart_fields)
  have w: "word_at 0x7F0000001000 reserved_hart = 0" unfolding word_at_def h by code_simp
  have r: "lrsc reserved_hart" "lrsc_addr reserved_hart = 0x80001000" "lrsc_cas reserved_hart = 0"
    by (simp_all add: reserved_hart riscv_write_reg_def)
  show ?thesis
    using store_conditional_checks [OF _ c refl refl, of small_board] by (simp add: a h w r amo_fields)
qed



text \<open>
  C14. Signed division and remainder are total and meet the instruction set: division by zero gives all
  ones and leaves the dividend as remainder, the overflow of the most negative number by minus one
  gives that number and remainder zero, and in every other case the quotient is the integer quotient
  rounded towards zero and quotient and remainder rebuild the dividend.
\<close>

theorem division_meets_isa:
  fixes a b :: u64
  defines "ov \<equiv> 0x8000000000000000"
  shows "if b = 0 then riscv_div ov a b = - 1 \<and> riscv_rem ov a b = a
    else if a = ov \<and> b = - 1 then riscv_div ov a b = ov \<and> riscv_rem ov a b = 0
    else sint (riscv_div ov a b) = c_div (sint a) (sint b) \<and> a = riscv_div ov a b * b + riscv_rem ov a b \<and>
      \<bar>sint (riscv_rem ov a b)\<bar> < \<bar>sint b\<bar> \<and> (riscv_rem ov a b = 0 \<or> sgn (sint (riscv_rem ov a b)) = sgn (sint a))"
proof -
  have "sint ov = - (2 ^ (LENGTH(64) - 1))" unfolding ov_def by code_simp
  note d = riscv_div_rem [OF this]
  show ?thesis
  proof (cases "b = 0 \<or> a = ov \<and> b = - 1")
    case True
    then show ?thesis using d(1-4) by auto
  next
    case False
    then show ?thesis using d(5-8) [of b a] by auto
  qed
qed

text \<open>
  C15. The decoders of the scattered immediates invert the encodings of the instruction set: a branch,
  jump or store offset within the range of its format, placed by the encoder among the other
  fields, is decoded to the same offset.
\<close>

theorem immediates_round_trip:
  assumes "signed_take_bit 12 b = b" "\<not> bit b 0" "signed_take_bit 20 j = j" "\<not> bit j 0" "signed_take_bit 11 s = s"
    "rb AND 0xFE000F80 = 0" "rj AND 0xFFFFF000 = 0" "rs AND 0xFE000F80 = 0"
  shows "decode_i_branch_off (encode_b_imm b OR rb) = b \<and> decode_i_jal_off (encode_j_imm j OR rj) = j \<and>
    decode_i_store_off (encode_s_imm s OR rs) = s"
  using decode_encode_branch [OF assms(1,2) imm_fields_free(1) [OF assms(6)]]
    decode_encode_jal [OF assms(3,4) imm_fields_free(2) [OF assms(7)]]
    decode_encode_store [OF assms(5) imm_fields_free(1) [OF assms(8)]] by blast

theorem immediates_round_trip_witness:
  "decode_i_branch_off (encode_b_imm (- 8) OR 0x63) = - 8 \<and> decode_i_jal_off (encode_j_imm 0x800 OR 0x6F) = 0x800 \<and>
   decode_i_store_off (encode_s_imm (- 4) OR 0x23) = - 4"
proof -
  have "signed_take_bit 12 (- 8) = (- 8 :: u32)" "\<not> bit (- 8 :: u32) 0" "signed_take_bit 20 0x800 = (0x800 :: u32)"
    "\<not> bit (0x800 :: u32) 0" "signed_take_bit 11 (- 4) = (- 4 :: u32)" by code_simp+
  moreover have "0x63 AND 0xFE000F80 = (0 :: u32)" "0x6F AND 0xFFFFF000 = (0 :: u32)" "0x23 AND 0xFE000F80 = (0 :: u32)" by simp_all
  ultimately show ?thesis by (rule immediates_round_trip)
qed

text \<open>
  C16. The compressed register instructions subtract, exclusive or, or and and do what the 32-bit
  instructions they abbreviate do, on RV32 and RV64.
\<close>

theorem compressed_alu_expands:
  fixes xl :: "'x::len itself"
  assumes "insn_field insn 13 3 = 4" "insn_field insn 10 2 = 3" "\<not> bit insn 12"
  shows "riscv_emulate_c_c1 xl insn vm = riscv_emulate_i_opc_op xl (expand_c_alu insn) vm"
  using assms by (rule c_alu_expands)

theorem compressed_alu_expands_witness:
  "riscv_emulate_c_c1 TYPE(64) 0x8C05 cached_hart = riscv_emulate_i_opc_op TYPE(64) 0x40940433 cached_hart"
proof -
  have "expand_c_alu 0x8C05 = 0x40940433" by code_simp
  moreover have "insn_field 0x8C05 13 3 = 4" "insn_field 0x8C05 10 2 = 3" "\<not> bit (0x8C05 :: u32) 12" by code_simp+
  ultimately show ?thesis using compressed_alu_expands [of "0x8C05" "TYPE(64)" cached_hart] by simp
qed

section \<open>Machine\<close>

text \<open>
  C17. The API that copies into guest memory changes nothing outside the RAM, and the pointer it gives
  to devices for direct access leads into the RAM for the whole length that was asked for, as
  long as the address plus the length does not wrap around.
\<close>

theorem guest_memory_api_in_bounds:
  assumes "unat (ram_addr r) + unat (ram_size r) < 2 ^ 64" "unat addr + length src < 2 ^ 64" "unat addr + unat sz < 2 ^ 64"
  shows "(\<not> ram_host r a \<longrightarrow> snd (rvvm_write_ram r addr src m) a = m a) \<and>
    (rvvm_get_dma_ptr r addr sz = Some p \<and> i < unat sz \<longrightarrow> ram_host r (p + of_nat i))"
  using write_ram_outside [OF assms(2,1)] ram_check_host [OF _ assms(3,1)]
  by (auto simp: rvvm_get_dma_ptr_def split: if_splits)

theorem guest_memory_api_in_bounds_witness:
  "let r = \<lparr>ram_addr = 0x80000000, ram_size = 0x1000, ram_data = 0x7F0000000000\<rparr>
   in snd (rvvm_write_ram r 0x80000FF0 [1, 2] (\<lambda>_. 0)) 0x7F0000001000 = 0 \<and>
      rvvm_get_dma_ptr r 0x80000FF0 8 = Some 0x7F0000000FF0 \<and> ram_host r (0x7F0000000FF0 + of_nat 7)"
  using guest_memory_api_in_bounds [of "\<lparr>ram_addr = 0x80000000, ram_size = 0x1000, ram_data = 0x7F0000000000\<rparr>"
      "0x80000FF0" "[1, 2]" 8 "0x7F0000001000" "\<lambda>_. 0" "0x7F0000000FF0" 7]
  by (simp add: Let_def ram_host_def rvvm_get_dma_ptr_def ram_check_def)


text \<open>
  C19. The search for a free place of a device ends on every machine whose regions do not reach the end
  of the address space, and the place it returns overlaps neither the RAM nor a device.
\<close>

theorem zone_search_ends:
  assumes "zones_fit M" "sz \<noteq> 0"
  shows "\<exists>a. rvvm_mmio_zone_auto M addr sz = Some a \<and>
    \<not> rvvm_mmio_overlap_check a sz (ram_addr (m_mem M)) (ram_size (m_mem M)) \<and>
    (\<forall>dev \<in> set (m_mmio_devs M). \<not> rvvm_mmio_overlap_check a sz (mmio_addr dev) (mmio_size dev))"
  using zone_auto_terminates [OF assms(1), of addr sz] zone_auto_free [OF _ assms(2)] by blast

theorem zone_search_ends_witness:
  "\<exists>a. rvvm_mmio_zone_auto small_board 0x2000000 0x4000 = Some a \<and>
     \<not> rvvm_mmio_overlap_check a 0x4000 0x80000000 0x4000000"
proof -
  have "zones_fit small_board" by (simp add: zones_fit_def small_board_shape dev_defs region_fits_def)
  from zone_search_ends [OF this, of "0x4000" "0x2000000"] show ?thesis by (auto simp: small_board_shape)
qed

text \<open>
  C20. Attaching a device keeps the memory map of the machine free of overlaps: the RAM and the regions
  of the devices stay pairwise disjoint.
\<close>

theorem attach_keeps_regions_disjoint:
  assumes "rvvm_attach_mmio M desc = Some (Some (dev, M'))" "zones_fit M" "zones_disjoint M"
    "region_fits (mmio_addr desc) (mmio_size desc)"
  shows "zones_disjoint M' \<and> zones_fit M' \<and> dev \<in> set (m_mmio_devs M')"
  using attach_disjoint [OF assms] assms(1)
  by (auto simp: rvvm_attach_mmio_def Let_def split: if_splits option.splits)

theorem attach_keeps_regions_disjoint_witness:
  "\<exists>dev M'. rvvm_attach_mmio (board_env 0x4000000 (Some 0x7F0000000000) True) (syscon 0x100000) = Some (Some (dev, M'))
     \<and> zones_disjoint M' \<and> dev \<in> set (m_mmio_devs M')"
proof -
  let ?M = "board_env 0x4000000 (Some 0x7F0000000000) True"
  note d = board_env_def board_ram_def riscv_init_ram_def
  have "rvvm_mmio_zone_auto ?M 0x100000 0x1000 = Some 0x100000"
    by (rule zone_auto_here) (simp add: mmio_zone_conflict_def d rvvm_mmio_overlap_check_def)
  then obtain dev M' where a: "rvvm_attach_mmio ?M (syscon 0x100000) = Some (Some (dev, M'))"
    by (auto simp: rvvm_attach_mmio_def Let_def dev_defs)
  from attach_keeps_regions_disjoint [OF a] show ?thesis using a
    by (simp add: zones_fit_def zones_disjoint_def d region_fits_def dev_defs)
qed



text \<open>
  C22. A reset clears the whole status register of a hart, the fields for the width of supervisor and
  user mode included, which creation had set to 64 bits: after a reset a 64-bit hart that enters
  one of these modes runs it with 32-bit registers, unless the firmware writes the fields first.
\<close>

theorem reset_drops_lower_width:
  assumes "p = RISCV_PRIV_USER \<or> p = RISCV_PRIV_SUPERVISOR"
  shows "\<not> rv64 (riscv_switch_priv p (reset_hart i fdt pc vm))"
  using assms by (rule reset_drops_width)

theorem reset_drops_lower_width_witness:
  "rv64 (small_hart (\<lambda>_. 0)) \<and> \<not> rv64 (riscv_switch_priv RISCV_PRIV_SUPERVISOR (small_hart (\<lambda>_. 0)))"
  using reset_drops_lower_width [of 1] by (simp add: small_hart_fields(3)) (simp add: small_hart_def)

section \<open>Interrupt controllers\<close>

text \<open>
  C23. A claim returns a pending and enabled interrupt of the highest priority among those of the
  context and takes exactly its pending bit; when it returns none, no deliverable interrupt has a
  priority above zero.
\<close>

theorem plic_claim_takes_highest:
  assumes "plic_claim_irq ctx (p, harts) = (irq, (p', harts'))" "plic_prio p 0 = 0"
  shows "if irq = 0 then (\<forall>i. plic_deliverable p ctx i \<longrightarrow> plic_prio p i = 0)
    else plic_deliverable p ctx irq \<and> (\<forall>i. plic_deliverable p ctx i \<longrightarrow> plic_prio p i \<le> plic_prio p irq) \<and>
      (\<forall>i. plic_irq_pending p' i \<longleftrightarrow> i \<noteq> irq \<and> plic_irq_pending p i)"
  using plic_claim_highest [OF assms(1)] plic_claim_none [OF _ assms(2)] assms(1) by (cases "irq = 0") auto

theorem plic_claim_takes_highest_witness:
  "\<exists>p' harts'. plic_claim_irq 0 (\<lparr>plic_prio = (\<lambda>_. 0)(5 := 1, 7 := 3), plic_pending = (\<lambda>_. 0)(0 := 0xA0),
       plic_raised = (\<lambda>_. 0), plic_enable = (\<lambda>_ _. 0xA0), plic_threshold = (\<lambda>_. 0), workaround_intx_storm = False\<rparr>,
       [small_hart (\<lambda>_. 0)]) = (7, (p', harts')) \<and> \<not> plic_irq_pending p' 7 \<and> plic_irq_pending p' 5"
proof -
  let ?p = "\<lparr>plic_prio = (\<lambda>_. 0)(5 := 1, 7 := 3), plic_pending = (\<lambda>_. 0)(0 := 0xA0),
       plic_raised = (\<lambda>_. 0), plic_enable = (\<lambda>_ _. 0xA0), plic_threshold = (\<lambda>_. 0), workaround_intx_storm = False\<rparr>"
  obtain n h m where sc: "plic_scan ?p 0 [0..<64] (0, 0, 0) = (n, h, m)" by (metis prod.exhaust)
  moreover have "fst (snd (plic_scan ?p 0 [0..<64] (0, 0, 0))) = 7" by code_simp
  ultimately obtain p' harts' where c: "plic_claim_irq 0 (?p, [small_hart (\<lambda>_. 0)]) = (7, (p', harts'))"
    by (simp add: plic_claim_irq_def plic_update_ctx_def Let_def sc)
  have "plic_irq_pending ?p 5" by (simp add: plic_irq_pending_def bit_iff_odd_drop_bit)
  then show ?thesis using plic_claim_takes_highest [OF c] c by auto
qed

text \<open>
  C24. After an update of a context the external interrupt line of its hart and mode is raised exactly
  when some pending and enabled interrupt of the context has a priority above its threshold.
\<close>

theorem plic_line_follows_pending:
  assumes "ctx < plic_ctx_count (p, harts)" "plic_update_ctx ctx False (p, harts) = (irq, (p', harts'))"
  shows "p' = p \<and> (plic_line ctx harts' \<longleftrightarrow>
    (\<exists>irq. plic_deliverable p ctx irq \<and> plic_threshold p ctx < plic_prio p irq))"
  using plic_update_ctx_line [OF assms] by blast

theorem plic_line_follows_pending_witness:
  "\<exists>irq p' harts'. plic_update_ctx 1 False (\<lparr>plic_prio = (\<lambda>_. 2), plic_pending = (\<lambda>_. 0)(0 := 0x20),
       plic_raised = (\<lambda>_. 0), plic_enable = (\<lambda>_ _. 0x20), plic_threshold = (\<lambda>_. 0), workaround_intx_storm = False\<rparr>,
       [small_hart (\<lambda>_. 0)]) = (irq, (p', harts')) \<and> plic_line 1 harts'"
proof -
  let ?p = "\<lparr>plic_prio = (\<lambda>_. 2), plic_pending = (\<lambda>_. 0)(0 := 0x20),
       plic_raised = (\<lambda>_. 0), plic_enable = (\<lambda>_ _. 0x20), plic_threshold = (\<lambda>_. 0), workaround_intx_storm = False\<rparr>"
  obtain irq p' harts' where u: "plic_update_ctx 1 False (?p, [small_hart (\<lambda>_. 0)]) = (irq, (p', harts'))"
    by (metis prod.exhaust)
  have d: "plic_deliverable ?p 1 5"
    by (simp add: plic_deliverable_def plic_irq_pending_def plic_irq_enabled_def bit_iff_odd_drop_bit)
  have "plic_line 1 harts' \<longleftrightarrow> (\<exists>irq. plic_deliverable ?p 1 irq \<and> plic_threshold ?p 1 < plic_prio ?p irq)"
    using plic_line_follows_pending [OF _ u] by (simp add: plic_ctx_count_def)
  moreover have "plic_threshold ?p 1 < plic_prio ?p 5" by simp
  ultimately show ?thesis using u d by blast
qed

text \<open>
  C25. An interrupt that a device sends is delivered: if some context has it enabled with a threshold
  below its priority and it was not pending, it becomes pending and the line of such a context is
  raised.
\<close>

theorem plic_sent_irq_is_delivered:
  assumes "0 < unat irq" "unat irq < PLIC_SRC_LIMIT" "\<not> plic_irq_pending p (unat irq)"
    "ctx < plic_ctx_count (p, harts)" "plic_irq_enabled p ctx (unat irq)" "plic_threshold p ctx < plic_prio p (unat irq)"
    "plic_send_irq irq (p, harts) = (ok, (p', harts'))"
  shows "ok \<and> plic_irq_pending p' (unat irq) \<and> (\<exists>c < plic_ctx_count (p, harts). plic_irq_enabled p c (unat irq) \<and>
    plic_threshold p c < plic_prio p (unat irq) \<and> plic_line c harts')"
  using assms by (rule plic_send_delivers)

theorem plic_sent_irq_is_delivered_witness:
  "\<exists>p' harts'. plic_send_irq 5 (\<lparr>plic_prio = (\<lambda>_. 2), plic_pending = (\<lambda>_. 0),
       plic_raised = (\<lambda>_. 0), plic_enable = (\<lambda>_ _. 0x20), plic_threshold = (\<lambda>_. 0), workaround_intx_storm = False\<rparr>,
       [small_hart (\<lambda>_. 0)]) = (True, (p', harts')) \<and> plic_irq_pending p' 5 \<and> (\<exists>c < 2. plic_line c harts')"
proof -
  let ?p = "\<lparr>plic_prio = (\<lambda>_. 2), plic_pending = (\<lambda>_. 0),
       plic_raised = (\<lambda>_. 0), plic_enable = (\<lambda>_ _. 0x20), plic_threshold = (\<lambda>_. 0), workaround_intx_storm = False\<rparr>"
  obtain ok p' harts' where u: "plic_send_irq 5 (?p, [small_hart (\<lambda>_. 0)]) = (ok, (p', harts'))"
    by (metis prod.exhaust)
  have n: "\<not> plic_irq_pending ?p 5" and e: "plic_irq_enabled ?p 0 5"
    by (simp_all add: plic_irq_pending_def plic_irq_enabled_def bit_iff_odd_drop_bit)
  show ?thesis using plic_sent_irq_is_delivered [of 5 ?p 0 "[small_hart (\<lambda>_. 0)]", OF _ _ _ _ _ _ u] u n e
    by (auto simp: plic_ctx_count_def)
qed


text \<open>
  C27. Writing the timer comparator raises the machine timer interrupt exactly when the new value has
  been reached by the clock, and clears it otherwise; the comparator reads back as written.
\<close>

theorem mtimecmp_write_sets_line:
  "(bit (pending_irqs (aclint_mtimecmp_set v vm)) RISCV_INTERRUPT_MTIMER \<longleftrightarrow> v \<le> timer vm) \<and>
   mtimecmp (aclint_mtimecmp_set v vm) = v"
  by (simp add: mtimecmp_irq)
    (simp add: aclint_mtimecmp_set_def riscv_interrupt_def riscv_interrupt_set_def
      riscv_interrupt_clear_def riscv_hart_notify_def riscv_restart_dispatch_def Let_def)

section \<open>Buffers and locks\<close>

text \<open>
  C28. The ring buffer refines a bounded queue: after any sequence of reads and writes on a new buffer,
  the bytes accepted so far are the bytes delivered so far followed by the bytes in the buffer,
  and the buffer holds at most its capacity.
\<close>

theorem ring_buffer_is_fifo:
  assumes "fifo_run (\<lambda>rb bs. ringbuf_write bs rb) (\<lambda>rb n. ringbuf_read n rb) ops (ringbuf_create sz) = (accepted, delivered, rb)"
  shows "accepted = delivered @ rb_contents rb \<and> rb_inv rb"
  using ring.run_order [OF ringbuf_create_inv(1) assms] by (simp add: ringbuf_create_inv)

theorem ring_buffer_is_fifo_witness:
  "\<exists>rb. fifo_run (\<lambda>rb bs. ringbuf_write bs rb) (\<lambda>rb n. ringbuf_read n rb)
       [FWrite [1, 2, 3], FRead 2, FWrite [4, 5, 6]] (ringbuf_create 4) = ([1, 2, 3, 4, 5, 6], [1, 2], rb) \<and>
     rb_contents rb = [3, 4, 5, 6]"
proof -
  have "\<exists>rb. fifo_run (\<lambda>rb bs. ringbuf_write bs rb) (\<lambda>rb n. ringbuf_read n rb)
       [FWrite [1, 2, 3], FRead 2, FWrite [4, 5, 6]] (ringbuf_create 4) = ([1, 2, 3, 4, 5, 6], [1, 2], rb)"
    by (intro exI) code_simp
  then show ?thesis using ring_buffer_is_fifo by fastforce
qed

text \<open>
  C29. The lock excludes: however any number of threads interleave locking and unlocking, for reading
  and for writing, waiting and waking included, a writer is alone, and the checks for a corrupted
  lock word never fire.
\<close>

theorem lock_excludes:
  fixes t u :: "'t::finite"
  assumes "spin_step\<^sup>*\<^sup>* (0, \<lambda>_. SIdle) (flag, ph)" "CARD('t) < 2 ^ 30"
  shows "\<not> (ph t = SWriter \<and> (ph u = SReader \<or> ph u = SWriter \<and> u \<noteq> t)) \<and> ph t \<noteq> SFatal"
  by (rule spin_invE [OF spin_reachable_inv [OF assms(1) spin_inv_init assms(2)]]) blast

theorem lock_excludes_witness:
  "\<exists>flag ph. spin_step\<^sup>*\<^sup>* (0, \<lambda>_ :: 2. SIdle) (flag, ph) \<and> ph 0 = SWriter \<and> ph 1 \<noteq> SReader \<and> ph 1 \<noteq> SFatal"
proof -
  have s: "spin_step\<^sup>*\<^sup>* (0, \<lambda>_ :: 2. SIdle) (1, (\<lambda>_. SIdle)(0 := SWriter))"
    by (rule r_into_rtranclp) (rule sp_lock, simp_all add: spin_try_lock_def)
  show ?thesis
    by (rule exI [of _ 1], rule exI [of _ "(\<lambda>_. SIdle)(0 := SWriter)"])
      (use lock_excludes [OF s, of 0 1] lock_excludes [OF s, of 1 1] s in simp)
qed

text \<open>
  C30. The lock is never lost: from every reachable state in which no thread holds it, a thread that
  wants to write can get it, if necessary after a thread that is waking the others has finished.
  In particular the mark of waiting threads does not stay behind.
\<close>

theorem lock_is_never_stuck:
  fixes t :: "'t::finite"
  assumes "spin_step\<^sup>*\<^sup>* (0, \<lambda>_. SIdle) (flag, ph)" "CARD('t) < 2 ^ 30"
    and free: "\<forall>u. ph u \<noteq> SWriter \<and> ph u \<noteq> SReader" and t: "ph t = SIdle"
  shows "\<exists>flag' ph'. spin_step\<^sup>*\<^sup>* (flag, ph) (flag', ph') \<and> ph' t = SWriter"
  using spin_free_lock [OF spin_reachable_inv [OF assms(1) spin_inv_init assms(2)] free t] .

theorem lock_is_never_stuck_witness:
  "\<exists>flag' ph'. spin_step\<^sup>*\<^sup>* (0, \<lambda>_ :: 2. SIdle) (flag', ph') \<and> ph' 1 = SWriter"
  by (rule lock_is_never_stuck [OF rtranclp.rtrancl_refl]) simp_all

section \<open>Bit operations\<close>

text \<open>
  C31. The portable bit scans of bit_ops.h, which smear the operand and look the result up in a
  table of a perfect hash, return on every operand what the compiler builtins return.
\<close>

theorem portable_bit_scans_agree:
  "bit_clz32_sw a = bit_clz32 a \<and> bit_ctz32_sw a = bit_ctz32 a \<and>
   bit_clz64_sw b = bit_clz64 b \<and> bit_ctz64_sw b = bit_ctz64 b"
  by (simp add: bit_clz32_sw_eq bit_ctz32_sw_eq bit_clz64_sw_eq bit_ctz64_sw_eq)

text \<open>
  C32. The multiplications of bit_ops.h that keep the high half are the mathematical product divided
  by two to the 64, for two unsigned, two signed and a signed and an unsigned operand; the
  portable unsigned routine, which multiplies halves, agrees.
\<close>

theorem mulh_are_high_halves:
  "uint (mulhu_uint64 a b) = uint a * uint b div 2 ^ 64 \<and> sint (mulh_uint64 a b) = sint a * sint b div 2 ^ 64 \<and>
   sint (mulhsu_uint64 a b) = sint a * uint b div 2 ^ 64 \<and> mulhu_uint64_sw a b = mulhu_uint64 a b"
  by (simp only: mulhu_uint64_uint mulh_uint64_sint mulhsu_uint64_sint mulhu_uint64_sw_eq simp_thms)

text \<open>
  C33. The three carry-less multiplications are slices of the 128-bit carry-less product, which adds
  shifted copies of one operand with exclusive or: the low half, the high half, and the 64 bits
  that end one bit below the top.  Their loops stop early when no bits of the multiplier are left.
\<close>

theorem clmul_is_carryless_product:
  "bit_clmul64 a b = ucast (clmul_ref 64 (ucast a :: u128) b) \<and>
   bit_clmulh64 a b = ucast (drop_bit 64 (clmul_ref 64 (ucast a :: u128) b)) \<and>
   bit_clmulr64 a b = ucast (drop_bit 63 (clmul_ref 64 (ucast a :: u128) b))"
  by (intro conjI bit_clmul64_correct bit_clmulh64_correct bit_clmulr64_correct)

text \<open>
  C34. Interleaving and deinterleaving the halves of a word undo each other, and so do two byte swaps.
\<close>

theorem bit_permutations_invert:
  "bit_unzip32 (bit_zip32 v) = v \<and> bit_zip32 (bit_unzip32 v) = v \<and>
   byteswap_uint32 (byteswap_uint32 v) = v \<and> byteswap_uint64 (byteswap_uint64 w) = w"
  by (simp add: unzip_zip32 zip_unzip32 byteswap_uint32_invol byteswap_uint64_invol)

text \<open>
  C35. The routine documented as the next power of two rounds down: for every value that is not a
  power of two already, the compiler builtin path returns a smaller value.
\<close>

theorem next_pow2_rounds_down:
  assumes "val AND (val - 1) \<noteq> 0"
  shows "bit_next_pow2 val < val"
  using assms by (rule bit_next_pow2_rounds_down)

theorem next_pow2_rounds_down_witness: "bit_next_pow2 5 < 5"
  by (rule next_pow2_rounds_down) simp

section \<open>Text and time\<close>



text \<open>
  C37. The substring search returns the rest of the text from the first occurrence of the pattern, and
  nothing exactly when there is no occurrence before the end of the text.
\<close>

theorem strfind_is_first_match:
  "rvvm_strfind s p = Some t \<longleftrightarrow>
     (\<exists>pre. s = pre @ t \<and> t \<noteq> [] \<and> prefix p t \<and> \<not> (\<exists>q r. s = q @ r \<and> length q < length pre \<and> prefix p r))"
  unfolding rvvm_strfind_first by blast



end
